(* ===== verification/Prelude.thy ===== *)
theory Prelude
  imports Main "HOL-Library.Word" "HOL-Library.Sublist"
begin

unbundle bit_operations_syntax

text \<open>
  What every theory of the library shares: the collections its automation is kept in, the
  byte strings of Go, the two-valued outcome that keeps a panic apart from a returned
  error, and the generic lemmas on lists and maps.

  A Go string and a Go byte slice are both sequences of bytes, and HOL's \<open>char\<close> is a byte,
  so both are \<open>string\<close>. A slice that the code compares with \<open>nil\<close> is an \<open>option\<close>.
  A Go \<open>int\<close>, \<open>time.Duration\<close> or \<open>time.Time\<close> instant is an \<open>int\<close>; where the 64-bit range
  matters it is written out.
\<close>

named_theorems outcome_simps \<open>how the outcome type computes\<close>
named_theorems handler_defs \<open>definitions of the operations, for symbolic execution\<close>
named_theorems reply_splits \<open>case splits on the replies of the outside world\<close>

type_synonym bytes = string

type_synonym gotime = int

type_synonym uuid = "128 word"

definition int64_min :: int where "int64_min = - (2 ^ 63)"
definition int64_max :: int where "int64_max = 2 ^ 63 - 1"

text \<open>
  A call either returns or panics. Panics of the source are kept as values, so that a
  theorem can say that a call returns.
\<close>

datatype 'a outcome = Ret 'a | Panic string

definition bind_outcome :: "'a outcome \<Rightarrow> ('a \<Rightarrow> 'b outcome) \<Rightarrow> 'b outcome" where
  "bind_outcome m f = (case m of Ret a \<Rightarrow> f a | Panic p \<Rightarrow> Panic p)"

definition returns :: "'a outcome \<Rightarrow> bool" where
  "returns m = (case m of Ret _ \<Rightarrow> True | Panic _ \<Rightarrow> False)"

lemma bind_outcome_simps [simp, outcome_simps]:
  "bind_outcome (Ret a) f = f a"
  "bind_outcome (Panic p) f = Panic p"
  by (simp_all add: bind_outcome_def)

lemma returns_simps [simp, outcome_simps]:
  "returns (Ret a)"
  "\<not> returns (Panic p)"
  by (simp_all add: returns_def)

lemma returns_iff: "returns m \<longleftrightarrow> (\<exists>a. m = Ret a)"
  by (cases m) auto

subsection \<open>Lists\<close>

lemma nth_in_take: "i < n \<Longrightarrow> n \<le> length xs \<Longrightarrow> xs ! i \<in> set (take n xs)"
  by (metis in_set_conv_nth length_take min.absorb2 nth_take)

lemma takeWhile_all_append:
  "(\<And>x. x \<in> set xs \<Longrightarrow> P x) \<Longrightarrow> \<not> P y \<Longrightarrow> takeWhile P (xs @ y # ys) = xs"
  by (induction xs) auto

lemma dropWhile_all_append:
  "(\<And>x. x \<in> set xs \<Longrightarrow> P x) \<Longrightarrow> \<not> P y \<Longrightarrow> dropWhile P (xs @ y # ys) = y # ys"
  by (induction xs) auto

lemma map_of_eq_if_perm:
  assumes "distinct (map fst xs)" and "set xs = set ys" and "distinct (map fst ys)"
  shows "map_of xs = map_of ys"
  using assms by (metis map_of_inject_set)

subsection \<open>Machine words as natural numbers\<close>

lemma word_of_nat_Suc: "(of_nat (Suc n) :: 'a::len word) = of_nat n + 1"
  by simp

end
