(* ===== verification/GoErrors.thy ===== *)
theory GoErrors
  imports Prelude
begin

text \<open>
  The error values of the service: one datatype for the error variables of each package
  (\<open>service/scheduler/errors.go\<close>, \<open>service/db/errors.go\<close>, \<open>service/dstsclient/errors.go\<close>,
  \<open>service/rest/validate_token.go\<close>, \<open>service/mqtt/decode_message.go\<close>), and \<open>go_error\<close>, a Go
  value of interface type \<open>error\<close>. \<open>LibE\<close> is an error made afresh by a library or a remote
  service; \<open>NewE\<close> is one the code makes with \<open>errors.New\<close> or \<open>fmt.Errorf\<close> without
  wrapping; \<open>WrapE\<close> is what \<open>fmt.Errorf("%s: %w", ...)\<close> returns: a text and the error it
  wraps. A nil error is \<open>None\<close> wherever an error is optional.
\<close>

datatype sched_err =
    ErrNotScheduledWeekday | ErrUnsupportedTimeFormat | ErrInvalidScheduleType
  | ErrInvalidSchedulingUnit | ErrInvalidInterval | ErrInvalidIntervalType
  | ErrInvalidIntervalUnitsSelection | ErrAtTimeNotSupported | ErrWeekdayNotSupported
  | ErrInvalidDayOfMonthEntry | ErrCronParseFailure | ErrInvalidDaysOfMonthDuplicateValue
  | ErrInvalidTenantID | ErrInvalidServiceID | ErrInvalidMessageType | ErrInvalidRequest

datatype db_err =
    ErrTokenFileNotFound | ErrInvalidDatabaseType | ErrDuplicateEntry | ErrNotFound
  | ErrNotAllowed | DbErrInvalidRequest | ErrInternalError

datatype dsts_err =
    ErrMissingAssets | ErrInvalidToken | ErrInvalidTokenHeaderKid
  | ErrInvalidTokenHeaderSigningAlg | ErrInvalidIssuerClaim | ErrInvalidAudienceClaim
  | ErrNotDeviceToken | ErrNotAppToken | ErrUnauthorized | ErrBadRequest | ErrOverflow

datatype rest_err = ErrNoAuthorizationHeader | ErrNoBearerTokenSpecified

datatype mqtt_err = ErrInvalidDeviceMessage

datatype go_error =
    SchedE sched_err | DbE db_err | DstsE dsts_err | RestE rest_err | MqttE mqtt_err
  | OsErrInvalid | LibE string | NewE string | WrapE string go_error

type_synonym 'a result = "go_error + 'a"

subsection \<open>Error texts\<close>

fun sched_err_text :: "sched_err \<Rightarrow> string" where
  "sched_err_text ErrNotScheduledWeekday = ''task not scheduled weekly on a weekday''"
| "sched_err_text ErrUnsupportedTimeFormat = ''the given time format is not supported''"
| "sched_err_text ErrInvalidScheduleType = ''schedule type must be either Every or At''"
| "sched_err_text ErrInvalidSchedulingUnit = ''invalid scheduling unit requested''"
| "sched_err_text ErrInvalidInterval = ''.Every() interval must be greater than 0''"
| "sched_err_text ErrInvalidIntervalType =
     ''.Every() interval must be of type int, time.Duration, or string''"
| "sched_err_text ErrInvalidIntervalUnitsSelection =
     ''.Every(time.Duration) and .Cron() cannot be used with units (e.g. .Seconds())''"
| "sched_err_text ErrAtTimeNotSupported = ''the At() method is not supported for this time unit''"
| "sched_err_text ErrWeekdayNotSupported = ''weekday is not supported for time unit''"
| "sched_err_text ErrInvalidDayOfMonthEntry =
     ''only days 1 through 28 are allowed for monthly schedules''"
| "sched_err_text ErrCronParseFailure = ''specified cron expression could not be parsed''"
| "sched_err_text ErrInvalidDaysOfMonthDuplicateValue =
     ''duplicate days of month is not allowed in Month() and Months() methods''"
| "sched_err_text ErrInvalidTenantID = ''the specified tenant ID is invalid''"
| "sched_err_text ErrInvalidServiceID = ''the specified service ID is invalid''"
| "sched_err_text ErrInvalidMessageType = ''the specified message type is invalid''"
| "sched_err_text ErrInvalidRequest = ''invalid request''"

fun db_err_text :: "db_err \<Rightarrow> string" where
  "db_err_text ErrTokenFileNotFound = ''role token file was not found''"
| "db_err_text ErrInvalidDatabaseType = ''invalid keyspace provider specified in configuration''"
| "db_err_text ErrDuplicateEntry = ''a duplicate entry was found in the database''"
| "db_err_text ErrNotFound = ''the requested entry was not found in the database''"
| "db_err_text ErrNotAllowed = ''the requested operation is not allowed''"
| "db_err_text DbErrInvalidRequest = ''the request contained one or more invalid parameters''"
| "db_err_text ErrInternalError =
     ''an internal error occured while performing the database operation''"

fun dsts_err_text :: "dsts_err \<Rightarrow> string" where
  "dsts_err_text ErrMissingAssets = ''required assets are missing to create a public key''"
| "dsts_err_text ErrInvalidToken = ''invalid token provided''"
| "dsts_err_text ErrInvalidTokenHeaderKid = ''invalid token signing kid specified''"
| "dsts_err_text ErrInvalidTokenHeaderSigningAlg = ''invalid token signing algorithm specified''"
| "dsts_err_text ErrInvalidIssuerClaim = ''specified token contains an invalid issuer claim''"
| "dsts_err_text ErrInvalidAudienceClaim = ''specified token contains an invalid audience claim''"
| "dsts_err_text ErrNotDeviceToken = ''specified token is not a device access token''"
| "dsts_err_text ErrNotAppToken = ''specified token is not an app access token''"
| "dsts_err_text ErrUnauthorized = ''Unauthorized''"
| "dsts_err_text ErrBadRequest = ''Bad Request''"
| "dsts_err_text ErrOverflow = ''integer overflow detected''"

fun rest_err_text :: "rest_err \<Rightarrow> string" where
  "rest_err_text ErrNoAuthorizationHeader = ''request does not have an authorization header''"
| "rest_err_text ErrNoBearerTokenSpecified =
     ''authorization header does not contain a bearer token''"

fun mqtt_err_text :: "mqtt_err \<Rightarrow> string" where
  "mqtt_err_text ErrInvalidDeviceMessage = ''invalid device message''"

fun error_text :: "go_error \<Rightarrow> string" where
  "error_text (SchedE e) = sched_err_text e"
| "error_text (DbE e) = db_err_text e"
| "error_text (DstsE e) = dsts_err_text e"
| "error_text (RestE e) = rest_err_text e"
| "error_text (MqttE e) = mqtt_err_text e"
| "error_text OsErrInvalid = ''invalid argument''"
| "error_text (LibE t) = t"
| "error_text (NewE t) = t"
| "error_text (WrapE t e) = t @ '': '' @ error_text e"

subsection \<open>Identity and chains\<close>

text \<open>
  The error variables are compared by identity, so each equals only itself. Errors made at
  run time (\<open>LibE\<close>, \<open>NewE\<close>, \<open>WrapE\<close>) are pointers to fresh allocations: the error that is
  passed to \<open>wrapOrError\<close> as new is never the pointer that was stored before.
\<close>

fun is_sentinel :: "go_error \<Rightarrow> bool" where
  "is_sentinel (LibE _) = False"
| "is_sentinel (NewE _) = False"
| "is_sentinel (WrapE _ _) = False"
| "is_sentinel _ = True"

definition same_error :: "go_error \<Rightarrow> go_error \<Rightarrow> bool" where
  "same_error e e' \<longleftrightarrow> is_sentinel e \<and> e = e'"

text \<open>\<open>errors.Is\<close>: some error of the chain is the target.\<close>

fun errors_is :: "go_error \<Rightarrow> go_error \<Rightarrow> bool" where
  "errors_is (WrapE t e) target \<longleftrightarrow> errors_is e target"
| "errors_is e target \<longleftrightarrow> same_error e target"

text \<open>\<open>wrapOrError\<close> of \<open>service/scheduler/errors.go\<close>.\<close>

definition wrapOrError :: "go_error option \<Rightarrow> go_error \<Rightarrow> go_error" where
  "wrapOrError toWrap err =
     (case toWrap of
        None \<Rightarrow> err
      | Some old \<Rightarrow>
          if \<not> errors_is err old then WrapE (error_text err) old else err)"

text \<open>
  The sentinel values of a package have different texts, so a log line or a wrapped text
  identifies the error.
\<close>

lemma sched_err_text_inj: "sched_err_text a = sched_err_text b \<Longrightarrow> a = b"
  by (cases a; cases b; simp)

lemma same_error_refl: "is_sentinel e \<Longrightarrow> same_error e e"
  by (simp add: same_error_def)

lemma wrapOrError_None [simp]: "wrapOrError None e = e"
  by (simp add: wrapOrError_def)

lemma errors_is_sentinel: "is_sentinel e \<Longrightarrow> errors_is e t \<longleftrightarrow> e = t"
  by (cases e) (auto simp: same_error_def)

lemma wrapOrError_keeps_old:
  "is_sentinel old \<Longrightarrow> errors_is (wrapOrError (Some old) err) old"
  by (auto simp: wrapOrError_def errors_is_sentinel)

text \<open>
  \<open>wrapOrError\<close> loses the identity of the newer error: once an error is recorded, a
  different sentinel that is added to it can no longer be found in the chain.
\<close>

lemma wrapOrError_hides_new:
  assumes "is_sentinel old" "is_sentinel err" "err \<noteq> old"
  shows "\<not> errors_is (wrapOrError (Some old) err) err"
  using assms by (auto simp: wrapOrError_def errors_is_sentinel)

end
