(* ===== verification/Settings.thy ===== *)
theory Settings
  imports Prelude
begin

text \<open>
  The configuration of the service (\<open>service/config/config.go\<close>,
  \<open>service/config/registered_services.go\<close>): one record per settings group.
\<close>

definition ServiceName :: string where "ServiceName = ''HP Scheduler Service''"

definition defaultRegisteredServicesConfigFilePath :: string where
  "defaultRegisteredServicesConfigFilePath = ''registered_services.yaml''"

definition defaultConfigFilePath :: string where
  "defaultConfigFilePath = ''config.yaml''"

record server_config =
  sc_Host :: string
  sc_RestPort :: int
  sc_RegisteredServiceConfigFile :: string
  sc_DebugLogRestRequests :: bool
  sc_AuthenticateRestApiRequests :: bool

record database_config =
  dc_Keyspace :: string
  dc_DatabaseType :: string
  dc_DatabaseHosts :: "string list"
  dc_ClientPort :: int
  dc_SchemaMigrationScripts :: string
  dc_SchemaMigrationEnabled :: bool
  dc_DebugLoggingEnabled :: bool
  dc_Username :: string
  dc_Password :: string

record queue_mgr_config =
  qc_Endpoint :: string
  qc_WatchDelay :: "32 word"
  qc_InputQueueName :: string
  qc_DispatchQueueName :: string
  qc_DcmInputQueueName :: string

record mqtt_config =
  mc_MqttBrokerHosts :: "string list"
  mc_BrokerType :: string
  mc_TlsRootCertPath :: string
  mc_KeepAlive :: "16 word"
  mc_ConnectRetryDelay :: int
  mc_QoS :: int
  mc_ClientId :: string
  mc_DebugLoggingEnabled :: bool

record dsts_config =
  tc_Host :: string
  tc_RpcPort :: int
  tc_SchedulerAppId :: string
  tc_PrivateKeyEnv :: string
  tc_PrivateKey :: "string option"

record aws_settings =
  aws_WebIdentityTokenFile :: string
  aws_RoleArn :: string
  aws_Region :: string

record config =
  ConfigFilePath :: string
  ServerConfig :: server_config
  DatabaseConfig :: database_config
  QueueMgrConfig :: queue_mgr_config
  MqttConfig :: mqtt_config
  DstsConfig :: dsts_config
  AwsSettings :: aws_settings
  TestMode :: bool

text \<open>
  Registration of a service. The \<open>Topics\<close> of a registration are a Go map; the model keeps
  its entries as an association list, in the (unspecified) order in which a loop over the
  map visits them. The keys of a Go map are distinct (\<open>reg_wf\<close>).
\<close>

record service_registration =
  reg_Name :: string
  reg_ServiceId :: string
  reg_OwnerAwsAccount :: string
  reg_Topics :: "(string \<times> string) list"

definition reg_wf :: "service_registration \<Rightarrow> bool" where
  "reg_wf r \<longleftrightarrow> distinct (map fst (reg_Topics r))"

record config_mgr =
  cm_config :: config
  cm_services :: "service_registration list"
  cm_serviceName :: string

text \<open>The zero values Go gives to a new \<open>ConfigMgr\<close>.\<close>

definition zero_config :: config where
  "zero_config =
     \<lparr>ConfigFilePath = [],
      ServerConfig = \<lparr>sc_Host = [], sc_RestPort = 0, sc_RegisteredServiceConfigFile = [],
        sc_DebugLogRestRequests = False, sc_AuthenticateRestApiRequests = False\<rparr>,
      DatabaseConfig = \<lparr>dc_Keyspace = [], dc_DatabaseType = [], dc_DatabaseHosts = [],
        dc_ClientPort = 0, dc_SchemaMigrationScripts = [], dc_SchemaMigrationEnabled = False,
        dc_DebugLoggingEnabled = False, dc_Username = [], dc_Password = []\<rparr>,
      QueueMgrConfig = \<lparr>qc_Endpoint = [], qc_WatchDelay = 0, qc_InputQueueName = [],
        qc_DispatchQueueName = [], qc_DcmInputQueueName = []\<rparr>,
      MqttConfig = \<lparr>mc_MqttBrokerHosts = [], mc_BrokerType = [], mc_TlsRootCertPath = [],
        mc_KeepAlive = 0, mc_ConnectRetryDelay = 0, mc_QoS = 0, mc_ClientId = [],
        mc_DebugLoggingEnabled = False\<rparr>,
      DstsConfig = \<lparr>tc_Host = [], tc_RpcPort = 0, tc_SchedulerAppId = [], tc_PrivateKeyEnv = [],
        tc_PrivateKey = None\<rparr>,
      AwsSettings = \<lparr>aws_WebIdentityTokenFile = [], aws_RoleArn = [], aws_Region = []\<rparr>,
      TestMode = False\<rparr>"

definition NewConfigMgr :: "string \<Rightarrow> config_mgr" where
  "NewConfigMgr serviceName =
     \<lparr>cm_config = zero_config, cm_services = [], cm_serviceName = serviceName\<rparr>"

text \<open>The accessors of the configuration manager.\<close>

definition GetServerConfig :: "config_mgr \<Rightarrow> server_config" where
  "GetServerConfig c = ServerConfig (cm_config c)"

definition GetDatabaseConfig :: "config_mgr \<Rightarrow> database_config" where
  "GetDatabaseConfig c = DatabaseConfig (cm_config c)"

definition GetQueueMgrConfig :: "config_mgr \<Rightarrow> queue_mgr_config" where
  "GetQueueMgrConfig c = QueueMgrConfig (cm_config c)"

definition GetMqttConfig :: "config_mgr \<Rightarrow> mqtt_config" where
  "GetMqttConfig c = MqttConfig (cm_config c)"

definition GetAwsSettings :: "config_mgr \<Rightarrow> aws_settings" where
  "GetAwsSettings c = AwsSettings (cm_config c)"

definition GetDstsConfig :: "config_mgr \<Rightarrow> dsts_config" where
  "GetDstsConfig c = DstsConfig (cm_config c)"

definition GetSchedulerAppID :: "config_mgr \<Rightarrow> string" where
  "GetSchedulerAppID c = tc_SchedulerAppId (DstsConfig (cm_config c))"

definition GetServiceRegistrations :: "config_mgr \<Rightarrow> service_registration list" where
  "GetServiceRegistrations c = cm_services c"

definition SetDatabasePassword :: "string \<Rightarrow> config_mgr \<Rightarrow> config_mgr" where
  "SetDatabasePassword pw c =
     c\<lparr>cm_config := (cm_config c)\<lparr>DatabaseConfig := (DatabaseConfig (cm_config c))\<lparr>dc_Password := pw\<rparr>\<rparr>\<rparr>"

definition IsTestModeEnabled :: "config_mgr \<Rightarrow> bool" where
  "IsTestModeEnabled c = TestMode (cm_config c)"

definition IsDebugLoggingRestRequestsEnabled :: "config_mgr \<Rightarrow> bool" where
  "IsDebugLoggingRestRequestsEnabled c = sc_DebugLogRestRequests (ServerConfig (cm_config c))"

end
