(* ===== verification/DbModel.thy ===== *)
theory DbModel
  imports Prelude Settings
begin

text \<open>
  The data model of \<open>service/db\<close>: the rows of the four tables, the task status and
  scheduling unit values, the metadata the statements are generated from. Column order and
  key columns are those of \<open>createTaskStatements\<close> and its three siblings.
\<close>

section \<open>Units and status values\<close>

text \<open>\<open>SchedulingUnit\<close>: stored in the database, so the numbering is part of the contract.\<close>

type_synonym scheduling_unit = int

definition Once :: scheduling_unit where "Once = 1"
definition Milliseconds :: scheduling_unit where "Milliseconds = 2"
definition Seconds :: scheduling_unit where "Seconds = 3"
definition Minutes :: scheduling_unit where "Minutes = 4"
definition Hours :: scheduling_unit where "Hours = 5"
definition Days :: scheduling_unit where "Days = 6"
definition Weeks :: scheduling_unit where "Weeks = 7"
definition Months :: scheduling_unit where "Months = 8"
definition Duration :: scheduling_unit where "Duration = 9"
definition Crontab :: scheduling_unit where "Crontab = 10"

lemmas unit_defs = Once_def Milliseconds_def Seconds_def Minutes_def Hours_def Days_def
  Weeks_def Months_def Duration_def Crontab_def

definition BroadcastDeviceID :: string where "BroadcastDeviceID = ''@all''"
definition BroadcastDeviceUuid :: string where
  "BroadcastDeviceUuid = ''0a110a11-bca5-bca5-0a11-87dcb71a7f4d''"

definition SchedulerRequestSourceEvent :: string where "SchedulerRequestSourceEvent = ''event''"
definition SchedulerRequestSourceRest :: string where "SchedulerRequestSourceRest = ''rest''"

definition SchedulingFrequencyEvery :: string where "SchedulingFrequencyEvery = ''every''"
definition SchedulingFrequencyAt :: string where "SchedulingFrequencyAt = ''at''"
definition SchedulingFrequencyCron :: string where "SchedulingFrequencyCron = ''cron''"
definition SchedulingFrequencyNow :: string where "SchedulingFrequencyNow = ''now''"

type_synonym task_status = int

definition TaskStatusQueued :: task_status where "TaskStatusQueued = 1"
definition TaskStatusDispatched :: task_status where "TaskStatusDispatched = 2"
definition TaskStatusCompleted :: task_status where "TaskStatusCompleted = 3"
definition TaskStatusFailed :: task_status where "TaskStatusFailed = 4"
definition TaskStatusPendingRetry :: task_status where "TaskStatusPendingRetry = 5"
definition TaskStatusUnknown :: task_status where "TaskStatusUnknown = 6"

lemmas status_defs = TaskStatusQueued_def TaskStatusDispatched_def TaskStatusCompleted_def
  TaskStatusFailed_def TaskStatusPendingRetry_def TaskStatusUnknown_def

definition taskStatusQueued :: string where "taskStatusQueued = ''queued''"
definition taskStatusDispatched :: string where "taskStatusDispatched = ''dispatched''"
definition taskStatusCompleted :: string where "taskStatusCompleted = ''completed''"
definition taskStatusFailed :: string where "taskStatusFailed = ''failed''"
definition taskStatusPendingRetry :: string where "taskStatusPendingRetry = ''pending retry''"
definition taskStatusUnknown :: string where "taskStatusUnknown = ''unknown''"

definition taskStatusMap :: "task_status \<rightharpoonup> string" where
  "taskStatusMap = map_of
     [(TaskStatusQueued, taskStatusQueued), (TaskStatusDispatched, taskStatusDispatched),
      (TaskStatusCompleted, taskStatusCompleted), (TaskStatusFailed, taskStatusFailed),
      (TaskStatusPendingRetry, taskStatusPendingRetry), (TaskStatusUnknown, taskStatusUnknown)]"

definition status_String :: "task_status \<Rightarrow> string" where
  "status_String s = (case taskStatusMap s of None \<Rightarrow> taskStatusUnknown | Some v \<Rightarrow> v)"

section \<open>Rows\<close>

record task =
  tk_TaskID :: uuid
  tk_DeviceID :: uuid
  tk_TenantID :: string
  tk_ServiceID :: string
  tk_ConsignmentID :: string
  tk_Status :: string
  tk_RetryCount :: int
  tk_CreateTime :: gotime
  tk_StartTime :: gotime
  tk_EndTime :: gotime
  tk_Unit :: scheduling_unit
  tk_Interval :: int
  tk_Duration :: int
  tk_RunAt :: "int list"
  tk_ScheduledWeekdays :: "int list"
  tk_ScheduledDaysOfTheMonth :: "int list"
  tk_StartAt :: gotime
  tk_StartImmediately :: bool
  tk_MessageId :: string
  tk_MessageType :: string
  tk_TaskDetails :: "bytes option"

text \<open>\<open>time.Time{}\<close>: the first of January of the year 1, UTC, in nanoseconds since 1970.\<close>

definition zero_time :: gotime where "zero_time = - 62135596800 * 1000000000"

definition zero_task :: task where
  "zero_task =
     \<lparr>tk_TaskID = 0, tk_DeviceID = 0, tk_TenantID = [], tk_ServiceID = [], tk_ConsignmentID = [],
      tk_Status = [], tk_RetryCount = 0, tk_CreateTime = zero_time, tk_StartTime = zero_time,
      tk_EndTime = zero_time, tk_Unit = 0, tk_Interval = 0, tk_Duration = 0, tk_RunAt = [],
      tk_ScheduledWeekdays = [], tk_ScheduledDaysOfTheMonth = [], tk_StartAt = zero_time,
      tk_StartImmediately = False, tk_MessageId = [], tk_MessageType = [], tk_TaskDetails = None\<rparr>"

record scheduled_run =
  sr_RunPartition :: string
  sr_TaskID :: uuid
  sr_DeviceID :: uuid
  sr_NextRun :: gotime
  sr_LastRun :: gotime

definition NewScheduledRun :: "task \<Rightarrow> scheduled_run" where
  "NewScheduledRun t =
     \<lparr>sr_RunPartition = [], sr_TaskID = tk_TaskID t, sr_DeviceID = tk_DeviceID t,
      sr_NextRun = zero_time, sr_LastRun = zero_time\<rparr>"

record consignment =
  cn_ConsignmentID :: string
  cn_TaskID :: uuid
  cn_DeviceID :: uuid
  cn_TenantID :: string
  cn_Status :: string
  cn_CreateTime :: gotime

definition NewConsignment :: "string \<Rightarrow> string \<Rightarrow> uuid \<Rightarrow> consignment" where
  "NewConsignment tenantID consignmentID taskID =
     \<lparr>cn_ConsignmentID = consignmentID, cn_TaskID = taskID, cn_DeviceID = 0,
      cn_TenantID = tenantID, cn_Status = [], cn_CreateTime = zero_time\<rparr>"

definition NewConsignmentFromTask :: "task \<Rightarrow> consignment" where
  "NewConsignmentFromTask t =
     \<lparr>cn_ConsignmentID = tk_ConsignmentID t, cn_TaskID = tk_TaskID t, cn_DeviceID = tk_DeviceID t,
      cn_TenantID = tk_TenantID t, cn_Status = tk_Status t, cn_CreateTime = tk_CreateTime t\<rparr>"

record registered_service =
  rs_ServiceID :: string
  rs_Name :: string
  rs_OwnerAwsAccount :: string
  rs_Topics :: "(string \<times> string) list"

definition NewRegisteredService :: "service_registration \<Rightarrow> registered_service" where
  "NewRegisteredService info =
     \<lparr>rs_ServiceID = reg_ServiceId info, rs_Name = reg_Name info,
      rs_OwnerAwsAccount = reg_OwnerAwsAccount info, rs_Topics = reg_Topics info\<rparr>"

section \<open>Table metadata and statements\<close>

record table_metadata =
  md_Name :: string
  md_Columns :: "string list"
  md_PartKey :: "string list"
  md_SortKey :: "string list"

text \<open>
  The CQL text of a generated statement is produced by the \<open>gocqlx\<close> package from the
  metadata; a statement is represented by what it is generated from.
\<close>

datatype query =
    DeleteStmt table_metadata
  | InsertStmt table_metadata
  | SelectStmt string "string list"

record statements =
  st_delete :: query
  st_insert :: query
  st_get :: query

definition statements_for :: "table_metadata \<Rightarrow> statements" where
  "statements_for md =
     \<lparr>st_delete = DeleteStmt md, st_insert = InsertStmt md,
      st_get = SelectStmt (md_Name md) (md_Columns md)\<rparr>"

definition taskMetadata :: table_metadata where
  "taskMetadata =
     \<lparr>md_Name = ''tasks'',
      md_Columns = [''task_id'', ''device_id'', ''tenant_id'', ''service_id'', ''consignment_id'',
        ''status'', ''retry_count'', ''create_time'', ''start_time'', ''end_time'', ''unit'',
        ''interval'', ''duration'', ''run_at'', ''week_days'', ''month_days'', ''start_at'',
        ''immediate'', ''message_id'', ''message_type'', ''task_details''],
      md_PartKey = [''device_id''],
      md_SortKey = [''task_id'']\<rparr>"

definition createTaskStatements :: statements where
  "createTaskStatements = statements_for taskMetadata"

definition scheduledRunMetadata :: table_metadata where
  "scheduledRunMetadata =
     \<lparr>md_Name = ''scheduled_runs'',
      md_Columns = [''run_partition'', ''next_run'', ''last_run'', ''task_id'', ''device_id''],
      md_PartKey = [''run_partition''],
      md_SortKey = [''next_run'']\<rparr>"

definition createScheduledRunStatements :: statements where
  "createScheduledRunStatements = statements_for scheduledRunMetadata"

definition consignmentsMetadata :: table_metadata where
  "consignmentsMetadata =
     \<lparr>md_Name = ''consignments'',
      md_Columns = [''task_id'', ''device_id'', ''tenant_id'', ''consignment_id'', ''status'',
        ''create_time''],
      md_PartKey = [''tenant_id'', ''consignment_id''],
      md_SortKey = [''task_id'']\<rparr>"

definition createConsignmentStatements :: statements where
  "createConsignmentStatements = statements_for consignmentsMetadata"

definition registeredServicesMetadata :: table_metadata where
  "registeredServicesMetadata =
     \<lparr>md_Name = ''registered_services'',
      md_Columns = [''service_id'', ''name'', ''owner_aws_account'', ''topics''],
      md_PartKey = [''service_id''],
      md_SortKey = []\<rparr>"

definition createRegisteredServiceStatements :: statements where
  "createRegisteredServiceStatements = statements_for registeredServicesMetadata"

text \<open>A bound value: the struct that \<open>BindStruct\<close> is given.\<close>

datatype row =
    RowTask task
  | RowConsignment consignment
  | RowRun scheduled_run
  | RowService registered_service

text \<open>A write: a generated statement with a bound struct, or CQL text with bound values.\<close>

datatype cql =
    Bound query row
  | CqlText string "string list"

text \<open>A condition of a \<open>WHERE\<close> clause: a bound value (\<open>qb.Eq\<close>) or literal text (\<open>qb.EqLit\<close>).\<close>

datatype cond =
    Eq string string
  | EqLit string string

definition metadata_wf :: "table_metadata \<Rightarrow> bool" where
  "metadata_wf md \<longleftrightarrow> distinct (md_Columns md) \<and> md_PartKey md \<noteq> []
     \<and> set (md_PartKey md @ md_SortKey md) \<subseteq> set (md_Columns md)
     \<and> distinct (md_PartKey md @ md_SortKey md)"

section \<open>Facts\<close>

lemma unit_distinct: "distinct [Once, Milliseconds, Seconds, Minutes, Hours, Days, Weeks, Months,
    Duration, Crontab]"
  by (simp add: unit_defs)

lemma status_String_eqs [simp]:
  "status_String TaskStatusQueued = taskStatusQueued"
  "status_String TaskStatusDispatched = taskStatusDispatched"
  "status_String TaskStatusCompleted = taskStatusCompleted"
  "status_String TaskStatusFailed = taskStatusFailed"
  by (simp_all add: status_String_def taskStatusMap_def status_defs)

end
