(* ===== verification/Messages.thy ===== *)
theory Messages
  imports Prelude
begin

text \<open>
  The protobuf messages of \<open>protos/\<close> that the service builds or reads, one record per Go
  struct with its payload fields (the bookkeeping fields of the protobuf runtime carry no
  data). A \<open>bytes\<close> or \<open>repeated\<close> field that the code compares with \<open>nil\<close> is an \<open>option\<close>.
  The wire encoding itself is third-party code and a parameter of the model.
\<close>

section \<open>Requests to schedule tasks\<close>

record create_request =
  req_Version :: "32 word"
  req_ServiceId :: string
  req_DeviceIds :: "string list option"
  req_ConsignmentId :: string
  req_TenantId :: string
  req_Schedule :: string
  req_MessageId :: string
  req_MessageType :: string
  req_Payload :: "bytes option"

record task_info =
  ti_TaskId :: string
  ti_DeviceId :: string
  ti_Status :: string

record create_response =
  resp_Version :: "32 word"
  resp_TaskCount :: "32 word"
  resp_ErrorCount :: "32 word"
  resp_ConsignmentId :: string
  resp_TenantId :: string
  resp_TasksScheduled :: "task_info list"

section \<open>Messages between the service and devices\<close>

record service_message =
  sm_Version :: "32 word"
  sm_ServiceId :: string
  sm_DeviceId :: string
  sm_TaskId :: string
  sm_TenantId :: string
  sm_MessageId :: string
  sm_MessageType :: string
  sm_Payload :: "bytes option"

record device_message =
  dm_Version :: "32 word"
  dm_AccessToken :: string
  dm_TaskId :: string
  dm_TaskStatus :: string
  dm_MessageId :: string
  dm_MessageType :: string
  dm_Payload :: "bytes option"

record device_event =
  de_Version :: "32 word"
  de_ServiceId :: string
  de_DeviceId :: string
  de_TenantId :: string
  de_TaskId :: string
  de_ConsignmentId :: string
  de_TaskStatus :: string
  de_MessageId :: string
  de_MessageType :: string
  de_Payload :: "bytes option"

section \<open>Messages of the token service\<close>

text \<open>
  \<open>Header.Status\<close> of a reply is the field with suffix \<open>Status\<close>: a reply carries its
  header.
\<close>

record json_web_key =
  jwk_Kty :: string
  jwk_Alg :: string
  jwk_Use :: string
  jwk_Kid :: string
  jwk_N :: string
  jwk_E :: string

record signing_key_response =
  skr_Status :: "32 word"
  skr_SigningKey :: "json_web_key list"

record challenge_response =
  chr_Status :: "32 word"
  chr_Challenge :: string
  chr_ExpiresAt :: gotime

record app_auth_response =
  aar_Status :: "32 word"
  aar_AccessToken :: string
  aar_ExpiresAt :: gotime

record dsts_request_header =
  hdr_ProtocolVersion :: string
  hdr_RequestId :: string
  hdr_RequestTime :: gotime

record app_auth_request =
  aaq_Header :: dsts_request_header
  aaq_Version :: string
  aaq_AppId :: string
  aaq_AssertionType :: string
  aaq_Assertion :: string

record challenge_request =
  chq_Header :: dsts_request_header
  chq_Version :: string
  chq_AppId :: string

end
