(* ===== verification/External.thy ===== *)
theory External
  imports GoErrors DbModel Messages
begin

text \<open>
  The outside of the program. \<open>lib\<close> holds the pure functions of third-party packages and of
  the parts of the standard library that read tables or use floating point; \<open>ext\<close> holds the
  calls that reach other systems (the Cassandra session, the SQS queues, the MQTT broker, the
  token service, the clock, random numbers), each a function of an abstract world \<open>'w\<close> that
  answers and returns the next world. Both are parameters: no definition of the library fixes
  what they do. The clock and the world also stand for the other goroutines: whether a context
  has been cancelled in the meantime is an answer of the world.
\<close>

section \<open>Pure library functions\<close>

record civil =
  cv_Year :: int
  cv_Month :: nat
  cv_Day :: nat
  cv_Hour :: nat
  cv_Minute :: nat
  cv_Second :: nat
  cv_Nanosecond :: nat

text \<open>
  A JSON web token before its signature is checked: the \<open>kid\<close> header if it is a string,
  whether an \<open>alg\<close> header is present, and the claims of \<open>DstsTokenClaims\<close>.
\<close>

record token_claims =
  tc_Issuer :: string
  tc_Subject :: string
  tc_TokenType :: string
  tc_TenantID :: string
  tc_ManagementService :: string

record jwt_token =
  jt_kid :: "string option"
  jt_alg :: "string option"
  jt_claims :: token_claims

record rsa_public_key =
  rsa_E :: int
  rsa_N :: nat

record assertion_claims =
  ac_Nonce :: string
  ac_Issuer :: string
  ac_Subject :: string
  ac_ExpiresAt :: gotime
  ac_NotBefore :: gotime
  ac_IssuedAt :: gotime
  ac_ID :: string

record dcm_event =
  dcm_TenantID :: string
  dcm_DeviceID :: string
  dcm_MgmtService :: string
  dcm_Payload :: string

datatype private_key = RsaKey string | OtherKey

record failed_request_error =
  fre_HttpCode :: nat
  fre_Reason :: string

record list_tasks_response =
  ltr_Count :: nat
  ltr_Tasks :: "consignment list"
  ltr_NextPage :: string
  ltr_ResponseTime :: gotime

datatype http_payload =
    PayloadFailed failed_request_error
  | PayloadCreated create_response
  | PayloadTask task
  | PayloadList list_tasks_response

type_synonym cron_schedule = nat \<comment> \<open>an opaque handle to a parsed schedule\<close>

text \<open>
  \<open>lib_cron_parse\<close> answers with an outcome: the cron parser slices its text at the first space
  after a time zone without looking whether there is one, so that it can panic.
\<close>

record lib =
  lib_unicode_lower :: "string \<Rightarrow> string"
  lib_duration_frac :: "nat \<Rightarrow> nat \<Rightarrow> nat \<Rightarrow> nat"
  lib_civil :: "gotime \<Rightarrow> civil"
  lib_cron_parse :: "bool \<Rightarrow> string \<Rightarrow> cron_schedule result outcome"
  lib_uuid_Parse :: "string \<Rightarrow> bool"
  lib_ParseUUID :: "string \<Rightarrow> uuid option"
  lib_uuid_String :: "uuid \<Rightarrow> string"
  lib_marshal_service_message :: "service_message \<Rightarrow> bytes result"
  lib_unmarshal_service_message :: "bytes \<Rightarrow> service_message result"
  lib_marshal_device_event :: "device_event \<Rightarrow> bytes result"
  lib_unmarshal_device_message :: "bytes \<Rightarrow> device_message result"
  lib_unmarshal_create_request :: "bytes \<Rightarrow> create_request result"
  lib_json_dcm_event :: "dcm_event \<Rightarrow> bytes result"
  lib_jwt_decode :: "string \<Rightarrow> jwt_token result"
  lib_jwt_sign :: "assertion_claims \<Rightarrow> string \<Rightarrow> string result"
  lib_url_parse :: "string \<Rightarrow> string result"
  lib_getenv :: "string \<Rightarrow> string"
  lib_pem_decode :: "string \<Rightarrow> bytes option"
  lib_ParsePKCS8PrivateKey :: "bytes \<Rightarrow> private_key result"
  lib_append_certs :: "bytes \<Rightarrow> bool"
  lib_json_encode :: "bool \<Rightarrow> http_payload \<Rightarrow> bytes result"

section \<open>Calls to other systems\<close>

record sqs_message =
  sqs_Body :: string
  sqs_ReceiptHandle :: string

record suback =
  sa_Reasons :: bytes
  sa_ReasonString :: string

text \<open>The part of \<open>gocql.ClusterConfig\<close> and of the AWS credentials that the service fills in.\<close>

datatype consistency = Quorum | LocalQuorum

record aws_credentials =
  cr_AccessKeyID :: string
  cr_SecretAccessKey :: string
  cr_SessionToken :: string

datatype authenticator =
    NoAuthenticator
  | PasswordAuthenticator string string
  | AwsAuthenticator aws_credentials

record cluster_config =
  cl_Hosts :: "string list"
  cl_Port :: int
  cl_Keyspace :: string
  cl_Consistency :: consistency
  cl_ProtoVersion :: int
  cl_Timeout :: int
  cl_SslCaPath :: "string option"
  cl_Authenticator :: authenticator

datatype ctx = CtxBackground | CtxSched | CtxMqtt

record 'w ext =
  x_now :: "'w \<Rightarrow> gotime \<times> 'w"
  x_sleep :: "int \<Rightarrow> 'w \<Rightarrow> 'w"
  x_time_uuid :: "'w \<Rightarrow> uuid \<times> 'w"
  x_new_uuid :: "'w \<Rightarrow> string \<times> 'w"
  x_int63 :: "'w \<Rightarrow> 64 word \<times> 'w"
  x_cancelled :: "ctx \<Rightarrow> 'w \<Rightarrow> go_error option \<times> 'w"
  x_cancel :: "ctx \<Rightarrow> 'w \<Rightarrow> 'w"
  x_exec :: "cql \<Rightarrow> 'w \<Rightarrow> go_error option \<times> 'w"
  x_select_tasks :: "string \<Rightarrow> cond list \<Rightarrow> 'w \<Rightarrow> task list result \<times> 'w"
  x_select_services :: "string \<Rightarrow> cond list \<Rightarrow> 'w \<Rightarrow> registered_service list result \<times> 'w"
  x_page_runs :: "string \<Rightarrow> cond list \<Rightarrow> bytes \<Rightarrow> int \<Rightarrow> 'w
      \<Rightarrow> (scheduled_run list \<times> bytes) result \<times> 'w"
  x_page_consignments :: "string \<Rightarrow> cond list \<Rightarrow> bytes \<Rightarrow> int \<Rightarrow> 'w
      \<Rightarrow> (consignment list \<times> bytes) result \<times> 'w"
  x_sqs_receive :: "string \<Rightarrow> 'w \<Rightarrow> sqs_message list result \<times> 'w"
  x_sqs_send :: "string \<Rightarrow> string \<Rightarrow> 'w \<Rightarrow> string result \<times> 'w"
  x_sqs_delete :: "string \<Rightarrow> string \<Rightarrow> 'w \<Rightarrow> go_error option \<times> 'w"
  x_sqs_queue_url :: "string \<Rightarrow> string option \<Rightarrow> 'w \<Rightarrow> string result \<times> 'w"
  x_mqtt_await :: "'w \<Rightarrow> go_error option \<times> 'w"
  x_mqtt_publish :: "int \<Rightarrow> string \<Rightarrow> bytes \<Rightarrow> 'w \<Rightarrow> go_error option \<times> 'w"
  x_mqtt_subscribe :: "(string \<times> int) list \<Rightarrow> 'w \<Rightarrow> (suback option \<times> go_error option) \<times> 'w"
  x_mqtt_disconnect :: "'w \<Rightarrow> go_error option \<times> 'w"
  x_mqtt_connect :: "string option \<Rightarrow> 'w \<Rightarrow> go_error option \<times> 'w"
  x_jwt_verify :: "string \<Rightarrow> rsa_public_key \<Rightarrow> 'w \<Rightarrow> bool result \<times> 'w"
  x_grpc_dial :: "string \<Rightarrow> 'w \<Rightarrow> go_error option \<times> 'w"
  x_rpc_ping :: "'w \<Rightarrow> go_error option \<times> 'w"
  x_rpc_challenge :: "challenge_request \<Rightarrow> 'w \<Rightarrow> challenge_response result \<times> 'w"
  x_rpc_authenticate :: "app_auth_request \<Rightarrow> 'w \<Rightarrow> app_auth_response result \<times> 'w"
  x_rpc_signing_key :: "'w \<Rightarrow> signing_key_response result \<times> 'w"
  x_create_session :: "cluster_config \<Rightarrow> 'w \<Rightarrow> go_error option \<times> 'w"
  x_close_session :: "'w \<Rightarrow> 'w"
  x_migrate :: "string \<Rightarrow> 'w \<Rightarrow> go_error option \<times> 'w"
  x_aws_config :: "'w \<Rightarrow> go_error option \<times> 'w"
  x_aws_credentials :: "string \<Rightarrow> string \<Rightarrow> 'w \<Rightarrow> aws_credentials result \<times> 'w"
  x_open :: "string \<Rightarrow> 'w \<Rightarrow> go_error option \<times> 'w"
  x_yaml_config :: "config \<Rightarrow> 'w \<Rightarrow> (config \<times> go_error option) \<times> 'w"
  x_yaml_services :: "service_registration list \<Rightarrow> 'w
      \<Rightarrow> (service_registration list \<times> go_error option) \<times> 'w"
  x_read_file :: "string \<Rightarrow> 'w \<Rightarrow> bytes result \<times> 'w"

text \<open>
  \<open>ctx.Err()\<close>. The background context is never cancelled; that is the documented contract of
  \<open>context.Background\<close>.
\<close>

definition ctx_err :: "'w ext \<Rightarrow> ctx \<Rightarrow> 'w \<Rightarrow> go_error option \<times> 'w" where
  "ctx_err X c w = (if c = CtxBackground then (None, w) else x_cancelled X c w)"

section \<open>Observing a run\<close>

text \<open>
  \<open>traced X\<close> is the outside \<open>X\<close> with a log: its world is the world of \<open>X\<close> and the list of
  calls made so far with their answers. As every definition of the library is polymorphic in
  the world, a theorem about \<open>traced X\<close> is about the calls the program makes, in order,
  whatever the outside answers. Every operation of \<open>ext\<close> is logged except two that ask or
  change nothing outside the process: \<open>x_cancelled\<close>, which looks at a context of the program
  itself, and \<open>x_mqtt_await\<close>, which waits for the program's own connection to be up.
\<close>

datatype event =
    EvExec cql bool
  | EvSelectTasks "cond list" "task list result"
  | EvSelectServices "cond list" bool
  | EvPageRuns "cond list" bytes "(scheduled_run list \<times> bytes) result"
  | EvPageConsignments "cond list" bool
  | EvReceive string "sqs_message list result"
  | EvSend string string bool
  | EvDelete string string bool
  | EvQueueUrl string "string option" "string result"
  | EvPublish string bytes bool
  | EvSubscribe "(string \<times> int) list" bool
  | EvConnect "string option" bool
  | EvDisconnect bool
  | EvVerify string bool
  | EvFetchKeys bool
  | EvDial string bool
  | EvPing bool
  | EvChallenge bool
  | EvAuthenticate bool
  | EvNow gotime
  | EvSleep int
  | EvTimeUuid uuid
  | EvNewUuid string
  | EvInt63 "64 word"
  | EvCreateSession cluster_config bool
  | EvMigrate string bool
  | EvAwsConfig bool
  | EvAwsCredentials string string bool
  | EvOpen string bool
  | EvYamlConfig bool
  | EvYamlServices bool
  | EvReadFile string bool
  | EvCancel ctx
  | EvCloseSession

definition is_ok :: "'a result \<Rightarrow> bool" where
  "is_ok r = (case r of Inl _ \<Rightarrow> False | Inr _ \<Rightarrow> True)"

definition logged :: "('r \<Rightarrow> event) \<Rightarrow> ('w \<Rightarrow> 'r \<times> 'w) \<Rightarrow> 'w \<times> event list \<Rightarrow> 'r \<times> ('w \<times> event list)"
where
  "logged ev f s = (case f (fst s) of (r, w) \<Rightarrow> (r, (w, snd s @ [ev r])))"

definition unlogged :: "('w \<Rightarrow> 'r \<times> 'w) \<Rightarrow> 'w \<times> event list \<Rightarrow> 'r \<times> ('w \<times> event list)" where
  "unlogged f s = (case f (fst s) of (r, w) \<Rightarrow> (r, (w, snd s)))"

definition traced :: "'w ext \<Rightarrow> ('w \<times> event list) ext" where
  "traced X =
     \<lparr>x_now = logged EvNow (x_now X),
      x_sleep = (\<lambda>d s. (x_sleep X d (fst s), snd s @ [EvSleep d])),
      x_time_uuid = logged EvTimeUuid (x_time_uuid X),
      x_new_uuid = logged EvNewUuid (x_new_uuid X),
      x_int63 = logged EvInt63 (x_int63 X),
      x_cancelled = (\<lambda>c. unlogged (x_cancelled X c)),
      x_cancel = (\<lambda>c s. (x_cancel X c (fst s), snd s @ [EvCancel c])),
      x_exec = (\<lambda>q. logged (\<lambda>r. EvExec q (r = None)) (x_exec X q)),
      x_select_tasks = (\<lambda>t cs. logged (EvSelectTasks cs) (x_select_tasks X t cs)),
      x_select_services = (\<lambda>t cs.
        logged (\<lambda>r. EvSelectServices cs (is_ok r)) (x_select_services X t cs)),
      x_page_runs = (\<lambda>t cs p n. logged (EvPageRuns cs p) (x_page_runs X t cs p n)),
      x_page_consignments = (\<lambda>t cs p n.
        logged (\<lambda>r. EvPageConsignments cs (is_ok r)) (x_page_consignments X t cs p n)),
      x_sqs_receive = (\<lambda>u. logged (EvReceive u) (x_sqs_receive X u)),
      x_sqs_send = (\<lambda>u m. logged (\<lambda>r. EvSend u m (is_ok r)) (x_sqs_send X u m)),
      x_sqs_delete = (\<lambda>u h. logged (\<lambda>r. EvDelete u h (r = None)) (x_sqs_delete X u h)),
      x_sqs_queue_url = (\<lambda>t a. logged (EvQueueUrl t a) (x_sqs_queue_url X t a)),
      x_mqtt_await = unlogged (x_mqtt_await X),
      x_mqtt_publish = (\<lambda>q t p. logged (\<lambda>r. EvPublish t p (r = None)) (x_mqtt_publish X q t p)),
      x_mqtt_subscribe = (\<lambda>s. logged (\<lambda>r. EvSubscribe s (snd r = None)) (x_mqtt_subscribe X s)),
      x_mqtt_disconnect = logged (\<lambda>r. EvDisconnect (r = None)) (x_mqtt_disconnect X),
      x_mqtt_connect = (\<lambda>u. logged (\<lambda>r. EvConnect u (r = None)) (x_mqtt_connect X u)),
      x_jwt_verify = (\<lambda>t k. logged (\<lambda>r. EvVerify t (r = Inr True)) (x_jwt_verify X t k)),
      x_grpc_dial = (\<lambda>a. logged (\<lambda>r. EvDial a (r = None)) (x_grpc_dial X a)),
      x_rpc_ping = logged (\<lambda>r. EvPing (r = None)) (x_rpc_ping X),
      x_rpc_challenge = (\<lambda>q. logged (\<lambda>r. EvChallenge (is_ok r)) (x_rpc_challenge X q)),
      x_rpc_authenticate = (\<lambda>q. logged (\<lambda>r. EvAuthenticate (is_ok r)) (x_rpc_authenticate X q)),
      x_rpc_signing_key = logged (\<lambda>r. EvFetchKeys (is_ok r)) (x_rpc_signing_key X),
      x_create_session = (\<lambda>c. logged (\<lambda>r. EvCreateSession c (r = None)) (x_create_session X c)),
      x_close_session = (\<lambda>s. (x_close_session X (fst s), snd s @ [EvCloseSession])),
      x_migrate = (\<lambda>d. logged (\<lambda>r. EvMigrate d (r = None)) (x_migrate X d)),
      x_aws_config = logged (\<lambda>r. EvAwsConfig (r = None)) (x_aws_config X),
      x_aws_credentials = (\<lambda>a f. logged (\<lambda>r. EvAwsCredentials a f (is_ok r)) (x_aws_credentials X a f)),
      x_open = (\<lambda>f. logged (\<lambda>r. EvOpen f (r = None)) (x_open X f)),
      x_yaml_config = (\<lambda>c. logged (\<lambda>r. EvYamlConfig (snd r = None)) (x_yaml_config X c)),
      x_yaml_services = (\<lambda>rs. logged (\<lambda>r. EvYamlServices (snd r = None)) (x_yaml_services X rs)),
      x_read_file = (\<lambda>f. logged (\<lambda>r. EvReadFile f (is_ok r)) (x_read_file X f))\<rparr>"

text \<open>\<open>emits P f\<close>: \<open>f\<close> only appends to the log, and what it appends satisfies \<open>P\<close> for its answer.\<close>

definition emits ::
  "(event list \<Rightarrow> 'r \<Rightarrow> bool) \<Rightarrow> ('w \<times> event list \<Rightarrow> 'r \<times> ('w \<times> event list)) \<Rightarrow> bool" where
  "emits P f \<longleftrightarrow> (\<forall>w tr. \<exists>es. snd (snd (f (w, tr))) = tr @ es \<and> P es (fst (f (w, tr))))"

section \<open>Facts\<close>

lemma traced_simps [simp]:
  "x_now (traced X) = logged EvNow (x_now X)"
  "x_sleep (traced X) d s = (x_sleep X d (fst s), snd s @ [EvSleep d])"
  "x_time_uuid (traced X) = logged EvTimeUuid (x_time_uuid X)"
  "x_new_uuid (traced X) = logged EvNewUuid (x_new_uuid X)"
  "x_cancelled (traced X) c = unlogged (x_cancelled X c)"
  "x_cancel (traced X) c s = (x_cancel X c (fst s), snd s @ [EvCancel c])"
  "x_exec (traced X) q = logged (\<lambda>r. EvExec q (r = None)) (x_exec X q)"
  "x_select_tasks (traced X) t cs = logged (EvSelectTasks cs) (x_select_tasks X t cs)"
  "x_select_services (traced X) t cs
     = logged (\<lambda>r. EvSelectServices cs (is_ok r)) (x_select_services X t cs)"
  "x_page_runs (traced X) t cs p n = logged (EvPageRuns cs p) (x_page_runs X t cs p n)"
  "x_page_consignments (traced X) t cs p n
     = logged (\<lambda>r. EvPageConsignments cs (is_ok r)) (x_page_consignments X t cs p n)"
  "x_sqs_receive (traced X) u = logged (EvReceive u) (x_sqs_receive X u)"
  "x_sqs_send (traced X) u m = logged (\<lambda>r. EvSend u m (is_ok r)) (x_sqs_send X u m)"
  "x_sqs_delete (traced X) u h = logged (\<lambda>r. EvDelete u h (r = None)) (x_sqs_delete X u h)"
  "x_sqs_queue_url (traced X) t a = logged (EvQueueUrl t a) (x_sqs_queue_url X t a)"
  "x_mqtt_await (traced X) = unlogged (x_mqtt_await X)"
  "x_mqtt_publish (traced X) qos t u = logged (\<lambda>r. EvPublish t u (r = None)) (x_mqtt_publish X qos t u)"
  "x_jwt_verify (traced X) t k = logged (\<lambda>r. EvVerify t (r = Inr True)) (x_jwt_verify X t k)"
  "x_rpc_signing_key (traced X) = logged (\<lambda>r. EvFetchKeys (is_ok r)) (x_rpc_signing_key X)"
  "x_close_session (traced X) s = (x_close_session X (fst s), snd s @ [EvCloseSession])"
  by (simp_all add: traced_def)

lemma ctx_err_background [simp]: "ctx_err X CtxBackground w = (None, w)"
  by (simp add: ctx_err_def)

lemma ctx_err_traced [simp]: "ctx_err (traced X) c = unlogged (ctx_err X c)"
  by (auto simp: ctx_err_def unlogged_def fun_eq_iff)

lemma logged_pair: "logged ev f (w, tr) = (fst (f w), (snd (f w), tr @ [ev (fst (f w))]))"
  by (simp add: logged_def split: prod.splits)

lemma unlogged_pair: "unlogged f (w, tr) = (fst (f w), (snd (f w), tr))"
  by (simp add: unlogged_def split: prod.splits)

lemma emitsI:
  "(\<And>w tr. \<exists>es. snd (snd (f (w, tr))) = tr @ es \<and> P es (fst (f (w, tr)))) \<Longrightarrow> emits P f"
  by (simp add: emits_def)

lemma emitsE:
  assumes "emits P f" "f (w, tr) = (r, (w', tr'))"
  obtains es where "tr' = tr @ es" "P es r"
  using assms unfolding emits_def by (metis fst_conv snd_conv)

lemma emits_mono: "emits P f \<Longrightarrow> (\<And>es r. P es r \<Longrightarrow> Q es r) \<Longrightarrow> emits Q f"
  unfolding emits_def by meson

lemma emits_logged: "(\<And>r. P [ev r] r) \<Longrightarrow> emits P (logged ev f)"
  by (rule emitsI) (simp add: logged_pair)

lemma emits_unlogged: "(\<And>r. P [] r) \<Longrightarrow> emits P (unlogged f)"
  by (rule emitsI) (simp add: unlogged_pair)

end
