(* ===== verification/Samples.thy ===== *)
theory Samples
  imports External
begin

text \<open>
  Concrete instances of the two parameters of the model, for closed examples. \<open>sample_lib\<close> and
  \<open>idle_ext\<close> are not claims about the third-party code; they show that the hypotheses of a
  theorem can hold. \<open>idle_ext\<close> has a world of one value; every remote call fails.
\<close>

definition remote_failed :: go_error where "remote_failed = LibE ''unreachable''"

definition sample_uuid :: string where "sample_uuid = ''11111111-2222-3333-4444-555555555555''"

definition sample_civil :: civil where
  "sample_civil =
     \<lparr>cv_Year = 2024, cv_Month = 3, cv_Day = 9, cv_Hour = 10, cv_Minute = 30, cv_Second = 0,
      cv_Nanosecond = 0\<rparr>"

definition sample_message :: service_message where
  "sample_message =
     \<lparr>sm_Version = 1, sm_ServiceId = ''fs'', sm_DeviceId = sample_uuid, sm_TaskId = sample_uuid,
      sm_TenantId = sample_uuid, sm_MessageId = ''m'', sm_MessageType = ''T'',
      sm_Payload = Some ''p''\<rparr>"

definition sample_request :: create_request where
  "sample_request =
     \<lparr>req_Version = 1, req_ServiceId = ''fs'', req_DeviceIds = Some [sample_uuid],
      req_ConsignmentId = ''c1'', req_TenantId = sample_uuid, req_Schedule = [],
      req_MessageId = ''m'', req_MessageType = ''T'', req_Payload = Some ''p''\<rparr>"

definition sample_device_message :: device_message where
  "sample_device_message =
     \<lparr>dm_Version = 1, dm_AccessToken = ''token'', dm_TaskId = sample_uuid,
      dm_TaskStatus = ''success'', dm_MessageId = ''m'', dm_MessageType = ''T'',
      dm_Payload = Some ''p''\<rparr>"

definition sample_claims :: token_claims where
  "sample_claims =
     \<lparr>tc_Issuer = ''HP Device Token Service'', tc_Subject = sample_uuid, tc_TokenType = ''device'',
      tc_TenantID = sample_uuid, tc_ManagementService = ''fs''\<rparr>"

definition sample_token :: jwt_token where
  "sample_token = \<lparr>jt_kid = Some ''k1'', jt_alg = Some ''RS512'', jt_claims = sample_claims\<rparr>"

definition sample_key :: rsa_public_key where
  "sample_key = \<lparr>rsa_E = 65537, rsa_N = 3233\<rparr>"

definition sample_lib :: lib where
  "sample_lib =
     \<lparr>lib_unicode_lower = (\<lambda>s. s),
      lib_duration_frac = (\<lambda>_ _ _. 0),
      lib_civil = (\<lambda>_. sample_civil),
      lib_cron_parse = (\<lambda>_ _. Ret (Inl remote_failed)),
      lib_uuid_Parse = (\<lambda>s. length s = 36),
      lib_ParseUUID = (\<lambda>s. if length s = 36 then Some 1 else None),
      lib_uuid_String = (\<lambda>_. sample_uuid),
      lib_marshal_service_message = (\<lambda>_. Inr ''message''),
      lib_unmarshal_service_message = (\<lambda>_. Inr sample_message),
      lib_marshal_device_event = (\<lambda>_. Inr ''event''),
      lib_unmarshal_device_message = (\<lambda>_. Inr sample_device_message),
      lib_unmarshal_create_request = (\<lambda>_. Inr sample_request),
      lib_json_dcm_event = (\<lambda>_. Inr ''json''),
      lib_jwt_decode = (\<lambda>_. Inr sample_token),
      lib_jwt_sign = (\<lambda>_ _. Inr ''assertion''),
      lib_url_parse = (\<lambda>s. Inr s),
      lib_getenv = (\<lambda>_. []),
      lib_pem_decode = (\<lambda>_. Some ''der''),
      lib_ParsePKCS8PrivateKey = (\<lambda>_. Inr (RsaKey ''key'')),
      lib_append_certs = (\<lambda>_. True),
      lib_json_encode = (\<lambda>_ _. Inr ''{}'')\<rparr>"

definition idle_ext :: "unit ext" where
  "idle_ext =
     \<lparr>x_now = (\<lambda>w. (1000, w)),
      x_sleep = (\<lambda>_ w. w),
      x_time_uuid = (\<lambda>w. (7, w)),
      x_new_uuid = (\<lambda>w. (sample_uuid, w)),
      x_int63 = (\<lambda>w. (5, w)),
      x_cancelled = (\<lambda>_ w. (None, w)),
      x_cancel = (\<lambda>_ w. w),
      x_exec = (\<lambda>_ w. (None, w)),
      x_select_tasks = (\<lambda>_ _ w. (Inl remote_failed, w)),
      x_select_services = (\<lambda>_ _ w. (Inl remote_failed, w)),
      x_page_runs = (\<lambda>_ _ _ _ w. (Inl remote_failed, w)),
      x_page_consignments = (\<lambda>_ _ _ _ w. (Inl remote_failed, w)),
      x_sqs_receive = (\<lambda>_ w. (Inl remote_failed, w)),
      x_sqs_send = (\<lambda>_ _ w. (Inl remote_failed, w)),
      x_sqs_delete = (\<lambda>_ _ w. (Some remote_failed, w)),
      x_sqs_queue_url = (\<lambda>_ _ w. (Inl remote_failed, w)),
      x_mqtt_await = (\<lambda>w. (Some remote_failed, w)),
      x_mqtt_publish = (\<lambda>_ _ _ w. (Some remote_failed, w)),
      x_mqtt_subscribe = (\<lambda>_ w. ((None, Some remote_failed), w)),
      x_mqtt_disconnect = (\<lambda>w. (Some remote_failed, w)),
      x_mqtt_connect = (\<lambda>_ w. (Some remote_failed, w)),
      x_jwt_verify = (\<lambda>_ _ w. (Inr True, w)),
      x_grpc_dial = (\<lambda>_ w. (Some remote_failed, w)),
      x_rpc_ping = (\<lambda>w. (Some remote_failed, w)),
      x_rpc_challenge = (\<lambda>_ w. (Inl remote_failed, w)),
      x_rpc_authenticate = (\<lambda>_ w. (Inl remote_failed, w)),
      x_rpc_signing_key = (\<lambda>w. (Inl remote_failed, w)),
      x_create_session = (\<lambda>_ w. (Some remote_failed, w)),
      x_close_session = (\<lambda>w. w),
      x_migrate = (\<lambda>_ w. (Some remote_failed, w)),
      x_aws_config = (\<lambda>w. (Some remote_failed, w)),
      x_aws_credentials = (\<lambda>_ _ w. (Inl remote_failed, w)),
      x_open = (\<lambda>_ w. (Some remote_failed, w)),
      x_yaml_config = (\<lambda>c w. ((c, Some remote_failed), w)),
      x_yaml_services = (\<lambda>r w. ((r, Some remote_failed), w)),
      x_read_file = (\<lambda>_ w. (Inl remote_failed, w))\<rparr>"

lemma sample_lib_simps [simp]:
  "lib_unicode_lower sample_lib = (\<lambda>s. s)"
  "lib_duration_frac sample_lib = (\<lambda>_ _ _. 0)"
  "lib_civil sample_lib = (\<lambda>_. sample_civil)"
  "lib_cron_parse sample_lib = (\<lambda>_ _. Ret (Inl remote_failed))"
  "lib_uuid_Parse sample_lib = (\<lambda>s. length s = 36)"
  "lib_ParseUUID sample_lib = (\<lambda>s. if length s = 36 then Some 1 else None)"
  "lib_uuid_String sample_lib = (\<lambda>_. sample_uuid)"
  "lib_marshal_service_message sample_lib = (\<lambda>_. Inr ''message'')"
  "lib_unmarshal_service_message sample_lib = (\<lambda>_. Inr sample_message)"
  "lib_marshal_device_event sample_lib = (\<lambda>_. Inr ''event'')"
  "lib_unmarshal_device_message sample_lib = (\<lambda>_. Inr sample_device_message)"
  "lib_unmarshal_create_request sample_lib = (\<lambda>_. Inr sample_request)"
  "lib_json_dcm_event sample_lib = (\<lambda>_. Inr ''json'')"
  "lib_jwt_decode sample_lib = (\<lambda>_. Inr sample_token)"
  "lib_jwt_sign sample_lib = (\<lambda>_ _. Inr ''assertion'')"
  "lib_url_parse sample_lib = (\<lambda>s. Inr s)"
  "lib_getenv sample_lib = (\<lambda>_. [])"
  "lib_pem_decode sample_lib = (\<lambda>_. Some ''der'')"
  "lib_ParsePKCS8PrivateKey sample_lib = (\<lambda>_. Inr (RsaKey ''key''))"
  "lib_append_certs sample_lib = (\<lambda>_. True)"
  "lib_json_encode sample_lib = (\<lambda>_ _. Inr ''{}'')"
  by (simp_all add: sample_lib_def)

lemma idle_ext_simps [simp]:
  "x_now idle_ext = (\<lambda>w. (1000, w))"
  "x_sleep idle_ext = (\<lambda>_ w. w)"
  "x_time_uuid idle_ext = (\<lambda>w. (7, w))"
  "x_new_uuid idle_ext = (\<lambda>w. (sample_uuid, w))"
  "x_int63 idle_ext = (\<lambda>w. (5, w))"
  "x_cancelled idle_ext = (\<lambda>_ w. (None, w))"
  "x_cancel idle_ext = (\<lambda>_ w. w)"
  "x_exec idle_ext = (\<lambda>_ w. (None, w))"
  "x_select_tasks idle_ext = (\<lambda>_ _ w. (Inl remote_failed, w))"
  "x_select_services idle_ext = (\<lambda>_ _ w. (Inl remote_failed, w))"
  "x_page_runs idle_ext = (\<lambda>_ _ _ _ w. (Inl remote_failed, w))"
  "x_page_consignments idle_ext = (\<lambda>_ _ _ _ w. (Inl remote_failed, w))"
  "x_sqs_receive idle_ext = (\<lambda>_ w. (Inl remote_failed, w))"
  "x_sqs_send idle_ext = (\<lambda>_ _ w. (Inl remote_failed, w))"
  "x_sqs_delete idle_ext = (\<lambda>_ _ w. (Some remote_failed, w))"
  "x_sqs_queue_url idle_ext = (\<lambda>_ _ w. (Inl remote_failed, w))"
  "x_mqtt_await idle_ext = (\<lambda>w. (Some remote_failed, w))"
  "x_mqtt_publish idle_ext = (\<lambda>_ _ _ w. (Some remote_failed, w))"
  "x_mqtt_subscribe idle_ext = (\<lambda>_ w. ((None, Some remote_failed), w))"
  "x_mqtt_disconnect idle_ext = (\<lambda>w. (Some remote_failed, w))"
  "x_mqtt_connect idle_ext = (\<lambda>_ w. (Some remote_failed, w))"
  "x_jwt_verify idle_ext = (\<lambda>_ _ w. (Inr True, w))"
  "x_grpc_dial idle_ext = (\<lambda>_ w. (Some remote_failed, w))"
  "x_rpc_ping idle_ext = (\<lambda>w. (Some remote_failed, w))"
  "x_rpc_challenge idle_ext = (\<lambda>_ w. (Inl remote_failed, w))"
  "x_rpc_authenticate idle_ext = (\<lambda>_ w. (Inl remote_failed, w))"
  "x_rpc_signing_key idle_ext = (\<lambda>w. (Inl remote_failed, w))"
  "x_create_session idle_ext = (\<lambda>_ w. (Some remote_failed, w))"
  "x_close_session idle_ext = (\<lambda>w. w)"
  "x_migrate idle_ext = (\<lambda>_ w. (Some remote_failed, w))"
  "x_aws_config idle_ext = (\<lambda>w. (Some remote_failed, w))"
  "x_aws_credentials idle_ext = (\<lambda>_ _ w. (Inl remote_failed, w))"
  "x_open idle_ext = (\<lambda>_ w. (Some remote_failed, w))"
  "x_yaml_config idle_ext = (\<lambda>c w. ((c, Some remote_failed), w))"
  "x_yaml_services idle_ext = (\<lambda>r w. ((r, Some remote_failed), w))"
  "x_read_file idle_ext = (\<lambda>_ w. (Inl remote_failed, w))"
  by (simp_all add: idle_ext_def)

end
