(* ===== verification/SessionLock.thy ===== *)
theory SessionLock
  imports Main Samples
begin

text \<open>
  Who may touch the database session: \<open>gSessionMutex\<close> of \<open>service/db/init.go\<close>. Every database
  operation of the service holds the read lock around its one use of \<open>gSession\<close>; the refresher
  goroutine of \<open>service/db/aws_keyspaces.go\<close> replaces the session under the write lock, and
  \<open>Shutdown\<close> closes it under the write lock. The steps of these goroutines are a relation, as
  the scheduler of the language decides who moves.

  The mutex is a \<open>sync.RWMutex\<close>: a read lock is granted while no writer holds it, a write lock
  while nobody does. That a waiting writer also holds off new readers only removes steps.

  A method of a session that is missing dereferences a nil pointer. A goroutine that panics so
  takes no further step here: in an HTTP handler the server recovers the panic, and the lock,
  which is not released by a \<open>defer\<close>, stays held; elsewhere the process ends.
\<close>

section \<open>State\<close>

text \<open>
  Every successful \<open>CreateSession\<close> makes a new session, so open sessions carry a number.
\<close>

datatype shared_session = Missing | Open nat | Closed

text \<open>
  The program counters: a database operation (any number of them, numbered by \<open>nat\<close>); the
  refresher, which waits at its \<open>select\<close>, has its credentials and waits for the lock, holds it
  with the old session, holds it after closing the old session, holds it with the new session
  made, or has returned; and \<open>Shutdown\<close>, which has not started, holds the lock, has closed the
  session, sends the stop signal, or has returned.
\<close>

datatype query_pc = QOutside | QReading
datatype refresher_pc = RSelect | RWantLock | RLocked | RClosed | RCreated | RStopped
datatype shutdown_pc = SIdle | SLocked | SClosed | SSignal | SDone

text \<open>The points of \<open>Shutdown\<close> are passed in this order.\<close>

fun shutdown_rank :: "shutdown_pc \<Rightarrow> nat" where
  "shutdown_rank SIdle = 0"
| "shutdown_rank SLocked = 1"
| "shutdown_rank SClosed = 2"
| "shutdown_rank SSignal = 3"
| "shutdown_rank SDone = 4"

lemma shutdown_rank_inj: "shutdown_rank p = shutdown_rank q \<Longrightarrow> p = q"
  by (cases p; cases q) simp_all

instantiation shutdown_pc :: linorder
begin

definition less_eq_shutdown_pc :: "shutdown_pc \<Rightarrow> shutdown_pc \<Rightarrow> bool" where
  "less_eq_shutdown_pc p q \<longleftrightarrow> shutdown_rank p \<le> shutdown_rank q"

definition less_shutdown_pc :: "shutdown_pc \<Rightarrow> shutdown_pc \<Rightarrow> bool" where
  "less_shutdown_pc p q \<longleftrightarrow> shutdown_rank p < shutdown_rank q"

instance
  by standard (auto simp: less_eq_shutdown_pc_def less_shutdown_pc_def intro: shutdown_rank_inj)

end

record lock_state =
  ls_session :: shared_session
  ls_made :: nat
  ls_readers :: "nat set"
  ls_query :: "nat \<Rightarrow> query_pc"
  ls_refresher :: refresher_pc
  ls_shutdown :: shutdown_pc

definition write_locked :: "lock_state \<Rightarrow> bool" where
  "write_locked s \<longleftrightarrow> ls_refresher s \<in> {RLocked, RClosed, RCreated} \<or> ls_shutdown s \<in> {SLocked, SClosed}"

definition lock_free :: "lock_state \<Rightarrow> bool" where
  "lock_free s \<longleftrightarrow> \<not> write_locked s \<and> ls_readers s = {}"

section \<open>Steps\<close>

text \<open>A database operation: \<open>RLock\<close>, the query, \<open>RUnlock\<close>. A query on a missing session does not return.\<close>

inductive query_step :: "lock_state \<Rightarrow> lock_state \<Rightarrow> bool" where
  query_lock: "ls_query s i = QOutside \<Longrightarrow> \<not> write_locked s \<Longrightarrow>
     query_step s (s\<lparr>ls_query := (ls_query s)(i := QReading), ls_readers := insert i (ls_readers s)\<rparr>)"
| query_unlock: "ls_query s i = QReading \<Longrightarrow> ls_session s \<noteq> Missing \<Longrightarrow>
     query_step s (s\<lparr>ls_query := (ls_query s)(i := QOutside), ls_readers := ls_readers s - {i}\<rparr>)"

text \<open>
  \<open>refreshAwsKeyspacesSession\<close>, started by a tick. Without credentials it returns before the
  lock. It closes the old session if there is one, makes a new one (which may fail) and unlocks.
\<close>

inductive refresh_step :: "lock_state \<Rightarrow> lock_state \<Rightarrow> bool" where
  refresh_credentials: "ls_refresher s = RSelect \<Longrightarrow> refresh_step s (s\<lparr>ls_refresher := RWantLock\<rparr>)"
| refresh_lock: "ls_refresher s = RWantLock \<Longrightarrow> lock_free s \<Longrightarrow> refresh_step s (s\<lparr>ls_refresher := RLocked\<rparr>)"
| refresh_close: "ls_refresher s = RLocked \<Longrightarrow> ls_session s \<noteq> Missing \<Longrightarrow>
     refresh_step s (s\<lparr>ls_refresher := RClosed, ls_session := Closed\<rparr>)"
| refresh_no_session: "ls_refresher s = RLocked \<Longrightarrow> ls_session s = Missing \<Longrightarrow>
     refresh_step s (s\<lparr>ls_refresher := RClosed\<rparr>)"
| refresh_create: "ls_refresher s = RClosed \<Longrightarrow>
     refresh_step s (s\<lparr>ls_refresher := RCreated, ls_session := Open (ls_made s), ls_made := Suc (ls_made s)\<rparr>)"
| refresh_create_fails: "ls_refresher s = RClosed \<Longrightarrow>
     refresh_step s (s\<lparr>ls_refresher := RCreated, ls_session := Missing\<rparr>)"
| refresh_unlock: "ls_refresher s = RCreated \<Longrightarrow> refresh_step s (s\<lparr>ls_refresher := RSelect\<rparr>)"

text \<open>
  \<open>Shutdown\<close>. The stop channel is unbuffered: the send and the receive at the \<open>select\<close> of the
  refresher are one step. Closing a missing session panics, so there is no step then.
\<close>

inductive shutdown_step :: "lock_state \<Rightarrow> lock_state \<Rightarrow> bool" where
  shutdown_lock: "ls_shutdown s = SIdle \<Longrightarrow> lock_free s \<Longrightarrow> shutdown_step s (s\<lparr>ls_shutdown := SLocked\<rparr>)"
| shutdown_close: "ls_shutdown s = SLocked \<Longrightarrow> ls_session s \<noteq> Missing \<Longrightarrow>
     shutdown_step s (s\<lparr>ls_shutdown := SClosed, ls_session := Closed\<rparr>)"
| shutdown_unlock: "ls_shutdown s = SClosed \<Longrightarrow> shutdown_step s (s\<lparr>ls_shutdown := SSignal\<rparr>)"
| shutdown_stop: "ls_shutdown s = SSignal \<Longrightarrow> ls_refresher s = RSelect \<Longrightarrow>
     shutdown_step s (s\<lparr>ls_shutdown := SDone, ls_refresher := RStopped\<rparr>)"

definition lock_step :: "lock_state \<Rightarrow> lock_state \<Rightarrow> bool" where
  "lock_step s t \<longleftrightarrow> query_step s t \<or> refresh_step s t \<or> shutdown_step s t"

text \<open>
  The state when \<open>connectAwsKeyspacesInstance\<close> starts the refresher: its own first refresh made
  a session, or failed.
\<close>

definition started :: "bool \<Rightarrow> lock_state" where
  "started ok =
     \<lparr>ls_session = (if ok then Open 0 else Missing), ls_made = 1, ls_readers = {},
      ls_query = (\<lambda>_. QOutside), ls_refresher = RSelect, ls_shutdown = SIdle\<rparr>"

inductive reachable :: "lock_state \<Rightarrow> bool" where
  reachable_start: "reachable (started ok)"
| reachable_step: "reachable s \<Longrightarrow> lock_step s t \<Longrightarrow> reachable t"

inductive_cases query_stepE: "query_step s t"
inductive_cases refresh_stepE: "refresh_step s t"
inductive_cases shutdown_stepE: "shutdown_step s t"

section \<open>The invariant\<close>

text \<open>
  The readers are the operations inside; a writer excludes them and the other writer; a closed
  session is seen only between the two halves of a refresh or once \<open>Shutdown\<close> has closed it;
  open sessions are numbered below the counter.
\<close>

definition lock_inv :: "lock_state \<Rightarrow> bool" where
  "lock_inv s \<longleftrightarrow>
     ls_readers s = {i. ls_query s i = QReading}
     \<and> (write_locked s \<longrightarrow> ls_readers s = {})
     \<and> \<not> (ls_refresher s \<in> {RLocked, RClosed, RCreated} \<and> ls_shutdown s \<in> {SLocked, SClosed})
     \<and> (ls_session s = Closed \<longrightarrow> ls_refresher s = RClosed \<or> ls_shutdown s \<in> {SClosed, SSignal, SDone})
     \<and> (\<forall>n. ls_session s = Open n \<longrightarrow> n < ls_made s)
     \<and> (ls_shutdown s = SDone \<longleftrightarrow> ls_refresher s = RStopped)"

lemma lock_inv_started: "lock_inv (started ok)"
  by (auto simp: lock_inv_def started_def write_locked_def)

lemma write_locked_query [simp]:
  "write_locked (s\<lparr>ls_query := q, ls_readers := r\<rparr>) = write_locked s"
  by (simp add: write_locked_def)

lemma readers_after:
  "{j. (if j = i then QReading else q j) = QReading} = insert i {j. q j = QReading}"
  "{j. (if j = i then QOutside else q j) = QReading} = {j. q j = QReading} - {i}"
  by auto

lemma query_step_inv: "query_step s t \<Longrightarrow> lock_inv s \<Longrightarrow> lock_inv t"
  by (erule query_stepE; simp add: lock_inv_def readers_after; blast)

lemma refresh_step_inv: "refresh_step s t \<Longrightarrow> lock_inv s \<Longrightarrow> lock_inv t"
  by (erule refresh_stepE) (auto simp: lock_inv_def write_locked_def lock_free_def)

lemma shutdown_step_inv: "shutdown_step s t \<Longrightarrow> lock_inv s \<Longrightarrow> lock_inv t"
  by (erule shutdown_stepE) (auto simp: lock_inv_def write_locked_def lock_free_def)

lemma lock_step_inv: "lock_step s t \<Longrightarrow> lock_inv s \<Longrightarrow> lock_inv t"
  unfolding lock_step_def by (blast intro: query_step_inv refresh_step_inv shutdown_step_inv)

lemma reachable_inv: "reachable s \<Longrightarrow> lock_inv s"
  by (induction rule: reachable.induct) (auto intro: lock_inv_started lock_step_inv)

text \<open>\<open>Shutdown\<close> only advances, and from \<open>SSignal\<close> on the session is closed already.\<close>

lemma shutdown_advances: "lock_step s t \<Longrightarrow> ls_shutdown s \<le> ls_shutdown t"
  unfolding lock_step_def
  by (auto elim!: query_stepE refresh_stepE shutdown_stepE simp: less_eq_shutdown_pc_def)

lemma shutdown_advances_star: "lock_step\<^sup>*\<^sup>* s t \<Longrightarrow> ls_shutdown s \<le> ls_shutdown t"
  by (induction rule: rtranclp_induct) (auto dest: shutdown_advances intro: order_trans)

lemma after_closing: "p \<in> {SSignal, SDone} \<longleftrightarrow> SSignal \<le> p"
  by (cases p) (simp_all add: less_eq_shutdown_pc_def)

text \<open>Only the writers change the session.\<close>

lemma session_changes:
  assumes "lock_step s t" "ls_session t \<noteq> ls_session s"
  shows "write_locked s"
  using assms unfolding lock_step_def
  by (auto elim!: query_stepE refresh_stepE shutdown_stepE simp: write_locked_def)

section \<open>Properties\<close>

text \<open>
  C8: In every reachable state a database operation that is between its
  lock and its unlock excludes both writers, no step of any goroutine changes the session under
  it, and the session it uses is not a closed one unless \<open>Shutdown\<close> has already closed it, a
  point that it never leaves again.
\<close>

theorem queries_see_one_session:
  assumes "reachable s" and "ls_query s i = QReading"
  shows "\<not> write_locked s
    \<and> (\<nexists>t. lock_step s t \<and> ls_session t \<noteq> ls_session s)
    \<and> (ls_session s = Closed \<longrightarrow> SSignal \<le> ls_shutdown s
         \<and> (\<forall>t. lock_step\<^sup>*\<^sup>* s t \<longrightarrow> SSignal \<le> ls_shutdown t))"
proof -
  have inv: "lock_inv s" using assms(1) by (rule reachable_inv)
  with assms(2) have "i \<in> ls_readers s" by (simp add: lock_inv_def)
  with inv have "\<not> write_locked s" by (auto simp: lock_inv_def)
  moreover from this have "\<nexists>t. lock_step s t \<and> ls_session t \<noteq> ls_session s"
    using session_changes by blast
  moreover from inv calculation(1) have "ls_session s = Closed \<longrightarrow> ls_shutdown s \<in> {SSignal, SDone}"
    by (auto simp: lock_inv_def write_locked_def)
  ultimately show ?thesis
    unfolding after_closing using shutdown_advances_star order_trans by blast
qed

definition reading :: lock_state where
  "reading = (started True)\<lparr>ls_query := (ls_query (started True))(0 := QReading), ls_readers := {0}\<rparr>"

lemma reading_reachable: "reachable reading"
proof -
  have "query_step (started True) reading"
    using query_lock [of "started True" 0] by (simp add: reading_def started_def write_locked_def)
  then show ?thesis
    using reachable.intros by (auto simp: lock_step_def)
qed

lemma queries_see_one_session_witness: "\<not> write_locked reading"
  using queries_see_one_session [OF reading_reachable, of 0] by (simp add: reading_def)

text \<open>Once the refresher stopped, only database operations move.\<close>

lemma stopped_step:
  assumes "lock_step s t" "ls_refresher s = RStopped" "ls_shutdown s = SDone"
  shows "ls_session t = ls_session s \<and> ls_refresher t = RStopped \<and> ls_shutdown t = SDone"
  using assms unfolding lock_step_def
  by (auto elim!: query_stepE refresh_stepE shutdown_stepE)

lemma stopped_steps:
  "lock_step\<^sup>*\<^sup>* s t \<Longrightarrow> ls_refresher s = RStopped \<Longrightarrow> ls_shutdown s = SDone
    \<Longrightarrow> ls_session t = ls_session s \<and> ls_refresher t = RStopped \<and> ls_shutdown t = SDone"
  by (induction rule: rtranclp_induct) (auto dest: stopped_step)

lemma reachable_moves:
  "reachable s \<Longrightarrow> query_step s t \<Longrightarrow> reachable t"
  "reachable s \<Longrightarrow> refresh_step s t \<Longrightarrow> reachable t"
  "reachable s \<Longrightarrow> shutdown_step s t \<Longrightarrow> reachable t"
  by (auto intro: reachable_step simp: lock_step_def)

lemma signalling_reachable:
  "reachable ((started True)\<lparr>ls_shutdown := SSignal, ls_session := Closed\<rparr>)"
proof -
  have 1: "reachable ((started True)\<lparr>ls_shutdown := SLocked\<rparr>)"
    by (rule reachable_moves(3) [OF reachable_start shutdown_lock])
      (simp_all add: started_def lock_free_def write_locked_def)
  have "reachable ((started True)\<lparr>ls_shutdown := SClosed, ls_session := Closed\<rparr>)"
    using reachable_moves(3) [OF 1 shutdown_close] by (simp add: started_def)
  then show ?thesis
    using reachable_moves(3) [OF _ shutdown_unlock] by (fastforce simp: started_def)
qed

text \<open>From there, one refresh that the tick started before the signal was received.\<close>

lemma late_refresh_reachable:
  assumes "reachable s" "ls_refresher s = RSelect" "lock_free s" "ls_session s = Closed"
  shows "reachable (s\<lparr>ls_session := Open (ls_made s), ls_made := Suc (ls_made s)\<rparr>)"
proof -
  have free: "ls_shutdown s \<notin> {SLocked, SClosed}" "ls_readers s = {}"
    using assms(3) by (auto simp: lock_free_def write_locked_def)
  have 1: "reachable (s\<lparr>ls_refresher := RWantLock\<rparr>)"
    by (rule reachable_moves(2) [OF assms(1) refresh_credentials [OF assms(2)]])
  have 2: "reachable (s\<lparr>ls_refresher := RLocked\<rparr>)"
    using reachable_moves(2) [OF 1 refresh_lock] free by (simp add: lock_free_def write_locked_def)
  have 3: "reachable (s\<lparr>ls_refresher := RClosed, ls_session := Closed\<rparr>)"
    using reachable_moves(2) [OF 2 refresh_close] assms(4) by simp
  have 4: "reachable (s\<lparr>ls_refresher := RCreated, ls_session := Open (ls_made s), ls_made := Suc (ls_made s)\<rparr>)"
    using reachable_moves(2) [OF 3 refresh_create] by simp
  have "reachable (s\<lparr>ls_session := Open (ls_made s), ls_made := Suc (ls_made s), ls_refresher := RSelect\<rparr>)"
    using reachable_moves(2) [OF 4 refresh_unlock] by simp
  moreover have "s\<lparr>ls_session := Open (ls_made s), ls_made := Suc (ls_made s), ls_refresher := RSelect\<rparr>
      = s\<lparr>ls_session := Open (ls_made s), ls_made := Suc (ls_made s)\<rparr>"
    using assms(2) by (cases s) simp
  ultimately show ?thesis by simp
qed

text \<open>
  C33: The stop signal comes after the session was closed, and a tick
  may win the race: \<open>Shutdown\<close> can return while the refresher has left an open session behind,
  and no later step of any goroutine closes it.
\<close>

theorem session_survives_shutdown:
  "\<exists>s n. reachable s \<and> ls_shutdown s = SDone \<and> ls_session s = Open n
     \<and> (\<nexists>t. lock_step\<^sup>*\<^sup>* s t \<and> ls_session t \<noteq> Open n)"
proof -
  let ?s = "(started True)\<lparr>ls_shutdown := SSignal, ls_session := Closed\<rparr>"
  let ?t = "?s\<lparr>ls_session := Open (ls_made ?s), ls_made := Suc (ls_made ?s)\<rparr>"
  let ?u = "?t\<lparr>ls_shutdown := SDone, ls_refresher := RStopped\<rparr>"
  have "reachable ?t"
    by (rule late_refresh_reachable [OF signalling_reachable])
      (simp_all add: started_def lock_free_def write_locked_def)
  then have "reachable ?u"
    by (rule reachable_moves(3) [OF _ shutdown_stop]) (simp_all add: started_def)
  moreover have "ls_session ?u = Open 1" "ls_shutdown ?u = SDone" "ls_refresher ?u = RStopped"
    by (simp_all add: started_def)
  ultimately show ?thesis using stopped_steps [of ?u] by metis
qed

end
