(* ===== verification/GoStd.thy ===== *)
theory GoStd
  imports GoErrors
begin

text \<open>
  The routines of Go's standard library that the service calls: \<open>strings\<close>, \<open>strconv\<close>,
  \<open>sort.Search\<close> and the time-of-day layouts of \<open>time.Parse\<close>. They work on bytes. What Go
  reads from the Unicode tables (\<open>strings.ToLower\<close> of a string that is not ASCII) or
  computes in floating point is an argument of the definition that needs it.
\<close>

section \<open>Strings\<close>

definition has_prefix :: "string \<Rightarrow> string \<Rightarrow> bool" where
  "has_prefix s p \<longleftrightarrow> take (length p) s = p"

definition trim_prefix :: "string \<Rightarrow> string \<Rightarrow> string" where
  "trim_prefix s p = (if has_prefix s p then drop (length p) s else s)"

text \<open>\<open>strings.Split\<close> with a separator of one byte.\<close>

fun split_on :: "char \<Rightarrow> string \<Rightarrow> string list" where
  "split_on c [] = [[]]"
| "split_on c (x # xs) =
     (if x = c then [] # split_on c xs
      else (case split_on c xs of [] \<Rightarrow> [[x]] | p # ps \<Rightarrow> (x # p) # ps))"

fun join_on :: "char \<Rightarrow> string list \<Rightarrow> string" where
  "join_on c [] = []"
| "join_on c [p] = p"
| "join_on c (p # q # ps) = p @ c # join_on c (q # ps)"

definition is_ascii :: "string \<Rightarrow> bool" where
  "is_ascii s \<longleftrightarrow> (\<forall>c \<in> set s. (of_char c :: nat) < 128)"

definition ascii_lower :: "char \<Rightarrow> char" where
  "ascii_lower c =
     (let n = (of_char c :: nat) in if 65 \<le> n \<and> n \<le> 90 then char_of (n + 32) else c)"

text \<open>
  \<open>strings.ToLower\<close>: bytes for an ASCII string; otherwise the Unicode mapping, which is
  the argument \<open>uni\<close>.
\<close>

definition to_lower :: "(string \<Rightarrow> string) \<Rightarrow> string \<Rightarrow> string" where
  "to_lower uni s = (if is_ascii s then map ascii_lower s else uni s)"

definition is_space :: "char \<Rightarrow> bool" where
  "is_space c \<longleftrightarrow> (of_char c :: nat) \<in> {9, 10, 11, 12, 13, 32}"

text \<open>\<open>strings.TrimSpace\<close> on ASCII white space, and \<open>strings.TrimRight\<close> for one byte.\<close>

definition trim_space :: "string \<Rightarrow> string" where
  "trim_space s = rev (dropWhile is_space (rev (dropWhile is_space s)))"

definition trim_right :: "char \<Rightarrow> string \<Rightarrow> string" where
  "trim_right c s = rev (dropWhile (\<lambda>x. x = c) (rev s))"

section \<open>Numbers\<close>

definition is_digit :: "char \<Rightarrow> bool" where
  "is_digit c \<longleftrightarrow> 48 \<le> (of_char c :: nat) \<and> (of_char c :: nat) \<le> 57"

definition digit_val :: "char \<Rightarrow> nat" where
  "digit_val c = of_char c - 48"

definition digits_val :: "string \<Rightarrow> nat" where
  "digits_val ds = foldl (\<lambda>n c. 10 * n + digit_val c) 0 ds"

text \<open>
  \<open>strconv.Atoi\<close>: an optional sign, one or more decimal digits, a value that fits a 64-bit
  signed integer.
\<close>

definition atoi_unsigned :: "string \<Rightarrow> nat option" where
  "atoi_unsigned ds = (if ds \<noteq> [] \<and> list_all is_digit ds then Some (digits_val ds) else None)"

definition atoi :: "string \<Rightarrow> int result" where
  "atoi s =
     (let neg = (s \<noteq> [] \<and> hd s = CHR ''-'');
          ds = (if s \<noteq> [] \<and> (hd s = CHR ''-'' \<or> hd s = CHR ''+'') then tl s else s)
      in case atoi_unsigned ds of
           None \<Rightarrow> Inl (LibE ''strconv.Atoi: invalid syntax'')
         | Some n \<Rightarrow>
             let v = (if neg then - int n else int n)
             in if int64_min \<le> v \<and> v \<le> int64_max then Inr v
                else Inl (LibE ''strconv.Atoi: value out of range''))"

definition parse_bool :: "string \<Rightarrow> bool result" where
  "parse_bool s =
     (if s \<in> {''1'', ''t'', ''T'', ''true'', ''TRUE'', ''True''} then Inr True
      else if s \<in> {''0'', ''f'', ''F'', ''false'', ''FALSE'', ''False''} then Inr False
      else Inl (LibE ''strconv.ParseBool: invalid syntax''))"

text \<open>The decimal text of a number (\<open>%d\<close>).\<close>

definition digit_char :: "nat \<Rightarrow> char" where
  "digit_char d = char_of (48 + d mod 10)"

fun show_nat :: "nat \<Rightarrow> string" where
  "show_nat n = (if n < 10 then [digit_char n] else show_nat (n div 10) @ [digit_char n])"

declare show_nat.simps [simp del]

definition show_int :: "int \<Rightarrow> string" where
  "show_int i = (if i < 0 then CHR ''-'' # show_nat (nat (- i)) else show_nat (nat i))"

section \<open>Binary search\<close>

text \<open>
  \<open>sort.Search\<close>, with the state that the predicate's closure writes to threaded through:
  \<open>f k st\<close> is the truth of the predicate at \<open>k\<close> and the state after the call.
\<close>

function sort_search :: "nat \<Rightarrow> nat \<Rightarrow> (nat \<Rightarrow> 's \<Rightarrow> bool \<times> 's) \<Rightarrow> 's \<Rightarrow> nat \<times> 's" where
  "sort_search i j f st =
     (if i < j then
        (let h = (i + j) div 2; r = f h st
         in if fst r then sort_search i h f (snd r) else sort_search (h + 1) j f (snd r))
      else (i, st))"
  by pat_completeness auto
termination
  by (relation "measure (\<lambda>(i, j, f, st). j - i)") auto

declare sort_search.simps [simp del]

section \<open>Times of day\<close>

text \<open>
  The two layouts \<open>"15:04:05"\<close> and \<open>"15:04"\<close> of \<open>time.Parse\<close>. The hour takes one or two
  digits, the others two; a fraction after the seconds is accepted; text left over is an
  error.
\<close>

definition digit_at :: "string \<Rightarrow> nat \<Rightarrow> bool" where
  "digit_at s i \<longleftrightarrow> i < length s \<and> is_digit (s ! i)"

definition getnum :: "bool \<Rightarrow> string \<Rightarrow> (nat \<times> string) option" where
  "getnum fixed s =
     (if \<not> digit_at s 0 then None
      else if \<not> digit_at s 1 then
        (if fixed then None else Some (digit_val (s ! 0), drop 1 s))
      else Some (10 * digit_val (s ! 0) + digit_val (s ! 1), drop 2 s))"

definition skip_char :: "char \<Rightarrow> string \<Rightarrow> string option" where
  "skip_char c s = (if s \<noteq> [] \<and> hd s = c then Some (tl s) else None)"

definition skip_fraction :: "string \<Rightarrow> string" where
  "skip_fraction s =
     (if digit_at s 1 \<and> (s ! 0 = CHR ''.'' \<or> s ! 0 = CHR '','')
      then dropWhile is_digit (drop 1 s) else s)"

definition time_parse_hm :: "string \<Rightarrow> (nat \<times> nat \<times> string) option" where
  "time_parse_hm s =
     Option.bind (getnum False s) (\<lambda>(h, s1). if 24 \<le> h then None else
     Option.bind (skip_char (CHR '':'') s1) (\<lambda>s2.
     Option.bind (getnum True s2) (\<lambda>(m, s3). if 60 \<le> m then None else Some (h, m, s3))))"

definition time_parse :: "bool \<Rightarrow> string \<Rightarrow> (nat \<times> nat \<times> nat) option" where
  "time_parse with_seconds s =
     Option.bind (time_parse_hm s) (\<lambda>(h, m, s1).
       if with_seconds then
         Option.bind (skip_char (CHR '':'') s1) (\<lambda>s2.
         Option.bind (getnum True s2) (\<lambda>(c, s3).
           if 60 \<le> c then None
           else if skip_fraction s3 \<noteq> [] then None else Some (h, m, c)))
       else if s1 \<noteq> [] then None else Some (h, m, 0))"

section \<open>Facts\<close>

lemma split_on_nonempty [simp]: "split_on c s \<noteq> []"
  by (induction s) (auto split: list.splits)

lemma split_on_no_sep: "c \<notin> set s \<Longrightarrow> split_on c s = [s]"
  by (induction s) auto

lemma split_on_pieces: "p \<in> set (split_on c s) \<Longrightarrow> c \<notin> set p"
proof (induction s arbitrary: p)
  case Nil
  then show ?case by simp
next
  case (Cons x xs)
  show ?case
  proof (cases "split_on c xs")
    case Nil
    then show ?thesis by simp
  next
    case (Cons q qs)
    with Cons.prems Cons.IH show ?thesis by (auto split: if_splits)
  qed
qed

lemma join_split [simp]: "join_on c (split_on c s) = s"
proof (induction s)
  case Nil
  then show ?case by simp
next
  case (Cons x xs)
  obtain p ps where "split_on c xs = p # ps"
    by (metis neq_Nil_conv split_on_nonempty)
  with Cons show ?case by (cases ps) auto
qed

lemma split_on_append:
  "c \<notin> set s \<Longrightarrow> split_on c (s @ c # t) = s # split_on c t"
  by (induction s) auto

lemma length_split_on: "length (split_on c s) = Suc (count_list s c)"
proof (induction s)
  case Nil
  then show ?case by simp
next
  case (Cons x xs)
  then show ?case by (cases "split_on c xs") auto
qed

lemma has_prefix_append [simp]: "has_prefix (p @ s) p"
  by (simp add: has_prefix_def)

lemma trim_prefix_append [simp]: "trim_prefix (p @ s) p = s"
  by (simp add: trim_prefix_def)

lemma has_prefix_iff: "has_prefix s p \<longleftrightarrow> (\<exists>t. s = p @ t)"
  by (metis append_take_drop_id has_prefix_append has_prefix_def)

lemma to_lower_ascii [simp]: "is_ascii s \<Longrightarrow> to_lower uni s = map ascii_lower s"
  by (simp add: to_lower_def)

lemma atoi_range: "atoi s = Inr v \<Longrightarrow> int64_min \<le> v \<and> v \<le> int64_max"
  by (auto simp: atoi_def Let_def split: option.splits if_splits)

lemma digit_val_lt: "is_digit c \<Longrightarrow> digit_val c < 10"
  unfolding is_digit_def digit_val_def by arith

lemma getnum_lt: "getnum fixed s = Some (n, t) \<Longrightarrow> n < 100"
proof -
  assume g: "getnum fixed s = Some (n, t)"
  have "digit_at s 0"
    using g by (auto simp: getnum_def split: if_splits)
  then have d0: "digit_val (s ! 0) < 10"
    by (simp add: digit_at_def digit_val_lt)
  show ?thesis
  proof (cases "digit_at s 1")
    case True
    then have "digit_val (s ! 1) < 10"
      by (simp add: digit_at_def digit_val_lt)
    with d0 g True show ?thesis by (auto simp: getnum_def split: if_splits)
  next
    case False
    with d0 g show ?thesis by (auto simp: getnum_def split: if_splits)
  qed
qed

lemma time_parse_range:
  "time_parse w s = Some (h, m, c) \<Longrightarrow> h < 24 \<and> m < 60 \<and> c < 60"
  by (auto simp: time_parse_def time_parse_hm_def bind_eq_Some_conv split: if_splits prod.splits)

subsection \<open>Binary search finds the boundary of a monotone predicate\<close>

lemma sort_search_done: "\<not> i < j \<Longrightarrow> sort_search i j f st = (i, st)"
  by (simp add: sort_search.simps)

lemma sort_search_left:
  "i < j \<Longrightarrow> fst (f ((i + j) div 2) st) \<Longrightarrow>
   sort_search i j f st = sort_search i ((i + j) div 2) f (snd (f ((i + j) div 2) st))"
  by (subst sort_search.simps) (simp add: Let_def)

lemma sort_search_right:
  "i < j \<Longrightarrow> \<not> fst (f ((i + j) div 2) st) \<Longrightarrow>
   sort_search i j f st = sort_search ((i + j) div 2 + 1) j f (snd (f ((i + j) div 2) st))"
  by (subst sort_search.simps) (simp add: Let_def)

text \<open>
  \<open>P\<close> is the predicate, \<open>g k\<close> the state that a call answering \<open>True\<close> at \<open>k\<close> leaves. The
  result is the first index where \<open>P\<close> holds (or the upper bound), and the state is the one
  left by the call at the result, if there was one.
\<close>

lemma sort_search_spec:
  assumes ans: "\<And>k st. fst (f k st) = P k"
    and keep: "\<And>k st. \<not> P k \<Longrightarrow> snd (f k st) = st"
    and set: "\<And>k st. P k \<Longrightarrow> snd (f k st) = g k"
    and mono: "\<And>a b. a \<le> b \<Longrightarrow> b < n \<Longrightarrow> P a \<Longrightarrow> P b"
  shows "i \<le> j \<Longrightarrow> j \<le> n \<Longrightarrow> (\<forall>k < i. \<not> P k) \<Longrightarrow> (\<forall>k. j \<le> k \<and> k < n \<longrightarrow> P k)
    \<Longrightarrow> sort_search i j f st = (r, st')
    \<Longrightarrow> (\<forall>k < r. \<not> P k) \<and> r \<le> j \<and> (\<forall>k. r \<le> k \<and> k < n \<longrightarrow> P k)
      \<and> st' = (if r = j then st else g r)"
proof (induction "j - i" arbitrary: i j st rule: less_induct)
  case less
  let ?h = "(i + j) div 2"
  show ?case
  proof (cases "i < j")
    case False
    with less.prems show ?thesis by (auto simp: sort_search_done)
  next
    case True
    then have h: "i \<le> ?h" "?h < j" by auto
    show ?thesis
    proof (cases "P ?h")
      case P: True
      have up: "\<forall>k. ?h \<le> k \<and> k < n \<longrightarrow> P k"
        using mono P by blast
      have eq: "sort_search i ?h f (g ?h) = (r, st')"
        using less.prems(5) sort_search_left [OF True, of f st] P ans set by simp
      have lt: "?h - i < j - i" and hn: "?h \<le> n" using h less.prems(2) by linarith+
      from less.hyps [OF lt h(1) hn less.prems(3) up eq]
      have *: "(\<forall>k<r. \<not> P k) \<and> r \<le> ?h \<and> (\<forall>k. r \<le> k \<and> k < n \<longrightarrow> P k)
          \<and> st' = (if r = ?h then g ?h else g r)" .
      then have "r < j" using h(2) by linarith
      with * show ?thesis by (auto split: if_splits)
    next
      case nP: False
      have low: "\<forall>k < ?h + 1. \<not> P k"
        using mono [of _ ?h] nP h(2) less.prems(2)
        by (metis less_Suc_eq_le Suc_eq_plus1 order.strict_trans2)
      have eq: "sort_search (?h + 1) j f st = (r, st')"
        using less.prems(5) sort_search_right [OF True, of f st] nP ans keep by simp
      have "j - (?h + 1) < j - i" and "?h + 1 \<le> j" using h by auto
      from less.hyps [OF this less.prems(2) low less.prems(4) eq] show ?thesis .
    qed
  qed
qed

lemma sort_search_first:
  assumes "\<And>k st. fst (f k st) = P k"
    and "\<And>k st. \<not> P k \<Longrightarrow> snd (f k st) = st"
    and "\<And>k st. P k \<Longrightarrow> snd (f k st) = g k"
    and "\<And>a b. a \<le> b \<Longrightarrow> b < n \<Longrightarrow> P a \<Longrightarrow> P b"
    and "sort_search 0 n f st = (r, st')"
  shows "(\<forall>k < r. \<not> P k) \<and> r \<le> n \<and> (\<forall>k. r \<le> k \<and> k < n \<longrightarrow> P k)
    \<and> st' = (if r = n then st else g r)"
proof -
  have "\<forall>k. n \<le> k \<and> k < n \<longrightarrow> P k" by auto
  then show ?thesis
    using sort_search_spec [OF assms(1-4) _ _ _ _ assms(5)] by simp
qed

end
