(* ===== verification/ConfigLoad.thy ===== *)
theory ConfigLoad
  imports Settings GoStd Samples "HOL-Library.Multiset"
begin

text \<open>
  Loading the configuration: \<open>service/config/configmgr.go\<close> (\<open>Load\<close>), \<open>service/config/env.go\<close>
  (the environment overrides) and \<open>LoadRegisteredServiceConfig\<close> of
  \<open>service/config/registered_services.go\<close>. A pointer to a configuration field is the functional
  update of that field. The loop over the Go map of overrides visits its entries in an order
  the language leaves open: the order is an argument of the model.
\<close>

section \<open>Environment overrides\<close>

text \<open>
  \<open>envSetting\<close>: the pointer is an interface value, so it carries the type it points to. The
  last three constructors are the pointer types that \<open>replaceConfigValue\<close> has no case for.
\<close>

datatype env_pointer =
    StringPtr "(string \<Rightarrow> string) \<Rightarrow> config \<Rightarrow> config"
  | StringsPtr "(string list \<Rightarrow> string list) \<Rightarrow> config \<Rightarrow> config"
  | BoolPtr "(bool \<Rightarrow> bool) \<Rightarrow> config \<Rightarrow> config"
  | IntPtr "(int \<Rightarrow> int) \<Rightarrow> config \<Rightarrow> config"
  | Int32Ptr "(32 word \<Rightarrow> 32 word) \<Rightarrow> config \<Rightarrow> config"
  | Uint16Ptr "(16 word \<Rightarrow> 16 word) \<Rightarrow> config \<Rightarrow> config"
  | DurationPtr "(int \<Rightarrow> int) \<Rightarrow> config \<Rightarrow> config"

record env_setting =
  es_isSecret :: bool
  es_value :: env_pointer

definition setting :: "env_pointer \<Rightarrow> env_setting" where
  "setting p = \<lparr>es_isSecret = False, es_value = p\<rparr>"

definition secret :: "env_pointer \<Rightarrow> env_setting" where
  "secret p = \<lparr>es_isSecret = True, es_value = p\<rparr>"

definition env_settings :: "(string \<times> env_setting) list" where
  "env_settings =
    [(''SCHEDULER_SERVER'', setting (StringPtr (\<lambda>f. ServerConfig_update (sc_Host_update f)))),
     (''SCHEDULER_PORT'', setting (IntPtr (\<lambda>f. ServerConfig_update (sc_RestPort_update f)))),
     (''SCHEDULER_REGISTERED_SERVICE_CONFIG_FILE'',
        setting (StringPtr (\<lambda>f. ServerConfig_update (sc_RegisteredServiceConfigFile_update f)))),
     (''SCHEDULER_REST_DEBUG_LOGGING'',
        setting (BoolPtr (\<lambda>f. ServerConfig_update (sc_DebugLogRestRequests_update f)))),
     (''SCHEDULER_REST_API_AUTH_ENABLED'',
        setting (BoolPtr (\<lambda>f. ServerConfig_update (sc_AuthenticateRestApiRequests_update f)))),
     (''SCHEDULER_DB_TYPE'', setting (StringPtr (\<lambda>f. DatabaseConfig_update (dc_DatabaseType_update f)))),
     (''SCHEDULER_DB_HOSTS'', setting (StringsPtr (\<lambda>f. DatabaseConfig_update (dc_DatabaseHosts_update f)))),
     (''SCHEDULER_DB_PORT'', setting (IntPtr (\<lambda>f. DatabaseConfig_update (dc_ClientPort_update f)))),
     (''SCHEDULER_DB_USER'', setting (StringPtr (\<lambda>f. DatabaseConfig_update (dc_Username_update f)))),
     (''SCHEDULER_DB_PASSWORD'', secret (StringPtr (\<lambda>f. DatabaseConfig_update (dc_Password_update f)))),
     (''SCHEDULER_DB_SCHEMA_LOCATION'',
        setting (StringPtr (\<lambda>f. DatabaseConfig_update (dc_SchemaMigrationScripts_update f)))),
     (''SCHEDULER_QUEUE_ENDPOINT'', setting (StringPtr (\<lambda>f. QueueMgrConfig_update (qc_Endpoint_update f)))),
     (''SCHEDULER_INPUT_QUEUE_NAME'',
        setting (StringPtr (\<lambda>f. QueueMgrConfig_update (qc_InputQueueName_update f)))),
     (''SCHEDULER_DISPATCH_QUEUE_NAME'',
        setting (StringPtr (\<lambda>f. QueueMgrConfig_update (qc_DispatchQueueName_update f)))),
     (''SCHEDULER_DCM_INPUT_QUEUE_NAME'',
        setting (StringPtr (\<lambda>f. QueueMgrConfig_update (qc_DcmInputQueueName_update f)))),
     (''SCHEDULER_QUEUE_WATCH_DELAY'',
        setting (Int32Ptr (\<lambda>f. QueueMgrConfig_update (qc_WatchDelay_update f)))),
     (''SCHEDULER_MQTT_BROKER_HOSTS'',
        setting (StringsPtr (\<lambda>f. MqttConfig_update (mc_MqttBrokerHosts_update f)))),
     (''SCHEDULER_MQTT_BROKER_TYPE'', setting (StringPtr (\<lambda>f. MqttConfig_update (mc_BrokerType_update f)))),
     (''SCHEDULER_MQTT_TLS_CERT_PATH'',
        setting (StringPtr (\<lambda>f. MqttConfig_update (mc_TlsRootCertPath_update f)))),
     (''SCHEDULER_MQTT_KEEP_ALIVE'', setting (Uint16Ptr (\<lambda>f. MqttConfig_update (mc_KeepAlive_update f)))),
     (''SCHEDULER_MQTT_CONNECT_RETRY_DELAY'',
        setting (DurationPtr (\<lambda>f. MqttConfig_update (mc_ConnectRetryDelay_update f)))),
     (''SCHEDULER_MQTT_DEBUG_LOGGING'',
        setting (BoolPtr (\<lambda>f. MqttConfig_update (mc_DebugLoggingEnabled_update f)))),
     (''SCHEDULER_DSTS_HOST'', setting (StringPtr (\<lambda>f. DstsConfig_update (tc_Host_update f)))),
     (''SCHEDULER_DSTS_RPC_PORT'', setting (IntPtr (\<lambda>f. DstsConfig_update (tc_RpcPort_update f)))),
     (''AWS_REGION'', setting (StringPtr (\<lambda>f. AwsSettings_update (aws_Region_update f)))),
     (''AWS_WEB_IDENTITY_TOKEN_FILE'',
        setting (StringPtr (\<lambda>f. AwsSettings_update (aws_WebIdentityTokenFile_update f)))),
     (''AWS_ROLE_ARN'', setting (StringPtr (\<lambda>f. AwsSettings_update (aws_RoleArn_update f))))]"

definition env_list :: "string \<Rightarrow> string list" where
  "env_list envValue = map trim_space (split_on (CHR '','') envValue)"

definition replaceConfigValue :: "string \<Rightarrow> env_setting \<Rightarrow> config \<Rightarrow> config" where
  "replaceConfigValue envValue t c =
     (case es_value t of
        StringPtr upd \<Rightarrow> upd (\<lambda>_. envValue) c
      | StringsPtr upd \<Rightarrow> upd (\<lambda>_. env_list envValue) c
      | BoolPtr upd \<Rightarrow> (case parse_bool envValue of Inl _ \<Rightarrow> c | Inr b \<Rightarrow> upd (\<lambda>_. b) c)
      | IntPtr upd \<Rightarrow> (case atoi envValue of Inl _ \<Rightarrow> c | Inr i \<Rightarrow> upd (\<lambda>_. i) c)
      | _ \<Rightarrow> c)"

definition getLoggableValue :: "bool \<Rightarrow> string \<Rightarrow> string" where
  "getLoggableValue isSecret v = (if isSecret then ''***'' else v)"

text \<open>
  One turn of the loop; the second component collects the two texts of the log line.
\<close>

definition override_one ::
  "lib \<Rightarrow> string \<times> env_setting \<Rightarrow> config \<times> (string \<times> string) list
     \<Rightarrow> config \<times> (string \<times> string) list" where
  "override_one L kv s =
     (let e = lib_getenv L (fst kv)
      in if e \<noteq> [] then
           (replaceConfigValue (lib_getenv L (fst kv)) (snd kv) (fst s),
            snd s @ [(fst kv, getLoggableValue (es_isSecret (snd kv)) e)])
         else s)"

definition loadEnvironmentVariableOverrides ::
  "lib \<Rightarrow> (string \<times> env_setting) list \<Rightarrow> config \<Rightarrow> config \<times> (string \<times> string) list" where
  "loadEnvironmentVariableOverrides L order c = fold (override_one L) order (c, [])"

section \<open>Loading\<close>

definition LoadRegisteredServiceConfig ::
  "'w ext \<Rightarrow> string \<Rightarrow> config_mgr \<Rightarrow> 'w \<Rightarrow> (bool \<times> config_mgr) \<times> 'w" where
  "LoadRegisteredServiceConfig X configFilePath c w =
     (let filename = (if configFilePath \<noteq> [] then configFilePath
                      else defaultRegisteredServicesConfigFilePath)
      in case x_open X filename w of
           (Some e, w1) \<Rightarrow> ((False, c), w1)
         | (None, w1) \<Rightarrow>
             (case x_yaml_services X (cm_services c) w1 of
                ((services, err), w2) \<Rightarrow> ((err = None, c\<lparr>cm_services := services\<rparr>), w2)))"

definition test_mode_on :: "lib \<Rightarrow> bool \<Rightarrow> bool" where
  "test_mode_on L testModeEnabled \<longleftrightarrow> lib_getenv L ''TEST_MODE'' = ''enabled'' \<or> testModeEnabled"

definition config_file_name :: "lib \<Rightarrow> string" where
  "config_file_name L =
     (let path = lib_getenv L ''SCHEDULER_CONFIG_LOCATION''
      in if path \<noteq> [] then path else defaultConfigFilePath)"

definition apply_environment :: "lib \<Rightarrow> (string \<times> env_setting) list \<Rightarrow> bool \<Rightarrow> config \<Rightarrow> config" where
  "apply_environment L order testModeEnabled cfg =
     (let cfg1 = fst (loadEnvironmentVariableOverrides L order cfg)
      in if test_mode_on L testModeEnabled then cfg1\<lparr>TestMode := True\<rparr> else cfg1)"

definition Load ::
  "lib \<Rightarrow> 'w ext \<Rightarrow> (string \<times> env_setting) list \<Rightarrow> bool \<Rightarrow> config_mgr \<Rightarrow> 'w
     \<Rightarrow> (bool \<times> config_mgr) \<times> 'w" where
  "Load L X order testModeEnabled c w =
     (let cfg = (cm_config c)\<lparr>ConfigFilePath := lib_getenv L ''SCHEDULER_CONFIG_LOCATION''\<rparr>
      in case x_open X (config_file_name L) w of
           (Some e, w1) \<Rightarrow> ((False, c\<lparr>cm_config := cfg\<rparr>), w1)
         | (None, w1) \<Rightarrow>
             (case x_yaml_config X cfg w1 of
                ((cfg1, Some e), w2) \<Rightarrow> ((False, c\<lparr>cm_config := cfg1\<rparr>), w2)
              | ((cfg1, None), w2) \<Rightarrow>
                  (let cfg2 = apply_environment L order testModeEnabled cfg1
                   in LoadRegisteredServiceConfig X
                        (sc_RegisteredServiceConfigFile (ServerConfig cfg2))
                        (c\<lparr>cm_config := cfg2\<rparr>) w2)))"

section \<open>What the overrides amount to\<close>

definition env_string :: "lib \<Rightarrow> string \<Rightarrow> string \<Rightarrow> string" where
  "env_string L k d = (if lib_getenv L k = [] then d else lib_getenv L k)"

definition env_strings :: "lib \<Rightarrow> string \<Rightarrow> string list \<Rightarrow> string list" where
  "env_strings L k d = (if lib_getenv L k = [] then d else env_list (lib_getenv L k))"

definition env_bool :: "lib \<Rightarrow> string \<Rightarrow> bool \<Rightarrow> bool" where
  "env_bool L k d = (case parse_bool (lib_getenv L k) of Inl _ \<Rightarrow> d | Inr b \<Rightarrow> b)"

definition env_int :: "lib \<Rightarrow> string \<Rightarrow> int \<Rightarrow> int" where
  "env_int L k d = (case atoi (lib_getenv L k) of Inl _ \<Rightarrow> d | Inr i \<Rightarrow> i)"

definition overridden :: "lib \<Rightarrow> config \<Rightarrow> config" where
  "overridden L c =
     (let s = ServerConfig c; d = DatabaseConfig c; q = QueueMgrConfig c; m = MqttConfig c;
          t = DstsConfig c
      in c\<lparr>ServerConfig := s\<lparr>
             sc_Host := env_string L ''SCHEDULER_SERVER'' (sc_Host s),
             sc_RestPort := env_int L ''SCHEDULER_PORT'' (sc_RestPort s),
             sc_RegisteredServiceConfigFile :=
               env_string L ''SCHEDULER_REGISTERED_SERVICE_CONFIG_FILE'' (sc_RegisteredServiceConfigFile s),
             sc_DebugLogRestRequests :=
               env_bool L ''SCHEDULER_REST_DEBUG_LOGGING'' (sc_DebugLogRestRequests s),
             sc_AuthenticateRestApiRequests :=
               env_bool L ''SCHEDULER_REST_API_AUTH_ENABLED'' (sc_AuthenticateRestApiRequests s)\<rparr>,
           DatabaseConfig := d\<lparr>
             dc_DatabaseType := env_string L ''SCHEDULER_DB_TYPE'' (dc_DatabaseType d),
             dc_DatabaseHosts := env_strings L ''SCHEDULER_DB_HOSTS'' (dc_DatabaseHosts d),
             dc_ClientPort := env_int L ''SCHEDULER_DB_PORT'' (dc_ClientPort d),
             dc_Username := env_string L ''SCHEDULER_DB_USER'' (dc_Username d),
             dc_Password := env_string L ''SCHEDULER_DB_PASSWORD'' (dc_Password d),
             dc_SchemaMigrationScripts :=
               env_string L ''SCHEDULER_DB_SCHEMA_LOCATION'' (dc_SchemaMigrationScripts d)\<rparr>,
           QueueMgrConfig := q\<lparr>
             qc_Endpoint := env_string L ''SCHEDULER_QUEUE_ENDPOINT'' (qc_Endpoint q),
             qc_InputQueueName := env_string L ''SCHEDULER_INPUT_QUEUE_NAME'' (qc_InputQueueName q),
             qc_DispatchQueueName :=
               env_string L ''SCHEDULER_DISPATCH_QUEUE_NAME'' (qc_DispatchQueueName q),
             qc_DcmInputQueueName :=
               env_string L ''SCHEDULER_DCM_INPUT_QUEUE_NAME'' (qc_DcmInputQueueName q)\<rparr>,
           MqttConfig := m\<lparr>
             mc_MqttBrokerHosts := env_strings L ''SCHEDULER_MQTT_BROKER_HOSTS'' (mc_MqttBrokerHosts m),
             mc_BrokerType := env_string L ''SCHEDULER_MQTT_BROKER_TYPE'' (mc_BrokerType m),
             mc_TlsRootCertPath := env_string L ''SCHEDULER_MQTT_TLS_CERT_PATH'' (mc_TlsRootCertPath m),
             mc_DebugLoggingEnabled :=
               env_bool L ''SCHEDULER_MQTT_DEBUG_LOGGING'' (mc_DebugLoggingEnabled m)\<rparr>,
           DstsConfig := t\<lparr>
             tc_Host := env_string L ''SCHEDULER_DSTS_HOST'' (tc_Host t),
             tc_RpcPort := env_int L ''SCHEDULER_DSTS_RPC_PORT'' (tc_RpcPort t)\<rparr>,
           AwsSettings := \<lparr>
             aws_WebIdentityTokenFile =
               env_string L ''AWS_WEB_IDENTITY_TOKEN_FILE'' (aws_WebIdentityTokenFile (AwsSettings c)),
             aws_RoleArn = env_string L ''AWS_ROLE_ARN'' (aws_RoleArn (AwsSettings c)),
             aws_Region = env_string L ''AWS_REGION'' (aws_Region (AwsSettings c))\<rparr>\<rparr>)"

section \<open>Facts\<close>

lemma parse_bool_Nil [simp]: "\<exists>e. parse_bool [] = Inl e"
  by (simp add: parse_bool_def)

lemma atoi_Nil [simp]: "\<exists>e. atoi [] = Inl e"
  by (simp add: atoi_def atoi_unsigned_def)

definition override_config :: "lib \<Rightarrow> string \<times> env_setting \<Rightarrow> config \<Rightarrow> config" where
  "override_config L kv c =
     (if lib_getenv L (fst kv) \<noteq> [] then replaceConfigValue (lib_getenv L (fst kv)) (snd kv) c else c)"

definition override_log :: "lib \<Rightarrow> string \<times> env_setting \<Rightarrow> (string \<times> string) list" where
  "override_log L kv =
     (if lib_getenv L (fst kv) \<noteq> []
      then [(fst kv, getLoggableValue (es_isSecret (snd kv)) (lib_getenv L (fst kv)))] else [])"

lemma override_one_split:
  "override_one L kv s = (override_config L kv (fst s), snd s @ override_log L kv)"
  by (cases s) (simp add: override_one_def override_config_def override_log_def Let_def)

lemma overrides_split:
  "fold (override_one L) order s
    = (fold (override_config L) order (fst s), snd s @ concat (map (override_log L) order))"
  by (induction order arbitrary: s) (simp_all add: override_one_split)

lemmas env_value_defs = env_string_def env_strings_def env_bool_def env_int_def

text \<open>
  The overrides as updates of the settings groups; updates of different fields commute, so the
  order of the loop does not matter.
\<close>

definition commuting :: "('a \<Rightarrow> 'a) list \<Rightarrow> bool" where
  "commuting fs \<longleftrightarrow> (\<forall>f \<in> set fs. \<forall>g \<in> set fs. \<forall>x. f (g x) = g (f x))"

definition config_updates :: "lib \<Rightarrow> (config \<Rightarrow> config) list" where
  "config_updates L =
     map ServerConfig_update
       [sc_Host_update (env_string L ''SCHEDULER_SERVER''),
        sc_RestPort_update (env_int L ''SCHEDULER_PORT''),
        sc_RegisteredServiceConfigFile_update (env_string L ''SCHEDULER_REGISTERED_SERVICE_CONFIG_FILE''),
        sc_DebugLogRestRequests_update (env_bool L ''SCHEDULER_REST_DEBUG_LOGGING''),
        sc_AuthenticateRestApiRequests_update (env_bool L ''SCHEDULER_REST_API_AUTH_ENABLED'')] @
     map DatabaseConfig_update
       [dc_DatabaseType_update (env_string L ''SCHEDULER_DB_TYPE''),
        dc_DatabaseHosts_update (env_strings L ''SCHEDULER_DB_HOSTS''),
        dc_ClientPort_update (env_int L ''SCHEDULER_DB_PORT''),
        dc_Username_update (env_string L ''SCHEDULER_DB_USER''),
        dc_Password_update (env_string L ''SCHEDULER_DB_PASSWORD''),
        dc_SchemaMigrationScripts_update (env_string L ''SCHEDULER_DB_SCHEMA_LOCATION'')] @
     map QueueMgrConfig_update
       [qc_Endpoint_update (env_string L ''SCHEDULER_QUEUE_ENDPOINT''),
        qc_InputQueueName_update (env_string L ''SCHEDULER_INPUT_QUEUE_NAME''),
        qc_DispatchQueueName_update (env_string L ''SCHEDULER_DISPATCH_QUEUE_NAME''),
        qc_DcmInputQueueName_update (env_string L ''SCHEDULER_DCM_INPUT_QUEUE_NAME''),
        id] @
     map MqttConfig_update
       [mc_MqttBrokerHosts_update (env_strings L ''SCHEDULER_MQTT_BROKER_HOSTS''),
        mc_BrokerType_update (env_string L ''SCHEDULER_MQTT_BROKER_TYPE''),
        mc_TlsRootCertPath_update (env_string L ''SCHEDULER_MQTT_TLS_CERT_PATH''),
        id, id,
        mc_DebugLoggingEnabled_update (env_bool L ''SCHEDULER_MQTT_DEBUG_LOGGING'')] @
     map DstsConfig_update
       [tc_Host_update (env_string L ''SCHEDULER_DSTS_HOST''),
        tc_RpcPort_update (env_int L ''SCHEDULER_DSTS_RPC_PORT'')] @
     map AwsSettings_update
       [aws_Region_update (env_string L ''AWS_REGION''),
        aws_WebIdentityTokenFile_update (env_string L ''AWS_WEB_IDENTITY_TOKEN_FILE''),
        aws_RoleArn_update (env_string L ''AWS_ROLE_ARN'')]"

lemma commuting_append:
  "commuting (fs @ gs) \<longleftrightarrow> commuting fs \<and> commuting gs
     \<and> (\<forall>f \<in> set fs. \<forall>g \<in> set gs. \<forall>x. f (g x) = g (f x))"
  unfolding commuting_def by auto

lemma commuting_groups:
  "commuting fs \<Longrightarrow> commuting (map ServerConfig_update fs)"
  "commuting ds \<Longrightarrow> commuting (map DatabaseConfig_update ds)"
  "commuting qs \<Longrightarrow> commuting (map QueueMgrConfig_update qs)"
  "commuting ms \<Longrightarrow> commuting (map MqttConfig_update ms)"
  "commuting ts \<Longrightarrow> commuting (map DstsConfig_update ts)"
  "commuting ws \<Longrightarrow> commuting (map AwsSettings_update ws)"
  by (simp_all add: commuting_def comp_def)

lemma server_commuting:
  "commuting [sc_Host_update a, sc_RestPort_update b, sc_RegisteredServiceConfigFile_update c,
     sc_DebugLogRestRequests_update d, sc_AuthenticateRestApiRequests_update e]"
  by (simp add: commuting_def)

lemma database_commuting:
  "commuting [dc_DatabaseType_update a, dc_DatabaseHosts_update b, dc_ClientPort_update c,
     dc_Username_update d, dc_Password_update e, dc_SchemaMigrationScripts_update f]"
  by (simp add: commuting_def)

lemma queue_commuting:
  "commuting [qc_Endpoint_update a, qc_InputQueueName_update b, qc_DispatchQueueName_update c,
     qc_DcmInputQueueName_update d, id]"
  by (simp add: commuting_def)

lemma mqtt_commuting:
  "commuting [mc_MqttBrokerHosts_update a, mc_BrokerType_update b, mc_TlsRootCertPath_update c,
     id, id, mc_DebugLoggingEnabled_update d]"
  by (simp add: commuting_def)

lemma dsts_commuting: "commuting [tc_Host_update a, tc_RpcPort_update b]"
  by (simp add: commuting_def)

lemma aws_commuting:
  "commuting [aws_Region_update a, aws_WebIdentityTokenFile_update b, aws_RoleArn_update c]"
  by (simp add: commuting_def)

lemma groups_commuting:
  "commuting fs \<Longrightarrow> commuting ds \<Longrightarrow> commuting qs \<Longrightarrow> commuting ms \<Longrightarrow> commuting ts \<Longrightarrow> commuting ws
    \<Longrightarrow> commuting (map ServerConfig_update fs @ map DatabaseConfig_update ds
      @ map QueueMgrConfig_update qs @ map MqttConfig_update ms @ map DstsConfig_update ts
      @ map AwsSettings_update ws)"
  by (simp add: commuting_append commuting_groups ball_Un)

lemma config_updates_commuting: "commuting (config_updates L)"
  unfolding config_updates_def
  by (intro groups_commuting server_commuting database_commuting queue_commuting mqtt_commuting
      dsts_commuting aws_commuting)

lemma fold_commuting:
  assumes "mset fs = mset gs" "commuting gs"
  shows "fold (\<lambda>f. f) fs c = fold (\<lambda>f. f) gs c"
proof -
  have "fold (\<lambda>f. f) fs = fold (\<lambda>f. f) gs"
  proof (rule fold_multiset_equiv)
    fix x y
    assume "x \<in> set fs" "y \<in> set fs"
    then show "x \<circ> y = y \<circ> x"
      using assms mset_eq_setD [OF assms(1)] by (auto simp: commuting_def fun_eq_iff)
  qed (rule assms(1))
  then show ?thesis by simp
qed

lemma server_update_same [simp]:
  "sc_Host_update (\<lambda>x. x) r = r"
  "sc_RestPort_update (\<lambda>x. x) r = r"
  "sc_RegisteredServiceConfigFile_update (\<lambda>x. x) r = r"
  "sc_DebugLogRestRequests_update (\<lambda>x. x) r = r"
  "sc_AuthenticateRestApiRequests_update (\<lambda>x. x) r = r"
  by (cases r; simp)+

lemma database_update_same [simp]:
  "dc_DatabaseType_update (\<lambda>x. x) r = r"
  "dc_DatabaseHosts_update (\<lambda>x. x) r = r"
  "dc_ClientPort_update (\<lambda>x. x) r = r"
  "dc_Username_update (\<lambda>x. x) r = r"
  "dc_Password_update (\<lambda>x. x) r = r"
  "dc_SchemaMigrationScripts_update (\<lambda>x. x) r = r"
  by (cases r; simp)+

lemma queue_update_same [simp]:
  "qc_Endpoint_update (\<lambda>x. x) r = r"
  "qc_InputQueueName_update (\<lambda>x. x) r = r"
  "qc_DispatchQueueName_update (\<lambda>x. x) r = r"
  "qc_DcmInputQueueName_update (\<lambda>x. x) r = r"
  by (cases r; simp)+

lemma mqtt_update_same [simp]:
  "mc_MqttBrokerHosts_update (\<lambda>x. x) r = r"
  "mc_BrokerType_update (\<lambda>x. x) r = r"
  "mc_TlsRootCertPath_update (\<lambda>x. x) r = r"
  "mc_DebugLoggingEnabled_update (\<lambda>x. x) r = r"
  by (cases r; simp)+

lemma dsts_update_same [simp]:
  "tc_Host_update (\<lambda>x. x) r = r"
  "tc_RpcPort_update (\<lambda>x. x) r = r"
  by (cases r; simp)+

lemma aws_update_same [simp]:
  "aws_Region_update (\<lambda>x. x) r = r"
  "aws_WebIdentityTokenFile_update (\<lambda>x. x) r = r"
  "aws_RoleArn_update (\<lambda>x. x) r = r"
  by (cases r; simp)+

lemma group_update_same [simp]:
  "(\<And>r. f r = r) \<Longrightarrow> ServerConfig_update f c = c"
  "(\<And>r. g r = r) \<Longrightarrow> DatabaseConfig_update g c = c"
  "(\<And>r. h r = r) \<Longrightarrow> QueueMgrConfig_update h c = c"
  "(\<And>r. i r = r) \<Longrightarrow> MqttConfig_update i c = c"
  "(\<And>r. j r = r) \<Longrightarrow> DstsConfig_update j c = c"
  "(\<And>r. k r = r) \<Longrightarrow> AwsSettings_update k c = c"
  by (cases c; simp)+

lemma setting_value [simp]: "es_value (setting p) = p" "es_value (secret p) = p"
  by (simp_all add: setting_def secret_def)

lemma group_update_id [simp]: "QueueMgrConfig_update id = id" "MqttConfig_update id = id"
  by (simp_all add: fun_eq_iff)

text \<open>What an entry of the override table does, as a function of the value it points to.\<close>

lemma override_string:
  "(\<And>c. upd (\<lambda>x. x) c = c) \<Longrightarrow> override_config L (k, setting (StringPtr upd)) = upd (env_string L k)"
  "(\<And>c. upd (\<lambda>x. x) c = c) \<Longrightarrow> override_config L (k, secret (StringPtr upd)) = upd (env_string L k)"
  by (cases "lib_getenv L k = []";
      simp add: fun_eq_iff override_config_def replaceConfigValue_def env_string_def [abs_def])+

lemma override_strings:
  "(\<And>c. upd (\<lambda>x. x) c = c) \<Longrightarrow> override_config L (k, setting (StringsPtr upd)) = upd (env_strings L k)"
  by (rule ext, cases "lib_getenv L k = []")
    (simp_all add: override_config_def replaceConfigValue_def env_strings_def [abs_def])

lemma override_bool:
  "(\<And>c. upd (\<lambda>x. x) c = c) \<Longrightarrow> override_config L (k, setting (BoolPtr upd)) = upd (env_bool L k)"
  using parse_bool_Nil
  by (cases "parse_bool (lib_getenv L k)"; cases "lib_getenv L k = []")
    (auto simp: fun_eq_iff override_config_def replaceConfigValue_def env_bool_def [abs_def])

lemma override_int:
  "(\<And>c. upd (\<lambda>x. x) c = c) \<Longrightarrow> override_config L (k, setting (IntPtr upd)) = upd (env_int L k)"
  using atoi_Nil
  by (cases "atoi (lib_getenv L k)"; cases "lib_getenv L k = []")
    (auto simp: fun_eq_iff override_config_def replaceConfigValue_def env_int_def [abs_def])

lemma override_none:
  "override_config L (k, setting (Int32Ptr u)) = id"
  "override_config L (k, setting (Uint16Ptr v)) = id"
  "override_config L (k, setting (DurationPtr d)) = id"
  by (simp_all add: fun_eq_iff override_config_def replaceConfigValue_def)

lemma overrides_are_updates: "map (override_config L) env_settings = config_updates L"
  unfolding env_settings_def config_updates_def
  by (simp add: override_string override_strings override_bool override_int override_none)

lemma overrides_result: "fold (\<lambda>f. f) (config_updates L) c = overridden L c"
  unfolding config_updates_def overridden_def
  by (cases c) (simp add: Let_def)

lemma fold_override_config:
  assumes "mset order = mset env_settings"
  shows "fold (override_config L) order c = overridden L c"
proof -
  have "fold (override_config L) order c = fold (\<lambda>f. f) (map (override_config L) order) c"
    by (simp add: fold_map comp_def)
  also have "\<dots> = fold (\<lambda>f. f) (config_updates L) c"
    by (rule fold_commuting [OF _ config_updates_commuting])
      (simp add: assms flip: overrides_are_updates)
  finally show ?thesis by (simp add: overrides_result)
qed

section \<open>Properties\<close>

lemma overrides_log:
  assumes "mset order = mset env_settings"
  shows "set (snd (loadEnvironmentVariableOverrides L order c))
    = {(k, getLoggableValue (es_isSecret s) (lib_getenv L k)) | k s.
         (k, s) \<in> set env_settings \<and> lib_getenv L k \<noteq> []}"
proof -
  have "set (snd (loadEnvironmentVariableOverrides L order c)) = (\<Union>kv \<in> set env_settings. set (override_log L kv))"
    using mset_eq_setD [OF assms]
    by (simp add: loadEnvironmentVariableOverrides_def overrides_split)
  then show ?thesis by (fastforce simp: override_log_def split: if_splits)
qed

lemma password_is_secret: "(''SCHEDULER_DB_PASSWORD'', s) \<in> set env_settings \<Longrightarrow> es_isSecret s"
  by (simp add: env_settings_def secret_def)

lemma password_not_logged:
  assumes "mset order = mset env_settings"
    and "(''SCHEDULER_DB_PASSWORD'', v) \<in> set (snd (loadEnvironmentVariableOverrides L order c))"
  shows "v = ''***''"
  using assms(2) unfolding overrides_log [OF assms(1)]
  by (auto dest!: password_is_secret simp: getLoggableValue_def)

text \<open>
  C30: in whatever order the loop visits the override table, the configuration it
  leaves is the same: every string, list, boolean and integer field takes the value of its
  variable when that is set and parses, and every other field is as it was. The three fields of
  other types (the watch delay, the keep alive period, the retry delay) are never overridden.
  The database password does not reach the log.
\<close>

theorem overrides_exact:
  assumes "mset order = mset env_settings"
  shows "fst (loadEnvironmentVariableOverrides L order c) = overridden L c
    \<and> qc_WatchDelay (QueueMgrConfig (overridden L c)) = qc_WatchDelay (QueueMgrConfig c)
    \<and> mc_KeepAlive (MqttConfig (overridden L c)) = mc_KeepAlive (MqttConfig c)
    \<and> mc_ConnectRetryDelay (MqttConfig (overridden L c)) = mc_ConnectRetryDelay (MqttConfig c)
    \<and> (\<forall>v. (''SCHEDULER_DB_PASSWORD'', v) \<in> set (snd (loadEnvironmentVariableOverrides L order c))
         \<longrightarrow> v = ''***'')"
proof -
  have "fst (loadEnvironmentVariableOverrides L order c) = overridden L c"
    by (simp add: loadEnvironmentVariableOverrides_def overrides_split fold_override_config [OF assms])
  then show ?thesis
    using password_not_logged [OF assms] by (simp add: overridden_def Let_def)
qed

definition env_lib :: lib where
  "env_lib = sample_lib\<lparr>lib_getenv := (\<lambda>k.
     if k = ''SCHEDULER_MQTT_KEEP_ALIVE'' then ''30''
     else if k = ''SCHEDULER_DB_HOSTS'' then ''a, b'' else [])\<rparr>"

lemma overrides_exact_witness:
  "fst (loadEnvironmentVariableOverrides env_lib (rev env_settings) zero_config)
    = zero_config\<lparr>DatabaseConfig := (DatabaseConfig zero_config)\<lparr>dc_DatabaseHosts := [''a'', ''b'']\<rparr>\<rparr>"
proof -
  have "fst (loadEnvironmentVariableOverrides env_lib (rev env_settings) zero_config)
      = overridden env_lib zero_config"
    using overrides_exact [of "rev env_settings" env_lib zero_config] by simp
  also have "\<dots> = zero_config\<lparr>DatabaseConfig :=
      (DatabaseConfig zero_config)\<lparr>dc_DatabaseHosts := [''a'', ''b'']\<rparr>\<rparr>"
    by (simp add: overridden_def env_lib_def zero_config_def Let_def env_value_defs env_list_def
        parse_bool_def atoi_def atoi_unsigned_def trim_space_def is_space_def)
  finally show ?thesis .
qed

text \<open>
  C31: when \<open>Load\<close> succeeds, the settings are those decoded from the configuration
  file (the file of \<open>SCHEDULER_CONFIG_LOCATION\<close>, or \<open>config.yaml\<close>) with the environment
  overrides applied, test mode is on exactly when the file, the variable or the argument asks
  for it, and the registrations are those decoded from the second file, whose name is read from
  the overridden settings.
\<close>

theorem load_effective:
  assumes "mset order = mset env_settings"
    and "Load L X order testModeEnabled c w = ((True, c'), w')"
  shows "\<exists>cfg w1 w2 w3. x_open X (config_file_name L) w = (None, w1)
    \<and> x_yaml_config X ((cm_config c)\<lparr>ConfigFilePath := lib_getenv L ''SCHEDULER_CONFIG_LOCATION''\<rparr>) w1
        = ((cfg, None), w2)
    \<and> cm_config c' = (overridden L cfg)\<lparr>TestMode := TestMode cfg \<or> test_mode_on L testModeEnabled\<rparr>
    \<and> (let file = sc_RegisteredServiceConfigFile (ServerConfig (cm_config c'))
       in x_open X (if file \<noteq> [] then file else defaultRegisteredServicesConfigFilePath) w2 = (None, w3))
    \<and> x_yaml_services X (cm_services c) w3 = ((cm_services c', None), w')"
proof -
  let ?cfg0 = "(cm_config c)\<lparr>ConfigFilePath := lib_getenv L ''SCHEDULER_CONFIG_LOCATION''\<rparr>"
  have keep: "TestMode (overridden L cfg) = TestMode cfg" for cfg
    by (simp add: overridden_def Let_def)
  have env: "apply_environment L order testModeEnabled cfg
      = (overridden L cfg)\<lparr>TestMode := TestMode cfg \<or> test_mode_on L testModeEnabled\<rparr>" for cfg
    using keep [of cfg]
    by (simp add: apply_environment_def loadEnvironmentVariableOverrides_def overrides_split
        fold_override_config [OF assms(1)] Let_def)
  obtain w1 where open1: "x_open X (config_file_name L) w = (None, w1)"
    using assms(2) by (auto simp: Load_def Let_def split: prod.splits option.splits)
  obtain cfg w2 where yaml: "x_yaml_config X ?cfg0 w1 = ((cfg, None), w2)"
    using assms(2) open1 by (auto simp: Load_def Let_def split: prod.splits option.splits)
  have reg: "LoadRegisteredServiceConfig X
      (sc_RegisteredServiceConfigFile (ServerConfig (apply_environment L order testModeEnabled cfg)))
      (c\<lparr>cm_config := apply_environment L order testModeEnabled cfg\<rparr>) w2 = ((True, c'), w')"
    using assms(2) open1 yaml by (simp add: Load_def Let_def)
  then have c': "cm_config c' = apply_environment L order testModeEnabled cfg"
    by (auto simp: LoadRegisteredServiceConfig_def Let_def split: prod.splits option.splits)
  show ?thesis
    using open1 yaml reg c' env [of cfg]
    by (fastforce simp: LoadRegisteredServiceConfig_def Let_def split: prod.splits option.splits if_splits)
qed

definition files_ext :: "unit ext" where
  "files_ext = idle_ext\<lparr>x_open := (\<lambda>_ w. (None, w)), x_yaml_config := (\<lambda>c w. ((c, None), w)),
     x_yaml_services := (\<lambda>_ w. (([], None), w))\<rparr>"

lemma load_effective_witness:
  "TestMode (cm_config (snd (fst (Load env_lib files_ext env_settings True (NewConfigMgr ''s'') ()))))"
proof -
  obtain c' where run: "Load env_lib files_ext env_settings True (NewConfigMgr ''s'') () = ((True, c'), ())"
    by (simp add: Load_def LoadRegisteredServiceConfig_def files_ext_def Let_def)
  from load_effective [OF refl run] obtain cfg where
    "cm_config c' = (overridden env_lib cfg)\<lparr>TestMode := TestMode cfg \<or> test_mode_on env_lib True\<rparr>"
    by blast
  with run show ?thesis by (simp add: test_mode_on_def)
qed

end
