(* ===== verification/Base64.thy ===== *)
theory Base64
  imports GoStd
begin

text \<open>
  \<open>encoding/base64\<close> as the service uses it: \<open>StdEncoding\<close> for the messages on the queues
  (\<open>EncodeToString\<close>, \<open>DecodeString\<close>) and \<open>RawURLEncoding\<close> for the integers of a JSON web
  key. The flag \<open>url\<close> selects the alphabet. Decoding skips line breaks, as Go does.
\<close>

abbreviation byte :: "char \<Rightarrow> nat" where "byte c \<equiv> of_char c"

definition b64_char :: "bool \<Rightarrow> nat \<Rightarrow> char" where
  "b64_char url n =
     (if n < 26 then char_of (65 + n)
      else if n < 52 then char_of (97 + (n - 26))
      else if n < 62 then char_of (48 + (n - 52))
      else if n = 62 then (if url then CHR ''-'' else CHR ''+'')
      else (if url then CHR ''_'' else CHR ''/''))"

definition b64_val :: "bool \<Rightarrow> char \<Rightarrow> nat option" where
  "b64_val url c =
     (if 65 \<le> byte c \<and> byte c \<le> 90 then Some (byte c - 65)
      else if 97 \<le> byte c \<and> byte c \<le> 122 then Some (byte c - 71)
      else if 48 \<le> byte c \<and> byte c \<le> 57 then Some (byte c + 4)
      else if c = (if url then CHR ''-'' else CHR ''+'') then Some 62
      else if c = (if url then CHR ''_'' else CHR ''/'') then Some 63
      else None)"

definition sextet3 :: "nat \<Rightarrow> nat" where "sextet3 n = n div 262144 mod 64"
definition sextet2 :: "nat \<Rightarrow> nat" where "sextet2 n = n div 4096 mod 64"
definition sextet1 :: "nat \<Rightarrow> nat" where "sextet1 n = n div 64 mod 64"
definition sextet0 :: "nat \<Rightarrow> nat" where "sextet0 n = n mod 64"

fun b64_encode :: "bytes \<Rightarrow> string" where
  "b64_encode [] = []"
| "b64_encode [a] =
     (let n = byte a * 65536
      in [b64_char False (sextet3 n), b64_char False (sextet2 n), CHR ''='', CHR ''=''])"
| "b64_encode [a, b] =
     (let n = byte a * 65536 + byte b * 256
      in [b64_char False (sextet3 n), b64_char False (sextet2 n),
          b64_char False (sextet1 n), CHR ''=''])"
| "b64_encode (a # b # c # rest) =
     (let n = byte a * 65536 + byte b * 256 + byte c
      in [b64_char False (sextet3 n), b64_char False (sextet2 n),
          b64_char False (sextet1 n), b64_char False (sextet0 n)] @ b64_encode rest)"

definition b64_quad :: "bool \<Rightarrow> char \<Rightarrow> char \<Rightarrow> char \<Rightarrow> char \<Rightarrow> nat option" where
  "b64_quad url a b c d =
     (case (b64_val url a, b64_val url b, b64_val url c, b64_val url d) of
        (Some w, Some x, Some y, Some z) \<Rightarrow> Some (w * 262144 + x * 4096 + y * 64 + z)
      | _ \<Rightarrow> None)"

definition byte2 :: "nat \<Rightarrow> char" where "byte2 n = char_of (n div 65536 mod 256)"
definition byte1 :: "nat \<Rightarrow> char" where "byte1 n = char_of (n div 256 mod 256)"
definition byte0 :: "nat \<Rightarrow> char" where "byte0 n = char_of (n mod 256)"

text \<open>
  Decoding of whole quanta. The letter \<open>A\<close> stands for the zero sextet that the decoder
  assumes in place of missing input.
\<close>

fun b64_dec_std :: "string \<Rightarrow> bytes option" where
  "b64_dec_std [] = Some []"
| "b64_dec_std (a # b # c # d # rest) =
     (if c = CHR ''='' then
        (if d = CHR ''='' \<and> rest = []
         then map_option (\<lambda>n. [byte2 n]) (b64_quad False a b (CHR ''A'') (CHR ''A''))
         else None)
      else if d = CHR ''='' then
        (if rest = []
         then map_option (\<lambda>n. [byte2 n, byte1 n]) (b64_quad False a b c (CHR ''A''))
         else None)
      else (case (b64_quad False a b c d, b64_dec_std rest) of
              (Some n, Some bs) \<Rightarrow> Some ([byte2 n, byte1 n, byte0 n] @ bs)
            | _ \<Rightarrow> None))"
| "b64_dec_std _ = None"

fun b64_dec_raw_url :: "string \<Rightarrow> bytes option" where
  "b64_dec_raw_url [] = Some []"
| "b64_dec_raw_url [a] = None"
| "b64_dec_raw_url [a, b] =
     map_option (\<lambda>n. [byte2 n]) (b64_quad True a b (CHR ''A'') (CHR ''A''))"
| "b64_dec_raw_url [a, b, c] =
     map_option (\<lambda>n. [byte2 n, byte1 n]) (b64_quad True a b c (CHR ''A''))"
| "b64_dec_raw_url (a # b # c # d # rest) =
     (case (b64_quad True a b c d, b64_dec_raw_url rest) of
        (Some n, Some bs) \<Rightarrow> Some ([byte2 n, byte1 n, byte0 n] @ bs)
      | _ \<Rightarrow> None)"

definition is_newline :: "char \<Rightarrow> bool" where
  "is_newline c \<longleftrightarrow> byte c = 10 \<or> byte c = 13"

definition b64_decode :: "string \<Rightarrow> bytes result" where
  "b64_decode s =
     (case b64_dec_std (filter (\<lambda>c. \<not> is_newline c) s) of
        None \<Rightarrow> Inl (LibE ''illegal base64 data'') | Some bs \<Rightarrow> Inr bs)"

definition b64_raw_url_decode :: "string \<Rightarrow> bytes result" where
  "b64_raw_url_decode s =
     (case b64_dec_raw_url (filter (\<lambda>c. \<not> is_newline c) s) of
        None \<Rightarrow> Inl (LibE ''illegal base64 data'') | Some bs \<Rightarrow> Inr bs)"

section \<open>The round trip\<close>

lemma byte_char_of: "n < 256 \<Longrightarrow> byte (char_of n) = n"
  by (simp add: of_char_of)

lemma b64_val_char [simp]: "n < 64 \<Longrightarrow> b64_val url (b64_char url n) = Some n"
  by (auto simp: b64_val_def b64_char_def byte_char_of)

lemma b64_char_plain:
  "n < 64 \<Longrightarrow> \<not> is_newline (b64_char url n) \<and> b64_char url n \<noteq> CHR ''=''"
proof -
  assume n: "n < 64"
  have "byte (b64_char url n) \<noteq> 10 \<and> byte (b64_char url n) \<noteq> 13 \<and> byte (b64_char url n) \<noteq> 61"
    using n by (auto simp: b64_char_def byte_char_of)
  then show ?thesis by (auto simp: is_newline_def)
qed

lemmas b64_char_no_newline [simp] = b64_char_plain [THEN conjunct1]
lemmas b64_char_no_pad [simp] = b64_char_plain [THEN conjunct2]

lemma sextet_lt [simp]: "sextet3 n < 64" "sextet2 n < 64" "sextet1 n < 64" "sextet0 n < 64"
  by (simp_all add: sextet3_def sextet2_def sextet1_def sextet0_def)

lemma b64_val_A [simp]: "b64_val False (CHR ''A'') = Some 0"
  by (simp add: b64_val_def)

lemma sextets_join:
  assumes "n < 16777216"
  shows "sextet3 n * 262144 + sextet2 n * 4096 + sextet1 n * 64 + sextet0 n = n"
proof -
  define a where "a = n div 64"
  define b where "b = a div 64"
  define c where "c = b div 64"
  have d2: "n div 4096 = b" and d3: "n div 262144 = c"
    by (simp_all add: a_def b_def c_def div_mult2_eq [symmetric])
  have "c < 64" using assms by (simp add: a_def b_def c_def div_mult2_eq [symmetric] div_less_iff_less_mult)
  then have m: "c mod 64 = c" by simp
  have e0: "n = 64 * a + n mod 64" unfolding a_def by simp
  have e1: "a = 64 * b + a mod 64" unfolding b_def by simp
  have e2: "b = 64 * c + b mod 64" unfolding c_def by simp
  have "sextet3 n = c" "sextet2 n = b mod 64" "sextet1 n = a mod 64" "sextet0 n = n mod 64"
    by (simp_all add: sextet3_def sextet2_def sextet1_def sextet0_def d2 d3 m a_def)
  then show ?thesis using e0 e1 e2 by linarith
qed

lemma bytes_apart:
  "byte2 (byte a * 65536 + byte b * 256 + byte c) = a"
  "byte1 (byte a * 65536 + byte b * 256 + byte c) = b"
  "byte0 (byte a * 65536 + byte b * 256 + byte c) = c"
proof -
  define x y z where "x = byte a" and "y = byte b" and "z = byte c"
  have lts: "x < 256" "y < 256" "z < 256" by (simp_all add: x_def y_def z_def)
  let ?n = "x * 65536 + y * 256 + z"
  have "?n div 65536 = x" using lts by (intro div_nat_eqI) auto
  moreover have "?n div 256 = x * 256 + y" using lts by (intro div_nat_eqI) auto
  moreover have "?n = z + 256 * (x * 256 + y)" by simp
  then have "?n mod 256 = z" using lts by (metis mod_less mod_mult_self2)
  moreover have "(x * 256 + y) mod 256 = y" using lts by simp
  ultimately show "byte2 (byte a * 65536 + byte b * 256 + byte c) = a"
      "byte1 (byte a * 65536 + byte b * 256 + byte c) = b"
      "byte0 (byte a * 65536 + byte b * 256 + byte c) = c"
    using lts unfolding byte2_def byte1_def byte0_def
    unfolding x_def y_def z_def by simp_all
qed

lemma triple_lt: "byte a * 65536 + byte b * 256 + byte c < 16777216"
  using nat_of_char_less_256 [of a] nat_of_char_less_256 [of b] nat_of_char_less_256 [of c]
  by linarith

lemma b64_quad_sextets:
  "n < 16777216 \<Longrightarrow> b64_quad False (b64_char False (sextet3 n)) (b64_char False (sextet2 n))
     (b64_char False (sextet1 n)) (b64_char False (sextet0 n)) = Some n"
  using sextets_join [of n] by (simp add: b64_quad_def)

text \<open>Padding: the sextets that the encoder leaves out are zero.\<close>

lemma b64_quad_pad1:
  assumes "n < 16777216" "n mod 64 = 0"
  shows "b64_quad False (b64_char False (sextet3 n)) (b64_char False (sextet2 n))
     (b64_char False (sextet1 n)) (CHR ''A'') = Some n"
proof -
  have "sextet0 n = 0" using assms(2) by (simp add: sextet0_def)
  with sextets_join [OF assms(1)] show ?thesis by (simp add: b64_quad_def)
qed

lemma b64_quad_pad2:
  assumes "n < 16777216" "n mod 64 = 0" "n div 64 mod 64 = 0"
  shows "b64_quad False (b64_char False (sextet3 n)) (b64_char False (sextet2 n))
     (CHR ''A'') (CHR ''A'') = Some n"
proof -
  have "sextet0 n = 0" "sextet1 n = 0" using assms(2,3) by (simp_all add: sextet0_def sextet1_def)
  with sextets_join [OF assms(1)] show ?thesis by (simp add: b64_quad_def)
qed

lemma byte_nul: "byte (CHR 0x00) = 0"
  by simp

lemma one_byte_apart: "byte a * 65536 < 16777216" "byte2 (byte a * 65536) = a"
  using triple_lt [of a "CHR 0x00" "CHR 0x00"] bytes_apart(1) [of a "CHR 0x00" "CHR 0x00"]
  unfolding byte_nul mult_0 add_0_right by - assumption+

lemma two_bytes_apart:
  "byte a * 65536 + byte b * 256 < 16777216"
  "byte2 (byte a * 65536 + byte b * 256) = a"
  "byte1 (byte a * 65536 + byte b * 256) = b"
  using triple_lt [of a b "CHR 0x00"] bytes_apart(1,2) [of a b "CHR 0x00"]
  unfolding byte_nul mult_0 add_0_right by - assumption+

lemma one_byte_quantum: "(x * 65536) mod 64 = (0::nat)" "(x * 65536) div 64 mod 64 = (0::nat)"
proof -
  have "x * 65536 = 64 * (64 * (16 * x))" by simp
  then show "(x * 65536) mod 64 = 0" "(x * 65536) div 64 mod 64 = 0"
    by (metis mod_mult_self1_is_0, metis mod_mult_self1_is_0 nonzero_mult_div_cancel_left
        zero_neq_numeral)
qed

lemma two_byte_quantum: "(x * 65536 + y * 256) mod 64 = (0::nat)"
proof -
  have "x * 65536 + y * 256 = 64 * (1024 * x + 4 * y)" by simp
  then show ?thesis by (simp only: mod_mult_self1_is_0)
qed

lemma b64_dec_std_encode: "b64_dec_std (b64_encode s) = Some s"
proof (induction s rule: b64_encode.induct)
  case (2 a)
  show ?case
    by (simp add: Let_def b64_quad_pad2 one_byte_quantum one_byte_apart)
next
  case (3 a b)
  show ?case
    by (simp add: Let_def b64_quad_pad1 two_byte_quantum two_bytes_apart)
next
  case (4 a b c rest)
  then show ?case
    by (simp add: Let_def b64_quad_sextets [OF triple_lt] bytes_apart)
qed simp

lemma pad_not_newline [simp]: "\<not> is_newline (CHR ''='')"
  by (simp add: is_newline_def)

lemma b64_encode_no_newline: "filter (\<lambda>c. \<not> is_newline c) (b64_encode s) = b64_encode s"
  by (induction s rule: b64_encode.induct) (simp_all add: Let_def)

lemma b64_decode_encode [simp]: "b64_decode (b64_encode s) = Inr s"
  by (simp add: b64_decode_def b64_encode_no_newline b64_dec_std_encode)

end
