(* ===== verification/DbOps.thy ===== *)
theory DbOps
  imports External Base64
begin

text \<open>
  The operations of \<open>service/db\<close> on tasks, consignments and scheduled runs. Each returns its
  answer and the next world. The read lock that brackets every query (\<open>gSessionMutex\<close>) is
  the subject of \<open>SessionLock\<close>.
\<close>

section \<open>Dates as text\<close>

definition pad_nat :: "nat \<Rightarrow> nat \<Rightarrow> string" where
  "pad_nat width n = (let s = show_nat n in replicate (width - length s) (CHR ''0'') @ s)"

definition pad_int :: "nat \<Rightarrow> int \<Rightarrow> string" where
  "pad_int width i = (if i < 0 then CHR ''-'' # pad_nat width (nat (- i)) else pad_nat width (nat i))"

definition month_names :: "string list" where
  "month_names = [''Jan'', ''Feb'', ''Mar'', ''Apr'', ''May'', ''Jun'', ''Jul'', ''Aug'', ''Sep'',
     ''Oct'', ''Nov'', ''Dec'']"

definition civil_ok :: "civil \<Rightarrow> bool" where
  "civil_ok c \<longleftrightarrow> 1 \<le> cv_Month c \<and> cv_Month c \<le> 12 \<and> 1 \<le> cv_Day c \<and> cv_Day c \<le> 31
     \<and> cv_Hour c < 24 \<and> cv_Minute c < 60 \<and> cv_Second c < 60 \<and> cv_Nanosecond c < 1000000000"

text \<open>\<open>instant.Format("2006-Jan-02")\<close>.\<close>

definition format_partition :: "civil \<Rightarrow> string" where
  "format_partition c =
     pad_int 4 (cv_Year c) @ ''-'' @ month_names ! (cv_Month c - 1) @ ''-'' @ pad_nat 2 (cv_Day c)"

definition GetRunPartition :: "lib \<Rightarrow> gotime \<Rightarrow> string" where
  "GetRunPartition L instant = format_partition (lib_civil L instant)"

section \<open>Tasks as messages\<close>

definition setUuidFromString :: "lib \<Rightarrow> string \<Rightarrow> uuid \<times> go_error option" where
  "setUuidFromString L uuidString =
     (let s = (if uuidString = BroadcastDeviceID then BroadcastDeviceUuid else uuidString)
      in case lib_ParseUUID L s of
           None \<Rightarrow> (0, Some (LibE ''invalid UUID''))
         | Some u \<Rightarrow> (u, None))"

definition NewTask :: "lib \<Rightarrow> string \<Rightarrow> string \<Rightarrow> string \<Rightarrow> bytes option \<Rightarrow> task \<times> go_error option"
where
  "NewTask L tenantID deviceID consignmentID taskDetails =
     (case setUuidFromString L deviceID of (u, err) \<Rightarrow>
        (zero_task\<lparr>tk_TenantID := tenantID, tk_ConsignmentID := consignmentID, tk_RetryCount := 0,
           tk_TaskDetails := taskDetails, tk_DeviceID := u\<rparr>, err))"

definition service_message_of :: "lib \<Rightarrow> task \<Rightarrow> service_message" where
  "service_message_of L t =
     \<lparr>sm_Version = 1, sm_ServiceId = tk_ServiceID t, sm_DeviceId = lib_uuid_String L (tk_DeviceID t),
      sm_TaskId = lib_uuid_String L (tk_TaskID t), sm_TenantId = tk_TenantID t,
      sm_MessageId = tk_MessageId t, sm_MessageType = tk_MessageType t,
      sm_Payload = tk_TaskDetails t\<rparr>"

definition MarshalServiceMessage :: "lib \<Rightarrow> task \<Rightarrow> string result" where
  "MarshalServiceMessage L t =
     (case lib_marshal_service_message L (service_message_of L t) of
        Inl e \<Rightarrow> Inl e
      | Inr payload \<Rightarrow> Inr (b64_encode payload))"

definition UnmarshallServiceMessage :: "lib \<Rightarrow> string \<Rightarrow> (service_message \<times> bytes) result" where
  "UnmarshallServiceMessage L packet =
     (case b64_decode packet of
        Inl e \<Rightarrow> Inl e
      | Inr packetBytes \<Rightarrow>
          (case lib_unmarshal_service_message L packetBytes of
             Inl e \<Rightarrow> Inl e
           | Inr m \<Rightarrow> Inr (m, packetBytes)))"

section \<open>Consignments\<close>

definition CreateConsignment ::
  "lib \<Rightarrow> 'w ext \<Rightarrow> consignment \<Rightarrow> 'w \<Rightarrow> go_error option \<times> 'w" where
  "CreateConsignment L X c w =
     (if \<not> lib_uuid_Parse L (cn_TenantID c) then (Some (DbE DbErrInvalidRequest), w)
      else if cn_ConsignmentID c = [] then (Some (DbE DbErrInvalidRequest), w)
      else x_exec X (Bound (st_insert createConsignmentStatements) (RowConsignment c)) w)"

definition update_consignment_text :: string where
  "update_consignment_text =
     ''UPDATE consignments SET status=? WHERE tenant_id=? AND consignment_id=? AND task_id=?''"

definition UpdateConsignmentTaskStatus ::
  "'w ext \<Rightarrow> string \<Rightarrow> string \<Rightarrow> string \<Rightarrow> task_status \<Rightarrow> 'w \<Rightarrow> go_error option \<times> 'w" where
  "UpdateConsignmentTaskStatus X tenantID consignmentID taskID status =
     x_exec X (CqlText update_consignment_text
       [status_String status, tenantID, consignmentID, taskID])"

definition itemsPerPage :: int where "itemsPerPage = 100"

text \<open>
  The page size asked for is computed but the query is given \<open>itemsPerPage\<close>.
\<close>

definition GetTasksForConsignment ::
  "'w ext \<Rightarrow> string \<Rightarrow> string \<Rightarrow> bytes \<Rightarrow> int \<Rightarrow> 'w \<Rightarrow> (consignment list \<times> bytes) result \<times> 'w" where
  "GetTasksForConsignment X tenantID consignmentID startPage pageSize w =
     (if consignmentID = [] then (Inl (DbE DbErrInvalidRequest), w)
      else
        let pageSize = (if pageSize = 0 then itemsPerPage else pageSize)
        in x_page_consignments X (md_Name consignmentsMetadata)
             [Eq ''tenant_id'' tenantID, Eq ''consignment_id'' consignmentID]
             startPage itemsPerPage w)"

section \<open>Tasks\<close>

definition CreateTask :: "lib \<Rightarrow> 'w ext \<Rightarrow> task \<Rightarrow> 'w \<Rightarrow> (task \<times> go_error option) \<times> 'w" where
  "CreateTask L X t w =
     (if \<not> lib_uuid_Parse L (tk_TenantID t) then ((t, Some (DbE DbErrInvalidRequest)), w)
      else if tk_TaskDetails t = None then ((t, Some (DbE DbErrInvalidRequest)), w)
      else case x_time_uuid X w of (u, w1) \<Rightarrow>
        case x_now X w1 of (now, w2) \<Rightarrow>
          let t1 = t\<lparr>tk_TaskID := u, tk_CreateTime := now, tk_Status := taskStatusQueued,
                     tk_RetryCount := 0\<rparr>
          in case x_exec X (Bound (st_insert createTaskStatements) (RowTask t1)) w2 of
               (Some e, w3) \<Rightarrow> ((t1, Some e), w3)
             | (None, w3) \<Rightarrow>
                 (case CreateConsignment L X (NewConsignmentFromTask t1) w3 of
                    (r, w4) \<Rightarrow> ((t1, r), w4)))"

definition GetTasksForDeviceID :: "'w ext \<Rightarrow> string \<Rightarrow> 'w \<Rightarrow> task list result \<times> 'w" where
  "GetTasksForDeviceID X deviceID w =
     (if deviceID = [] then (Inl (DbE DbErrInvalidRequest), w)
      else x_select_tasks X (md_Name taskMetadata) [EqLit ''device_id'' deviceID] w)"

definition GetTaskByID :: "lib \<Rightarrow> 'w ext \<Rightarrow> string \<Rightarrow> string \<Rightarrow> 'w \<Rightarrow> task result \<times> 'w" where
  "GetTaskByID L X taskID deviceID w =
     (if \<not> lib_uuid_Parse L deviceID then (Inl (DbE DbErrInvalidRequest), w)
      else if taskID = [] then (Inl (DbE DbErrInvalidRequest), w)
      else case x_select_tasks X (md_Name taskMetadata)
                  [EqLit ''device_id'' deviceID, EqLit ''task_id'' taskID] w of
             (Inl e, w1) \<Rightarrow> (Inl e, w1)
           | (Inr [], w1) \<Rightarrow> (Inl (DbE ErrNotFound), w1)
           | (Inr (t # _), w1) \<Rightarrow> (Inr t, w1))"

definition RemoveTask :: "lib \<Rightarrow> 'w ext \<Rightarrow> string \<Rightarrow> string \<Rightarrow> 'w \<Rightarrow> go_error option \<times> 'w" where
  "RemoveTask L X taskID deviceID w =
     (case lib_ParseUUID L taskID of
        None \<Rightarrow> (Some (DbE DbErrInvalidRequest), w)
      | Some parsedTaskID \<Rightarrow>
          (case lib_ParseUUID L deviceID of
             None \<Rightarrow> (Some (DbE DbErrInvalidRequest), w)
           | Some parsedDeviceID \<Rightarrow>
               x_exec X (Bound (st_delete createTaskStatements)
                 (RowTask (zero_task\<lparr>tk_TaskID := parsedTaskID, tk_DeviceID := parsedDeviceID\<rparr>))) w))"

definition update_task_text :: string where
  "update_task_text = ''UPDATE tasks SET status=? WHERE device_id=? AND task_id=?''"

definition setTaskStatus ::
  "'w ext \<Rightarrow> string \<Rightarrow> string \<Rightarrow> task_status \<Rightarrow> 'w \<Rightarrow> go_error option \<times> 'w" where
  "setTaskStatus X taskID deviceID status =
     x_exec X (CqlText update_task_text [status_String status, deviceID, taskID])"

definition UpdateTaskStatus ::
  "'w ext \<Rightarrow> string \<Rightarrow> string \<Rightarrow> string \<Rightarrow> string \<Rightarrow> task_status \<Rightarrow> 'w \<Rightarrow> go_error option \<times> 'w" where
  "UpdateTaskStatus X taskID deviceID tenantID consignmentID status w =
     (case setTaskStatus X taskID deviceID status w of
        (Some e, w1) \<Rightarrow> (Some e, w1)
      | (None, w1) \<Rightarrow> UpdateConsignmentTaskStatus X tenantID consignmentID taskID status w1)"

definition MarkTaskDispatched :: "'w ext \<Rightarrow> service_message \<Rightarrow> 'w \<Rightarrow> go_error option \<times> 'w" where
  "MarkTaskDispatched X taskinfo w =
     (if sm_DeviceId taskinfo = [] \<or> sm_TaskId taskinfo = []
      then (Some (DbE DbErrInvalidRequest), w)
      else setTaskStatus X (sm_TaskId taskinfo) (sm_DeviceId taskinfo) TaskStatusDispatched w)"

definition MarkTaskComplete :: "lib \<Rightarrow> 'w ext \<Rightarrow> task \<Rightarrow> 'w \<Rightarrow> go_error option \<times> 'w" where
  "MarkTaskComplete L X t =
     UpdateTaskStatus X (lib_uuid_String L (tk_TaskID t)) (lib_uuid_String L (tk_DeviceID t))
       (tk_TenantID t) (tk_ConsignmentID t) TaskStatusCompleted"

definition MarkTaskFailed :: "lib \<Rightarrow> 'w ext \<Rightarrow> task \<Rightarrow> 'w \<Rightarrow> go_error option \<times> 'w" where
  "MarkTaskFailed L X t =
     UpdateTaskStatus X (lib_uuid_String L (tk_TaskID t)) (lib_uuid_String L (tk_DeviceID t))
       (tk_TenantID t) (tk_ConsignmentID t) TaskStatusFailed"

section \<open>Scheduled runs\<close>

definition CreateScheduledRun ::
  "lib \<Rightarrow> 'w ext \<Rightarrow> scheduled_run \<Rightarrow> 'w \<Rightarrow> (scheduled_run \<times> go_error option) \<times> 'w" where
  "CreateScheduledRun L X s w =
     (let s1 = s\<lparr>sr_RunPartition := GetRunPartition L (sr_NextRun s)\<rparr>
      in case x_exec X (Bound (st_insert createScheduledRunStatements) (RowRun s1)) w of
           (r, w1) \<Rightarrow> ((s1, r), w1))"

definition GetScheduledRuns ::
  "'w ext \<Rightarrow> string \<Rightarrow> bytes \<Rightarrow> 'w \<Rightarrow> (scheduled_run list \<times> bytes) result \<times> 'w" where
  "GetScheduledRuns X runPartition startPage w =
     (if runPartition = [] then (Inl (DbE DbErrInvalidRequest), w)
      else x_page_runs X (md_Name scheduledRunMetadata) [Eq ''run_partition'' runPartition]
             startPage itemsPerPage w)"

section \<open>Registered services\<close>

definition CreateRegisteredService ::
  "'w ext \<Rightarrow> registered_service \<Rightarrow> 'w \<Rightarrow> go_error option \<times> 'w" where
  "CreateRegisteredService X s w =
     (if rs_ServiceID s = [] then (Some (DbE DbErrInvalidRequest), w)
      else x_exec X (Bound (st_insert createRegisteredServiceStatements) (RowService s)) w)"

definition GetRegisteredService ::
  "'w ext \<Rightarrow> string \<Rightarrow> 'w \<Rightarrow> registered_service result \<times> 'w" where
  "GetRegisteredService X serviceID w =
     (if serviceID = [] then (Inl (DbE DbErrInvalidRequest), w)
      else case x_select_services X (md_Name registeredServicesMetadata)
                  [Eq ''service_id'' serviceID] w of
             (Inl e, w1) \<Rightarrow> (Inl e, w1)
           | (Inr [], w1) \<Rightarrow> (Inl (DbE ErrNotFound), w1)
           | (Inr (s # _), w1) \<Rightarrow> (Inr s, w1))"

definition ListRegisteredServices :: "'w ext \<Rightarrow> 'w \<Rightarrow> registered_service list result \<times> 'w" where
  "ListRegisteredServices X = x_select_services X (md_Name registeredServicesMetadata) []"

lemmas db_defs [handler_defs] = CreateConsignment_def UpdateConsignmentTaskStatus_def
  CreateTask_def GetTaskByID_def RemoveTask_def setTaskStatus_def UpdateTaskStatus_def
  MarkTaskDispatched_def MarkTaskComplete_def MarkTaskFailed_def CreateScheduledRun_def
  GetScheduledRuns_def CreateRegisteredService_def GetRegisteredService_def
  ListRegisteredServices_def GetTasksForConsignment_def

end
