(* ===== verification/ServiceDispatch.thy ===== *)
theory ServiceDispatch
  imports DbOps
begin

text \<open>
  \<open>service/db/service_dispatch.go\<close>: the two lookup tables that \<open>db.Init\<close> fills once and that
  every message handler reads. The package variables are the fields of \<open>db_vars\<close>. The locale
  \<open>service_router\<close> states what the handlers rely on; it is interpreted on the tables the code
  builds.
\<close>

record db_vars =
  serviceDispatchTable :: "string \<rightharpoonup> string"
  serviceConfigTable :: "string \<rightharpoonup> registered_service"

section \<open>Operations\<close>

definition dispatch_key :: "string \<Rightarrow> string \<Rightarrow> string" where
  "dispatch_key serviceID mqttTopic = serviceID @ ''::'' @ mqttTopic"

definition build_config_table :: "registered_service list \<Rightarrow> string \<rightharpoonup> registered_service" where
  "build_config_table services =
     foldl (\<lambda>m s. m(rs_ServiceID s \<mapsto> s)) Map.empty services"

definition add_topics :: "(string \<rightharpoonup> string) \<Rightarrow> registered_service \<Rightarrow> (string \<rightharpoonup> string)" where
  "add_topics m s = foldl (\<lambda>m (k, v). m(dispatch_key (rs_ServiceID s) k \<mapsto> v)) m (rs_Topics s)"

definition build_dispatch_table :: "registered_service list \<Rightarrow> string \<rightharpoonup> string" where
  "build_dispatch_table services = foldl add_topics Map.empty services"

definition build_tables :: "registered_service list \<Rightarrow> db_vars" where
  "build_tables services =
     \<lparr>serviceDispatchTable = build_dispatch_table services,
      serviceConfigTable = build_config_table services\<rparr>"

text \<open>The first loop of \<open>initServiceDispatchLookupTable\<close>: register what is missing.\<close>

fun register_services ::
  "'w ext \<Rightarrow> service_registration list \<Rightarrow> 'w \<Rightarrow> go_error option \<times> 'w" where
  "register_services X [] w = (None, w)"
| "register_services X (service # rest) w =
     (case GetRegisteredService X (reg_ServiceId service) w of
        (Inl (DbE ErrNotFound), w1) \<Rightarrow>
          (case CreateRegisteredService X (NewRegisteredService service) w1 of
             (Some e, w2) \<Rightarrow> (Some e, w2)
           | (None, w2) \<Rightarrow> register_services X rest w2)
      | (_, w1) \<Rightarrow> register_services X rest w1)"

definition initServiceDispatchLookupTable ::
  "'w ext \<Rightarrow> service_registration list \<Rightarrow> db_vars \<Rightarrow> 'w \<Rightarrow> (go_error option \<times> db_vars) \<times> 'w" where
  "initServiceDispatchLookupTable X serviceRegistrations v w =
     (case register_services X serviceRegistrations w of
        (Some e, w1) \<Rightarrow> ((Some e, v), w1)
      | (None, w1) \<Rightarrow>
          (case ListRegisteredServices X w1 of
             (Inl e, w2) \<Rightarrow> ((Some e, v), w2)
           | (Inr services, w2) \<Rightarrow> ((None, build_tables services), w2)))"

definition GetServiceQueueTopic :: "db_vars \<Rightarrow> string \<Rightarrow> string \<Rightarrow> string" where
  "GetServiceQueueTopic v serviceID mqttTopic =
     (case serviceDispatchTable v (dispatch_key serviceID mqttTopic) of
        None \<Rightarrow> [] | Some queueTopic \<Rightarrow> queueTopic)"

definition IsValidServiceId :: "db_vars \<Rightarrow> string \<Rightarrow> bool" where
  "IsValidServiceId v serviceID \<longleftrightarrow> serviceConfigTable v serviceID \<noteq> None"

definition GetServiceConfig :: "db_vars \<Rightarrow> string \<Rightarrow> registered_service option" where
  "GetServiceConfig v serviceID = serviceConfigTable v serviceID"

section \<open>The routing contract\<close>

text \<open>
  The reference behaviour: a service is found by its identifier, a topic in the topics of that
  service. It needs that a key determines its two parts, which holds when registered
  identifiers and topics contain no colon.
\<close>

definition no_colon :: "string \<Rightarrow> bool" where
  "no_colon s \<longleftrightarrow> CHR '':'' \<notin> set s"

definition service_wf :: "registered_service \<Rightarrow> bool" where
  "service_wf s \<longleftrightarrow> no_colon (rs_ServiceID s) \<and> distinct (map fst (rs_Topics s))
     \<and> list_all (\<lambda>(t, q). no_colon t \<and> q \<noteq> []) (rs_Topics s)"

definition services_wf :: "registered_service list \<Rightarrow> bool" where
  "services_wf S \<longleftrightarrow> distinct (map rs_ServiceID S) \<and> list_all service_wf S"

definition find_service :: "registered_service list \<Rightarrow> string \<Rightarrow> registered_service option" where
  "find_service S sid = find (\<lambda>s. rs_ServiceID s = sid) S"

definition spec_route :: "registered_service list \<Rightarrow> string \<Rightarrow> string \<Rightarrow> string" where
  "spec_route S sid topic =
     (case find_service S sid of
        None \<Rightarrow> []
      | Some s \<Rightarrow> (case map_of (rs_Topics s) topic of None \<Rightarrow> [] | Some q \<Rightarrow> q))"

locale service_router =
  fixes build :: "registered_service list \<Rightarrow> 'st"
    and route :: "'st \<Rightarrow> string \<Rightarrow> string \<Rightarrow> string"
    and known :: "'st \<Rightarrow> string \<Rightarrow> bool"
    and account :: "'st \<Rightarrow> string \<Rightarrow> registered_service option"
  assumes account_build: "distinct (map rs_ServiceID S) \<Longrightarrow> account (build S) sid = find_service S sid"
    and known_account: "known st sid \<longleftrightarrow> account st sid \<noteq> None"
    and route_build: "services_wf S \<Longrightarrow> route (build S) sid topic = spec_route S sid topic"
begin

lemma known_build:
  "services_wf S \<Longrightarrow> known (build S) sid \<longleftrightarrow> sid \<in> rs_ServiceID ` set S"
  by (auto simp: known_account account_build services_wf_def find_service_def find_None_iff)

lemma routed_known:
  assumes "services_wf S" "route (build S) sid topic \<noteq> []"
  shows "known (build S) sid"
  using assms
  by (auto simp: known_account account_build route_build spec_route_def services_wf_def
      split: option.splits)

lemma routed_account:
  assumes "services_wf S" "route (build S) sid topic \<noteq> []"
  shows "\<exists>s \<in> set S. account (build S) sid = Some s \<and> rs_ServiceID s = sid
           \<and> (topic, route (build S) sid topic) \<in> set (rs_Topics s)"
proof -
  from routed_known [OF assms] obtain s where s: "account (build S) sid = Some s"
    by (auto simp: known_account)
  then have f: "find_service S sid = Some s"
    using assms(1) by (simp add: account_build services_wf_def)
  then have m: "s \<in> set S" "rs_ServiceID s = sid"
    by (auto simp: find_service_def find_Some_iff)
  have "(topic, route (build S) sid topic) \<in> set (rs_Topics s)"
    using assms f by (auto simp: route_build spec_route_def dest: map_of_SomeD split: option.splits)
  with m s show ?thesis by blast
qed

end

section \<open>Facts about the tables\<close>

lemma no_colon_append [simp]: "no_colon (s @ t) \<longleftrightarrow> no_colon s \<and> no_colon t"
  by (auto simp: no_colon_def)

lemma no_colon_count: "no_colon s \<longleftrightarrow> count_list s (CHR '':'') = 0"
  by (auto simp: no_colon_def count_list_0_iff)

lemma dispatch_key_inj:
  assumes "no_colon sid" "no_colon topic"
  shows "dispatch_key s t = dispatch_key sid topic \<longleftrightarrow> s = sid \<and> t = topic"
proof
  assume eq: "dispatch_key s t = dispatch_key sid topic"
  have "count_list (dispatch_key s t) (CHR '':'') = 2 + count_list s (CHR '':'') + count_list t (CHR '':'')"
    by (simp add: dispatch_key_def)
  moreover have "count_list (dispatch_key sid topic) (CHR '':'') = 2"
    using assms by (simp add: dispatch_key_def no_colon_count)
  ultimately have s: "no_colon s" and "no_colon t"
    using eq by (auto simp: no_colon_count)
  have "takeWhile (\<lambda>c. c \<noteq> CHR '':'') (dispatch_key s t) = s"
    using s unfolding dispatch_key_def no_colon_def by (simp add: takeWhile_append)
  moreover have "takeWhile (\<lambda>c. c \<noteq> CHR '':'') (dispatch_key sid topic) = sid"
    using assms unfolding dispatch_key_def no_colon_def by (simp add: takeWhile_append)
  ultimately have "s = sid" using eq by metis
  with eq show "s = sid \<and> t = topic" by (simp add: dispatch_key_def)
qed simp

lemma build_config_table_snoc:
  "build_config_table (S @ [s]) = (build_config_table S)(rs_ServiceID s \<mapsto> s)"
  by (simp add: build_config_table_def)

lemma build_dispatch_table_snoc:
  "build_dispatch_table (S @ [s]) = add_topics (build_dispatch_table S) s"
  by (simp add: build_dispatch_table_def)

lemma find_service_snoc:
  "find_service (S @ [s]) sid =
     (case find_service S sid of None \<Rightarrow> if rs_ServiceID s = sid then Some s else None
      | Some x \<Rightarrow> Some x)"
  by (induction S) (auto simp: find_service_def)

lemma find_service_in: "find_service S sid = Some s \<Longrightarrow> s \<in> set S \<and> rs_ServiceID s = sid"
  by (auto simp: find_service_def find_Some_iff)

lemma find_service_None: "find_service S sid = None \<longleftrightarrow> sid \<notin> rs_ServiceID ` set S"
  by (auto simp: find_service_def find_None_iff)

lemma build_config_table_spec:
  "distinct (map rs_ServiceID S) \<Longrightarrow> build_config_table S sid = find_service S sid"
proof (induction S rule: rev_induct)
  case Nil
  then show ?case by (simp add: build_config_table_def find_service_def)
next
  case (snoc s S)
  then have "find_service S (rs_ServiceID s) = None" by (simp add: find_service_None)
  with snoc show ?case
    by (auto simp: build_config_table_snoc find_service_snoc split: option.splits)
qed

lemma foldl_topics:
  assumes "no_colon sid" "list_all (\<lambda>(t, q). no_colon t) ts" "distinct (map fst ts)"
  shows "foldl (\<lambda>m (k, v). m(dispatch_key sid k \<mapsto> v)) m ts (dispatch_key s t) =
    (if s = sid \<and> map_of ts t \<noteq> None then map_of ts t else m (dispatch_key s t))"
  using assms(2,3)
proof (induction ts arbitrary: m)
  case Nil
  then show ?case by simp
next
  case (Cons kv ts)
  obtain k v where kv: "kv = (k, v)" by fastforce
  with Cons.prems have "no_colon k" and fresh: "map_of ts k = None"
    by (auto simp: map_of_eq_None_iff)
  then have "dispatch_key s t = dispatch_key sid k \<longleftrightarrow> s = sid \<and> t = k"
    using assms(1) by (simp add: dispatch_key_inj)
  with Cons fresh kv show ?case by auto
qed

lemma add_topics_spec:
  assumes "service_wf s"
  shows "add_topics m s (dispatch_key sid t) =
    (if sid = rs_ServiceID s \<and> map_of (rs_Topics s) t \<noteq> None
     then map_of (rs_Topics s) t else m (dispatch_key sid t))"
proof -
  have "list_all (\<lambda>(t, q). no_colon t) (rs_Topics s)"
    using assms by (auto simp: service_wf_def list_all_iff)
  with assms show ?thesis
    unfolding add_topics_def by (intro foldl_topics) (auto simp: service_wf_def)
qed

lemma build_dispatch_table_spec:
  "services_wf S \<Longrightarrow> build_dispatch_table S (dispatch_key sid t) =
     Option.bind (find_service S sid) (\<lambda>s. map_of (rs_Topics s) t)"
proof (induction S rule: rev_induct)
  case Nil
  then show ?case by (simp add: build_dispatch_table_def find_service_def)
next
  case (snoc s S)
  then have fresh: "find_service S (rs_ServiceID s) = None"
    and wf: "service_wf s" "services_wf S"
    by (auto simp: services_wf_def find_service_None)
  show ?case
    using snoc.IH [OF wf(2)] fresh wf(1)
    by (auto simp: build_dispatch_table_snoc find_service_snoc add_topics_spec
        split: option.splits)
qed

lemma build_tables_sel [simp]:
  "serviceDispatchTable (build_tables S) = build_dispatch_table S"
  "serviceConfigTable (build_tables S) = build_config_table S"
  by (simp_all add: build_tables_def)

interpretation sd: service_router build_tables GetServiceQueueTopic IsValidServiceId GetServiceConfig
proof unfold_locales
  fix S :: "registered_service list" and sid
  assume "distinct (map rs_ServiceID S)"
  then show "GetServiceConfig (build_tables S) sid = find_service S sid"
    by (simp add: GetServiceConfig_def build_config_table_spec)
next
  fix S :: "registered_service list" and sid topic
  assume "services_wf S"
  then show "GetServiceQueueTopic (build_tables S) sid topic = spec_route S sid topic"
    by (simp add: GetServiceQueueTopic_def spec_route_def build_dispatch_table_spec
        split: option.splits)
qed (simp add: IsValidServiceId_def GetServiceConfig_def)

section \<open>Properties\<close>

text \<open>
  C17: when the registered identifiers and topics contain no colon, the
  tables that the code builds route a message for any service and any MQTT topic exactly as
  the registrations of that service say, and never to the queue of another service.
\<close>

theorem dispatch_routes_exactly:
  assumes "services_wf S"
  shows "GetServiceQueueTopic (build_tables S) sid topic = spec_route S sid topic
    \<and> (IsValidServiceId (build_tables S) sid \<longleftrightarrow> sid \<in> rs_ServiceID ` set S)
    \<and> (GetServiceQueueTopic (build_tables S) sid topic \<noteq> [] \<longrightarrow>
        (\<exists>s \<in> set S. GetServiceConfig (build_tables S) sid = Some s \<and> rs_ServiceID s = sid
           \<and> (topic, GetServiceQueueTopic (build_tables S) sid topic) \<in> set (rs_Topics s)))"
  using assms sd.route_build sd.known_build sd.routed_account by meson

definition sample_services :: "registered_service list" where
  "sample_services =
     [\<lparr>rs_ServiceID = ''fs'', rs_Name = ''files'', rs_OwnerAwsAccount = ''1'',
       rs_Topics = [(''upload'', ''fs-queue'')]\<rparr>,
      \<lparr>rs_ServiceID = ''dcm'', rs_Name = ''config'', rs_OwnerAwsAccount = ''2'',
       rs_Topics = [(''config_task'', ''dcm-queue''), (''upload'', ''dcm-upload'')]\<rparr>]"

lemma sample_services_wf: "services_wf sample_services"
  by (simp add: services_wf_def service_wf_def sample_services_def no_colon_def)

lemma dispatch_routes_exactly_witness:
  "GetServiceQueueTopic (build_tables sample_services) ''dcm'' ''upload'' = ''dcm-upload''"
  using dispatch_routes_exactly [OF sample_services_wf, of "''dcm''" "''upload''"]
  by (simp add: sample_services_def spec_route_def find_service_def)

text \<open>
  Without that condition the routing is not exact: a service whose
  identifier ends in another's identifier and a separator takes over its messages, because the
  key of the table is the text \<open>service::topic\<close>.
\<close>

theorem dispatch_key_collision:
  "\<exists>S sid topic. distinct (map rs_ServiceID S)
     \<and> list_all (\<lambda>s. distinct (map fst (rs_Topics s))) S
     \<and> GetServiceQueueTopic (build_tables S) sid topic \<noteq> spec_route S sid topic"
proof (intro exI conjI)
  let ?S = "[\<lparr>rs_ServiceID = ''a'', rs_Name = [], rs_OwnerAwsAccount = [],
               rs_Topics = [(''b::t'', ''queue-a'')]\<rparr>,
             \<lparr>rs_ServiceID = ''a::b'', rs_Name = [], rs_OwnerAwsAccount = [],
               rs_Topics = [(''t'', ''queue-ab'')]\<rparr>]"
  show "GetServiceQueueTopic (build_tables ?S) ''a'' ''b::t'' \<noteq> spec_route ?S ''a'' ''b::t''"
    by (simp add: GetServiceQueueTopic_def build_dispatch_table_def add_topics_def
        dispatch_key_def spec_route_def find_service_def)
qed simp_all

end
