(* ===== verification/Durations.thy ===== *)
theory Durations
  imports GoStd
begin

text \<open>
  \<open>time.ParseDuration\<close>: a signed sequence of decimal numbers with units. The unsigned
  accumulators are 64 bits wide, so sums are taken modulo \<open>2 ^ 64\<close>. The nanoseconds of a
  decimal fraction are computed by Go in floating point: the argument \<open>frac f digits unit\<close>
  stands for \<open>uint64(float64(f) * (float64(unit) / scale))\<close> with \<open>scale = 10 ^ digits\<close>.
\<close>

type_synonym frac_fn = "nat \<Rightarrow> nat \<Rightarrow> nat \<Rightarrow> nat"

definition two63 :: nat where "two63 = 2 ^ 63"
definition two64 :: nat where "two64 = 2 ^ 64"

definition nanosecond :: int where "nanosecond = 1"
definition microsecond :: int where "microsecond = 1000"
definition millisecond :: int where "millisecond = 1000000"
definition second :: int where "second = 1000000000"
definition minute :: int where "minute = 60000000000"
definition hour :: int where "hour = 3600000000000"

definition unit_ns :: "string \<Rightarrow> nat option" where
  "unit_ns u =
     (if u = ''ns'' then Some 1
      else if u = ''us'' then Some 1000
      else if u = [CHR 0xC2, CHR 0xB5, CHR ''s''] then Some 1000
      else if u = [CHR 0xCE, CHR 0xBC, CHR ''s''] then Some 1000
      else if u = ''ms'' then Some 1000000
      else if u = ''s'' then Some 1000000000
      else if u = ''m'' then Some 60000000000
      else if u = ''h'' then Some 3600000000000
      else None)"

text \<open>\<open>leadingInt\<close>: the value of the leading digits and the rest; \<open>None\<close> on overflow.\<close>

fun leading_int :: "nat \<Rightarrow> string \<Rightarrow> (nat \<times> string) option" where
  "leading_int x [] = Some (x, [])"
| "leading_int x (c # cs) =
     (if \<not> is_digit c then Some (x, c # cs)
      else if x > two63 div 10 then None
      else let y = 10 * x + digit_val c in if y > two63 then None else leading_int y cs)"

text \<open>
  \<open>leadingFraction\<close>: the digits are all consumed; once the value would overflow, further
  digits are dropped. The result is the value, how many digits it counts, and the rest.
\<close>

fun leading_fraction :: "bool \<Rightarrow> nat \<Rightarrow> nat \<Rightarrow> string \<Rightarrow> nat \<times> nat \<times> string" where
  "leading_fraction ov x k [] = (x, k, [])"
| "leading_fraction ov x k (c # cs) =
     (if \<not> is_digit c then (x, k, c # cs)
      else if ov then leading_fraction ov x k cs
      else if x > (two63 - 1) div 10 then leading_fraction True x k cs
      else let y = 10 * x + digit_val c
           in if y > two63 then leading_fraction True x k cs else leading_fraction ov y (Suc k) cs)"

definition unit_char :: "char \<Rightarrow> bool" where
  "unit_char c \<longleftrightarrow> c \<noteq> CHR ''.'' \<and> \<not> is_digit c"

text \<open>One term of the sum: its nanoseconds and the rest of the text.\<close>

definition duration_term :: "frac_fn \<Rightarrow> string \<Rightarrow> (nat \<times> string) option" where
  "duration_term frac s =
     (if s = [] \<or> \<not> (hd s = CHR ''.'' \<or> is_digit (hd s)) then None else
      case leading_int 0 s of
        None \<Rightarrow> None
      | Some (v, s1) \<Rightarrow>
          let pre = (length s1 \<noteq> length s);
              has_dot = (s1 \<noteq> [] \<and> hd s1 = CHR ''.'');
              fr = (if has_dot then leading_fraction False 0 0 (tl s1) else (0, 0, s1));
              f = fst fr; digits = fst (snd fr); s2 = snd (snd fr);
              post = (has_dot \<and> length s2 \<noteq> length (tl s1));
              u = takeWhile unit_char s2;
              s3 = dropWhile unit_char s2
          in if \<not> pre \<and> \<not> post then None
             else if u = [] then None
             else case unit_ns u of
                    None \<Rightarrow> None
                  | Some unit \<Rightarrow>
                      if v > two63 div unit then None
                      else let w = v * unit + (if f > 0 then frac f digits unit else 0)
                           in if f > 0 \<and> w > two63 then None else Some (w, s3))"

lemma leading_int_length: "leading_int x s = Some (v, t) \<Longrightarrow> length t \<le> length s"
  by (induction x s rule: leading_int.induct) (auto simp: Let_def split: if_splits)

lemma leading_fraction_length: "length (snd (snd (leading_fraction ov x k s))) \<le> length s"
  by (induction s arbitrary: ov x k) (auto simp: Let_def intro: le_SucI)

lemma duration_term_shorter:
  assumes "duration_term frac s = Some (w, t)"
  shows "length t < length s"
proof -
  obtain v s1 where l: "leading_int 0 s = Some (v, s1)"
    using assms by (auto simp: duration_term_def split: if_splits option.splits)
  define s2 where "s2 = (if s1 \<noteq> [] \<and> hd s1 = CHR ''.''
    then snd (snd (leading_fraction False 0 0 (tl s1))) else s1)"
  have "length s2 \<le> length s1"
    using leading_fraction_length [of False 0 0 "tl s1"] by (auto simp: s2_def)
  moreover have "length s1 \<le> length s" using leading_int_length [OF l] .
  moreover have u: "takeWhile unit_char s2 \<noteq> []" and t: "t = dropWhile unit_char s2"
    using assms l by (auto simp: duration_term_def s2_def Let_def split: if_splits option.splits)
  moreover have "length s2 = length (takeWhile unit_char s2) + length t"
    using t by (metis length_append takeWhile_dropWhile_id)
  moreover have "0 < length (takeWhile unit_char s2)" using u by blast
  ultimately show ?thesis by linarith
qed

function duration_sum :: "frac_fn \<Rightarrow> nat \<Rightarrow> string \<Rightarrow> nat option" where
  "duration_sum frac d s =
     (if s = [] then Some d
      else case duration_term frac s of
             None \<Rightarrow> None
           | Some (v, t) \<Rightarrow>
               let e = (d + v) mod two64
               in if e > two63 then None else duration_sum frac e t)"
  by pat_completeness auto
termination
  by (relation "measure (\<lambda>(frac, d, s). length s)") (auto dest: duration_term_shorter)

declare duration_sum.simps [simp del]

definition parse_duration :: "frac_fn \<Rightarrow> string \<Rightarrow> int result" where
  "parse_duration frac orig =
     (let neg = (orig \<noteq> [] \<and> hd orig = CHR ''-'');
          s = (if orig \<noteq> [] \<and> (hd orig = CHR ''-'' \<or> hd orig = CHR ''+'') then tl orig else orig)
      in if s = ''0'' then Inr 0
         else if s = [] then Inl (LibE ''time: invalid duration'')
         else case duration_sum frac 0 s of
                None \<Rightarrow> Inl (LibE ''time: invalid duration'')
              | Some d \<Rightarrow>
                  if neg then Inr (- int d)
                  else if d > two63 - 1 then Inl (LibE ''time: invalid duration'')
                  else Inr (int d))"

section \<open>The result fits a 64-bit duration\<close>

lemma duration_sum_Nil [simp]: "duration_sum frac d [] = Some d"
  by (subst duration_sum.simps) simp

lemma duration_sum_le: "d \<le> two63 \<Longrightarrow> duration_sum frac d s = Some r \<Longrightarrow> r \<le> two63"
proof (induction frac d s rule: duration_sum.induct)
  case (1 frac d s)
  show ?case
  proof (cases "s = []")
    case True
    with "1.prems" show ?thesis by simp
  next
    case False
    then obtain v t where t: "duration_term frac s = Some (v, t)"
      using "1.prems"(2) by (auto simp: duration_sum.simps [of frac d s] split: option.splits)
    let ?e = "(d + v) mod two64"
    have e: "\<not> ?e > two63" and r: "duration_sum frac ?e t = Some r"
      using "1.prems"(2) False t by (auto simp: duration_sum.simps [of frac d s] Let_def split: if_splits)
    show ?thesis using "1.IH" [OF False t refl refl e _ r] e by simp
  qed
qed

lemma parse_duration_range:
  assumes "parse_duration frac s = Inr d"
  shows "int64_min \<le> d \<and> d \<le> int64_max"
  using assms duration_sum_le [of 0 frac]
  by (fastforce simp: parse_duration_def Let_def int64_min_def int64_max_def two63_def
      split: if_splits option.splits)

end
