(* ===== verification/DbInit.thy ===== *)
theory DbInit
  imports ServiceDispatch Samples Durations
begin

text \<open>
  The life of the database session: \<open>service/db/init.go\<close> (\<open>Init\<close>, \<open>connectCassandraInstance\<close>,
  \<open>Shutdown\<close>), \<open>service/db/aws_keyspaces.go\<close> (connection with role credentials and its
  refresh) and \<open>service/db/migrate.go\<close>. The package variables are the fields of \<open>db_state\<close>.
  Which goroutine holds the session lock is the subject of \<open>SessionLock\<close>; here every operation
  runs alone.
\<close>

text \<open>
  \<open>gSession\<close>: the zero value or what a failed \<open>CreateSession\<close> leaves (\<open>NoSession\<close>), an open
  session, or a closed one.
\<close>

datatype session = NoSession | OpenSession | ClosedSession

record db_state =
  dbConfig :: database_config
  clusterCfg :: "cluster_config option"
  gSession :: session
  awsSettings :: "aws_settings option"
  refresher_running :: bool
  ds_vars :: db_vars

definition cassandraConnectionTimeout :: int where "cassandraConnectionTimeout = minute"
definition providerCassandra :: string where "providerCassandra = ''cassandra''"
definition providerAwsKeyspaces :: string where "providerAwsKeyspaces = ''aws_keyspaces''"
definition awsKeyspacesRootCertPath :: string where
  "awsKeyspacesRootCertPath = ''./sf-class2-root.crt''"

definition cassandra_cluster :: "database_config \<Rightarrow> cluster_config" where
  "cassandra_cluster d =
     \<lparr>cl_Hosts = dc_DatabaseHosts d, cl_Port = dc_ClientPort d, cl_Keyspace = dc_Keyspace d,
      cl_Consistency = Quorum, cl_ProtoVersion = 0, cl_Timeout = cassandraConnectionTimeout,
      cl_SslCaPath = None,
      cl_Authenticator = PasswordAuthenticator (dc_Username d) (dc_Password d)\<rparr>"

definition keyspaces_cluster :: "string \<Rightarrow> database_config \<Rightarrow> cluster_config" where
  "keyspaces_cluster host d =
     \<lparr>cl_Hosts = [host], cl_Port = dc_ClientPort d, cl_Keyspace = dc_Keyspace d,
      cl_Consistency = LocalQuorum, cl_ProtoVersion = 0, cl_Timeout = cassandraConnectionTimeout,
      cl_SslCaPath = Some awsKeyspacesRootCertPath, cl_Authenticator = NoAuthenticator\<rparr>"

section \<open>Connecting\<close>

definition created :: "go_error option \<Rightarrow> session" where
  "created err = (if err = None then OpenSession else NoSession)"

definition connectCassandraInstance ::
  "'w ext \<Rightarrow> db_state \<Rightarrow> 'w \<Rightarrow> (go_error option \<times> db_state) \<times> 'w" where
  "connectCassandraInstance X st w =
     (let cluster = cassandra_cluster (dbConfig st)
      in case x_create_session X cluster w of
           (err, w1) \<Rightarrow> ((err, st\<lparr>clusterCfg := Some cluster, gSession := created err\<rparr>), w1))"

text \<open>
  \<open>refreshAwsKeyspacesSession\<close>. It runs only after \<open>connectAwsKeyspacesInstance\<close> has set the
  cluster configuration and the AWS settings.
\<close>

definition refreshAwsKeyspacesSession ::
  "'w ext \<Rightarrow> aws_settings \<Rightarrow> cluster_config \<Rightarrow> db_state \<Rightarrow> 'w
     \<Rightarrow> (go_error option \<times> db_state) \<times> 'w" where
  "refreshAwsKeyspacesSession X settings cluster st w =
     (case x_aws_config X w of
        (Some e, w1) \<Rightarrow> ((Some e, st), w1)
      | (None, w1) \<Rightarrow>
          (case x_aws_credentials X (aws_RoleArn settings) (aws_WebIdentityTokenFile settings) w1 of
             (Inl e, w2) \<Rightarrow> ((Some e, st), w2)
           | (Inr creds, w2) \<Rightarrow>
               (let w3 = (if gSession st \<noteq> NoSession then x_close_session X w2 else w2);
                    cluster1 = cluster\<lparr>cl_Authenticator := AwsAuthenticator creds\<rparr>
                in case x_create_session X cluster1 w3 of
                     (err, w4) \<Rightarrow>
                       ((err, st\<lparr>clusterCfg := Some cluster1, gSession := created err\<rparr>), w4))))"

text \<open>
  The index \<open>DatabaseHosts[0]\<close> panics on an empty list. An error of the first refresh is logged
  and dropped.
\<close>

definition connectAwsKeyspacesInstance ::
  "'w ext \<Rightarrow> aws_settings \<Rightarrow> db_state \<Rightarrow> 'w \<Rightarrow> (go_error option \<times> db_state) outcome \<times> 'w" where
  "connectAwsKeyspacesInstance X settings st w =
     (if aws_WebIdentityTokenFile settings = [] then
        (Ret (Some (DbE ErrTokenFileNotFound), st), w)
      else
        (case dc_DatabaseHosts (dbConfig st) of
           [] \<Rightarrow> (Panic ''index out of range'', w)
         | host # _ \<Rightarrow>
             (let cluster = keyspaces_cluster host (dbConfig st);
                  st1 = st\<lparr>awsSettings := Some settings, clusterCfg := Some cluster\<rparr>
              in case refreshAwsKeyspacesSession X settings cluster st1 w of
                   ((_, st2), w1) \<Rightarrow> (Ret (None, st2\<lparr>refresher_running := True\<rparr>), w1))))"

text \<open>
  \<open>awsKeyspacesSessionRefresher\<close>: \<open>refresher_ticks X n\<close> is \<open>n\<close> ticks of its timer. The error of
  a refresh is dropped.
\<close>

fun refresher_ticks :: "'w ext \<Rightarrow> nat \<Rightarrow> db_state \<Rightarrow> 'w \<Rightarrow> db_state \<times> 'w" where
  "refresher_ticks X 0 st w = (st, w)"
| "refresher_ticks X (Suc n) st w =
     (if \<not> refresher_running st then (st, w)
      else case (awsSettings st, clusterCfg st) of
        (Some settings, Some cluster) \<Rightarrow>
          (case refreshAwsKeyspacesSession X settings cluster st w of
             ((_, st1), w1) \<Rightarrow> refresher_ticks X n st1 w1)
      | _ \<Rightarrow> (st, w))"

text \<open>
  A query on \<open>gSession\<close> when \<open>CreateSession\<close> has left no session is a method call on a nil
  pointer, which the driver dereferences.
\<close>

definition nil_session :: string where "nil_session = ''nil pointer dereference: gSession.Session''"

definition with_session :: "db_state \<Rightarrow> ('w \<Rightarrow> 'a \<times> 'w) \<Rightarrow> 'w \<Rightarrow> 'a outcome \<times> 'w" where
  "with_session st f w =
     (if gSession st = NoSession then (Panic nil_session, w) else map_prod Ret id (f w))"

definition migrateDatabaseSchema ::
  "'w ext \<Rightarrow> db_state \<Rightarrow> 'w \<Rightarrow> go_error option outcome \<times> 'w" where
  "migrateDatabaseSchema X st w =
     (if \<not> dc_SchemaMigrationEnabled (dbConfig st) then (Ret None, w)
      else with_session st (x_migrate X (dc_SchemaMigrationScripts (dbConfig st))) w)"

section \<open>Init and Shutdown\<close>

text \<open>
  From the migration on. Filling the dispatch tables always queries the database, first for a
  registration or at last for the list of services, and does nothing before that.
\<close>

definition init_schema ::
  "'w ext \<Rightarrow> service_registration list \<Rightarrow> db_state \<Rightarrow> 'w
     \<Rightarrow> (go_error option \<times> db_state) outcome \<times> 'w" where
  "init_schema X registrations st w =
     (case migrateDatabaseSchema X st w of
        (Panic p, w1) \<Rightarrow> (Panic p, w1)
      | (Ret (Some e), w1) \<Rightarrow> (Ret (Some e, st), w1)
      | (Ret None, w1) \<Rightarrow>
          (case with_session st (initServiceDispatchLookupTable X registrations (ds_vars st)) w1 of
             (Panic p, w2) \<Rightarrow> (Panic p, w2)
           | (Ret (err, v), w2) \<Rightarrow> (Ret (err, st\<lparr>ds_vars := v\<rparr>), w2)))"

definition db_Init ::
  "'w ext \<Rightarrow> config_mgr \<Rightarrow> db_state \<Rightarrow> 'w \<Rightarrow> (go_error option \<times> db_state) outcome \<times> 'w" where
  "db_Init X cfgMgr st0 w =
     (let st = st0\<lparr>dbConfig := GetDatabaseConfig cfgMgr\<rparr>;
          regs = GetServiceRegistrations cfgMgr
      in if dc_DatabaseType (dbConfig st) = providerCassandra then
           (case connectCassandraInstance X st w of
              ((Some e, st1), w1) \<Rightarrow> (Ret (Some e, st1), w1)
            | ((None, st1), w1) \<Rightarrow> init_schema X regs st1 w1)
         else if dc_DatabaseType (dbConfig st) = providerAwsKeyspaces then
           (case connectAwsKeyspacesInstance X (GetAwsSettings cfgMgr) st w of
              (Panic p, w1) \<Rightarrow> (Panic p, w1)
            | (Ret (Some e, st1), w1) \<Rightarrow> (Ret (Some e, st1), w1)
            | (Ret (None, st1), w1) \<Rightarrow> init_schema X regs st1 w1)
         else (Ret (Some (DbE ErrInvalidDatabaseType), st), w))"

text \<open>
  Closing no session is a nil dereference here, unlike in \<open>refreshAwsKeyspacesSession\<close>, which
  guards it. The send on the stop channel is a rendezvous with the refresher, so \<open>Shutdown\<close>
  returns only if the refresher runs (\<open>Ret None\<close>: it blocks).
\<close>

definition db_Shutdown :: "'w ext \<Rightarrow> db_state \<Rightarrow> 'w \<Rightarrow> db_state option outcome \<times> 'w" where
  "db_Shutdown X st w =
     (if gSession st = NoSession then (Panic nil_session, w)
      else
        let w1 = x_close_session X w; st1 = st\<lparr>gSession := ClosedSession\<rparr>
        in if dc_DatabaseType (dbConfig st) = providerAwsKeyspaces then
             (if refresher_running st then (Ret (Some (st1\<lparr>refresher_running := False\<rparr>)), w1)
              else (Ret None, w1))
           else (Ret (Some st1), w1))"

section \<open>Facts\<close>

lemmas connect_defs = connectCassandraInstance_def connectAwsKeyspacesInstance_def
  refreshAwsKeyspacesSession_def

lemma connectCassandra_ok:
  assumes "connectCassandraInstance X st w = ((None, st1), w1)"
  shows "gSession st1 = OpenSession \<and> dbConfig st1 = dbConfig st
    \<and> refresher_running st1 = refresher_running st"
  using assms by (auto simp: connectCassandraInstance_def created_def Let_def split: prod.splits)

lemma refresh_keeps:
  "refreshAwsKeyspacesSession X settings cluster st w = ((err, st1), w1)
    \<Longrightarrow> dbConfig st1 = dbConfig st \<and> refresher_running st1 = refresher_running st
      \<and> (gSession st1 = OpenSession \<and> err = None
         \<or> err \<noteq> None \<and> gSession st1 \<in> {NoSession, gSession st})"
  by (cases err) (auto simp: refreshAwsKeyspacesSession_def created_def Let_def
      split: prod.splits option.splits sum.splits)

lemma refresher_ticks_keeps:
  "refresher_ticks X n st w = (st1, w1)
    \<Longrightarrow> dbConfig st1 = dbConfig st \<and> refresher_running st1 = refresher_running st
      \<and> (gSession st1 = gSession st \<or> gSession st1 \<in> {OpenSession, NoSession} \<and> n > 0 \<and> refresher_running st)"
proof (induction X n st w arbitrary: st1 w1 rule: refresher_ticks.induct)
  case (2 X n st w)
  show ?case
  proof (cases "refresher_running st \<and> awsSettings st \<noteq> None \<and> clusterCfg st \<noteq> None")
    case True
    then obtain settings cluster where c: "awsSettings st = Some settings" "clusterCfg st = Some cluster" by auto
    obtain err st2 w2 where r: "refreshAwsKeyspacesSession X settings cluster st w = ((err, st2), w2)"
      by (metis prod.collapse)
    with 2(2) True c have "refresher_ticks X n st2 w2 = (st1, w1)" by simp
    from 2(1) [OF _ refl c r [symmetric] refl this] True refresh_keeps [OF r] show ?thesis by auto
  next
    case False
    with 2(2) show ?thesis by (auto split: if_splits option.splits)
  qed
qed simp

lemma connectAws_ok:
  assumes "connectAwsKeyspacesInstance X settings st w = (Ret (None, st1), w1)"
  shows "refresher_running st1 \<and> dbConfig st1 = dbConfig st \<and> gSession st1 \<in> {OpenSession, NoSession, gSession st}"
  using assms by (auto simp: connectAwsKeyspacesInstance_def Let_def dest!: refresh_keeps
      split: if_splits list.splits prod.splits)

lemma with_session_Ret:
  "with_session st f w = (Ret r, w') \<longleftrightarrow> gSession st \<noteq> NoSession \<and> f w = (r, w')"
  by (cases "f w") (auto simp: with_session_def)

lemma init_schema_ok:
  assumes "init_schema X regs st w = (Ret (None, st1), w1)"
  shows "gSession st \<noteq> NoSession \<and> (\<exists>services w2. ListRegisteredServices X w2 = (Inr services, w1)
    \<and> st1 = st\<lparr>ds_vars := build_tables services\<rparr>)"
proof -
  obtain w0 v where "with_session st (initServiceDispatchLookupTable X regs (ds_vars st)) w0 = (Ret (None, v), w1)"
    and "st1 = st\<lparr>ds_vars := v\<rparr>"
    using assms by (auto simp: init_schema_def split: prod.splits option.splits outcome.splits)
  then show ?thesis
    by (auto simp: with_session_Ret initServiceDispatchLookupTable_def split: prod.splits option.splits sum.splits)
qed

lemma no_session_panics:
  "gSession st = NoSession \<Longrightarrow> init_schema X regs st w = (Panic nil_session, w)"
  by (simp add: init_schema_def migrateDatabaseSchema_def with_session_def)

text \<open>
  When the database is ready, \<open>Shutdown\<close> will not wait: the refresher runs if it is waited for.
\<close>

definition can_close :: "db_state \<Rightarrow> bool" where
  "can_close st \<longleftrightarrow> refresher_running st = (dc_DatabaseType (dbConfig st) = providerAwsKeyspaces)"

lemma db_Init_ok:
  assumes "db_Init X cfgMgr st w = (Ret (None, st'), w')" and "\<not> refresher_running st"
    and "gSession st \<noteq> ClosedSession"
  shows "dc_DatabaseType (dbConfig st') \<in> {providerCassandra, providerAwsKeyspaces}
    \<and> dbConfig st' = GetDatabaseConfig cfgMgr
    \<and> (\<exists>services w1. ListRegisteredServices X w1 = (Inr services, w') \<and> ds_vars st' = build_tables services)
    \<and> gSession st' = OpenSession \<and> can_close st'"
proof (cases "dc_DatabaseType (GetDatabaseConfig cfgMgr) = providerCassandra")
  case True
  from assms(1) True obtain st1 w1 where
    "connectCassandraInstance X (st\<lparr>dbConfig := GetDatabaseConfig cfgMgr\<rparr>) w = ((None, st1), w1)"
    "init_schema X (GetServiceRegistrations cfgMgr) st1 w1 = (Ret (None, st'), w')"
    by (auto simp: db_Init_def Let_def split: prod.splits option.splits)
  from connectCassandra_ok [OF this(1)] init_schema_ok [OF this(2)] True assms(2) show ?thesis
    by (auto simp: can_close_def providerCassandra_def providerAwsKeyspaces_def)
next
  case False
  from assms(1) False obtain st1 w1 where aws: "dc_DatabaseType (GetDatabaseConfig cfgMgr) = providerAwsKeyspaces"
    "connectAwsKeyspacesInstance X (GetAwsSettings cfgMgr) (st\<lparr>dbConfig := GetDatabaseConfig cfgMgr\<rparr>) w
        = (Ret (None, st1), w1)"
    "init_schema X (GetServiceRegistrations cfgMgr) st1 w1 = (Ret (None, st'), w')"
    by (auto simp: db_Init_def Let_def split: prod.splits option.splits if_splits outcome.splits)
  from connectAws_ok [OF aws(2)] init_schema_ok [OF aws(3)] aws(1) False assms(3) show ?thesis
    by (cases "gSession st") (auto simp: can_close_def)
qed

lemma can_close_shutdown:
  assumes "can_close st"
  shows "fst (db_Shutdown X st w) = (if gSession st = NoSession then Panic nil_session
    else Ret (Some (st\<lparr>gSession := ClosedSession, refresher_running := False\<rparr>)))"
  using assms by (cases st) (auto simp: can_close_def db_Shutdown_def Let_def)

section \<open>Properties\<close>

text \<open>
  C32: If the first \<open>Init\<close> succeeds, the database type is one of the two providers, the session
  is open, and the dispatch tables are those built from the service rows that the last query
  returned. A \<open>Shutdown\<close> after any number of ticks of the refresher then never blocks: it
  returns with the session closed and no refresher left running, except when a tick of the
  Keyspaces refresher has closed the session and could not create another; then it panics on
  the nil session.
\<close>

theorem init_then_shutdown:
  assumes "db_Init X cfgMgr st w = (Ret (None, st'), w')" and "\<not> refresher_running st"
    and "gSession st \<noteq> ClosedSession" and "refresher_ticks X n st' u = (st2, u2)"
  shows "dc_DatabaseType (GetDatabaseConfig cfgMgr) \<in> {providerCassandra, providerAwsKeyspaces}
    \<and> gSession st' = OpenSession
    \<and> (\<exists>services w1. ListRegisteredServices X w1 = (Inr services, w') \<and> ds_vars st' = build_tables services)
    \<and> (case fst (db_Shutdown X st2 u2) of
         Ret None \<Rightarrow> False
       | Ret (Some st3) \<Rightarrow> gSession st2 = OpenSession \<and> gSession st3 = ClosedSession
           \<and> \<not> refresher_running st3
       | Panic p \<Rightarrow> gSession st2 = NoSession \<and> n > 0
           \<and> dc_DatabaseType (GetDatabaseConfig cfgMgr) = providerAwsKeyspaces)"
proof -
  note init = db_Init_ok [OF assms(1-3)] and ticks = refresher_ticks_keeps [OF assms(4)]
  then have "can_close st2" by (simp add: can_close_def)
  from can_close_shutdown [OF this, of X u2] init ticks show ?thesis
    by (auto simp: can_close_def)
qed

definition new_db :: db_state where
  "new_db = \<lparr>dbConfig = DatabaseConfig zero_config, clusterCfg = None, gSession = NoSession,
     awsSettings = None, refresher_running = False, ds_vars = build_tables []\<rparr>"

definition db_ext :: "unit ext" where
  "db_ext = idle_ext\<lparr>x_create_session := (\<lambda>_ w. (None, w)), x_select_services := (\<lambda>_ _ w. (Inr [], w))\<rparr>"

definition cassandra_mgr :: config_mgr where
  "cassandra_mgr = (NewConfigMgr ''s'')\<lparr>cm_config := zero_config\<lparr>DatabaseConfig :=
     (DatabaseConfig zero_config)\<lparr>dc_DatabaseType := ''cassandra''\<rparr>\<rparr>\<rparr>"

lemma init_then_shutdown_witness:
  "\<exists>st' st''. db_Init db_ext cassandra_mgr new_db () = (Ret (None, st'), ())
     \<and> gSession st' = OpenSession \<and> fst (db_Shutdown db_ext st' ()) = Ret (Some st'')"
proof -
  obtain st' where run: "db_Init db_ext cassandra_mgr new_db () = (Ret (None, st'), ())"
    by (simp add: db_Init_def connect_defs init_schema_def migrateDatabaseSchema_def with_session_def
        initServiceDispatchLookupTable_def ListRegisteredServices_def GetServiceRegistrations_def
        GetDatabaseConfig_def cassandra_mgr_def NewConfigMgr_def zero_config_def db_ext_def
        created_def providerCassandra_def Let_def)
  have st: "\<not> refresher_running new_db" "gSession new_db \<noteq> ClosedSession" by (simp_all add: new_db_def)
  from init_then_shutdown [OF run st refresher_ticks.simps(1) [of db_ext st' "()"]]
  have "gSession st' = OpenSession" "case fst (db_Shutdown db_ext st' ()) of
      Ret None \<Rightarrow> False | Ret (Some st3) \<Rightarrow> True | Panic p \<Rightarrow> False"
    by (auto split: outcome.splits option.splits)
  with run show ?thesis by (auto split: outcome.splits option.splits)
qed

text \<open>
  With AWS Keyspaces an error of the first refresh is dropped, but no session is left then, and
  \<open>Init\<close> does not return an error: the migration or the first query panics on the nil session.
\<close>

theorem keyspaces_failure_crashes:
  assumes "dc_DatabaseType (GetDatabaseConfig cfgMgr) = providerAwsKeyspaces"
    and "dc_DatabaseHosts (GetDatabaseConfig cfgMgr) = host # hosts"
    and "aws_WebIdentityTokenFile (GetAwsSettings cfgMgr) \<noteq> []"
    and "gSession st = NoSession"
    and "refreshAwsKeyspacesSession X (GetAwsSettings cfgMgr) (keyspaces_cluster host (GetDatabaseConfig cfgMgr))
      (st\<lparr>dbConfig := GetDatabaseConfig cfgMgr, awsSettings := Some (GetAwsSettings cfgMgr),
          clusterCfg := Some (keyspaces_cluster host (GetDatabaseConfig cfgMgr))\<rparr>) w = ((Some e, st2), w1)"
  shows "db_Init X cfgMgr st w = (Panic nil_session, w1)"
proof -
  from refresh_keeps [OF assms(5)] assms(4) have "gSession st2 = NoSession" by auto
  then have "init_schema X regs (st2\<lparr>refresher_running := True\<rparr>) w1 = (Panic nil_session, w1)" for regs
    by (intro no_session_panics) simp
  with assms show ?thesis
    by (simp add: db_Init_def connectAwsKeyspacesInstance_def Let_def providerCassandra_def providerAwsKeyspaces_def)
qed

definition keyspaces_mgr :: config_mgr where
  "keyspaces_mgr = (NewConfigMgr ''s'')\<lparr>cm_config := zero_config
     \<lparr>DatabaseConfig := (DatabaseConfig zero_config)
        \<lparr>dc_DatabaseType := ''aws_keyspaces'', dc_DatabaseHosts := [''h'']\<rparr>,
      AwsSettings := \<lparr>aws_WebIdentityTokenFile = ''token'', aws_RoleArn = ''role'', aws_Region = ''r''\<rparr>\<rparr>\<rparr>"

lemma keyspaces_failure_crashes_witness:
  "db_Init db_ext keyspaces_mgr new_db () = (Panic nil_session, ())"
proof -
  have "\<exists>st2. refreshAwsKeyspacesSession db_ext settings cluster st () = ((Some remote_failed, st2), ())"
    for settings cluster st by (simp add: refreshAwsKeyspacesSession_def db_ext_def)
  then obtain st2 where "refreshAwsKeyspacesSession db_ext (GetAwsSettings keyspaces_mgr)
      (keyspaces_cluster ''h'' (GetDatabaseConfig keyspaces_mgr))
      (new_db\<lparr>dbConfig := GetDatabaseConfig keyspaces_mgr, awsSettings := Some (GetAwsSettings keyspaces_mgr),
          clusterCfg := Some (keyspaces_cluster ''h'' (GetDatabaseConfig keyspaces_mgr))\<rparr>) ()
      = ((Some remote_failed, st2), ())" by blast
  then show ?thesis
    by (rule keyspaces_failure_crashes [rotated 4])
      (simp_all add: keyspaces_mgr_def GetDatabaseConfig_def GetAwsSettings_def zero_config_def
        providerAwsKeyspaces_def new_db_def)
qed

end
