(* ===== verification/Tracing.thy ===== *)
theory Tracing
  imports External
begin

text \<open>
  Reasoning on the calls of a run: how \<open>emits\<close> composes with sequencing and case splits, and
  the vocabulary of the ordering properties. The calls of a token check are the verification of
  a signature and, for a key identifier that is not cached, the fetch of the signing keys from
  the token service; every other event is an effect or reads something else.
\<close>

named_theorems trace_intros \<open>introduction rules for emits\<close>

definition is_check :: "event \<Rightarrow> bool" where
  "is_check e = (case e of EvVerify _ _ \<Rightarrow> True | EvFetchKeys _ \<Rightarrow> True | _ \<Rightarrow> False)"

definition is_send :: "event \<Rightarrow> bool" where
  "is_send e = (case e of EvSend _ _ _ \<Rightarrow> True | _ \<Rightarrow> False)"

definition is_write :: "event \<Rightarrow> bool" where
  "is_write e = (case e of EvExec _ _ \<Rightarrow> True | _ \<Rightarrow> False)"

lemma event_kind_simps [simp]:
  "is_check (EvVerify t b)" "is_check (EvFetchKeys b)"
  "\<not> is_check (EvExec q b)" "\<not> is_check (EvSend u m b)"
  "\<not> is_check (EvSelectTasks cs r)" "\<not> is_check (EvReceive u rr)"
  "\<not> is_check (EvPageConsignments cs b)" "\<not> is_check (EvQueueUrl u a rs)"
  "\<not> is_check (EvDelete u m b)" "\<not> is_check (EvPublish u m' b)" "\<not> is_check (EvNow i)"
  "is_send (EvSend u m b)" "\<not> is_send (EvVerify t b)" "\<not> is_send (EvExec q b)"
  "\<not> is_send (EvSelectTasks cs r)" "\<not> is_send (EvReceive u rr)"
  "\<not> is_send (EvPageConsignments cs b)" "\<not> is_send (EvQueueUrl u a rs)"
  "\<not> is_send (EvDelete u m b)" "\<not> is_send (EvPublish u m' b)" "\<not> is_send (EvNow i)"
  "\<not> is_send (EvPageRuns cs pg rp)" "\<not> is_send (EvSleep i)" "\<not> is_send (EvTimeUuid n)"
  "is_write (EvExec q b)" "\<not> is_write (EvSend u m b)" "\<not> is_write (EvVerify t b)"
  "\<not> is_write (EvSelectTasks cs r)" "\<not> is_write (EvReceive u rr)"
  "\<not> is_write (EvPageConsignments cs b)" "\<not> is_write (EvQueueUrl u a rs)"
  "\<not> is_write (EvDelete u m b)" "\<not> is_write (EvPublish u m' b)" "\<not> is_write (EvNow i)"
  "\<not> is_write (EvPageRuns cs pg rp)" "\<not> is_write (EvSleep i)"
  by (simp_all add: is_check_def is_send_def is_write_def)

text \<open>
  Nothing but signature checks and key fetches happens before the token \<open>tok\<close> was found valid.
\<close>

definition verified_before :: "string \<Rightarrow> event list \<Rightarrow> bool" where
  "verified_before tok es = list_all is_check (takeWhile (\<lambda>e. e \<noteq> EvVerify tok True) es)"

lemma verified_before_checks: "list_all is_check es \<Longrightarrow> verified_before tok es"
  by (auto simp: verified_before_def list_all_iff dest: set_takeWhileD)

lemma verified_before_append:
  assumes "list_all is_check es" "EvVerify tok True \<in> set es"
  shows "verified_before tok (es @ fs)"
proof -
  have "takeWhile (\<lambda>e. e \<noteq> EvVerify tok True) (es @ fs) = takeWhile (\<lambda>e. e \<noteq> EvVerify tok True) es"
    using assms(2) by (intro takeWhile_append1) auto
  then show ?thesis using verified_before_checks [OF assms(1)] by (simp add: verified_before_def)
qed

text \<open>The first effect of a verified run comes after the check that accepted the token.\<close>

lemma verified_before_first:
  assumes "verified_before tok es" "i < length es" "\<not> is_check (es ! i)"
  shows "\<exists>j < i. es ! j = EvVerify tok True"
  using assms
proof (induction es arbitrary: i)
  case Nil
  then show ?case by simp
next
  case (Cons e es)
  show ?case
  proof (cases i)
    case 0
    with Cons.prems show ?thesis by (cases "e = EvVerify tok True") (auto simp: verified_before_def)
  next
    case (Suc k)
    show ?thesis
    proof (cases "e = EvVerify tok True")
      case True
      with Suc show ?thesis by (intro exI [of _ 0]) simp
    next
      case False
      with Cons.prems Suc have "verified_before tok es" "k < length es" "\<not> is_check (es ! k)"
        by (auto simp: verified_before_def)
      from Cons.IH [OF this] obtain j where "j < k" "es ! j = EvVerify tok True" by blast
      with Suc show ?thesis by (intro exI [of _ "Suc j"]) simp
    qed
  qed
qed

section \<open>Composition\<close>

lemma emits_return [trace_intros]: "P [] r \<Longrightarrow> emits P (\<lambda>s. (r, s))"
  by (rule emitsI) simp

lemma emits_then:
  assumes "emits P f" and "\<And>es r. P es r \<Longrightarrow> emits (\<lambda>fs. Q (es @ fs)) (g r)"
  shows "emits Q (\<lambda>s. case f s of (r, s') \<Rightarrow> g r s')"
proof (rule emitsI)
  fix w tr
  obtain r w1 tr1 where f: "f (w, tr) = (r, (w1, tr1))" by (metis surj_pair)
  with assms(1) obtain es where e: "tr1 = tr @ es" "P es r" by (rule emitsE)
  obtain r' w2 tr2 where g: "g r (w1, tr1) = (r', (w2, tr2))" by (metis surj_pair)
  with assms(2) [OF e(2)] obtain fs where "tr2 = tr1 @ fs" "Q (es @ fs) r'" by (rule emitsE)
  with f g e show "\<exists>es. snd (snd (case f (w, tr) of (r, s') \<Rightarrow> g r s')) = tr @ es
      \<and> Q es (fst (case f (w, tr) of (r, s') \<Rightarrow> g r s'))" by simp
qed

text \<open>\<open>appends f\<close>: \<open>f\<close> only appends to the log.\<close>

abbreviation appends :: "('w \<times> event list \<Rightarrow> 'r \<times> ('w \<times> event list)) \<Rightarrow> bool" where
  "appends f \<equiv> emits (\<lambda>_ _. True) f"

lemma emits_appends: "emits P f \<Longrightarrow> appends f"
  by (rule emits_mono) auto

lemma appends_logged [trace_intros]: "appends (logged ev f)"
  by (rule emits_logged) simp

lemma appends_unlogged [trace_intros]: "appends (unlogged f)"
  by (rule emits_unlogged) simp

lemma emits_if [trace_intros]: "(b \<Longrightarrow> emits P f) \<Longrightarrow> (\<not> b \<Longrightarrow> emits P g) \<Longrightarrow> emits P (if b then f else g)"
  by (cases b) simp_all

lemma emits_if_fun [trace_intros]:
  "(b \<Longrightarrow> emits P f) \<Longrightarrow> (\<not> b \<Longrightarrow> emits P g) \<Longrightarrow> emits P (\<lambda>s. if b then f s else g s)"
  by (cases b) simp_all

lemma emits_case_sum [trace_intros]:
  "(\<And>e. r = Inl e \<Longrightarrow> emits P (f e)) \<Longrightarrow> (\<And>v. r = Inr v \<Longrightarrow> emits P (g v))
     \<Longrightarrow> emits P (\<lambda>s. case r of Inl e \<Rightarrow> f e s | Inr v \<Rightarrow> g v s)"
  by (cases r) simp_all

lemma emits_case_option [trace_intros]:
  "(r = None \<Longrightarrow> emits P f) \<Longrightarrow> (\<And>v. r = Some v \<Longrightarrow> emits P (g v))
     \<Longrightarrow> emits P (\<lambda>s. case r of None \<Rightarrow> f s | Some v \<Rightarrow> g v s)"
  by (cases r) simp_all

lemma emits_case_prod [trace_intros]:
  "(\<And>a b. r = (a, b) \<Longrightarrow> emits P (f a b)) \<Longrightarrow> emits P (\<lambda>s. case r of (a, b) \<Rightarrow> f a b s)"
  by (cases r) simp

text \<open>A pattern on the answer, split as a pair of the answer and the next world.\<close>

lemma case_answer:
  "(case m of (r, s') \<Rightarrow> (case r of Inl e \<Rightarrow> f e s' | Inr v \<Rightarrow> g v s'))
    = (case m of (Inl e, s') \<Rightarrow> f e s' | (Inr v, s') \<Rightarrow> g v s')"
  by (auto split: prod.splits sum.splits)

lemma trace_pair: "emits P f \<longleftrightarrow> (\<forall>w tr. \<exists>es. snd (snd (f (w, tr))) = tr @ es \<and> P es (fst (f (w, tr))))"
  by (simp add: emits_def)

end
