(* ===== verification/MqttPublish.thy ===== *)
theory MqttPublish
  imports Samples Tracing GoStd
begin

text \<open>
  The publishing half of \<open>service/mqtt\<close>: the topic of a task and \<open>SendTaskToBroker\<close>. The
  package variables are the fields of \<open>mqtt_vars\<close>; the connection manager is a parameter.
\<close>

record client_config =
  cc_BrokerUrls :: "string list"
  cc_TlsRootCerts :: "bytes option"
  cc_KeepAlive :: "16 word"
  cc_ConnectRetryDelay :: int
  cc_ClientID :: string
  cc_Username :: "string option"
  cc_Debug :: bool

record mqtt_vars =
  mqttCtx :: ctx
  mqttConfig :: mqtt_config
  clientConfig :: client_config

definition new_mqtt :: mqtt_vars where
  "new_mqtt =
     \<lparr>mqttCtx = CtxMqtt, mqttConfig = MqttConfig zero_config,
      clientConfig = \<lparr>cc_BrokerUrls = [], cc_TlsRootCerts = None, cc_KeepAlive = 0,
        cc_ConnectRetryDelay = 0, cc_ClientID = [], cc_Username = None, cc_Debug = False\<rparr>\<rparr>"

definition broadcast_topic_prefix :: string where "broadcast_topic_prefix = ''v1/@devices/''"

text \<open>The formats \<open>v1/%s/tasks\<close> and \<open>v1/@devices/%s\<close>.\<close>

definition GetMqttTopicForDeviceTask :: "string \<Rightarrow> string \<Rightarrow> string" where
  "GetMqttTopicForDeviceTask deviceID serviceID =
     (if deviceID = BroadcastDeviceUuid then broadcast_topic_prefix @ serviceID
      else ''v1/'' @ deviceID @ ''/tasks'')"

definition taskResponsesTopicSubscription :: string where
  "taskResponsesTopicSubscription = ''$share/krypton/v1/@cloud/task_responses''"

definition serviceMessageTopicSubscription :: string where
  "serviceMessageTopicSubscription = ''$share/krypton/v1/@cloud''"

definition mqttSubscriptionsMap :: "(string \<times> int) list" where
  "mqttSubscriptionsMap =
     [(taskResponsesTopicSubscription, 0), (serviceMessageTopicSubscription, 0)]"

definition SendTaskToBroker ::
  "'w ext \<Rightarrow> mqtt_vars \<Rightarrow> string \<Rightarrow> bytes \<Rightarrow> 'w \<Rightarrow> go_error option \<times> 'w" where
  "SendTaskToBroker X m topicName payload w =
     (case ctx_err X (mqttCtx m) w of
        (Some e, w1) \<Rightarrow> (Some e, w1)
      | (None, w1) \<Rightarrow>
          (case x_mqtt_await X w1 of
             (Some e, w2) \<Rightarrow> (Some e, w2)
           | (None, w2) \<Rightarrow> x_mqtt_publish X (mc_QoS (mqttConfig m) mod 256) topicName payload w2))"

section \<open>Topics\<close>

definition slash_free :: "string \<Rightarrow> bool" where
  "slash_free s \<longleftrightarrow> CHR ''/'' \<notin> set s"

text \<open>
  Splitting a topic at its slashes gives the levels of the MQTT topic. A device other than the
  broadcast device is addressed at the second level.
\<close>

lemma topic_levels:
  assumes "slash_free deviceID" "slash_free serviceID"
  shows "split_on (CHR ''/'') (GetMqttTopicForDeviceTask deviceID serviceID) =
    (if deviceID = BroadcastDeviceUuid then [''v1'', ''@devices'', serviceID]
     else [''v1'', deviceID, ''tasks''])"
  using assms
  by (simp add: GetMqttTopicForDeviceTask_def broadcast_topic_prefix_def slash_free_def
      split_on_append [of "CHR ''/''" deviceID "''tasks''"] split_on_no_sep)

text \<open>
  Tasks for two devices are published on the same topic only if it is the same
  device, or both are broadcasts of the same service; the topic of one device is never the
  broadcast topic of a service. It needs identifiers without a slash and a device that is not
  called \<open>@devices\<close>, as for the identifiers the database prints.
\<close>

theorem task_topics:
  assumes "slash_free d" "slash_free d'" "slash_free s" "slash_free s'"
    and "d \<noteq> ''@devices''" "d' \<noteq> ''@devices''"
  shows "GetMqttTopicForDeviceTask d s = GetMqttTopicForDeviceTask d' s' \<longleftrightarrow>
    d = d' \<and> (d = BroadcastDeviceUuid \<longrightarrow> s = s')"
proof -
  have "GetMqttTopicForDeviceTask d s = GetMqttTopicForDeviceTask d' s' \<longleftrightarrow>
      split_on (CHR ''/'') (GetMqttTopicForDeviceTask d s)
        = split_on (CHR ''/'') (GetMqttTopicForDeviceTask d' s')"
    by (metis join_split)
  also have "\<dots> \<longleftrightarrow> d = d' \<and> (d = BroadcastDeviceUuid \<longrightarrow> s = s')"
    using assms by (auto simp: topic_levels)
  finally show ?thesis .
qed

lemma task_topics_witness:
  "GetMqttTopicForDeviceTask sample_uuid ''fs'' \<noteq> GetMqttTopicForDeviceTask BroadcastDeviceUuid ''fs''"
  using task_topics [of sample_uuid BroadcastDeviceUuid "''fs''" "''fs''"]
  by (simp add: sample_uuid_def BroadcastDeviceUuid_def slash_free_def)

end
