(* ===== verification/Metrics.thy ===== *)
theory Metrics
  imports External
begin

text \<open>
  \<open>service/metrics\<close>: the Prometheus counters of the MQTT and REST paths, their names, and the
  latency summary. The state is the count of each counter and the list of latency
  observations. What Prometheus does with them is third-party code.
\<close>

section \<open>The metrics\<close>

text \<open>\<open>MetricRestLatency\<close> is a summary, not a counter, and is kept apart.\<close>

datatype metric =
    MetricMqttConnectionErrorCount
  | MetricMqttErrorCount
  | MetricMqttTaskResponseMessagesReceived
  | MetricMqttInvalidTaskResponseMessages
  | MetricMqttTaskResponseProcessingErrors
  | MetricMqttTaskResponseMessagesProcessed
  | MetricMqttServiceMessagesReceived
  | MetricMqttInvalidServiceMessages
  | MetricMqttServiceMessageProcessingErrors
  | MetricMqttServiceMessagesProcessed
  | MetricRequestCount
  | MetricCreateTaskResponses
  | MetricGetTaskResponses
  | MetricListTasksReponses
  | MetricRemoveTaskResponses
  | MetricCreateTaskBadRequests
  | MetricGetTaskBadRequests
  | MetricGetTaskNotFoundErrors
  | MetricListTasksBadRequests
  | MetricRemoveTaskBadRequests
  | MetricCreateTaskInternalErrors
  | MetricGetTaskInternalErrors
  | MetricListTasksInternalErrors
  | MetricRemoveTaskInternalErrors

fun metric_name :: "metric \<Rightarrow> string" where
  "metric_name MetricMqttConnectionErrorCount = ''sched_mqtt_connection_errors''"
| "metric_name MetricMqttErrorCount = ''sched_mqtt_client_errors''"
| "metric_name MetricMqttTaskResponseMessagesReceived = ''sched_mqtt_task_response_messages_received''"
| "metric_name MetricMqttInvalidTaskResponseMessages = ''sched_mqtt_invalid_task_response_messages''"
| "metric_name MetricMqttTaskResponseProcessingErrors = ''sched_mqtt_task_response_errors''"
| "metric_name MetricMqttTaskResponseMessagesProcessed = ''sched_mqtt_task_response_messages_processed''"
| "metric_name MetricMqttServiceMessagesReceived = ''sched_mqtt_service_messages_received''"
| "metric_name MetricMqttInvalidServiceMessages = ''sched_mqtt_invalid_service_messages''"
| "metric_name MetricMqttServiceMessageProcessingErrors = ''sched_mqtt_service_message_errors''"
| "metric_name MetricMqttServiceMessagesProcessed = ''sched_mqtt_service_messages_processed''"
| "metric_name MetricRequestCount = ''sched_rest_requests''"
| "metric_name MetricCreateTaskResponses = ''sched_rest_tasks_created''"
| "metric_name MetricGetTaskResponses = ''sched_rest_tasks_retrieved''"
| "metric_name MetricListTasksReponses = ''sched_rest_tasks_listed''"
| "metric_name MetricRemoveTaskResponses = ''sched_rest_tasks_removed''"
| "metric_name MetricCreateTaskBadRequests = ''sched_rest_create_task_bad_requests''"
| "metric_name MetricGetTaskBadRequests = ''sched_rest_get_task_bad_requests''"
| "metric_name MetricGetTaskNotFoundErrors = ''sched_rest_get_task_not_found''"
| "metric_name MetricListTasksBadRequests = ''sched_rest_list_task_bad_requests''"
| "metric_name MetricRemoveTaskBadRequests = ''sched_rest_remove_task_bad_requests''"
| "metric_name MetricCreateTaskInternalErrors = ''sched_rest_create_task_internal_errors''"
| "metric_name MetricGetTaskInternalErrors = ''sched_rest_get_task_internal_errors''"
| "metric_name MetricListTasksInternalErrors = ''sched_rest_list_tasks_internal_errors''"
| "metric_name MetricRemoveTaskInternalErrors = ''sched_rest_remove_task_internal_errors''"

definition all_metrics :: "metric list" where
  "all_metrics =
     [MetricMqttConnectionErrorCount,
      MetricMqttErrorCount,
      MetricMqttTaskResponseMessagesReceived,
      MetricMqttInvalidTaskResponseMessages,
      MetricMqttTaskResponseProcessingErrors,
      MetricMqttTaskResponseMessagesProcessed,
      MetricMqttServiceMessagesReceived,
      MetricMqttInvalidServiceMessages,
      MetricMqttServiceMessageProcessingErrors,
      MetricMqttServiceMessagesProcessed,
      MetricRequestCount,
      MetricCreateTaskResponses,
      MetricGetTaskResponses,
      MetricListTasksReponses,
      MetricRemoveTaskResponses,
      MetricCreateTaskBadRequests,
      MetricGetTaskBadRequests,
      MetricGetTaskNotFoundErrors,
      MetricListTasksBadRequests,
      MetricRemoveTaskBadRequests,
      MetricCreateTaskInternalErrors,
      MetricGetTaskInternalErrors,
      MetricListTasksInternalErrors,
      MetricRemoveTaskInternalErrors]"

definition MetricRestLatency_name :: string where
  "MetricRestLatency_name = ''sched_rest_latency_milliseconds''"

record metrics =
  mt_count :: "metric \<Rightarrow> nat"
  mt_latency :: "(string \<times> int) list"

definition zero_metrics :: metrics where
  "zero_metrics = \<lparr>mt_count = (\<lambda>_. 0), mt_latency = []\<rparr>"

text \<open>\<open>metric.Inc()\<close>.\<close>

definition Inc :: "metric \<Rightarrow> metrics \<Rightarrow> metrics" where
  "Inc m s = s\<lparr>mt_count := (mt_count s)(m := Suc (mt_count s m))\<rparr>"

text \<open>Whole milliseconds of a duration, rounded towards zero.\<close>

definition milliseconds :: "int \<Rightarrow> int" where
  "milliseconds d = (if 0 \<le> d then d div 1000000 else - ((- d) div 1000000))"

definition ReportLatencyMetric ::
  "'w ext \<Rightarrow> gotime \<Rightarrow> string \<Rightarrow> metrics \<Rightarrow> 'w \<Rightarrow> metrics \<times> 'w" where
  "ReportLatencyMetric X startTime label m w =
     (case x_now X w of (now, w1) \<Rightarrow>
        (m\<lparr>mt_latency := mt_latency m @ [(label, milliseconds (now - startTime))]\<rparr>, w1))"

text \<open>\<open>prometheus.MustRegister\<close> panics when the name is taken.\<close>

definition RegisterPrometheusMetrics :: "string list \<Rightarrow> string list outcome" where
  "RegisterPrometheusMetrics registered =
     (if MetricRestLatency_name \<in> set registered then Panic ''duplicate metrics collector registration''
      else Ret (registered @ [MetricRestLatency_name]))"

section \<open>Facts\<close>

lemma Inc_count [simp]: "mt_count (Inc m s) k = (if k = m then Suc (mt_count s k) else mt_count s k)"
  by (simp add: Inc_def)

lemma ReportLatency_count [simp]:
  "mt_count (fst (ReportLatencyMetric X st label m w)) = mt_count m"
  by (simp add: ReportLatencyMetric_def split: prod.splits)

lemma all_metrics_complete: "m \<in> set all_metrics"
  by (cases m) (simp_all add: all_metrics_def)

text \<open>
  Two different metrics never share a Prometheus name, the latency summary included, so a
  registration of all of them cannot clash.
\<close>

lemma metric_names_distinct:
  "distinct (MetricRestLatency_name # map metric_name all_metrics)"
  by (simp add: all_metrics_def MetricRestLatency_name_def)

end
