(* ===== verification/MqttRouter.thy ===== *)
theory MqttRouter
  imports MqttPublish Metrics
begin

text \<open>
  The receiving half of \<open>service/mqtt\<close>: the subscriptions, the check of a message and the two
  message handlers with their metrics. What is done with a message is the scheduler's function
  in \<open>MessageHandlers\<close>, an argument here as in the code, with a state of its own.
\<close>

type_synonym ('s, 'w) on_message =
  "string \<Rightarrow> device_message \<Rightarrow> 's \<Rightarrow> 'w \<Rightarrow> (go_error option \<times> 's) \<times> 'w"

section \<open>Checking a message\<close>

definition isValidDeviceMessageEnvelope :: "lib \<Rightarrow> device_message \<Rightarrow> bool" where
  "isValidDeviceMessageEnvelope L msg =
     (if dm_AccessToken msg = [] then False
      else if dm_TaskId msg \<noteq> [] \<and> \<not> lib_uuid_Parse L (dm_TaskId msg) then False
      else if dm_MessageType msg = [] then False
      else True)"

definition decodeAndValidateDeviceMessage :: "lib \<Rightarrow> bytes \<Rightarrow> device_message result" where
  "decodeAndValidateDeviceMessage L payload =
     (case lib_unmarshal_device_message L payload of
        Inl e \<Rightarrow> Inl e
      | Inr decodedPacket \<Rightarrow>
          if dm_Payload decodedPacket = None then Inl (MqttE ErrInvalidDeviceMessage)
          else if \<not> isValidDeviceMessageEnvelope L decodedPacket then Inl (MqttE ErrInvalidDeviceMessage)
          else Inr decodedPacket)"

section \<open>The handlers\<close>

definition DeviceToServiceMessageHandler ::
  "lib \<Rightarrow> ('s, 'w) on_message \<Rightarrow> string \<Rightarrow> bytes \<Rightarrow> metrics \<times> 's \<Rightarrow> 'w \<Rightarrow> (metrics \<times> 's) \<times> 'w" where
  "DeviceToServiceMessageHandler L OnDeviceMessage topic payload s w =
     (case s of (m, st) \<Rightarrow>
        let m1 = Inc MetricMqttServiceMessagesReceived m in
        case decodeAndValidateDeviceMessage L payload of
          Inl e \<Rightarrow> ((Inc MetricMqttInvalidServiceMessages m1, st), w)
        | Inr decodedPacket \<Rightarrow>
            (case OnDeviceMessage topic decodedPacket st w of
               ((Some e, st'), w') \<Rightarrow> ((Inc MetricMqttServiceMessageProcessingErrors m1, st'), w')
             | ((None, st'), w') \<Rightarrow> ((Inc MetricMqttServiceMessagesProcessed m1, st'), w')))"

definition TaskResponseMessageHandler ::
  "lib \<Rightarrow> ('s, 'w) on_message \<Rightarrow> string \<Rightarrow> bytes \<Rightarrow> metrics \<times> 's \<Rightarrow> 'w \<Rightarrow> (metrics \<times> 's) \<times> 'w" where
  "TaskResponseMessageHandler L OnTaskResponse topic payload s w =
     (case s of (m, st) \<Rightarrow>
        let m1 = Inc MetricMqttTaskResponseMessagesReceived m in
        case decodeAndValidateDeviceMessage L payload of
          Inl e \<Rightarrow> ((Inc MetricMqttInvalidTaskResponseMessages m1, st), w)
        | Inr decodedPacket \<Rightarrow>
            (case OnTaskResponse topic decodedPacket st w of
               ((Some e, st'), w') \<Rightarrow> ((Inc MetricMqttTaskResponseProcessingErrors m1, st'), w')
             | ((None, st'), w') \<Rightarrow> ((Inc MetricMqttTaskResponseMessagesProcessed m1, st'), w')))"

datatype route_handler = HandleTaskResponse | HandleServiceMessage

definition registeredRoutes :: "(string \<times> route_handler) list" where
  "registeredRoutes =
     [(taskResponsesTopicSubscription, HandleTaskResponse),
      (serviceMessageTopicSubscription, HandleServiceMessage)]"

text \<open>\<open>initMqttSubscriberRouter\<close> registers the routes in order; the router itself is the MQTT library.\<close>

definition initMqttSubscriberRouter :: "(string \<rightharpoonup> route_handler)" where
  "initMqttSubscriberRouter = foldl (\<lambda>r (topic, h). r(topic \<mapsto> h)) Map.empty registeredRoutes"

section \<open>Counting messages\<close>

text \<open>
  Both handlers count in the same way: each message is received once and then is exactly one of
  invalid, failed or processed, invalid exactly when it does not pass the checks. The locale
  states it for any handler and any four counters and derives what one message adds.
\<close>

locale message_counter =
  fixes handle :: "string \<Rightarrow> bytes \<Rightarrow> metrics \<times> 's \<Rightarrow> 'w \<Rightarrow> (metrics \<times> 's) \<times> 'w"
    and bad :: "bytes \<Rightarrow> bool"
    and received invalid failed processed :: metric
  assumes counts: "\<exists>k \<in> {invalid, failed, processed}. (k = invalid \<longleftrightarrow> bad payload) \<and>
      mt_count (fst (fst (handle topic payload (m, s) w))) =
        (mt_count m)(received := Suc (mt_count m received), k := Suc (mt_count m k))"
    and apart: "distinct [received, invalid, failed, processed]"
begin

definition settled :: "metrics \<Rightarrow> nat" where
  "settled m = mt_count m invalid + mt_count m failed + mt_count m processed"

lemma one_message:
  "mt_count (fst (fst (handle topic payload (m, s) w))) received = Suc (mt_count m received)
   \<and> settled (fst (fst (handle topic payload (m, s) w))) = Suc (settled m)
   \<and> mt_count (fst (fst (handle topic payload (m, s) w))) invalid
       = mt_count m invalid + (if bad payload then 1 else 0)"
proof -
  from counts [of payload topic m s w] obtain k where k: "k = invalid \<or> k = failed \<or> k = processed"
    and b: "k = invalid \<longleftrightarrow> bad payload"
    and eq: "mt_count (fst (fst (handle topic payload (m, s) w))) =
        (mt_count m)(received := Suc (mt_count m received), k := Suc (mt_count m k))" by blast
  have "received \<noteq> invalid" "received \<noteq> failed" "received \<noteq> processed" "invalid \<noteq> failed"
    "invalid \<noteq> processed" "failed \<noteq> processed" using apart by auto
  with k b eq show ?thesis unfolding settled_def by (elim disjE) simp_all
qed

lemma others_kept:
  "k \<notin> {received, invalid, failed, processed} \<Longrightarrow>
     mt_count (fst (fst (handle topic payload (m, s) w))) k = mt_count m k"
  using counts [of payload topic m s w] by auto

end

text \<open>A message that is not handed to the scheduler.\<close>

definition bad_message :: "lib \<Rightarrow> bytes \<Rightarrow> bool" where
  "bad_message L payload = (case decodeAndValidateDeviceMessage L payload of Inl _ \<Rightarrow> True | Inr _ \<Rightarrow> False)"

lemma Inc_counts: "mt_count (Inc k m) = (mt_count m)(k := Suc (mt_count m k))"
  by (simp add: Inc_def)

interpretation service_counter: message_counter "DeviceToServiceMessageHandler L f" "bad_message L"
  MetricMqttServiceMessagesReceived MetricMqttInvalidServiceMessages
  MetricMqttServiceMessageProcessingErrors MetricMqttServiceMessagesProcessed for L f
  by unfold_locales
    (auto simp: DeviceToServiceMessageHandler_def Inc_counts Let_def bad_message_def
      split: sum.splits prod.splits option.splits)

interpretation response_counter: message_counter "TaskResponseMessageHandler L f" "bad_message L"
  MetricMqttTaskResponseMessagesReceived MetricMqttInvalidTaskResponseMessages
  MetricMqttTaskResponseProcessingErrors MetricMqttTaskResponseMessagesProcessed for L f
  by unfold_locales
    (auto simp: TaskResponseMessageHandler_def Inc_counts Let_def bad_message_def
      split: sum.splits prod.splits option.splits)

section \<open>Runs of messages\<close>

text \<open>The messages of a session, in the order the broker delivers them.\<close>

datatype delivery = ServiceDelivery string bytes | ResponseDelivery string bytes

fun deliver_all ::
  "lib \<Rightarrow> ('s, 'w) on_message \<Rightarrow> ('s, 'w) on_message \<Rightarrow> delivery list \<Rightarrow> metrics \<times> 's \<Rightarrow> 'w
     \<Rightarrow> (metrics \<times> 's) \<times> 'w" where
  "deliver_all L f g [] s w = (s, w)"
| "deliver_all L f g (ServiceDelivery t p # ds) s w =
     (case DeviceToServiceMessageHandler L f t p s w of (s', w') \<Rightarrow> deliver_all L f g ds s' w')"
| "deliver_all L f g (ResponseDelivery t p # ds) s w =
     (case TaskResponseMessageHandler L g t p s w of (s', w') \<Rightarrow> deliver_all L f g ds s' w')"

text \<open>How many messages of each kind there are, and how many of them do not pass the checks.\<close>

definition service_payloads :: "delivery list \<Rightarrow> bytes list" where
  "service_payloads ds = concat (map (\<lambda>d. case d of ServiceDelivery t p \<Rightarrow> [p] | ResponseDelivery t p \<Rightarrow> []) ds)"

definition response_payloads :: "delivery list \<Rightarrow> bytes list" where
  "response_payloads ds = concat (map (\<lambda>d. case d of ServiceDelivery t p \<Rightarrow> [] | ResponseDelivery t p \<Rightarrow> [p]) ds)"

definition counted :: "metric \<Rightarrow> metric \<Rightarrow> metric \<Rightarrow> metric \<Rightarrow> nat \<Rightarrow> nat \<Rightarrow> metrics \<Rightarrow> metrics \<Rightarrow> bool" where
  "counted received invalid failed processed n bads m m' \<longleftrightarrow>
     mt_count m' received = mt_count m received + n
     \<and> mt_count m' invalid = mt_count m invalid + bads
     \<and> mt_count m' invalid + mt_count m' failed + mt_count m' processed
         = mt_count m invalid + mt_count m failed + mt_count m processed + n"

abbreviation service_counted :: "nat \<Rightarrow> nat \<Rightarrow> metrics \<Rightarrow> metrics \<Rightarrow> bool" where
  "service_counted \<equiv> counted MetricMqttServiceMessagesReceived MetricMqttInvalidServiceMessages
     MetricMqttServiceMessageProcessingErrors MetricMqttServiceMessagesProcessed"

abbreviation response_counted :: "nat \<Rightarrow> nat \<Rightarrow> metrics \<Rightarrow> metrics \<Rightarrow> bool" where
  "response_counted \<equiv> counted MetricMqttTaskResponseMessagesReceived MetricMqttInvalidTaskResponseMessages
     MetricMqttTaskResponseProcessingErrors MetricMqttTaskResponseMessagesProcessed"

lemma service_step:
  "service_counted 1 (if bad_message L p then 1 else 0) m (fst (fst (DeviceToServiceMessageHandler L f t p (m, s) w)))
   \<and> response_counted 0 0 m (fst (fst (DeviceToServiceMessageHandler L f t p (m, s) w)))"
  using service_counter.one_message [of L f t p m s w] service_counter.others_kept [of _ L f t p m s w]
  by (simp add: counted_def service_counter.settled_def)

lemma response_step:
  "response_counted 1 (if bad_message L p then 1 else 0) m (fst (fst (TaskResponseMessageHandler L f t p (m, s) w)))
   \<and> service_counted 0 0 m (fst (fst (TaskResponseMessageHandler L f t p (m, s) w)))"
  using response_counter.one_message [of L f t p m s w] response_counter.others_kept [of _ L f t p m s w]
  by (simp add: counted_def response_counter.settled_def)

lemma counted_trans:
  "counted r i f p n b m m1 \<Longrightarrow> counted r i f p n' b' m1 m2 \<Longrightarrow> counted r i f p (n + n') (b + b') m m2"
  by (simp add: counted_def)

lemma deliver_all_counted:
  "service_counted (length (service_payloads ds)) (length (filter (bad_message L) (service_payloads ds)))
      (fst ms) (fst (fst (deliver_all L f g ds ms w)))
   \<and> response_counted (length (response_payloads ds)) (length (filter (bad_message L) (response_payloads ds)))
      (fst ms) (fst (fst (deliver_all L f g ds ms w)))"
proof (induction ds arbitrary: ms w)
  case Nil
  show ?case by (simp add: counted_def service_payloads_def response_payloads_def)
next
  case (Cons d ds)
  obtain m0 s0 where ms: "ms = (m0, s0)" by fastforce
  show ?case
  proof (cases d)
    case (ServiceDelivery t p)
    obtain ms1 w1 where h: "DeviceToServiceMessageHandler L f t p ms w = (ms1, w1)" by fastforce
    note step = service_step [of L p m0 f t s0 w, folded ms, unfolded h fst_conv]
    have "service_payloads (d # ds) = p # service_payloads ds" "response_payloads (d # ds) = response_payloads ds"
      using ServiceDelivery by (simp_all add: service_payloads_def response_payloads_def)
    with counted_trans [OF conjunct1 [OF step] conjunct1 [OF Cons.IH [of ms1 w1]]]
      counted_trans [OF conjunct2 [OF step] conjunct2 [OF Cons.IH [of ms1 w1]]]
    show ?thesis using ServiceDelivery h ms by (cases "bad_message L p") simp_all
  next
    case (ResponseDelivery t p)
    obtain ms1 w1 where h: "TaskResponseMessageHandler L g t p ms w = (ms1, w1)" by fastforce
    note step = response_step [of L p m0 g t s0 w, folded ms, unfolded h fst_conv]
    have "service_payloads (d # ds) = service_payloads ds" "response_payloads (d # ds) = p # response_payloads ds"
      using ResponseDelivery by (simp_all add: service_payloads_def response_payloads_def)
    with counted_trans [OF conjunct1 [OF step] conjunct2 [OF Cons.IH [of ms1 w1]]]
      counted_trans [OF conjunct2 [OF step] conjunct1 [OF Cons.IH [of ms1 w1]]]
    show ?thesis using ResponseDelivery h ms by (cases "bad_message L p") simp_all
  qed
qed

text \<open>
  C20: over any sequence of deliveries, and for any behaviour of the scheduler's functions, the
  counters of a topic account for every message exactly once: the received counter grows by the
  number of messages delivered on it, the invalid counter by the number of those that do not
  pass the checks, and the invalid, failed and processed counters together by the number
  delivered. So none is lost or counted twice.
\<close>

theorem message_counts_balance:
  fixes ds :: "delivery list"
  defines "services \<equiv> service_payloads ds" and "responses \<equiv> response_payloads ds"
  shows "let m' = fst (fst (deliver_all L f g ds (m, s) w)) in
     mt_count m' MetricMqttServiceMessagesReceived
       = mt_count m MetricMqttServiceMessagesReceived + length services
   \<and> mt_count m' MetricMqttInvalidServiceMessages
       = mt_count m MetricMqttInvalidServiceMessages + length (filter (bad_message L) services)
   \<and> mt_count m' MetricMqttInvalidServiceMessages + mt_count m' MetricMqttServiceMessageProcessingErrors
         + mt_count m' MetricMqttServiceMessagesProcessed
       = mt_count m MetricMqttInvalidServiceMessages + mt_count m MetricMqttServiceMessageProcessingErrors
         + mt_count m MetricMqttServiceMessagesProcessed + length services
   \<and> mt_count m' MetricMqttTaskResponseMessagesReceived
       = mt_count m MetricMqttTaskResponseMessagesReceived + length responses
   \<and> mt_count m' MetricMqttInvalidTaskResponseMessages
       = mt_count m MetricMqttInvalidTaskResponseMessages + length (filter (bad_message L) responses)
   \<and> mt_count m' MetricMqttInvalidTaskResponseMessages + mt_count m' MetricMqttTaskResponseProcessingErrors
         + mt_count m' MetricMqttTaskResponseMessagesProcessed
       = mt_count m MetricMqttInvalidTaskResponseMessages + mt_count m MetricMqttTaskResponseProcessingErrors
         + mt_count m MetricMqttTaskResponseMessagesProcessed + length responses"
  using deliver_all_counted [of ds L "(m, s)" f g w]
  by (simp add: counted_def services_def responses_def Let_def)

text \<open>
  C35: a message that does not decode, has no payload, no token, no type
  or a task identifier that is not a UUID never reaches the scheduler: only counters change.
\<close>

theorem invalid_messages_dropped:
  assumes "case lib_unmarshal_device_message L payload of Inl e \<Rightarrow> True
    | Inr d \<Rightarrow> dm_Payload d = None \<or> dm_AccessToken d = [] \<or> dm_MessageType d = []
        \<or> (dm_TaskId d \<noteq> [] \<and> \<not> lib_uuid_Parse L (dm_TaskId d))"
  shows "snd (DeviceToServiceMessageHandler L f topic payload (m, s) w) = w
    \<and> snd (fst (DeviceToServiceMessageHandler L f topic payload (m, s) w)) = s
    \<and> snd (TaskResponseMessageHandler L g topic payload (m, s) w) = w
    \<and> snd (fst (TaskResponseMessageHandler L g topic payload (m, s) w)) = s"
proof -
  have "\<exists>e. decodeAndValidateDeviceMessage L payload = Inl e"
    using assms by (cases "lib_unmarshal_device_message L payload")
      (auto simp: decodeAndValidateDeviceMessage_def isValidDeviceMessageEnvelope_def)
  then obtain e where "decodeAndValidateDeviceMessage L payload = Inl e" ..
  then show ?thesis by (simp add: DeviceToServiceMessageHandler_def TaskResponseMessageHandler_def Let_def)
qed

lemma invalid_messages_dropped_witness:
  "snd (DeviceToServiceMessageHandler (sample_lib\<lparr>lib_unmarshal_device_message := (\<lambda>_. Inl remote_failed)\<rparr>)
     (\<lambda>t d s (w :: nat). ((None, s), w + 1)) ''t'' ''x'' (zero_metrics, ()) 0) = 0"
  using invalid_messages_dropped
    [of "sample_lib\<lparr>lib_unmarshal_device_message := (\<lambda>_. Inl remote_failed)\<rparr>" "''x''"
      "\<lambda>t d s (w :: nat). ((None, s), w + 1)" "''t''" zero_metrics "()" 0]
  by simp

end
