(* ===== verification/Dsts.thy ===== *)
theory Dsts
  imports Samples Tracing Base64 Durations Settings
begin

text \<open>
  \<open>service/dstsclient\<close>: the client of the device token service. It keeps an app access token
  and the table of token signing keys, retries its calls with exponential backoff, and
  validates the tokens that devices and apps present. The package variables are the fields of
  \<open>dsts_vars\<close>. The remote service, the JWT library and the cryptography are parameters.
\<close>

section \<open>State\<close>

record dsts_vars =
  gCtx :: ctx
  dstsConfig :: dsts_config
  gConnected :: bool
  gAppToken :: string
  gAppTokenExpiresAt :: gotime
  signingKeyTable :: "string \<rightharpoonup> rsa_public_key"

definition zero_dsts :: dsts_vars where
  "zero_dsts =
     \<lparr>gCtx = CtxBackground, dstsConfig = DstsConfig zero_config, gConnected = False,
      gAppToken = [], gAppTokenExpiresAt = zero_time, signingKeyTable = Map.empty\<rparr>"

definition dstsProtocolVersion :: string where "dstsProtocolVersion = ''v1''"
definition dstsOperationRetryCount :: nat where "dstsOperationRetryCount = 5"
definition baseRetryDuration :: int where "baseRetryDuration = 5 * second"
definition clientAssertionType :: string where
  "clientAssertionType = ''urn:ietf:params:oauth:client-assertion-type:jwt-bearer''"
definition ktyRSA :: string where "ktyRSA = ''RSA''"
definition dstsIssuerName :: string where "dstsIssuerName = ''HP Device Token Service''"
definition tokenTypeDevice :: string where "tokenTypeDevice = ''device''"
definition tokenTypeApp :: string where "tokenTypeApp = ''app''"
definition codes_OK :: "32 word" where "codes_OK = 0"

type_synonym 'w dsts_step = "dsts_vars \<Rightarrow> 'w \<Rightarrow> (go_error option \<times> dsts_vars) \<times> 'w"

section \<open>Retrying\<close>

text \<open>
  The loop of \<open>retryWithBackoff\<close>: \<open>n\<close> attempts are left, \<open>i\<close> were made, \<open>err\<close> is the error of
  the last one. The context is looked at before each attempt; a failed attempt is followed by
  a sleep, the last one too.
\<close>

fun retry_loop :: "'w ext \<Rightarrow> 'w dsts_step \<Rightarrow> nat \<Rightarrow> nat \<Rightarrow> go_error option \<Rightarrow> 'w dsts_step" where
  "retry_loop X operation 0 i err v w = ((err, v), w)"
| "retry_loop X operation (Suc n) i err v w =
     (case ctx_err X (gCtx v) w of
        (Some e, w1) \<Rightarrow> ((Some e, v), w1)
      | (None, w1) \<Rightarrow>
          (case operation v w1 of
             ((None, v'), w2) \<Rightarrow> ((None, v'), w2)
           | ((Some e, v'), w2) \<Rightarrow>
               retry_loop X operation n (Suc i) (Some e) v'
                 (x_sleep X (2 ^ i * baseRetryDuration) w2)))"

definition retryWithBackoff :: "'w ext \<Rightarrow> 'w dsts_step \<Rightarrow> 'w dsts_step" where
  "retryWithBackoff X operation = retry_loop X operation dstsOperationRetryCount 0 None"

section \<open>App access token\<close>

definition newDstsProtocolHeader :: "'w ext \<Rightarrow> 'w \<Rightarrow> dsts_request_header \<times> 'w" where
  "newDstsProtocolHeader X w =
     (case x_new_uuid X w of (u, w1) \<Rightarrow>
        case x_now X w1 of (t, w2) \<Rightarrow>
          (\<lparr>hdr_ProtocolVersion = dstsProtocolVersion, hdr_RequestId = u, hdr_RequestTime = t\<rparr>, w2))"

definition private_key :: "dsts_vars \<Rightarrow> string" where
  "private_key v = (case tc_PrivateKey (dstsConfig v) of None \<Rightarrow> [] | Some k \<Rightarrow> k)"

text \<open>
  The claims of the assertion. The truncation of the three dates to seconds is part of the
  JWT library.
\<close>

definition assertionClaims ::
  "'w ext \<Rightarrow> dsts_vars \<Rightarrow> string \<Rightarrow> 'w \<Rightarrow> assertion_claims \<times> 'w" where
  "assertionClaims X v challenge w =
     (case x_now X w of (t1, w1) \<Rightarrow>
      case x_now X w1 of (t2, w2) \<Rightarrow>
      case x_now X w2 of (t3, w3) \<Rightarrow>
      case x_new_uuid X w3 of (u, w4) \<Rightarrow>
        (\<lparr>ac_Nonce = challenge, ac_Issuer = tc_SchedulerAppId (dstsConfig v),
          ac_Subject = tc_SchedulerAppId (dstsConfig v), ac_ExpiresAt = t1 + 10 * minute,
          ac_NotBefore = t2, ac_IssuedAt = t3, ac_ID = u\<rparr>, w4))"

text \<open>
  \<open>getAppToken\<close>. When a reply carries a status other than OK the code returns \<open>err\<close>, which is
  nil at that point: the caller sees success and the token is unchanged.
\<close>

definition authenticate_app ::
  "'w ext \<Rightarrow> string \<Rightarrow> 'w dsts_step" where
  "authenticate_app X assertion v w =
     (case newDstsProtocolHeader X w of (h, w1) \<Rightarrow>
        (case x_rpc_authenticate X
                \<lparr>aaq_Header = h, aaq_Version = dstsProtocolVersion,
                 aaq_AppId = tc_SchedulerAppId (dstsConfig v),
                 aaq_AssertionType = clientAssertionType, aaq_Assertion = assertion\<rparr> w1 of
           (Inl e, w2) \<Rightarrow> ((Some e, v), w2)
         | (Inr response, w2) \<Rightarrow>
             if aar_Status response \<noteq> codes_OK then ((None, v), w2)
             else ((None, v\<lparr>gAppToken := aar_AccessToken response,
                            gAppTokenExpiresAt := aar_ExpiresAt response\<rparr>), w2)))"

definition getAppToken :: "lib \<Rightarrow> 'w ext \<Rightarrow> 'w dsts_step" where
  "getAppToken L X v w =
     (case newDstsProtocolHeader X w of (h, w1) \<Rightarrow>
        (case x_rpc_challenge X
                \<lparr>chq_Header = h, chq_Version = dstsProtocolVersion,
                 chq_AppId = tc_SchedulerAppId (dstsConfig v)\<rparr> w1 of
           (Inl e, w2) \<Rightarrow> ((Some e, v), w2)
         | (Inr response, w2) \<Rightarrow>
             if chr_Status response \<noteq> codes_OK then ((None, v), w2)
             else case assertionClaims X v (chr_Challenge response) w2 of (claims, w3) \<Rightarrow>
               (case lib_jwt_sign L claims (private_key v) of
                  Inl e \<Rightarrow> ((Some e, v), w3)
                | Inr assertion \<Rightarrow> authenticate_app X assertion v w3)))"

definition GetAccessToken :: "lib \<Rightarrow> 'w ext \<Rightarrow> dsts_vars \<Rightarrow> 'w \<Rightarrow> (string result \<times> dsts_vars) \<times> 'w"
where
  "GetAccessToken L X v w =
     (case x_now X w of (now, w1) \<Rightarrow>
        if gAppTokenExpiresAt v < now then
          (case retryWithBackoff X (getAppToken L X) v w1 of
             ((Some e, v'), w2) \<Rightarrow> ((Inl e, v'), w2)
           | ((None, v'), w2) \<Rightarrow> ((Inr (gAppToken v'), v'), w2))
        else ((Inr (gAppToken v), v), w1))"

definition IsAppTokenExpired :: "'w ext \<Rightarrow> dsts_vars \<Rightarrow> 'w \<Rightarrow> bool \<times> 'w" where
  "IsAppTokenExpired X v w = (case x_now X w of (now, w1) \<Rightarrow> (gAppTokenExpiresAt v < now, w1))"

section \<open>Starting the client\<close>

definition connectWithRetry :: "'w ext \<Rightarrow> string \<Rightarrow> 'w dsts_step" where
  "connectWithRetry X addr =
     retryWithBackoff X (\<lambda>v w. case x_grpc_dial X addr w of
        (err, w1) \<Rightarrow> ((err, v\<lparr>gConnected := (err = None)\<rparr>), w1))"

definition pingWithRetry :: "'w ext \<Rightarrow> 'w dsts_step" where
  "pingWithRetry X = retryWithBackoff X (\<lambda>v w. case x_rpc_ping X w of (err, w1) \<Rightarrow> ((err, v), w1))"

text \<open>\<open>fmt.Sprintf("%s:%d", host, port)\<close>.\<close>

definition dsts_address :: "dsts_config \<Rightarrow> string" where
  "dsts_address c = tc_Host c @ '':'' @ show_int (tc_RpcPort c)"

text \<open>
  \<open>Start\<close>. The type assertion on the parsed key panics unless it is an RSA key. The steps
  after the key was read are \<open>start_session\<close>.
\<close>

definition start_session :: "lib \<Rightarrow> 'w ext \<Rightarrow> 'w dsts_step" where
  "start_session L X v w =
     (case connectWithRetry X (dsts_address (dstsConfig v)) v w of
        ((Some e, v1), w1) \<Rightarrow> ((Some e, v1), w1)
      | ((None, v1), w1) \<Rightarrow>
          (case pingWithRetry X v1 w1 of
             ((Some e, v2), w2) \<Rightarrow> ((Some e, v2), w2)
           | ((None, v2), w2) \<Rightarrow>
               (case GetAccessToken L X v2 w2 of
                  ((Inl e, v3), w3) \<Rightarrow> ((Some e, v3), w3)
                | ((Inr _, v3), w3) \<Rightarrow> ((None, v3), w3))))"

definition Start ::
  "lib \<Rightarrow> 'w ext \<Rightarrow> ctx \<Rightarrow> config_mgr \<Rightarrow> dsts_vars \<Rightarrow> 'w
     \<Rightarrow> ((go_error option \<times> dsts_vars) \<times> 'w) outcome" where
  "Start L X c cfgMgr v w =
     (let v1 = v\<lparr>dstsConfig := GetDstsConfig cfgMgr\<rparr>
      in case ctx_err X c w of
           (Some e, w1) \<Rightarrow> Ret ((Some e, v1), w1)
         | (None, w1) \<Rightarrow>
             (let v2 = v1\<lparr>gCtx := c\<rparr>;
                  pkeyStr = lib_getenv L (tc_PrivateKeyEnv (dstsConfig v1))
              in if pkeyStr = [] then Ret ((Some OsErrInvalid, v2), w1)
                 else case lib_pem_decode L pkeyStr of
                        None \<Rightarrow> Ret ((Some OsErrInvalid, v2), w1)
                      | Some block \<Rightarrow>
                          (case lib_ParsePKCS8PrivateKey L block of
                             Inl e \<Rightarrow> Ret ((Some e, v2), w1)
                           | Inr OtherKey \<Rightarrow> Panic ''interface conversion''
                           | Inr (RsaKey k) \<Rightarrow>
                               Ret (start_session L X
                                 (v2\<lparr>dstsConfig := (dstsConfig v2)\<lparr>tc_PrivateKey := Some k\<rparr>\<rparr>) w1))))"

section \<open>Signing keys\<close>

definition be_nat :: "bytes \<Rightarrow> nat" where
  "be_nat bs = foldl (\<lambda>n b. 256 * n + of_char b) 0 bs"

definition base64urlTrailingPadding :: "string \<Rightarrow> bytes result" where
  "base64urlTrailingPadding s = b64_raw_url_decode (trim_right (CHR ''='') s)"

text \<open>
  \<open>big.Int.Uint64\<close> keeps the low 64 bits of a longer number.
\<close>

definition parseRSASigningKey :: "json_web_key \<Rightarrow> rsa_public_key result" where
  "parseRSASigningKey j =
     (if jwk_E j = [] \<or> jwk_N j = [] then Inl (DstsE ErrMissingAssets)
      else case base64urlTrailingPadding (jwk_E j) of
             Inl e \<Rightarrow> Inl e
           | Inr exponent \<Rightarrow>
               (case base64urlTrailingPadding (jwk_N j) of
                  Inl e \<Rightarrow> Inl e
                | Inr modulus \<Rightarrow>
                    let exp = be_nat exponent mod 2 ^ 64
                    in if int exp > int64_max then Inl (DstsE ErrOverflow)
                       else Inr \<lparr>rsa_E = int exp, rsa_N = be_nat modulus\<rparr>))"

fun store_keys :: "json_web_key list \<Rightarrow> (string \<rightharpoonup> rsa_public_key)
    \<Rightarrow> go_error option \<times> (string \<rightharpoonup> rsa_public_key)" where
  "store_keys [] t = (None, t)"
| "store_keys (key # rest) t =
     (if jwk_Kty key = ktyRSA then
        (case parseRSASigningKey key of
           Inl e \<Rightarrow> (Some e, t)
         | Inr publicKey \<Rightarrow> store_keys rest (t(jwk_Kid key \<mapsto> publicKey)))
      else store_keys rest t)"

definition getJWKSSigningKey :: "'w ext \<Rightarrow> 'w dsts_step" where
  "getJWKSSigningKey X v w =
     (case x_rpc_signing_key X w of
        (Inl e, w1) \<Rightarrow> ((Some e, v), w1)
      | (Inr response, w1) \<Rightarrow>
          if skr_Status response \<noteq> codes_OK then ((None, v), w1)
          else case store_keys (skr_SigningKey response) Map.empty of
                 (err, t) \<Rightarrow> ((err, v\<lparr>signingKeyTable := t\<rparr>), w1))"

definition no_public_key :: "string \<Rightarrow> go_error" where
  "no_public_key kid = NewE (''no public key to validate kid: '' @ kid)"

definition getSigningKey ::
  "'w ext \<Rightarrow> jwt_token \<Rightarrow> dsts_vars \<Rightarrow> 'w \<Rightarrow> (rsa_public_key result \<times> dsts_vars) \<times> 'w" where
  "getSigningKey X token v w =
     (case jt_kid token of
        None \<Rightarrow> ((Inl (DstsE ErrInvalidTokenHeaderKid), v), w)
      | Some kid \<Rightarrow>
          (case signingKeyTable v kid of
             Some pubKey \<Rightarrow> ((Inr pubKey, v), w)
           | None \<Rightarrow>
               (case getJWKSSigningKey X v w of
                  ((Some e, v1), w1) \<Rightarrow> ((Inl e, v1), w1)
                | ((None, v1), w1) \<Rightarrow>
                    (case signingKeyTable v1 kid of
                       None \<Rightarrow> ((Inl (no_public_key kid), v1), w1)
                     | Some pubKey \<Rightarrow> ((Inr pubKey, v1), w1)))))"

section \<open>Token validation\<close>

text \<open>
  \<open>jwt.ParseWithClaims\<close>: decode, ask \<open>getSigningKey\<close> for the key, check the signature and the
  dates. The library returns the callback's error inside an error of its own with the same
  text.
\<close>

definition parseAndValidateCommonClaims ::
  "lib \<Rightarrow> 'w ext \<Rightarrow> string \<Rightarrow> dsts_vars \<Rightarrow> 'w \<Rightarrow> (token_claims result \<times> dsts_vars) \<times> 'w" where
  "parseAndValidateCommonClaims L X accessToken v w =
     (case lib_jwt_decode L accessToken of
        Inl e \<Rightarrow> ((Inl e, v), w)
      | Inr token \<Rightarrow>
          (case getSigningKey X token v w of
             ((Inl e, v1), w1) \<Rightarrow> ((Inl (LibE (error_text e)), v1), w1)
           | ((Inr key, v1), w1) \<Rightarrow>
               (case x_jwt_verify X accessToken key w1 of
                  (Inl e, w2) \<Rightarrow> ((Inl e, v1), w2)
                | (Inr False, w2) \<Rightarrow> ((Inl (DstsE ErrInvalidToken), v1), w2)
                | (Inr True, w2) \<Rightarrow>
                    if jt_alg token = None
                    then ((Inl (DstsE ErrInvalidTokenHeaderSigningAlg), v1), w2)
                    else if \<not> has_prefix (tc_Issuer (jt_claims token)) dstsIssuerName
                    then ((Inl (DstsE ErrInvalidIssuerClaim), v1), w2)
                    else ((Inr (jt_claims token), v1), w2))))"

definition ValidateDeviceAccessToken ::
  "lib \<Rightarrow> 'w ext \<Rightarrow> string \<Rightarrow> dsts_vars \<Rightarrow> 'w \<Rightarrow> (token_claims result \<times> dsts_vars) \<times> 'w" where
  "ValidateDeviceAccessToken L X accessToken v w =
     (case parseAndValidateCommonClaims L X accessToken v w of
        ((Inl e, v1), w1) \<Rightarrow> ((Inl e, v1), w1)
      | ((Inr claims, v1), w1) \<Rightarrow>
          if tc_TokenType claims \<noteq> tokenTypeDevice then ((Inl (DstsE ErrNotDeviceToken), v1), w1)
          else ((Inr claims, v1), w1))"

definition ValidateAppAccessToken ::
  "lib \<Rightarrow> 'w ext \<Rightarrow> string \<Rightarrow> dsts_vars \<Rightarrow> 'w \<Rightarrow> (token_claims result \<times> dsts_vars) \<times> 'w" where
  "ValidateAppAccessToken L X accessToken v w =
     (case parseAndValidateCommonClaims L X accessToken v w of
        ((Inl e, v1), w1) \<Rightarrow> ((Inl e, v1), w1)
      | ((Inr claims, v1), w1) \<Rightarrow>
          if tc_TokenType claims \<noteq> tokenTypeApp then ((Inl (DstsE ErrNotAppToken), v1), w1)
          else ((Inr claims, v1), w1))"

lemmas dsts_defs [handler_defs] = ValidateDeviceAccessToken_def ValidateAppAccessToken_def
  parseAndValidateCommonClaims_def getSigningKey_def getJWKSSigningKey_def

section \<open>Facts on retrying\<close>

definition backoff :: "nat \<Rightarrow> int" where "backoff i = 2 ^ i * baseRetryDuration"

lemma retry_loop_ok:
  assumes "retry_loop X operation n i err v w = ((None, v'), w')" and "n = 0 \<longrightarrow> err \<noteq> None"
  shows "\<exists>u x. operation u x = ((None, v'), w')"
  using assms
  by (induction X operation n i err v w rule: retry_loop.induct)
    (auto split: prod.splits option.splits)

lemma retryWithBackoff_ok:
  assumes "retryWithBackoff X operation v w = ((None, v'), w')"
  shows "\<exists>u x. operation u x = ((None, v'), w')"
  using assms by (auto simp: retryWithBackoff_def dstsOperationRetryCount_def dest: retry_loop_ok)

text \<open>
  The history of a retried operation: its attempts and the waits, in order. \<open>hist\<close> is any
  reading of the world that records them and that a look at the context does not change.
\<close>

datatype retry_step = Attempted | Waited int

definition rounds :: "nat \<Rightarrow> nat \<Rightarrow> retry_step list" where
  "rounds i k = concat (map (\<lambda>j. [Attempted, Waited (backoff j)]) [i..<i + k])"

lemma rounds_0 [simp]: "rounds i 0 = []"
  by (simp add: rounds_def)

lemma rounds_Suc: "rounds i (Suc k) = Attempted # Waited (backoff i) # rounds (Suc i) k"
  by (simp add: rounds_def upt_rec [of i])

lemma ctx_err_keeps:
  "(\<And>c w. f (snd (x_cancelled X c w)) = f w) \<Longrightarrow> f (snd (ctx_err X c w)) = f w"
  by (simp add: ctx_err_def)

text \<open>How a run with \<open>n\<close> attempts left ends after \<open>k\<close> failed attempts.\<close>

definition retry_end :: "'w ext \<Rightarrow> 'w dsts_step \<Rightarrow> nat \<Rightarrow> nat \<Rightarrow> go_error option \<Rightarrow> go_error option
    \<Rightarrow> dsts_vars \<Rightarrow> retry_step list \<Rightarrow> bool" where
  "retry_end X operation n k err r v' final \<longleftrightarrow>
     k < n \<and> r = None \<and> final = [Attempted] \<and> (\<exists>u x x'. operation u x = ((None, v'), x'))
     \<or> k < n \<and> final = [] \<and> (\<exists>e c x x'. r = Some e \<and> ctx_err X c x = (Some e, x'))
     \<or> k = n \<and> final = [] \<and> (if n = 0 then r = err
          else \<exists>e u x x'. r = Some e \<and> operation u x = ((Some e, v'), x'))"

lemma retry_loop_history:
  fixes hist :: "'w \<Rightarrow> retry_step list"
  assumes sleep: "\<And>d w. hist (x_sleep X d w) = hist w @ [Waited d]"
    and op: "\<And>v w. hist (snd (operation v w)) = hist w @ [Attempted]"
    and ctx: "\<And>c w. hist (snd (x_cancelled X c w)) = hist w"
  shows "retry_loop X operation n i err v w = ((r, v'), w') \<Longrightarrow>
    \<exists>k \<le> n. \<exists>final. hist w' = hist w @ rounds i k @ final \<and> retry_end X operation n k err r v' final"
proof (induction n arbitrary: i err v w)
  case 0
  then show ?case by (auto simp: retry_end_def)
next
  case (Suc n)
  obtain ce w1 where c: "ctx_err X (gCtx v) w = (ce, w1)" by fastforce
  then have w1: "hist w1 = hist w"
    using ctx_err_keeps [of hist X "gCtx v" w, OF ctx] by simp
  obtain e v1 w2 where o: "operation v w1 = ((e, v1), w2)" by (metis surj_pair)
  then have w2: "hist w2 = hist w @ [Attempted]" using op [of v w1] w1 by simp
  show ?case
  proof (cases "ce = None \<and> e \<noteq> None")
    case False
    then have "ce \<noteq> None \<and> r = ce \<and> hist w' = hist w \<or>
        r = None \<and> e = None \<and> v' = v1 \<and> hist w' = hist w @ [Attempted]"
      using Suc.prems c o w1 w2 by (auto split: option.splits)
    moreover have "e = None \<Longrightarrow> \<exists>u x x'. operation u x = ((None, v1), x')" using o by blast
    ultimately show ?thesis using c by (intro exI [of _ 0]) (auto simp: retry_end_def)
  next
    case True
    then obtain e' where e: "e = Some e'" and ce: "ce = None" by auto
    let ?w3 = "x_sleep X (2 ^ i * baseRetryDuration) w2"
    have loop: "retry_loop X operation n (Suc i) (Some e') v1 ?w3 = ((r, v'), w')"
      using Suc.prems c o e ce by simp
    from Suc.IH [OF this] obtain k final where k: "k \<le> n"
      "hist w' = hist ?w3 @ rounds (Suc i) k @ final" "retry_end X operation n k (Some e') r v' final" by blast
    have zero: "n = 0 \<Longrightarrow> v' = v1" using loop by simp
    have "hist w' = hist w @ rounds i (Suc k) @ final"
      using k(2) w2 by (simp add: sleep backoff_def rounds_Suc)
    moreover have "retry_end X operation (Suc n) (Suc k) err r v' final"
      using k(3) o e zero by (auto simp: retry_end_def split: if_splits)
    ultimately show ?thesis using k(1) by (intro exI [of _ "Suc k"]) auto
  qed
qed

section \<open>Facts on keys and tokens\<close>

text \<open>The keys of an answer, in order, up to the first one that cannot be parsed.\<close>

definition rsa_keys :: "json_web_key list \<Rightarrow> json_web_key list" where
  "rsa_keys ks = filter (\<lambda>k. jwk_Kty k = ktyRSA) ks"

definition parsed :: "json_web_key \<Rightarrow> rsa_public_key option" where
  "parsed k = (case parseRSASigningKey k of Inl _ \<Rightarrow> None | Inr p \<Rightarrow> Some p)"

definition good_prefix :: "json_web_key list \<Rightarrow> json_web_key list" where
  "good_prefix ks = takeWhile (\<lambda>k. parsed k \<noteq> None) (rsa_keys ks)"

definition key_table :: "json_web_key list \<Rightarrow> string \<rightharpoonup> rsa_public_key" where
  "key_table ks = map_of (rev (map (\<lambda>k. (jwk_Kid k, the (parsed k))) ks))"

lemma store_keys_spec:
  "store_keys ks t = (err, t') \<Longrightarrow>
     t' = t ++ key_table (good_prefix ks)
     \<and> (err = None \<longleftrightarrow> good_prefix ks = rsa_keys ks)"
proof (induction ks arbitrary: t)
  case Nil
  then show ?case by (simp add: good_prefix_def rsa_keys_def key_table_def)
next
  case (Cons k ks)
  show ?case
  proof (cases "jwk_Kty k = ktyRSA \<and> parsed k \<noteq> None")
    case True
    then obtain p where p: "parseRSASigningKey k = Inr p" and kp: "parsed k = Some p"
      by (auto simp: parsed_def split: sum.splits)
    then have "store_keys ks (t(jwk_Kid k \<mapsto> p)) = (err, t')" using Cons.prems True by simp
    from Cons.IH [OF this] True kp show ?thesis
      by (auto simp: good_prefix_def rsa_keys_def key_table_def map_add_def
          split: option.splits)
  next
    case False
    show ?thesis
    proof (cases "jwk_Kty k = ktyRSA")
      case True
      with False obtain e where e: "parseRSASigningKey k = Inl e"
        by (auto simp: parsed_def split: sum.splits)
      with True have "parsed k = None" by (simp add: parsed_def)
      with True e Cons.prems show ?thesis
        by (auto simp: good_prefix_def rsa_keys_def key_table_def)
    next
      case no: False
      then have "store_keys ks t = (err, t')" using Cons.prems by simp
      with Cons.IH no show ?thesis by (simp add: good_prefix_def rsa_keys_def)
    qed
  qed
qed

lemma getSigningKey_table:
  "getSigningKey X token v w = ((Inr key, v'), w') \<Longrightarrow>
     \<exists>kid. jt_kid token = Some kid \<and> signingKeyTable v' kid = Some key"
  by (auto simp: getSigningKey_def split: option.splits prod.splits)

lemma parseAndValidate_ok:
  assumes "parseAndValidateCommonClaims L X tok v w = ((Inr c, v'), w')"
  shows "\<exists>t kid key w1. lib_jwt_decode L tok = Inr t \<and> c = jt_claims t \<and> jt_kid t = Some kid
    \<and> signingKeyTable v' kid = Some key \<and> x_jwt_verify X tok key w1 = (Inr True, w')
    \<and> jt_alg t \<noteq> None \<and> has_prefix (tc_Issuer c) dstsIssuerName"
proof -
  obtain t where t: "lib_jwt_decode L tok = Inr t"
    using assms by (auto simp: parseAndValidateCommonClaims_def split: sum.splits)
  obtain k v1 w1 where k: "getSigningKey X t v w = ((k, v1), w1)" by (metis surj_pair)
  obtain key where key: "k = Inr key"
    using assms t k by (auto simp: parseAndValidateCommonClaims_def split: sum.splits)
  then obtain kid where "jt_kid t = Some kid" "signingKeyTable v1 kid = Some key"
    using getSigningKey_table k by metis
  moreover obtain b w2 where b: "x_jwt_verify X tok key w1 = (b, w2)" by fastforce
  moreover have "b = Inr True \<and> w2 = w' \<and> v1 = v' \<and> c = jt_claims t \<and> jt_alg t \<noteq> None
    \<and> has_prefix (tc_Issuer c) dstsIssuerName"
    using assms t k key b
    by (auto simp: parseAndValidateCommonClaims_def split: sum.splits bool.splits if_splits)
  ultimately show ?thesis using t by blast
qed

section \<open>What a token check promises its callers\<close>

text \<open>
  \<open>auth_log\<close>: the check makes no call but signature checks and key fetches, and it accepts only
  after the signature of the token was verified. The locale states it for any validator; its lemma is what the
  message handlers need: a handler that continues only with claims does nothing before the
  token was verified.
\<close>

definition auth_log :: "string \<Rightarrow> event list \<Rightarrow> token_claims result \<times> 's \<Rightarrow> bool" where
  "auth_log tok es r \<longleftrightarrow> list_all is_check es
     \<and> (\<forall>c. fst r = Inr c \<longrightarrow> EvVerify tok True \<in> set es)"

definition with_claims ::
  "(string \<Rightarrow> 's \<Rightarrow> 'w \<Rightarrow> (token_claims result \<times> 's) \<times> 'w) \<Rightarrow> (go_error \<Rightarrow> 's \<Rightarrow> 'r)
     \<Rightarrow> (token_claims \<Rightarrow> 's \<Rightarrow> 'w \<Rightarrow> 'r \<times> 'w) \<Rightarrow> string \<Rightarrow> 's \<Rightarrow> 'w \<Rightarrow> 'r \<times> 'w" where
  "with_claims validate on_error k tok s w =
     (case validate tok s w of
        ((Inl e, s'), w') \<Rightarrow> (on_error e s', w')
      | ((Inr c, s'), w') \<Rightarrow> k c s' w')"

locale token_validator =
  fixes validate :: "string \<Rightarrow> 's \<Rightarrow> 'w \<times> event list \<Rightarrow> (token_claims result \<times> 's) \<times> ('w \<times> event list)"
  assumes checks: "emits (auth_log tok) (validate tok s)"
begin

lemma guarded:
  assumes k: "\<And>c s. appends (k c s)"
  shows "emits (\<lambda>es r. verified_before tok es) (with_claims validate on_error k tok s)"
proof -
  have "emits (\<lambda>es r. verified_before tok es)
      (\<lambda>w. case validate tok s w of (r, w') \<Rightarrow>
         (case r of (a, s') \<Rightarrow> case a of Inl e \<Rightarrow> (on_error e s', w') | Inr c \<Rightarrow> k c s' w'))"
  proof (rule emits_then [OF checks])
    fix es :: "event list" and r :: "token_claims result \<times> 's"
    assume a: "auth_log tok es r"
    obtain x s' where r: "r = (x, s')" by fastforce
    show "emits (\<lambda>fs r. verified_before tok (es @ fs))
        (\<lambda>w'. case r of (a, s') \<Rightarrow> case a of Inl e \<Rightarrow> (on_error e s', w') | Inr c \<Rightarrow> k c s' w')"
    proof (cases x)
      case (Inl e)
      with a r show ?thesis
        by (auto simp: auth_log_def intro!: emits_return verified_before_checks)
    next
      case (Inr c)
      with a r have "verified_before tok (es @ fs)" for fs
        by (auto simp: auth_log_def intro: verified_before_append)
      with Inr r k [of c s'] show ?thesis by (auto elim: emits_mono)
    qed
  qed
  moreover have "with_claims validate on_error k tok s = (\<lambda>w. case validate tok s w of (r, w') \<Rightarrow>
      (case r of (a, s') \<Rightarrow> case a of Inl e \<Rightarrow> (on_error e s', w') | Inr c \<Rightarrow> k c s' w'))"
    by (auto simp: with_claims_def fun_eq_iff split: prod.splits sum.splits)
  ultimately show ?thesis by simp
qed

end

lemma getSigningKey_log: "emits (\<lambda>es r. list_all is_check es) (getSigningKey (traced X) t v)"
  by (rule emitsI)
    (auto simp: getSigningKey_def getJWKSSigningKey_def logged_pair split: option.splits prod.splits sum.splits)

lemma common_claims_log:
  "emits (auth_log tok) (parseAndValidateCommonClaims L (traced X) tok v)"
proof (rule emitsI)
  fix w tr
  let ?f = "parseAndValidateCommonClaims L (traced X) tok v (w, tr)"
  show "\<exists>es. snd (snd ?f) = tr @ es \<and> auth_log tok es (fst ?f)"
  proof (cases "lib_jwt_decode L tok")
    case (Inl e)
    then show ?thesis by (simp add: parseAndValidateCommonClaims_def auth_log_def)
  next
    case (Inr t)
    obtain k v1 w1 tr1 where k: "getSigningKey (traced X) t v (w, tr) = ((k, v1), (w1, tr1))"
      by (metis surj_pair)
    from getSigningKey_log k obtain ks where tr: "tr1 = tr @ ks" "list_all is_check ks" by (rule emitsE)
    show ?thesis
    proof (cases k)
      case (Inl e)
      with \<open>lib_jwt_decode L tok = Inr t\<close> k tr show ?thesis
        by (simp add: parseAndValidateCommonClaims_def auth_log_def)
    next
      case (Inr key)
      with \<open>lib_jwt_decode L tok = Inr t\<close> k tr show ?thesis
        by (cases "fst (x_jwt_verify X tok key w1)"; cases "fst (x_jwt_verify X tok key w1) = Inr True")
          (simp_all add: parseAndValidateCommonClaims_def auth_log_def logged_pair)
    qed
  qed
qed

lemma auth_log_stricter:
  assumes "emits (auth_log tok) f"
    and "\<And>s. snd (g s) = snd (f s) \<and> (\<forall>c. fst (fst (g s)) = Inr c \<longrightarrow> fst (fst (f s)) = Inr c)"
  shows "emits (auth_log tok) g"
  using assms unfolding emits_def auth_log_def by metis

lemma device_claims_log:
  "emits (auth_log tok) (ValidateDeviceAccessToken L (traced X) tok v)"
  by (rule auth_log_stricter [OF common_claims_log [of tok L X v]])
    (auto simp: ValidateDeviceAccessToken_def split: prod.splits sum.splits)

lemma app_claims_log:
  "emits (auth_log tok) (ValidateAppAccessToken L (traced X) tok v)"
  by (rule auth_log_stricter [OF common_claims_log [of tok L X v]])
    (auto simp: ValidateAppAccessToken_def split: prod.splits sum.splits)

interpretation device_auth: token_validator "ValidateDeviceAccessToken L (traced X)" for L X
  by unfold_locales (rule device_claims_log)

interpretation app_auth: token_validator "ValidateAppAccessToken L (traced X)" for L X
  by unfold_locales (rule app_claims_log)

section \<open>Properties of the client\<close>

text \<open>
  C19: an operation on the token service is attempted at most five times, once per round. Each
  failed attempt is followed by a wait of 5, 10, 20, 40 and 80 seconds, in this order. Success is
  reported exactly after a successful attempt, at once; a failure comes from the fifth failed
  attempt, whose error it is, or from a cancelled context found before an attempt.
\<close>

theorem retry_backoff:
  fixes hist :: "'w \<Rightarrow> retry_step list"
  assumes "\<And>d w. hist (x_sleep X d w) = hist w @ [Waited d]"
    and "\<And>v w. hist (snd (operation v w)) = hist w @ [Attempted]"
    and "\<And>c w. hist (snd (x_cancelled X c w)) = hist w"
    and "retryWithBackoff X operation v w = ((r, v'), w')"
  shows "\<exists>k \<le> 5. \<exists>final. hist w' = hist w @ concat (take k
        [[Attempted, Waited (5 * second)], [Attempted, Waited (10 * second)],
         [Attempted, Waited (20 * second)], [Attempted, Waited (40 * second)],
         [Attempted, Waited (80 * second)]]) @ final
      \<and> (k < 5 \<and> r = None \<and> final = [Attempted] \<and> (\<exists>u x x'. operation u x = ((None, v'), x'))
         \<or> k < 5 \<and> final = [] \<and> (\<exists>e c x x'. r = Some e \<and> ctx_err X c x = (Some e, x'))
         \<or> k = 5 \<and> final = [] \<and> (\<exists>e u x x'. r = Some e \<and> operation u x = ((Some e, v'), x')))"
proof -
  have t: "rounds 0 k = concat (take k
        [[Attempted, Waited (5 * second)], [Attempted, Waited (10 * second)],
         [Attempted, Waited (20 * second)], [Attempted, Waited (40 * second)],
         [Attempted, Waited (80 * second)]])" if "k \<le> 5" for k
  proof -
    let ?f = "\<lambda>j. [Attempted, Waited (backoff j)]"
    have "rounds 0 k = concat (take k (map ?f [0..<5]))" using that by (simp add: rounds_def take_map)
    also have "map ?f [0..<5] = [[Attempted, Waited (5 * second)], [Attempted, Waited (10 * second)],
         [Attempted, Waited (20 * second)], [Attempted, Waited (40 * second)],
         [Attempted, Waited (80 * second)]]"
      by (simp add: backoff_def baseRetryDuration_def upt_rec)
    finally show ?thesis .
  qed
  from retry_loop_history [of hist X operation, OF assms(1-3) assms(4) [unfolded retryWithBackoff_def]]
  obtain k final where k: "k \<le> 5" "hist w' = hist w @ rounds 0 k @ final"
    "retry_end X operation 5 k None r v' final"
    by (auto simp: dstsOperationRetryCount_def)
  show ?thesis
    by (rule exI [of _ k], intro conjI exI [of _ final])
      (use k t [OF k(1)] in \<open>simp_all add: retry_end_def\<close>)
qed

text \<open>An outside whose world is the history; every ping fails.\<close>

definition sleepy :: "retry_step list ext" where
  "sleepy = ext.make (\<lambda>w. (0, w)) (\<lambda>d w. w @ [Waited d]) (\<lambda>w. (0, w)) (\<lambda>w. ([], w)) (\<lambda>w. (0, w))
     (\<lambda>_ w. (None, w)) (\<lambda>_ w. w) (\<lambda>_ w. (None, w)) (\<lambda>_ _ w. (Inr [], w)) (\<lambda>_ _ w. (Inr [], w))
     (\<lambda>_ _ _ _ w. (Inr ([], []), w)) (\<lambda>_ _ _ _ w. (Inr ([], []), w)) (\<lambda>_ w. (Inr [], w))
     (\<lambda>_ _ w. (Inr [], w)) (\<lambda>_ _ w. (None, w)) (\<lambda>_ _ w. (Inr [], w)) (\<lambda>w. (None, w))
     (\<lambda>_ _ _ w. (None, w)) (\<lambda>_ w. ((None, None), w)) (\<lambda>w. (None, w)) (\<lambda>_ w. (None, w))
     (\<lambda>_ _ w. (Inr True, w)) (\<lambda>_ w. (None, w)) (\<lambda>w. (Some remote_failed, w @ [Attempted]))
     (\<lambda>_ w. (Inl remote_failed, w)) (\<lambda>_ w. (Inl remote_failed, w)) (\<lambda>w. (Inl remote_failed, w))
     (\<lambda>_ w. (None, w)) (\<lambda>w. w) (\<lambda>_ w. (None, w)) (\<lambda>w. (None, w)) (\<lambda>_ _ w. (Inl remote_failed, w))
     (\<lambda>_ w. (None, w)) (\<lambda>c w. ((c, None), w)) (\<lambda>r w. ((r, None), w)) (\<lambda>_ w. (Inr [], w))"

lemma retry_backoff_witness:
  "\<exists>v'. pingWithRetry sleepy zero_dsts [] = ((Some remote_failed, v'),
     [Attempted, Waited (5 * second), Attempted, Waited (10 * second), Attempted, Waited (20 * second),
      Attempted, Waited (40 * second), Attempted, Waited (80 * second)])"
proof -
  obtain r v' w' where run: "pingWithRetry sleepy zero_dsts [] = ((r, v'), w')" by (metis surj_pair)
  let ?op = "\<lambda>v w. case x_rpc_ping sleepy w of (err, w1) \<Rightarrow> ((err, v), w1)"
  have op: "?op u x = ((Some remote_failed, u), x @ [Attempted])" for u :: dsts_vars and x
    by (simp add: sleepy_def ext.make_def)
  have "\<exists>k \<le> 5. \<exists>final. id w' = id [] @ concat (take k
        [[Attempted, Waited (5 * second)], [Attempted, Waited (10 * second)],
         [Attempted, Waited (20 * second)], [Attempted, Waited (40 * second)],
         [Attempted, Waited (80 * second)]]) @ final
      \<and> (k < 5 \<and> r = None \<and> final = [Attempted] \<and> (\<exists>u x x'. ?op u x = ((None, v'), x'))
         \<or> k < 5 \<and> final = [] \<and> (\<exists>e c x x'. r = Some e \<and> ctx_err sleepy c x = (Some e, x'))
         \<or> k = 5 \<and> final = [] \<and> (\<exists>e u x x'. r = Some e \<and> ?op u x = ((Some e, v'), x')))"
    by (rule retry_backoff [where operation = ?op])
      (use run in \<open>simp_all add: pingWithRetry_def sleepy_def ext.make_def\<close>)
  moreover have "ctx_err sleepy c x = (None, x)" for c x
    by (simp add: ctx_err_def sleepy_def ext.make_def)
  ultimately show ?thesis using run op by auto
qed

lemma ValidateDevice_ok:
  assumes "ValidateDeviceAccessToken L X tok v w = ((Inr c, v'), w')"
  shows "\<exists>t kid key w1. lib_jwt_decode L tok = Inr t \<and> c = jt_claims t \<and> jt_kid t = Some kid
    \<and> signingKeyTable v' kid = Some key \<and> x_jwt_verify X tok key w1 = (Inr True, w')
    \<and> jt_alg t \<noteq> None \<and> has_prefix (tc_Issuer c) dstsIssuerName \<and> tc_TokenType c = tokenTypeDevice"
proof -
  have p: "parseAndValidateCommonClaims L X tok v w = ((Inr c, v'), w')"
    and q: "tc_TokenType c = tokenTypeDevice"
    using assms by (auto simp: ValidateDeviceAccessToken_def split: prod.splits sum.splits if_splits)
  show ?thesis using parseAndValidate_ok [OF p] q by simp
qed

text \<open>
  C16: \<open>ValidateDeviceAccessToken\<close> accepts a token only if it decodes, its
  key identifier names an entry of the signing key table, the signature and dates verify under
  that key, it names an algorithm, its issuer is the token service and it is a device token;
  the claims returned are those of the verified token.
\<close>

theorem device_token_checked:
  assumes "ValidateDeviceAccessToken L X tok v w = ((Inr c, v'), w')"
  shows "\<exists>t kid key w1. lib_jwt_decode L tok = Inr t \<and> c = jt_claims t \<and> jt_kid t = Some kid
    \<and> signingKeyTable v' kid = Some key \<and> x_jwt_verify X tok key w1 = (Inr True, w')
    \<and> jt_alg t \<noteq> None \<and> has_prefix (tc_Issuer c) dstsIssuerName \<and> tc_TokenType c = tokenTypeDevice"
  using assms by (rule ValidateDevice_ok)

definition keyed_dsts :: dsts_vars where
  "keyed_dsts = zero_dsts\<lparr>signingKeyTable := [''k1'' \<mapsto> sample_key]\<rparr>"

lemma device_token_checked_witness:
  "\<exists>t. lib_jwt_decode sample_lib ''token'' = Inr t \<and> sample_claims = jt_claims t"
proof -
  have "ValidateDeviceAccessToken sample_lib idle_ext ''token'' keyed_dsts () =
      ((Inr sample_claims, keyed_dsts), ())"
    by (simp add: dsts_defs sample_lib_def idle_ext_def sample_token_def sample_claims_def
        keyed_dsts_def has_prefix_def dstsIssuerName_def tokenTypeDevice_def)
  from device_token_checked [OF this] show ?thesis by blast
qed

text \<open>
  C34: a successful answer of the key endpoint replaces the whole table.
  Only RSA keys count; if all of them parse, the table holds exactly them, the last one of a
  key identifier winning. If one does not, an error is returned and the table is left with
  only the keys before it, so every key known earlier is forgotten. An answer with another
  status changes nothing and is not an error.
\<close>

theorem signing_keys_replaced:
  assumes "x_rpc_signing_key X w = (Inr response, w1)"
  shows "case getJWKSSigningKey X v w of ((err, v'), w') \<Rightarrow>
    w' = w1
    \<and> (if skr_Status response \<noteq> codes_OK then err = None \<and> v' = v
       else v' = v\<lparr>signingKeyTable := key_table (good_prefix (skr_SigningKey response))\<rparr>
         \<and> (err = None \<longleftrightarrow> list_all (\<lambda>k. parsed k \<noteq> None) (rsa_keys (skr_SigningKey response))))"
proof -
  obtain err t where s: "store_keys (skr_SigningKey response) Map.empty = (err, t)" by fastforce
  have "good_prefix ks = rsa_keys ks \<longleftrightarrow> list_all (\<lambda>k. parsed k \<noteq> None) (rsa_keys ks)" for ks
    by (simp add: good_prefix_def takeWhile_eq_all_conv list_all_iff)
  with store_keys_spec [OF s] s assms show ?thesis by (simp add: getJWKSSigningKey_def)
qed

lemma signing_keys_replaced_witness:
  "case getJWKSSigningKey
      (idle_ext\<lparr>x_rpc_signing_key := (\<lambda>w. (Inr \<lparr>skr_Status = 0, skr_SigningKey = []\<rparr>, w))\<rparr>)
      keyed_dsts () of ((err, v'), w') \<Rightarrow> signingKeyTable v' = Map.empty"
  using signing_keys_replaced
    [of "idle_ext\<lparr>x_rpc_signing_key := (\<lambda>w. (Inr \<lparr>skr_Status = 0, skr_SigningKey = []\<rparr>, w))\<rparr>"
      "()" "\<lparr>skr_Status = 0, skr_SigningKey = []\<rparr>" "()" keyed_dsts]
  by (simp add: codes_OK_def good_prefix_def rsa_keys_def key_table_def split: prod.splits)

text \<open>
  C39: when the app token has expired, the client's context is not cancelled and the service
  answers the challenge with a status other than OK, \<open>GetAccessToken\<close> reports success after that
  one challenge and hands out the old token, which is empty if there never was one.
\<close>

theorem bad_status_is_success:
  assumes "x_now X w = (now, w1)" "gAppTokenExpiresAt v < now"
    and "ctx_err X (gCtx v) w1 = (None, w2)" and "newDstsProtocolHeader X w2 = (h, w3)"
    and "x_rpc_challenge X \<lparr>chq_Header = h, chq_Version = dstsProtocolVersion,
        chq_AppId = tc_SchedulerAppId (dstsConfig v)\<rparr> w3 = (Inr response, w4)"
    and "chr_Status response \<noteq> codes_OK"
  shows "GetAccessToken L X v w = ((Inr (gAppToken v), v), w4)"
proof -
  have "getAppToken L X v w2 = ((None, v), w4)"
    using assms(4-6) by (simp add: getAppToken_def)
  with assms(3) have "retryWithBackoff X (getAppToken L X) v w1 = ((None, v), w4)"
    by (simp add: retryWithBackoff_def dstsOperationRetryCount_def numeral_eq_Suc)
  with assms(1,2) show ?thesis by (simp add: GetAccessToken_def)
qed

lemma bad_status_is_success_witness:
  "GetAccessToken sample_lib
      (idle_ext\<lparr>x_rpc_challenge := (\<lambda>_ w. (Inr \<lparr>chr_Status = 16, chr_Challenge = [], chr_ExpiresAt = 0\<rparr>, w))\<rparr>)
      (zero_dsts\<lparr>gCtx := CtxMqtt\<rparr>) () = ((Inr [], zero_dsts\<lparr>gCtx := CtxMqtt\<rparr>), ())"
  using bad_status_is_success
    [of "idle_ext\<lparr>x_rpc_challenge := (\<lambda>_ w. (Inr \<lparr>chr_Status = 16, chr_Challenge = [], chr_ExpiresAt = 0\<rparr>, w))\<rparr>"
      "()" 1000 "()" "zero_dsts\<lparr>gCtx := CtxMqtt\<rparr>" "()" _ "()"
      "\<lparr>chr_Status = 16, chr_Challenge = [], chr_ExpiresAt = 0\<rparr>" "()" sample_lib]
  by (simp add: codes_OK_def zero_dsts_def zero_time_def ctx_err_def newDstsProtocolHeader_def)

end
