(* ===== verification/MqttClient.thy ===== *)
theory MqttClient
  imports MqttRouter Dsts ServiceDispatch
begin

text \<open>
  The connection of \<open>service/mqtt\<close> (\<open>init.go\<close>, \<open>callbacks.go\<close>, \<open>client_id.go\<close>): the client
  identifier, the user name with the app token, connecting, reconnecting and the callbacks of
  the MQTT library. A callback that panics returns \<open>Panic\<close>.
\<close>

section \<open>The client identifier\<close>

definition uniqueIDLength :: nat where "uniqueIDLength = 6"
definition letterIdxBits :: nat where "letterIdxBits = 6"
definition letterIdxMax :: nat where "letterIdxMax = 63 div letterIdxBits"
definition letterIdxMask :: "64 word" where "letterIdxMask = 2 ^ letterIdxBits - 1"

definition letterBytes :: string where
  "letterBytes = ''abcdefghijklmnopqrstuvwxyzABCDEFGHIJKLMNOPQRSTUVWXYZ''"

definition letter_index :: "64 word \<Rightarrow> nat" where
  "letter_index cache = unat (cache AND letterIdxMask)"

text \<open>
  The loop of \<open>generateClientId\<close>: \<open>need\<close> letters are missing (\<open>i + 1\<close> in the code), \<open>out\<close> are the
  letters found, the last position first. An index past the alphabet is thrown away, so the
  loop has no bound of its own: it carries fuel, and \<open>None\<close> means not finished.
\<close>

fun client_letters ::
  "'w ext \<Rightarrow> nat \<Rightarrow> nat \<Rightarrow> 64 word \<Rightarrow> nat \<Rightarrow> string \<Rightarrow> 'w \<Rightarrow> (string \<times> 'w) option" where
  "client_letters X fuel 0 cache remain out w = Some (out, w)"
| "client_letters X 0 (Suc need) cache remain out w = None"
| "client_letters X (Suc fuel) (Suc need) cache remain out w =
     (case (if remain = 0
            then (case x_int63 X w of (c, w1) \<Rightarrow> (c, letterIdxMax, w1))
            else (cache, remain, w)) of
        (cache1, remain1, w1) \<Rightarrow>
          (let idx = letter_index cache1
           in if idx < length letterBytes
              then client_letters X fuel need (drop_bit letterIdxBits cache1) (remain1 - 1)
                     (letterBytes ! idx # out) w1
              else client_letters X fuel (Suc need) (drop_bit letterIdxBits cache1) (remain1 - 1) out w1))"

text \<open>The clock only seeds the generator.\<close>

definition generateClientId :: "'w ext \<Rightarrow> nat \<Rightarrow> string \<Rightarrow> 'w \<Rightarrow> (string \<times> 'w) option" where
  "generateClientId X fuel appID w =
     (case x_now X w of (seed, w1) \<Rightarrow>
      case x_int63 X w1 of (cache, w2) \<Rightarrow>
        (case client_letters X fuel uniqueIDLength cache letterIdxMax [] w2 of
           None \<Rightarrow> None
         | Some (b, w3) \<Rightarrow> Some (appID @ ''-'' @ b, w3)))"

section \<open>Connecting\<close>

definition brokerTypeAwsIoT :: string where "brokerTypeAwsIoT = ''aws_iot''"

definition userNameFormat :: "string \<Rightarrow> string" where
  "userNameFormat token =
     ''username?x-amz-customauthorizer-name=KryptonIoTAuthorizer&device_token='' @ token"

type_synonym mqtt_state = "mqtt_vars \<times> dsts_vars"

definition set_username :: "string option \<Rightarrow> mqtt_vars \<Rightarrow> mqtt_vars" where
  "set_username u m = m\<lparr>clientConfig := (clientConfig m)\<lparr>cc_Username := u\<rparr>\<rparr>"

definition updateMqttUsername ::
  "lib \<Rightarrow> 'w ext \<Rightarrow> mqtt_state \<Rightarrow> 'w \<Rightarrow> (go_error option \<times> mqtt_state) \<times> 'w" where
  "updateMqttUsername L X s w =
     (case s of (m, d) \<Rightarrow>
        if mc_BrokerType (mqttConfig m) = brokerTypeAwsIoT then
          (case GetAccessToken L X d w of
             ((Inl e, d1), w1) \<Rightarrow> ((Some e, (set_username None m, d1)), w1)
           | ((Inr token, d1), w1) \<Rightarrow> ((None, (set_username (Some (userNameFormat token)) m, d1)), w1))
        else ((None, (m, d)), w))"

definition reconnect :: "'w ext \<Rightarrow> mqtt_vars \<Rightarrow> 'w \<Rightarrow> 'w" where
  "reconnect X m w =
     (case ctx_err X (mqttCtx m) w of
        (Some e, w1) \<Rightarrow> w1
      | (None, w1) \<Rightarrow>
          (case x_mqtt_disconnect X w1 of (_, w2) \<Rightarrow>
             snd (x_mqtt_connect X (cc_Username (clientConfig m)) w2)))"

definition mqtt_Shutdown :: "'w ext \<Rightarrow> mqtt_vars \<Rightarrow> 'w \<Rightarrow> 'w" where
  "mqtt_Shutdown X m = x_cancel X (mqttCtx m)"

section \<open>Callbacks\<close>

text \<open>
  The answer to a subscription is a pointer that the library leaves nil when it has no answer;
  the code reads the reason in both branches.
\<close>

definition connectionUpCallback :: "'w ext \<Rightarrow> mqtt_vars \<Rightarrow> 'w \<Rightarrow> 'w outcome" where
  "connectionUpCallback X m w =
     (case ctx_err X (mqttCtx m) w of
        (Some e, w1) \<Rightarrow> Ret w1
      | (None, w1) \<Rightarrow>
          (case x_mqtt_subscribe X mqttSubscriptionsMap w1 of
             ((None, err), w2) \<Rightarrow> Panic ''nil pointer dereference''
           | ((Some ack, err), w2) \<Rightarrow> Ret w2))"

definition refresh_or_panic ::
  "lib \<Rightarrow> 'w ext \<Rightarrow> mqtt_state \<Rightarrow> 'w \<Rightarrow> (mqtt_state \<times> 'w) outcome" where
  "refresh_or_panic L X s w =
     (case updateMqttUsername L X s w of
        ((Some e, s1), w1) \<Rightarrow> Panic (error_text e)
      | ((None, s1), w1) \<Rightarrow> Ret (s1, w1))"

definition connectionErrorCallback ::
  "lib \<Rightarrow> 'w ext \<Rightarrow> mqtt_state \<times> metrics \<Rightarrow> 'w \<Rightarrow> ((mqtt_state \<times> metrics) \<times> 'w) outcome" where
  "connectionErrorCallback L X sm w =
     (case sm of (s, mt) \<Rightarrow>
        case IsAppTokenExpired X (snd s) w of (expired, w1) \<Rightarrow>
          bind_outcome (if expired then refresh_or_panic L X s w1 else Ret (s, w1)) (\<lambda>(s1, w2).
            Ret ((s1, Inc MetricMqttConnectionErrorCount mt), reconnect X (fst s1) w2)))"

definition clientErrorCallback :: "metrics \<Rightarrow> metrics" where
  "clientErrorCallback mt = Inc MetricMqttErrorCount mt"

definition serverDisconnectCallback ::
  "lib \<Rightarrow> 'w ext \<Rightarrow> nat \<Rightarrow> mqtt_state \<Rightarrow> 'w \<Rightarrow> (mqtt_state \<times> 'w) outcome" where
  "serverDisconnectCallback L X reasonCode s w =
     (if reasonCode = 135 then
        bind_outcome (refresh_or_panic L X s w) (\<lambda>(s1, w1). Ret (s1, reconnect X (fst s1) w1))
      else Ret (s, w))"

section \<open>Initialisation\<close>

fun parse_urls :: "lib \<Rightarrow> string list \<Rightarrow> string list result" where
  "parse_urls L [] = Inr []"
| "parse_urls L (h # hs) =
     (case lib_url_parse L h of
        Inl e \<Rightarrow> Inl e
      | Inr u \<Rightarrow> (case parse_urls L hs of Inl e \<Rightarrow> Inl e | Inr us \<Rightarrow> Inr (u # us)))"

definition loadTlsCert :: "lib \<Rightarrow> 'w ext \<Rightarrow> string \<Rightarrow> 'w \<Rightarrow> bytes result \<times> 'w" where
  "loadTlsCert L X rootCertPath w =
     (case x_read_file X rootCertPath w of
        (Inl e, w1) \<Rightarrow> (Inl e, w1)
      | (Inr pemData, w1) \<Rightarrow>
          if \<not> lib_append_certs L pemData then (Inl (NewE ''failed to append root ca cert''), w1)
          else (Inr pemData, w1))"

text \<open>
  The steps of \<open>Init\<close> once the token client has started. The product of the configured delay and
  a second is a 64-bit product in the code.
\<close>

definition wrap64 :: "int \<Rightarrow> int" where
  "wrap64 i = (i + 2 ^ 63) mod 2 ^ 64 - 2 ^ 63"

definition make_client_config :: "mqtt_config \<Rightarrow> string list \<Rightarrow> client_config" where
  "make_client_config c urls =
     \<lparr>cc_BrokerUrls = urls, cc_TlsRootCerts = None, cc_KeepAlive = mc_KeepAlive c,
      cc_ConnectRetryDelay = wrap64 (mc_ConnectRetryDelay c * second), cc_ClientID = mc_ClientId c,
      cc_Username = None, cc_Debug = mc_DebugLoggingEnabled c\<rparr>"

definition connect_and_register ::
  "lib \<Rightarrow> 'w ext \<Rightarrow> service_registration list \<Rightarrow> mqtt_state \<Rightarrow> 'w
     \<Rightarrow> (go_error option \<times> mqtt_state) \<times> 'w" where
  "connect_and_register L X registrations s w =
     (case updateMqttUsername L X s w of
        ((Some e, s1), w1) \<Rightarrow> ((Some e, s1), x_cancel X CtxMqtt w1)
      | ((None, s1), w1) \<Rightarrow>
          (case x_mqtt_connect X (cc_Username (clientConfig (fst s1))) w1 of
             (Some e, w2) \<Rightarrow> ((Some e, s1), x_cancel X CtxMqtt w2)
           | (None, w2) \<Rightarrow>
               (case register_services X registrations w2 of
                  (Some e, w3) \<Rightarrow> ((Some e, s1), x_cancel X CtxMqtt w3)
                | (None, w3) \<Rightarrow> ((None, s1), w3))))"

definition configure_client ::
  "lib \<Rightarrow> 'w ext \<Rightarrow> service_registration list \<Rightarrow> mqtt_state \<Rightarrow> 'w
     \<Rightarrow> (go_error option \<times> mqtt_state) \<times> 'w" where
  "configure_client L X registrations s w =
     (case s of (m, d) \<Rightarrow>
        case parse_urls L (mc_MqttBrokerHosts (mqttConfig m)) of
          Inl e \<Rightarrow> ((Some e, s), w)
        | Inr urls \<Rightarrow>
            (let m1 = m\<lparr>clientConfig := make_client_config (mqttConfig m) urls\<rparr>
             in if mc_TlsRootCertPath (mqttConfig m) \<noteq> [] then
                  (case loadTlsCert L X (mc_TlsRootCertPath (mqttConfig m)) w of
                     (Inl e, w1) \<Rightarrow> ((Some e, (m1, d)), w1)
                   | (Inr certs, w1) \<Rightarrow>
                       connect_and_register L X registrations
                         (m1\<lparr>clientConfig := (clientConfig m1)\<lparr>cc_TlsRootCerts := Some certs\<rparr>\<rparr>, d) w1)
                else connect_and_register L X registrations (m1, d) w))"

text \<open>\<open>None\<close>: the generation of the client identifier did not finish within the fuel.\<close>

definition mqtt_Init ::
  "lib \<Rightarrow> 'w ext \<Rightarrow> nat \<Rightarrow> config_mgr \<Rightarrow> mqtt_state \<Rightarrow> 'w
     \<Rightarrow> ((go_error option \<times> mqtt_state) \<times> 'w) outcome option" where
  "mqtt_Init L X fuel cfgMgr s w =
     (case s of (m, d) \<Rightarrow>
        let m1 = m\<lparr>mqttConfig := GetMqttConfig cfgMgr, mqttCtx := CtxMqtt\<rparr>
        in case Start L X CtxMqtt cfgMgr d w of
             Panic msg \<Rightarrow> Some (Panic msg)
           | Ret ((Some e, d1), w1) \<Rightarrow> Some (Ret ((Some e, (m1, d1)), x_cancel X CtxMqtt w1))
           | Ret ((None, d1), w1) \<Rightarrow>
               (case generateClientId X fuel (GetSchedulerAppID cfgMgr) w1 of
                  None \<Rightarrow> None
                | Some (clientId, w2) \<Rightarrow>
                    Some (Ret (configure_client L X (GetServiceRegistrations cfgMgr)
                      (m1\<lparr>mqttConfig := (mqttConfig m1)\<lparr>mc_ClientId := clientId\<rparr>\<rparr>, d1) w2))))"

section \<open>Facts on the identifier\<close>

lemma client_letters_shape:
  "client_letters X fuel need cache remain out w = Some (s, w') \<Longrightarrow>
     \<exists>new. s = new @ out \<and> length new = need \<and> set new \<subseteq> set letterBytes"
proof (induction X fuel need cache remain out w rule: client_letters.induct)
  case (3 X fuel need cache remain out w)
  obtain c1 r1 w1 where st: "(if remain = 0 then (case x_int63 X w of (c, w1) \<Rightarrow> (c, letterIdxMax, w1))
      else (cache, remain, w)) = (c1, r1, w1)" by (metis surj_pair)
  show ?case
  proof (cases "letter_index c1 < length letterBytes")
    case True
    then have "client_letters X fuel need (drop_bit letterIdxBits c1) (r1 - 1)
        (letterBytes ! letter_index c1 # out) w1 = Some (s, w')"
      using "3.prems" st by (simp add: Let_def)
    then obtain new where "s = new @ letterBytes ! letter_index c1 # out" "length new = need"
      "set new \<subseteq> set letterBytes"
      using "3.IH"(1) [OF st [symmetric] refl refl True] by blast
    then show ?thesis
      using True by (intro exI [of _ "new @ [letterBytes ! letter_index c1]"]) auto
  next
    case False
    then have "client_letters X fuel (Suc need) (drop_bit letterIdxBits c1) (r1 - 1) out w1 = Some (s, w')"
      using "3.prems" st by (simp add: Let_def)
    then show ?thesis using "3.IH"(2) [OF st [symmetric] refl refl False] by blast
  qed
qed auto

text \<open>
  When the loop ends: \<open>has_letter c k\<close> says that one of the next \<open>k\<close> groups of six bits of \<open>c\<close> is a
  letter, \<open>drawn X n w\<close> is the number drawn after \<open>n\<close> others. The source of random numbers is
  usable if from every point on it will give a number with a letter among its ten groups.
\<close>

fun has_letter :: "64 word \<Rightarrow> nat \<Rightarrow> bool" where
  "has_letter c 0 = False"
| "has_letter c (Suc k) \<longleftrightarrow>
     letter_index c < length letterBytes \<or> has_letter (drop_bit letterIdxBits c) k"

fun drawn :: "'w ext \<Rightarrow> nat \<Rightarrow> 'w \<Rightarrow> 64 word" where
  "drawn X 0 w = fst (x_int63 X w)"
| "drawn X (Suc n) w = drawn X n (snd (x_int63 X w))"

definition letters_come :: "'w ext \<Rightarrow> bool" where
  "letters_come X \<longleftrightarrow> (\<forall>w. \<exists>n. has_letter (drawn X n w) letterIdxMax)"

lemma letterIdxMax_val: "letterIdxMax = 10"
  by (simp add: letterIdxMax_def letterIdxBits_def)

text \<open>One round with bits left, one round without, and what more fuel changes.\<close>

lemma client_letters_group:
  "client_letters X (Suc fuel) (Suc need) c (Suc k) out w =
     (if letter_index c < length letterBytes
      then client_letters X fuel need (drop_bit letterIdxBits c) k (letterBytes ! letter_index c # out) w
      else client_letters X fuel (Suc need) (drop_bit letterIdxBits c) k out w)"
  by (simp add: Let_def)

lemma client_letters_draw:
  "client_letters X (Suc fuel) (Suc need) c 0 out w =
     client_letters X (Suc fuel) (Suc need) (fst (x_int63 X w)) letterIdxMax out (snd (x_int63 X w))"
  by (cases "x_int63 X w") (simp add: letterIdxMax_val)

lemma client_letters_more:
  "client_letters X fuel need c k out w = Some r \<Longrightarrow> client_letters X (fuel + n) need c k out w = Some r"
  by (induction X fuel need c k out w rule: client_letters.induct)
    (auto simp: Let_def split: prod.splits if_splits)

definition ends :: "'w ext \<Rightarrow> nat \<Rightarrow> bool" where
  "ends X need \<longleftrightarrow> (\<forall>c k out w. \<exists>fuel r. client_letters X fuel need c k out w = Some r)"

lemma ends_with_letter:
  assumes "ends X need" "has_letter c k"
  shows "\<exists>fuel r. client_letters X fuel (Suc need) c k out w = Some r"
  using assms(2)
proof (induction k arbitrary: c)
  case (Suc k)
  show ?case
  proof (cases "letter_index c < length letterBytes")
    case True
    obtain fuel r where "client_letters X fuel need (drop_bit letterIdxBits c) k
        (letterBytes ! letter_index c # out) w = Some r" using assms(1) unfolding ends_def by blast
    with True have "client_letters X (Suc fuel) (Suc need) c (Suc k) out w = Some r"
      by (simp only: client_letters_group if_True)
    then show ?thesis by blast
  next
    case False
    with Suc.prems have "has_letter (drop_bit letterIdxBits c) k" by simp
    from Suc.IH [OF this] obtain fuel r where
      "client_letters X fuel (Suc need) (drop_bit letterIdxBits c) k out w = Some r" by blast
    with False have "client_letters X (Suc fuel) (Suc need) c (Suc k) out w = Some r"
      by (simp only: client_letters_group if_False)
    then show ?thesis by blast
  qed
qed simp

lemma ends_if_drawn:
  assumes "ends X need" and drawn: "\<exists>fuel r. client_letters X fuel (Suc need) (fst (x_int63 X w))
      letterIdxMax out (snd (x_int63 X w)) = Some r"
  shows "\<exists>fuel r. client_letters X fuel (Suc need) c k out w = Some r"
proof (induction k arbitrary: c)
  case 0
  from drawn obtain fuel r where "client_letters X fuel (Suc need) (fst (x_int63 X w)) letterIdxMax out
      (snd (x_int63 X w)) = Some r" by blast
  from client_letters_more [OF this, of 1] have "client_letters X (Suc fuel) (Suc need) c 0 out w = Some r"
    unfolding client_letters_draw by simp
  then show ?case by blast
next
  case (Suc k)
  show ?case
  proof (cases "letter_index c < length letterBytes")
    case True
    then have "has_letter c (Suc k)" by simp
    with assms(1) show ?thesis by (rule ends_with_letter)
  next
    case False
    from Suc obtain fuel r where "client_letters X fuel (Suc need) (drop_bit letterIdxBits c) k out w = Some r"
      by blast
    with False have "client_letters X (Suc fuel) (Suc need) c (Suc k) out w = Some r"
      by (simp only: client_letters_group if_False)
    then show ?thesis by blast
  qed
qed

lemma ends_after:
  assumes "ends X need"
  shows "has_letter (drawn X n w) letterIdxMax \<Longrightarrow> \<exists>fuel r. client_letters X fuel (Suc need) c k out w = Some r"
proof (induction n arbitrary: w c k)
  case 0
  then have "has_letter (fst (x_int63 X w)) letterIdxMax" by simp
  then show ?case by (intro ends_if_drawn [OF assms ends_with_letter [OF assms]])
next
  case (Suc n)
  then have "has_letter (drawn X n (snd (x_int63 X w))) letterIdxMax" by simp
  then show ?case by (intro ends_if_drawn [OF assms Suc.IH])
qed

lemma letters_end: "letters_come X \<Longrightarrow> ends X need"
proof (induction need)
  case 0
  then show ?case by (auto simp: ends_def)
next
  case (Suc need)
  then have e: "ends X need" by simp
  show ?case
    unfolding ends_def
  proof (intro allI)
    fix c k out w
    from Suc.prems obtain n where "has_letter (drawn X n w) letterIdxMax"
      unfolding letters_come_def by blast
    from ends_after [OF e this] show "\<exists>fuel r. client_letters X fuel (Suc need) c k out w = Some r" .
  qed
qed

text \<open>A usable source gives an identifier; how much fuel there is beyond what it takes does not matter.\<close>

lemma client_id_ends:
  assumes "letters_come X"
  shows "\<exists>fuel0 s w'. (\<forall>n. generateClientId X (fuel0 + n) appID w = Some (appID @ ''-'' @ s, w'))
    \<and> length s = uniqueIDLength \<and> set s \<subseteq> set letterBytes"
proof -
  obtain seed w1 where 1: "x_now X w = (seed, w1)" by fastforce
  obtain c w2 where 2: "x_int63 X w1 = (c, w2)" by fastforce
  from letters_end [OF assms] obtain fuel0 s w' where
    run: "client_letters X fuel0 uniqueIDLength c letterIdxMax [] w2 = Some (s, w')"
    unfolding ends_def by (metis surj_pair)
  with 1 2 client_letters_more [OF run] client_letters_shape [OF run] show ?thesis
    by (intro exI [of _ fuel0] exI [of _ s] exI [of _ w']) (simp add: generateClientId_def)
qed

lemma drawn_traced: "drawn (traced X) n (w, tr) = drawn X n w"
  by (induction n arbitrary: w tr) (simp_all add: traced_def logged_pair)

lemma letters_come_traced: "letters_come X \<Longrightarrow> letters_come (traced X)"
  by (auto simp: letters_come_def drawn_traced)

lemma sample_source: "x_int63 X = (\<lambda>w. (5, w)) \<Longrightarrow> letters_come X"
proof -
  assume X: "x_int63 X = (\<lambda>w. (5, w))"
  have "letter_index 5 = 5"
    by (simp add: letter_index_def letterIdxMask_def letterIdxBits_def)
  moreover have "(5 :: nat) < length letterBytes" by (simp add: letterBytes_def)
  ultimately have "has_letter 5 (Suc 9)" by (simp only: has_letter.simps simp_thms)
  moreover have "letterIdxMax = Suc 9" by (simp add: letterIdxMax_val)
  ultimately have "has_letter (drawn X 0 w) letterIdxMax" for w using X by (simp only: drawn.simps fst_conv)
  then show ?thesis unfolding letters_come_def by blast
qed

section \<open>Properties\<close>

text \<open>
  C37: when the random source is usable, that is when from every point on it will give a number
  with a letter among its ten groups of six bits, the client identifier is found after finitely
  many rounds, and it is the application identifier, a dash and six letters of the alphabet.
\<close>

theorem client_id_shape:
  assumes "letters_come X"
  shows "\<exists>fuel0 s w'. (\<forall>n. generateClientId X (fuel0 + n) appID w = Some (appID @ ''-'' @ s, w'))
    \<and> length s = uniqueIDLength \<and> set s \<subseteq> set letterBytes"
  using assms by (rule client_id_ends)

lemma client_id_shape_witness:
  "\<exists>fuel s w'. generateClientId idle_ext fuel ''app'' () = Some (''app-'' @ s, w') \<and> length s = 6"
proof -
  have "letters_come idle_ext" by (rule sample_source) simp
  from client_id_shape [OF this, of "''app''" "()"] obtain fuel0 s w' where
    "\<forall>n. generateClientId idle_ext (fuel0 + n) ''app'' () = Some (''app-'' @ s, w')" "length s = 6"
    by (auto simp: uniqueIDLength_def)
  then show ?thesis by blast
qed

text \<open>
  The connection callback returns only if the library answers a
  subscription with an acknowledgement. When it fails without one, which is the case the error
  branch is for, reading the reason from the nil answer panics.
\<close>

theorem subscribe_failure_panics:
  "returns (connectionUpCallback X m w) \<longleftrightarrow>
     (\<exists>e. fst (ctx_err X (mqttCtx m) w) = Some e)
     \<or> (\<exists>ack. fst (fst (x_mqtt_subscribe X mqttSubscriptionsMap (snd (ctx_err X (mqttCtx m) w)))) = Some ack)"
  by (auto simp: connectionUpCallback_def split: prod.splits option.splits)

lemma GetAccessToken_current:
  assumes "GetAccessToken L X d w = ((Inr token, d'), w')"
  shows "token = gAppToken d'"
  using assms by (auto simp: GetAccessToken_def split: prod.splits if_splits option.splits)

text \<open>
  C36: after the broker disconnects the scheduler as unauthorized
  (reason 135), the callback either panics or reconnects with a user name that carries the app
  token the token client holds at that moment; with a broker that needs no token the user name
  is left as it was. Other reasons change nothing.
\<close>

theorem reconnect_uses_current_token:
  "case serverDisconnectCallback L X code (m, d) w of
     Panic msg \<Rightarrow> code = 135 \<and> mc_BrokerType (mqttConfig m) = brokerTypeAwsIoT
   | Ret ((m', d'), w') \<Rightarrow>
       (if code \<noteq> 135 then m' = m \<and> d' = d \<and> w' = w
        else m' = (if mc_BrokerType (mqttConfig m) = brokerTypeAwsIoT
                   then set_username (Some (userNameFormat (gAppToken d'))) m else m)
          \<and> (\<exists>w1. w' = reconnect X m' w1))"
proof (cases "code = 135 \<and> mc_BrokerType (mqttConfig m) = brokerTypeAwsIoT")
  case True
  obtain r d1 w1 where g: "GetAccessToken L X d w = ((r, d1), w1)" by (metis surj_pair)
  with True show ?thesis
    using GetAccessToken_current [of L X d w _ d1 w1]
    by (cases r) (auto simp: serverDisconnectCallback_def refresh_or_panic_def updateMqttUsername_def)
next
  case False
  then show ?thesis
    by (auto simp: serverDisconnectCallback_def refresh_or_panic_def updateMqttUsername_def)
qed

end
