(* ===== verification/Sqs.thy ===== *)
theory Sqs
  imports MqttPublish ServiceDispatch
begin

text \<open>
  \<open>service/queuemgr\<close>: the SQS queue provider. \<open>sqs_vars\<close> holds the fields of
  \<open>SqsQueueProvider\<close> and the package's URL table. The provider receives requests and tasks,
  sends messages and deletes what was processed; the handler of the input queue is an argument,
  as in the code. The locale \<open>queue_provider\<close> is the part of the Go interface
  \<open>QueueProvider\<close> that the scheduler calls.
\<close>

record sqs_vars =
  q_gCtx :: ctx
  schedulerInputQueueUrl :: string
  schedulerDispatchQueueUrl :: string
  dcmInputQueueUrl :: string
  queueConfig :: queue_mgr_config
  queueUrlLookupTable :: "string \<rightharpoonup> string"

definition NewSqsProvider :: sqs_vars where
  "NewSqsProvider =
     \<lparr>q_gCtx = CtxBackground, schedulerInputQueueUrl = [], schedulerDispatchQueueUrl = [],
      dcmInputQueueUrl = [], queueConfig = QueueMgrConfig zero_config,
      queueUrlLookupTable = Map.empty\<rparr>"

text \<open>The function that processes a request: the request, its source, its own state.\<close>

type_synonym ('s, 'w) input_handler =
  "create_request \<Rightarrow> string \<Rightarrow> 's \<Rightarrow> 'w \<Rightarrow> ((create_response result \<times> 's) \<times> 'w) outcome"

section \<open>Initialisation\<close>

text \<open>
  \<open>ResolveEndpoint\<close> with a configured endpoint parses it; otherwise the SDK's resolver decides.
\<close>

definition ResolveEndpoint :: "lib \<Rightarrow> string \<Rightarrow> string result \<Rightarrow> string result" where
  "ResolveEndpoint L endpoint default_resolver =
     (if endpoint \<noteq> [] then lib_url_parse L endpoint else default_resolver)"

text \<open>The three queue URLs, in the order of the code; an error leaves the earlier ones set.\<close>

definition initSQSApiClient ::
  "'w ext \<Rightarrow> queue_mgr_config \<Rightarrow> sqs_vars \<Rightarrow> 'w \<Rightarrow> (go_error option \<times> sqs_vars) \<times> 'w" where
  "initSQSApiClient X settings p w =
     (case x_aws_config X w of
        (Some e, w1) \<Rightarrow> ((Some e, p), w1)
      | (None, w1) \<Rightarrow>
          (case x_sqs_queue_url X (qc_InputQueueName settings) None w1 of
             (Inl e, w2) \<Rightarrow> ((Some e, p), w2)
           | (Inr u, w2) \<Rightarrow>
               (let p1 = p\<lparr>schedulerInputQueueUrl := u\<rparr> in
                case x_sqs_queue_url X (qc_DispatchQueueName settings) None w2 of
                  (Inl e, w3) \<Rightarrow> ((Some e, p1), w3)
                | (Inr u2, w3) \<Rightarrow>
                    (let p2 = p1\<lparr>schedulerDispatchQueueUrl := u2\<rparr> in
                     case x_sqs_queue_url X (qc_DcmInputQueueName settings) None w3 of
                       (Inl e, w4) \<Rightarrow> ((Some e, p2), w4)
                     | (Inr u3, w4) \<Rightarrow> ((None, p2\<lparr>dcmInputQueueUrl := u3\<rparr>), w4)))))"

definition SqsInit :: "'w ext \<Rightarrow> config_mgr \<Rightarrow> sqs_vars \<Rightarrow> 'w \<Rightarrow> (go_error option \<times> sqs_vars) \<times> 'w"
where
  "SqsInit X cfgMgr p w =
     (case initSQSApiClient X (GetQueueMgrConfig cfgMgr)
             (p\<lparr>queueConfig := GetQueueMgrConfig cfgMgr, q_gCtx := CtxBackground\<rparr>) w of
        ((Some e, p1), w1) \<Rightarrow> ((Some e, p1), w1)
      | ((None, p1), w1) \<Rightarrow> ((None, p1\<lparr>queueUrlLookupTable := Map.empty\<rparr>), w1))"

text \<open>\<open>Shutdown\<close> calls \<open>gCtx.Done()\<close>, which only returns a channel.\<close>

definition SqsShutdown :: "sqs_vars \<Rightarrow> sqs_vars" where
  "SqsShutdown p = p"

section \<open>Sending\<close>

definition send_to :: "'w ext \<Rightarrow> string \<Rightarrow> string \<Rightarrow> 'w \<Rightarrow> go_error option \<times> 'w" where
  "send_to X url msg w =
     (case x_sqs_send X url msg w of (Inl e, w1) \<Rightarrow> (Some e, w1) | (Inr _, w1) \<Rightarrow> (None, w1))"

definition SendDispatchQueueMessage ::
  "'w ext \<Rightarrow> sqs_vars \<Rightarrow> string \<Rightarrow> 'w \<Rightarrow> go_error option \<times> 'w" where
  "SendDispatchQueueMessage X p msg = send_to X (schedulerDispatchQueueUrl p) msg"

definition SendDcmInputQueueMessage ::
  "'w ext \<Rightarrow> sqs_vars \<Rightarrow> string \<Rightarrow> 'w \<Rightarrow> go_error option \<times> 'w" where
  "SendDcmInputQueueMessage X p msg = send_to X (dcmInputQueueUrl p) msg"

definition getQueueUrl ::
  "'w ext \<Rightarrow> sqs_vars \<Rightarrow> string \<Rightarrow> string \<Rightarrow> 'w \<Rightarrow> (string result \<times> sqs_vars) \<times> 'w" where
  "getQueueUrl X p topicName ownerAwsAccount w =
     (case queueUrlLookupTable p topicName of
        Some queueUrl \<Rightarrow> ((Inr queueUrl, p), w)
      | None \<Rightarrow>
          (case x_sqs_queue_url X topicName
                  (if ownerAwsAccount \<noteq> [] then Some ownerAwsAccount else None) w of
             (Inl e, w1) \<Rightarrow> ((Inl e, p), w1)
           | (Inr u, w1) \<Rightarrow>
               ((Inr u, p\<lparr>queueUrlLookupTable := (queueUrlLookupTable p)(topicName \<mapsto> u)\<rparr>), w1)))"

definition SendMessage ::
  "'w ext \<Rightarrow> db_vars \<Rightarrow> string \<Rightarrow> string \<Rightarrow> string \<Rightarrow> sqs_vars \<Rightarrow> 'w
     \<Rightarrow> (go_error option \<times> sqs_vars) \<times> 'w" where
  "SendMessage X v serviceID queueTopic msg p w =
     (case GetServiceConfig v serviceID of
        None \<Rightarrow> ((Some (DbE ErrInternalError), p), w)
      | Some svcConfig \<Rightarrow>
          (case getQueueUrl X p queueTopic (rs_OwnerAwsAccount svcConfig) w of
             ((Inl e, p1), w1) \<Rightarrow> ((Some e, p1), w1)
           | ((Inr queueUrl, p1), w1) \<Rightarrow>
               (case send_to X queueUrl msg w1 of (err, w2) \<Rightarrow> ((err, p1), w2))))"

section \<open>Receiving\<close>

definition receiveMessage :: "'w ext \<Rightarrow> string \<Rightarrow> 'w \<Rightarrow> sqs_message option result \<times> 'w" where
  "receiveMessage X queueUrl w =
     (case x_sqs_receive X queueUrl w of
        (Inl e, w1) \<Rightarrow> (Inl e, w1)
      | (Inr [], w1) \<Rightarrow> (Inr None, w1)
      | (Inr (m # _), w1) \<Rightarrow> (Inr (Some m), w1))"

definition deleteMessage :: "'w ext \<Rightarrow> string \<Rightarrow> string \<Rightarrow> 'w \<Rightarrow> go_error option \<times> 'w" where
  "deleteMessage X queueUrl receiptHandle = x_sqs_delete X queueUrl receiptHandle"

definition disposeBadInputQueueRequest :: "'w ext \<Rightarrow> sqs_vars \<Rightarrow> string \<Rightarrow> 'w \<Rightarrow> 'w" where
  "disposeBadInputQueueRequest X p receiptHandle w =
     snd (deleteMessage X (schedulerInputQueueUrl p) receiptHandle w)"

text \<open>The request and its receipt handle; \<open>None\<close> when the queue is empty.\<close>

definition receiveInputQueueMessage ::
  "lib \<Rightarrow> 'w ext \<Rightarrow> sqs_vars \<Rightarrow> 'w \<Rightarrow> (create_request \<times> string) option result \<times> 'w" where
  "receiveInputQueueMessage L X p w =
     (case receiveMessage X (schedulerInputQueueUrl p) w of
        (Inl e, w1) \<Rightarrow> (Inl e, w1)
      | (Inr None, w1) \<Rightarrow> (Inr None, w1)
      | (Inr (Some msg), w1) \<Rightarrow>
          (case b64_decode (sqs_Body msg) of
             Inl e \<Rightarrow> (Inl e, disposeBadInputQueueRequest X p (sqs_ReceiptHandle msg) w1)
           | Inr packetBytes \<Rightarrow>
               (case lib_unmarshal_create_request L packetBytes of
                  Inl e \<Rightarrow> (Inl e, disposeBadInputQueueRequest X p (sqs_ReceiptHandle msg) w1)
                | Inr request \<Rightarrow> (Inr (Some (request, sqs_ReceiptHandle msg)), w1))))"

definition processSchedulerInputQueueMessage ::
  "lib \<Rightarrow> 'w ext \<Rightarrow> ('s, 'w) input_handler \<Rightarrow> sqs_vars \<Rightarrow> 's \<Rightarrow> 'w \<Rightarrow> ('s \<times> 'w) outcome" where
  "processSchedulerInputQueueMessage L X inputEventHandlerFunc p s w =
     (case receiveInputQueueMessage L X p w of
        (Inl e, w1) \<Rightarrow> Ret (s, w1)
      | (Inr None, w1) \<Rightarrow> Ret (s, w1)
      | (Inr (Some (taskRequest, receiptHandle)), w1) \<Rightarrow>
          bind_outcome (inputEventHandlerFunc taskRequest SchedulerRequestSourceEvent s w1)
            (\<lambda>((_, s'), w2). Ret (s', disposeBadInputQueueRequest X p receiptHandle w2)))"

definition receiveDispatchQueueMessage ::
  "lib \<Rightarrow> 'w ext \<Rightarrow> sqs_vars \<Rightarrow> 'w \<Rightarrow> (service_message \<times> bytes \<times> string) option result \<times> 'w"
where
  "receiveDispatchQueueMessage L X p w =
     (case receiveMessage X (schedulerDispatchQueueUrl p) w of
        (Inl e, w1) \<Rightarrow> (Inl e, w1)
      | (Inr None, w1) \<Rightarrow> (Inr None, w1)
      | (Inr (Some msg), w1) \<Rightarrow>
          (case UnmarshallServiceMessage L (sqs_Body msg) of
             Inl e \<Rightarrow> (Inl e,
               snd (deleteMessage X (schedulerDispatchQueueUrl p) (sqs_ReceiptHandle msg) w1))
           | Inr (request, encodedRequest) \<Rightarrow>
               (Inr (Some (request, encodedRequest, sqs_ReceiptHandle msg)), w1)))"

definition processSchedulerDispatchRequest ::
  "lib \<Rightarrow> 'w ext \<Rightarrow> mqtt_vars \<Rightarrow> sqs_vars \<Rightarrow> 'w \<Rightarrow> 'w" where
  "processSchedulerDispatchRequest L X m p w =
     (case receiveDispatchQueueMessage L X p w of
        (Inl e, w1) \<Rightarrow> w1
      | (Inr None, w1) \<Rightarrow> w1
      | (Inr (Some (taskInfo, payload, receiptHandle)), w1) \<Rightarrow>
          (case SendTaskToBroker X m
                  (GetMqttTopicForDeviceTask (sm_DeviceId taskInfo) (sm_ServiceId taskInfo))
                  payload w1 of
             (Some e, w2) \<Rightarrow> w2
           | (None, w2) \<Rightarrow>
               (case MarkTaskDispatched X taskInfo w2 of
                  (Some e, w3) \<Rightarrow> w3
                | (None, w3) \<Rightarrow>
                    snd (deleteMessage X (schedulerDispatchQueueUrl p) receiptHandle w3))))"

section \<open>Watching\<close>

text \<open>
  The two endless loops, cut off after \<open>n\<close> rounds. The result says whether the loop stopped of
  its own.
\<close>

fun WatchInputQueue ::
  "lib \<Rightarrow> 'w ext \<Rightarrow> ('s, 'w) input_handler \<Rightarrow> nat \<Rightarrow> sqs_vars \<Rightarrow> 's \<Rightarrow> 'w
     \<Rightarrow> ((bool \<times> 's) \<times> 'w) outcome" where
  "WatchInputQueue L X onInputEvent 0 p s w = Ret ((False, s), w)"
| "WatchInputQueue L X onInputEvent (Suc n) p s w =
     (case ctx_err X (q_gCtx p) w of
        (Some e, w1) \<Rightarrow> Ret ((True, s), w1)
      | (None, w1) \<Rightarrow>
          bind_outcome (processSchedulerInputQueueMessage L X onInputEvent p s w1)
            (\<lambda>(s', w2). WatchInputQueue L X onInputEvent n p s' w2))"

fun WatchDispatchQueue ::
  "lib \<Rightarrow> 'w ext \<Rightarrow> mqtt_vars \<Rightarrow> nat \<Rightarrow> sqs_vars \<Rightarrow> 'w \<Rightarrow> bool \<times> 'w" where
  "WatchDispatchQueue L X m 0 p w = (False, w)"
| "WatchDispatchQueue L X m (Suc n) p w =
     (case ctx_err X (q_gCtx p) w of
        (Some e, w1) \<Rightarrow> (True, w1)
      | (None, w1) \<Rightarrow>
          WatchDispatchQueue L X m n p (processSchedulerDispatchRequest L X m p w1))"

lemmas sqs_defs [handler_defs] = send_to_def SendDispatchQueueMessage_def
  SendDcmInputQueueMessage_def getQueueUrl_def SendMessage_def receiveMessage_def
  deleteMessage_def disposeBadInputQueueRequest_def receiveInputQueueMessage_def
  processSchedulerInputQueueMessage_def receiveDispatchQueueMessage_def
  processSchedulerDispatchRequest_def

section \<open>What the scheduler relies on\<close>

text \<open>
  A message handed to the provider is one send attempt to one queue, and the answer tells
  whether it was accepted; or the provider gives up before sending and reports an error. The
  only other call is the look-up of a queue URL, before.
\<close>

definition sends_one :: "string \<Rightarrow> string \<Rightarrow> event list \<Rightarrow> go_error option \<Rightarrow> bool" where
  "sends_one url msg es r \<longleftrightarrow> es = [EvSend url msg (r = None)]"

definition is_lookup :: "event \<Rightarrow> bool" where
  "is_lookup e = (case e of EvQueueUrl _ _ _ \<Rightarrow> True | _ \<Rightarrow> False)"

lemma is_lookup_simps [simp]: "is_lookup (EvQueueUrl t a r)" "\<not> is_lookup (EvSend u m b)"
  by (simp_all add: is_lookup_def)

definition sends_at_most_one :: "string \<Rightarrow> event list \<Rightarrow> go_error option \<times> 'p \<Rightarrow> bool" where
  "sends_at_most_one msg es r \<longleftrightarrow>
     (\<exists>us. list_all is_lookup us \<and>
       (es = us \<and> fst r \<noteq> None \<or> (\<exists>url. es = us @ [EvSend url msg (fst r = None)])))"

locale queue_provider =
  fixes dispatch_url :: "'p \<Rightarrow> string"
    and send_dispatch :: "'p \<Rightarrow> string \<Rightarrow> 'w \<times> event list \<Rightarrow> go_error option \<times> ('w \<times> event list)"
    and send_service :: "string \<Rightarrow> string \<Rightarrow> string \<Rightarrow> 'p \<Rightarrow> 'w \<times> event list
      \<Rightarrow> (go_error option \<times> 'p) \<times> ('w \<times> event list)"
  assumes dispatch_one: "emits (sends_one (dispatch_url p) msg) (send_dispatch p msg)"
    and service_one: "emits (sends_at_most_one msg) (send_service sid topic msg p)"
begin

lemma dispatch_delivered:
  assumes "send_dispatch p msg (w, tr) = (r, (w', tr'))"
  shows "tr' = tr @ [EvSend (dispatch_url p) msg (r = None)]"
  using dispatch_one [of p msg] assms by (auto simp: sends_one_def elim: emitsE)

lemma service_delivered:
  assumes "send_service sid topic msg p (w, tr) = ((None, p'), (w', tr'))"
  shows "\<exists>us url. list_all is_lookup us \<and> tr' = tr @ us @ [EvSend url msg True]"
  using service_one [of msg sid topic p] assms by (auto simp: sends_at_most_one_def elim!: emitsE)

lemma service_appends: "appends (send_service sid topic msg p)"
  by (rule emits_appends [OF service_one])

lemma dispatch_appends: "appends (send_dispatch p msg)"
  by (rule emits_appends [OF dispatch_one])

end

lemma send_to_trace:
  "send_to (traced X) u m (w, tr) =
     (case x_sqs_send X u m w of
        (Inl e, w1) \<Rightarrow> (Some e, (w1, tr @ [EvSend u m False]))
      | (Inr _, w1) \<Rightarrow> (None, (w1, tr @ [EvSend u m True])))"
  by (cases "x_sqs_send X u m w"; cases "fst (x_sqs_send X u m w)")
    (auto simp: send_to_def logged_pair is_ok_def)

lemma send_to_emits: "emits (sends_one u m) (send_to (traced X) u m)"
  by (rule emitsI) (simp add: send_to_trace sends_one_def split: prod.splits sum.splits)

text \<open>
  What \<open>SendMessage\<close> calls, and to which queue: the cached URL of the topic, or else the answer of
  a look-up with the owner account of the service, which is then cached.
\<close>

definition owner_account :: "registered_service \<Rightarrow> string option" where
  "owner_account svc = (if rs_OwnerAwsAccount svc \<noteq> [] then Some (rs_OwnerAwsAccount svc) else None)"

definition service_sent :: "db_vars \<Rightarrow> string \<Rightarrow> string \<Rightarrow> string \<Rightarrow> sqs_vars \<Rightarrow> event list
    \<Rightarrow> go_error option \<Rightarrow> sqs_vars \<Rightarrow> bool" where
  "service_sent v sid topic msg p es r p' \<longleftrightarrow>
     (case GetServiceConfig v sid of
        None \<Rightarrow> es = [] \<and> r = Some (DbE ErrInternalError) \<and> p' = p
      | Some svc \<Rightarrow>
          (case queueUrlLookupTable p topic of
             Some url \<Rightarrow> es = [EvSend url msg (r = None)] \<and> p' = p
           | None \<Rightarrow>
               (\<exists>e. es = [EvQueueUrl topic (owner_account svc) (Inl e)] \<and> r = Some e \<and> p' = p)
             \<or> (\<exists>url. es = [EvQueueUrl topic (owner_account svc) (Inr url), EvSend url msg (r = None)]
                  \<and> p' = p\<lparr>queueUrlLookupTable := (queueUrlLookupTable p)(topic \<mapsto> url)\<rparr>)))"

lemma SendMessage_trace:
  "\<exists>r p' w' es. SendMessage (traced X) v sid t m p (w, tr) = ((r, p'), (w', tr @ es))
     \<and> service_sent v sid t m p es r p'"
proof (cases "GetServiceConfig v sid")
  case None
  then show ?thesis by (simp add: SendMessage_def service_sent_def)
next
  case svc: (Some c)
  show ?thesis
  proof (cases "queueUrlLookupTable p t")
    case (Some url)
    with svc show ?thesis
      by (auto simp: SendMessage_def service_sent_def getQueueUrl_def send_to_trace
          split: prod.splits sum.splits)
  next
    case None
    obtain a w1 where "x_sqs_queue_url X t (owner_account c) w = (a, w1)" by fastforce
    with svc None show ?thesis
      by (cases a) (auto simp: SendMessage_def service_sent_def getQueueUrl_def owner_account_def logged_pair
          send_to_trace split: prod.splits sum.splits)
  qed
qed

lemma service_sent_one: "service_sent v sid t m p es r p' \<Longrightarrow> sends_at_most_one m es (r, p')"
  by (auto simp: service_sent_def sends_at_most_one_def split: option.splits
      intro: exI [of _ "[]"] exI [of _ "[EvQueueUrl t _ _]"])

lemma SendMessage_emits: "emits (sends_at_most_one m) (SendMessage (traced X) v sid t m p)"
proof (rule emitsI)
  fix w tr
  obtain r p' w' es where "SendMessage (traced X) v sid t m p (w, tr) = ((r, p'), (w', tr @ es))"
    "service_sent v sid t m p es r p'"
    using SendMessage_trace [of X v sid t m p w tr] by (elim exE conjE) (rule that)
  then show "\<exists>es. snd (snd (SendMessage (traced X) v sid t m p (w, tr))) = tr @ es
      \<and> sends_at_most_one m es (fst (SendMessage (traced X) v sid t m p (w, tr)))"
    using service_sent_one by (intro exI [of _ es]) auto
qed

interpretation sqs: queue_provider schedulerDispatchQueueUrl "SendDispatchQueueMessage (traced X)"
    "SendMessage (traced X) v" for X v
  by unfold_locales (simp_all add: SendDispatchQueueMessage_def send_to_emits SendMessage_emits)

section \<open>Properties of the provider\<close>

definition mark_dispatched_cql :: "service_message \<Rightarrow> cql" where
  "mark_dispatched_cql i =
     CqlText update_task_text [taskStatusDispatched, sm_DeviceId i, sm_TaskId i]"

definition dispatch_fate :: "lib \<Rightarrow> string \<Rightarrow> event list \<Rightarrow> bool" where
  "dispatch_fate L url es \<longleftrightarrow>
     (\<forall>u h ok. EvDelete u h ok \<in> set es \<longrightarrow> u = url \<and>
       (\<exists>msg rest. hd es = EvReceive url (Inr (msg # rest)) \<and> h = sqs_ReceiptHandle msg \<and>
         (case UnmarshallServiceMessage L (sqs_Body msg) of
            Inl e \<Rightarrow> es = [hd es, EvDelete url h ok]
          | Inr (info, payload) \<Rightarrow>
              es = [hd es,
                    EvPublish (GetMqttTopicForDeviceTask (sm_DeviceId info) (sm_ServiceId info)) payload True,
                    EvExec (mark_dispatched_cql info) True, EvDelete url h ok])))"

lemma SendTaskToBroker_trace:
  "\<exists>w' es r. SendTaskToBroker (traced X) m topic payload (w, tr) = (r, (w', tr @ es))
     \<and> ((es = [] \<and> r \<noteq> None) \<or> es = [EvPublish topic payload (r = None)])"
  by (cases "fst (ctx_err X (mqttCtx m) w)"; cases "fst (x_mqtt_await X (snd (ctx_err X (mqttCtx m) w)))")
    (auto simp: SendTaskToBroker_def unlogged_pair logged_pair split: prod.splits option.splits)

lemma MarkTaskDispatched_trace:
  "\<exists>w' es r. MarkTaskDispatched (traced X) i (w, tr) = (r, (w', tr @ es))
     \<and> ((es = [] \<and> r \<noteq> None) \<or> es = [EvExec (mark_dispatched_cql i) (r = None)])"
  by (auto simp: MarkTaskDispatched_def setTaskStatus_def logged_pair mark_dispatched_cql_def)

lemma receive_trace:
  "receiveMessage (traced X) u (w, tr) =
     (case x_sqs_receive X u w of
        (Inl e, w1) \<Rightarrow> (Inl e, (w1, tr @ [EvReceive u (Inl e)]))
      | (Inr [], w1) \<Rightarrow> (Inr None, (w1, tr @ [EvReceive u (Inr [])]))
      | (Inr (m # ms), w1) \<Rightarrow> (Inr (Some m), (w1, tr @ [EvReceive u (Inr (m # ms))])))"
  by (simp add: receiveMessage_def logged_pair split: prod.splits sum.splits list.splits)

lemma delete_trace:
  "deleteMessage (traced X) u h (w, tr) =
     (case x_sqs_delete X u h w of (r, w1) \<Rightarrow> (r, (w1, tr @ [EvDelete u h (r = None)])))"
  by (simp add: deleteMessage_def logged_pair split: prod.splits)

lemma mark_dispatched_cql_def': "mark_dispatched_cql i =
    CqlText update_task_text [status_String TaskStatusDispatched, sm_DeviceId i, sm_TaskId i]"
  by (simp add: mark_dispatched_cql_def)

text \<open>
  C2: one round on the dispatch queue. A message is deleted only when it
  cannot be decoded, or after its exact bytes were published on the topic of its device and the
  task was marked dispatched; in every other case it stays on the queue.
\<close>

theorem dispatch_message_fate:
  "\<exists>es. snd (processSchedulerDispatchRequest L (traced X) m p (w, tr)) = tr @ es
     \<and> dispatch_fate L (schedulerDispatchQueueUrl p) es"
proof -
  let ?u = "schedulerDispatchQueueUrl p"
  obtain r w1 where rcv: "x_sqs_receive X ?u w = (r, w1)" by fastforce
  show ?thesis
  proof (cases "\<exists>msg ms. r = Inr (msg # ms)")
    case False
    then show ?thesis using rcv
      by (cases r; cases "projr r")
        (auto simp: processSchedulerDispatchRequest_def receiveDispatchQueueMessage_def receive_trace
          dispatch_fate_def)
  next
    case True
    then obtain msg ms where r: "r = Inr (msg # ms)" by blast
    let ?tr = "tr @ [EvReceive ?u r]"
    show ?thesis
    proof (cases "UnmarshallServiceMessage L (sqs_Body msg)")
      case (Inl e)
      obtain d w2 where "x_sqs_delete X ?u (sqs_ReceiptHandle msg) w1 = (d, w2)" by fastforce
      with Inl rcv r show ?thesis
        by (auto simp: processSchedulerDispatchRequest_def receiveDispatchQueueMessage_def
            receive_trace delete_trace dispatch_fate_def)
    next
      case (Inr ip)
      obtain info payload where ip: "ip = (info, payload)" by fastforce
      let ?t = "GetMqttTopicForDeviceTask (sm_DeviceId info) (sm_ServiceId info)"
      obtain w2 es2 r2 where pub: "SendTaskToBroker (traced X) m ?t payload (w1, ?tr) = (r2, (w2, ?tr @ es2))"
        and es2: "(es2 = [] \<and> r2 \<noteq> None) \<or> es2 = [EvPublish ?t payload (r2 = None)]"
        using SendTaskToBroker_trace by metis
      obtain w3 es3 r3 where mark: "MarkTaskDispatched (traced X) info (w2, ?tr @ es2) = (r3, (w3, (?tr @ es2) @ es3))"
        and es3: "(es3 = [] \<and> r3 \<noteq> None) \<or> es3 = [EvExec (mark_dispatched_cql info) (r3 = None)]"
        using MarkTaskDispatched_trace by metis
      obtain d w4 where "x_sqs_delete X ?u (sqs_ReceiptHandle msg) w3 = (d, w4)" by fastforce
      with Inr ip rcv r pub mark es2 es3 show ?thesis
        by (cases r2; cases r3)
          (auto simp: processSchedulerDispatchRequest_def receiveDispatchQueueMessage_def
            receive_trace delete_trace dispatch_fate_def)
    qed
  qed
qed

text \<open>The request in a message of the input queue, if it can be decoded.\<close>

definition decoded_request :: "lib \<Rightarrow> sqs_message \<Rightarrow> create_request option" where
  "decoded_request L msg =
     (case b64_decode (sqs_Body msg) of
        Inl _ \<Rightarrow> None
      | Inr bs \<Rightarrow> (case lib_unmarshal_create_request L bs of Inl _ \<Rightarrow> None | Inr req \<Rightarrow> Some req))"

text \<open>
  C29: one round on the input queue, for any handler. An error or an empty queue ends it after
  the receive. A message that cannot be decoded is deleted at once, without the handler. With a
  decoded request the handler runs exactly once, on that request and right after the receive;
  when it has answered, whatever the answer, its message is deleted (one attempt) and nothing
  else is called; the handler's state is kept. If the handler panics, the message is not deleted.
\<close>

theorem input_message_disposed:
  "case x_sqs_receive X (schedulerInputQueueUrl p) w of (rcv, w1) \<Rightarrow>
     (let url = schedulerInputQueueUrl p; tr1 = tr @ [EvReceive url rcv];
          round = processSchedulerInputQueueMessage L (traced X) handler p s (w, tr)
      in case rcv of
           Inl e \<Rightarrow> round = Ret (s, (w1, tr1))
         | Inr [] \<Rightarrow> round = Ret (s, (w1, tr1))
         | Inr (msg # rest) \<Rightarrow>
             (case decoded_request L msg of
                None \<Rightarrow> \<exists>ok w2. round = Ret (s, (w2, tr1 @ [EvDelete url (sqs_ReceiptHandle msg) ok]))
              | Some req \<Rightarrow>
                  (case handler req SchedulerRequestSourceEvent s (w1, tr1) of
                     Panic reason \<Rightarrow> round = Panic reason
                   | Ret ((answer, s2), (w2, tr2)) \<Rightarrow>
                       \<exists>ok w3. round = Ret (s2, (w3, tr2 @ [EvDelete url (sqs_ReceiptHandle msg) ok])))))"
proof -
  let ?u = "schedulerInputQueueUrl p"
  obtain r w1 where rcv: "x_sqs_receive X ?u w = (r, w1)" by fastforce
  show ?thesis
  proof (cases "\<exists>msg ms. r = Inr (msg # ms)")
    case False
    then show ?thesis using rcv
      by (cases r; cases "projr r")
        (auto simp: processSchedulerInputQueueMessage_def receiveInputQueueMessage_def receive_trace)
  next
    case True
    then obtain msg ms where r: "r = Inr (msg # ms)" by blast
    show ?thesis
    proof (cases "decoded_request L msg")
      case None
      with rcv r show ?thesis
        by (auto simp: processSchedulerInputQueueMessage_def receiveInputQueueMessage_def receive_trace
            delete_trace disposeBadInputQueueRequest_def decoded_request_def
            split: prod.splits sum.splits)
    next
      case (Some req)
      then obtain bs where bs: "b64_decode (sqs_Body msg) = Inr bs" "lib_unmarshal_create_request L bs = Inr req"
        by (auto simp: decoded_request_def split: sum.splits)
      show ?thesis
      proof (cases "handler req SchedulerRequestSourceEvent s (w1, tr @ [EvReceive ?u (Inr (msg # ms))])")
        case (Ret y)
        obtain a s2 w2 tr2 where "y = ((a, s2), (w2, tr2))" by (metis surj_pair)
        with rcv r Some bs Ret show ?thesis
          by (auto simp: processSchedulerInputQueueMessage_def receiveInputQueueMessage_def receive_trace
            delete_trace disposeBadInputQueueRequest_def split: prod.splits)
      qed (use rcv r Some bs in \<open>simp add: processSchedulerInputQueueMessage_def
          receiveInputQueueMessage_def receive_trace\<close>)
    qed
  qed
qed

text \<open>
  C38: the two queue loops never stop of their own, not even after
  \<open>Shutdown\<close>: the provider's context is the background context, which is never cancelled, and
  \<open>Shutdown\<close> changes nothing.
\<close>

theorem watchers_never_stop:
  assumes "SqsInit X cfgMgr p w = ((None, p1), w1)"
  shows "WatchInputQueue L X h n (SqsShutdown p1) s w2 \<noteq> Ret ((True, s'), w3)
    \<and> \<not> fst (WatchDispatchQueue L X m n (SqsShutdown p1) w2)"
proof -
  have bg: "q_gCtx p1 = CtxBackground"
    using assms by (auto simp: SqsInit_def initSQSApiClient_def Let_def
        split: prod.splits option.splits sum.splits)
  have "WatchInputQueue L X h n p1 s w2 \<noteq> Ret ((True, s'), w3)"
  proof (induction n arbitrary: s w2)
    case (Suc n)
    then show ?case
      by (cases "processSchedulerInputQueueMessage L X h p1 s w2") (auto simp: bg)
  qed simp
  moreover have "\<not> fst (WatchDispatchQueue L X m n p1 w2)"
    by (induction n arbitrary: w2) (simp_all add: bg)
  ultimately show ?thesis by (simp add: SqsShutdown_def)
qed

definition urls_ext :: "unit ext" where
  "urls_ext = idle_ext\<lparr>x_aws_config := (\<lambda>w. (None, w)),
     x_sqs_queue_url := (\<lambda>t a w. (Inr (''https://'' @ t), w))\<rparr>"

lemma watchers_never_stop_witness:
  "\<exists>p1. SqsInit urls_ext (NewConfigMgr []) NewSqsProvider () = ((None, p1), ())
     \<and> \<not> fst (WatchDispatchQueue sample_lib urls_ext new_mqtt 100 (SqsShutdown p1) ())"
proof -
  obtain p1 where i: "SqsInit urls_ext (NewConfigMgr []) NewSqsProvider () = ((None, p1), ())"
    by (simp add: SqsInit_def initSQSApiClient_def urls_ext_def)
  have "\<not> fst (WatchDispatchQueue sample_lib urls_ext new_mqtt 100 (SqsShutdown p1) ())"
    using watchers_never_stop [OF i, where n = 100 and m = new_mqtt and L = sample_lib] by (rule conjunct2)
  with i show ?thesis by blast
qed

text \<open>
  A queue URL is looked up at most once per topic name. The cache ignores
  the owner account: after a successful lookup for one account, the same topic name of any
  other account gets the URL of the first.
\<close>

theorem queue_url_cache:
  assumes "getQueueUrl X p topic a w = ((Inr u, p1), w1)"
  shows "getQueueUrl X p1 topic b w2 = ((Inr u, p1), w2)"
  using assms by (auto simp: getQueueUrl_def split: option.splits prod.splits sum.splits)

lemma queue_url_cache_witness:
  "\<exists>p1. getQueueUrl urls_ext p1 ''t'' ''account-b'' () = ((Inr ''https://t'', p1), ())"
proof -
  have "getQueueUrl urls_ext NewSqsProvider ''t'' ''account-a'' () = ((Inr ''https://t'',
      NewSqsProvider\<lparr>queueUrlLookupTable := [''t'' \<mapsto> ''https://t'']\<rparr>), ())"
    by (simp add: getQueueUrl_def NewSqsProvider_def urls_ext_def)
  from queue_url_cache [OF this] show ?thesis by blast
qed

end
