(* ===== verification/Schedule.thy ===== *)
theory Schedule
  imports Sqs Durations
begin

text \<open>
  \<open>service/scheduler/api.go\<close>, \<open>scheduling_units.go\<close> and \<open>time_utils.go\<close>: the builder that turns
  a schedule text into a task, and \<open>Schedule\<close>, which stores it and hands it over. The methods
  of \<open>*ScheduledTask\<close> update the builder in place and return it; here they are functions on
  the record. A method whose name is that of a scheduling unit has the prefix \<open>ST_\<close>.
\<close>

section \<open>The builder\<close>

record scheduled_task =
  sk_location :: string
  sk_TaskInfo :: task
  sk_ScheduleInfo :: "scheduled_run option"
  sk_error :: "go_error option"
  sk_cronSchedule :: "cron_schedule option"

definition set_error :: "go_error \<Rightarrow> scheduled_task \<Rightarrow> scheduled_task" where
  "set_error err s = s\<lparr>sk_error := Some (wrapOrError (sk_error s) err)\<rparr>"

definition upd_task :: "(task \<Rightarrow> task) \<Rightarrow> scheduled_task \<Rightarrow> scheduled_task" where
  "upd_task f s = s\<lparr>sk_TaskInfo := f (sk_TaskInfo s)\<rparr>"

definition NewScheduledTask :: "lib \<Rightarrow> string \<Rightarrow> string \<Rightarrow> create_request \<Rightarrow> scheduled_task" where
  "NewScheduledTask L loc deviceID request =
     (case NewTask L (req_TenantId request) deviceID (req_ConsignmentId request) (req_Payload request) of
        (t, Some err) \<Rightarrow>
          \<lparr>sk_location = loc, sk_TaskInfo = t, sk_ScheduleInfo = None,
           sk_error = Some (wrapOrError None err), sk_cronSchedule = None\<rparr>
      | (t, None) \<Rightarrow>
          (let t1 = t\<lparr>tk_ServiceID := req_ServiceId request, tk_MessageType := req_MessageType request,
                      tk_MessageId := req_MessageId request\<rparr>
           in \<lparr>sk_location = loc, sk_TaskInfo = t1, sk_ScheduleInfo = Some (NewScheduledRun t1),
               sk_error = None, sk_cronSchedule = None\<rparr>))"

section \<open>Times of day\<close>

definition matches :: "(char \<Rightarrow> bool) list \<Rightarrow> string \<Rightarrow> bool" where
  "matches ps s \<longleftrightarrow> length ps = length s \<and> list_all (\<lambda>(p, c). p c) (zip ps s)"

definition is_colon :: "char \<Rightarrow> bool" where "is_colon c \<longleftrightarrow> c = CHR '':''"

text \<open>
  The two regular expressions. With the flag \<open>m\<close> the anchors hold at the lines of the text, so
  a text matches when one of its lines does.
\<close>

definition timeWithSeconds :: "string \<Rightarrow> bool" where
  "timeWithSeconds t = list_ex (\<lambda>l.
     matches [is_digit, is_colon, is_digit, is_digit, is_colon, is_digit, is_digit] l
     \<or> matches [is_digit, is_digit, is_colon, is_digit, is_digit, is_colon, is_digit, is_digit] l)
     (split_on (CHR 0x0A) t)"

definition timeWithoutSeconds :: "string \<Rightarrow> bool" where
  "timeWithoutSeconds t = list_ex (\<lambda>l.
     matches [is_digit, is_colon, is_digit, is_digit] l
     \<or> matches [is_digit, is_digit, is_colon, is_digit, is_digit] l)
     (split_on (CHR 0x0A) t)"

definition parseTime :: "string \<Rightarrow> (nat \<times> nat \<times> nat) result" where
  "parseTime t =
     (if timeWithSeconds t then
        (case time_parse True t of None \<Rightarrow> Inl (SchedE ErrUnsupportedTimeFormat) | Some r \<Rightarrow> Inr r)
      else if timeWithoutSeconds t then
        (case time_parse False t of None \<Rightarrow> Inl (SchedE ErrUnsupportedTimeFormat) | Some r \<Rightarrow> Inr r)
      else Inl (SchedE ErrUnsupportedTimeFormat))"

text \<open>The closure given to \<open>sort.Search\<close> in \<open>addRunAtTime\<close>; it also writes \<open>exist\<close>.\<close>

definition run_at_probe :: "int list \<Rightarrow> int \<Rightarrow> nat \<Rightarrow> bool \<Rightarrow> bool \<times> bool" where
  "run_at_probe runAt t i exist =
     (let atTime = runAt ! i; b = (atTime \<ge> t) in (b, if b then atTime = t else exist))"

definition add_run_at :: "int \<Rightarrow> int list \<Rightarrow> int list" where
  "add_run_at t runAt =
     (if runAt = [] then [t]
      else case sort_search 0 (length runAt) (run_at_probe runAt t) False of
             (index, exist) \<Rightarrow>
               if exist then runAt else take index runAt @ t # drop index runAt)"

definition addRunAtTime :: "int \<Rightarrow> scheduled_task \<Rightarrow> scheduled_task" where
  "addRunAtTime t = upd_task (\<lambda>i. i\<lparr>tk_RunAt := add_run_at t (tk_RunAt i)\<rparr>)"

section \<open>Setting the schedule\<close>

datatype at_arg = AtString string | AtTime gotime | AtOther

fun at_times :: "string list \<Rightarrow> scheduled_task \<Rightarrow> scheduled_task" where
  "at_times [] s = s"
| "at_times (tt # rest) s =
     (case parseTime tt of
        Inl err \<Rightarrow> set_error err s
      | Inr (h, m, sec) \<Rightarrow>
          at_times rest (addRunAtTime (int h * hour + int m * minute + int sec * second) s))"

definition time_of_day :: "lib \<Rightarrow> gotime \<Rightarrow> int" where
  "time_of_day L t =
     (let c = lib_civil L t
      in int (cv_Hour c) * hour + int (cv_Minute c) * minute + int (cv_Second c) * second
           + int (cv_Nanosecond c) * nanosecond)"

definition At :: "lib \<Rightarrow> at_arg \<Rightarrow> scheduled_task \<Rightarrow> scheduled_task" where
  "At L i s =
     (case i of
        AtString t \<Rightarrow> at_times (split_on (CHR '';'') t) s
      | AtTime t \<Rightarrow> addRunAtTime (time_of_day L t) s
      | AtOther \<Rightarrow> set_error (SchedE ErrUnsupportedTimeFormat) s)"

definition setSchedulingUnit :: "scheduling_unit \<Rightarrow> scheduled_task \<Rightarrow> scheduled_task" where
  "setSchedulingUnit u s =
     (let currentUnit = tk_Unit (sk_TaskInfo s)
      in if currentUnit = Duration \<or> currentUnit = Crontab
         then set_error (SchedE ErrInvalidIntervalUnitsSelection) s
         else upd_task (\<lambda>i. i\<lparr>tk_Unit := u\<rparr>) s)"

definition Now :: "lib \<Rightarrow> 'w ext \<Rightarrow> scheduled_task \<Rightarrow> 'w \<Rightarrow> scheduled_task \<times> 'w" where
  "Now L X s w =
     (let s1 = setSchedulingUnit Once s
      in case x_now X w of (t, w1) \<Rightarrow> (At L (AtTime t) s1, w1))"

definition StartAt :: "gotime \<Rightarrow> scheduled_task \<Rightarrow> scheduled_task" where
  "StartAt t = upd_task (\<lambda>i. i\<lparr>tk_StartAt := t, tk_StartImmediately := False\<rparr>)"

datatype every_arg = EveryInt int | EveryDuration int | EveryString string | EveryOther

definition Every :: "lib \<Rightarrow> every_arg \<Rightarrow> scheduled_task \<Rightarrow> scheduled_task" where
  "Every L interval s =
     (case interval of
        EveryInt i \<Rightarrow>
          (let s1 = upd_task (\<lambda>t. t\<lparr>tk_Interval := i\<rparr>) s
           in if i \<le> 0 then set_error (SchedE ErrInvalidInterval) s1 else s1)
      | EveryDuration d \<Rightarrow>
          setSchedulingUnit Duration (upd_task (\<lambda>t. t\<lparr>tk_Interval := 0, tk_Duration := d\<rparr>) s)
      | EveryString str \<Rightarrow>
          (case parse_duration (lib_duration_frac L) str of
             Inl err \<Rightarrow>
               setSchedulingUnit Duration
                 (upd_task (\<lambda>t. t\<lparr>tk_Duration := 0\<rparr>) (set_error err s))
           | Inr d \<Rightarrow>
               setSchedulingUnit Duration (upd_task (\<lambda>t. t\<lparr>tk_Duration := d\<rparr>) s))
      | EveryOther \<Rightarrow> set_error (SchedE ErrInvalidIntervalType) s)"

text \<open>
  \<open>Cron\<close>. The error is made by \<open>wrapOrError(err, ErrCronParseFailure)\<close>, so an error recorded
  before is replaced. A panic of the parser is a panic of \<open>Cron\<close>: nothing recovers from it here.
  \<open>cron_recorded\<close> is what follows the call of the parser.
\<close>

definition cron_with_location :: "string \<Rightarrow> string \<Rightarrow> string" where
  "cron_with_location loc cronExpression =
     (if has_prefix cronExpression ''TZ='' \<or> has_prefix cronExpression ''CRON_TZ=''
      then cronExpression else ''CRON_TZ='' @ loc @ '' '' @ cronExpression)"

definition cron_recorded :: "cron_schedule result \<Rightarrow> scheduled_task \<Rightarrow> scheduled_task" where
  "cron_recorded r s =
     (let s1 = (case r of
                  Inl err \<Rightarrow> s\<lparr>sk_error := Some (wrapOrError (Some err) (SchedE ErrCronParseFailure)),
                               sk_cronSchedule := None\<rparr>
                | Inr sched \<Rightarrow> s\<lparr>sk_cronSchedule := Some sched\<rparr>)
      in upd_task (\<lambda>t. t\<lparr>tk_Unit := Crontab, tk_StartImmediately := False\<rparr>) s1)"

definition Cron :: "lib \<Rightarrow> string \<Rightarrow> bool \<Rightarrow> scheduled_task \<Rightarrow> scheduled_task outcome" where
  "Cron L cronExpression withSeconds s =
     bind_outcome (lib_cron_parse L withSeconds (cron_with_location (sk_location s) cronExpression))
       (\<lambda>r. Ret (cron_recorded r s))"

section \<open>Units\<close>

definition ST_Milliseconds :: "scheduled_task \<Rightarrow> scheduled_task" where
  "ST_Milliseconds = setSchedulingUnit Milliseconds"
definition ST_Millisecond :: "scheduled_task \<Rightarrow> scheduled_task" where
  "ST_Millisecond = ST_Milliseconds"
definition ST_Seconds :: "scheduled_task \<Rightarrow> scheduled_task" where
  "ST_Seconds = setSchedulingUnit Seconds"
definition ST_Second :: "scheduled_task \<Rightarrow> scheduled_task" where
  "ST_Second = ST_Seconds"
definition ST_Minutes :: "scheduled_task \<Rightarrow> scheduled_task" where
  "ST_Minutes = setSchedulingUnit Minutes"
definition ST_Minute :: "scheduled_task \<Rightarrow> scheduled_task" where
  "ST_Minute = ST_Minutes"
definition ST_Hours :: "scheduled_task \<Rightarrow> scheduled_task" where
  "ST_Hours = setSchedulingUnit Hours"
definition ST_Hour :: "scheduled_task \<Rightarrow> scheduled_task" where
  "ST_Hour = ST_Hours"
definition ST_Day :: "scheduled_task \<Rightarrow> scheduled_task" where
  "ST_Day = setSchedulingUnit Days"
definition ST_Days :: "scheduled_task \<Rightarrow> scheduled_task" where
  "ST_Days = setSchedulingUnit Days"
definition ST_Week :: "scheduled_task \<Rightarrow> scheduled_task" where
  "ST_Week = setSchedulingUnit Weeks"
definition ST_Weeks :: "scheduled_task \<Rightarrow> scheduled_task" where
  "ST_Weeks = setSchedulingUnit Weeks"

text \<open>
  The loop of \<open>Months\<close> over several days: \<open>seen\<close> are the keys of \<open>repeatMap\<close>, \<open>present\<close> the days
  the task already has. A day the task already has adds an error but does not end the loop.
\<close>

fun check_days :: "int list \<Rightarrow> int list \<Rightarrow> int list \<Rightarrow> scheduled_task \<Rightarrow> scheduled_task" where
  "check_days present seen [] s = s"
| "check_days present seen (d # ds) s =
     (if d < 1 \<or> d > 28 then set_error (SchedE ErrInvalidDayOfMonthEntry) s
      else
        let s1 = (if d \<in> set present then set_error (SchedE ErrInvalidDaysOfMonthDuplicateValue) s else s)
        in if d \<in> set seen then set_error (SchedE ErrInvalidDaysOfMonthDuplicateValue) s1
           else check_days present (d # seen) ds s1)"

definition ST_Months :: "int list \<Rightarrow> scheduled_task \<Rightarrow> scheduled_task" where
  "ST_Months days s =
     (let s1 = (case days of
                  [] \<Rightarrow> set_error (SchedE ErrInvalidDayOfMonthEntry) s
                | [d] \<Rightarrow> if d \<noteq> -1 \<and> (d < 1 \<or> d > 28)
                        then set_error (SchedE ErrInvalidDayOfMonthEntry) s else s
                | _ \<Rightarrow> check_days (tk_ScheduledDaysOfTheMonth (sk_TaskInfo s)) [] days s)
      in setSchedulingUnit Months
           (upd_task (\<lambda>t. t\<lparr>tk_ScheduledDaysOfTheMonth := tk_ScheduledDaysOfTheMonth t @ days,
                            tk_StartImmediately := False\<rparr>) s1))"

definition ST_Month :: "int list \<Rightarrow> scheduled_task \<Rightarrow> scheduled_task" where
  "ST_Month = ST_Months"

definition MonthLastDay :: "scheduled_task \<Rightarrow> scheduled_task" where
  "MonthLastDay = ST_Months [-1]"

fun parse_days :: "string list \<Rightarrow> int list result" where
  "parse_days [] = Inr []"
| "parse_days (x # xs) =
     (case atoi x of
        Inl e \<Rightarrow> Inl e
      | Inr d \<Rightarrow> (case parse_days xs of Inl e \<Rightarrow> Inl e | Inr ds \<Rightarrow> Inr (d # ds)))"

definition ParseDaysOfMonth :: "string \<Rightarrow> scheduled_task \<Rightarrow> int list \<times> scheduled_task" where
  "ParseDaysOfMonth days s =
     (case parse_days (split_on (CHR '','') days) of
        Inl err \<Rightarrow> ([], set_error err s)
      | Inr res \<Rightarrow> (res, s))"

definition weekday_in :: "int list \<Rightarrow> int \<Rightarrow> bool" where
  "weekday_in scheduleWeekdays weekday = list_ex (\<lambda>d. d = weekday) scheduleWeekdays"

definition Weekday :: "int \<Rightarrow> scheduled_task \<Rightarrow> scheduled_task" where
  "Weekday weekDay s =
     (let s1 = (if weekday_in (tk_ScheduledWeekdays (sk_TaskInfo s)) weekDay then s
                else upd_task (\<lambda>t. t\<lparr>tk_ScheduledWeekdays := tk_ScheduledWeekdays t @ [weekDay]\<rparr>) s)
      in setSchedulingUnit Weeks (upd_task (\<lambda>t. t\<lparr>tk_StartImmediately := False\<rparr>) s1))"

definition Midday :: "lib \<Rightarrow> scheduled_task \<Rightarrow> scheduled_task" where
  "Midday L = At L (AtString ''12:00'')"

definition Monday :: "scheduled_task \<Rightarrow> scheduled_task" where "Monday = Weekday 1"
definition Tuesday :: "scheduled_task \<Rightarrow> scheduled_task" where "Tuesday = Weekday 2"
definition Wednesday :: "scheduled_task \<Rightarrow> scheduled_task" where "Wednesday = Weekday 3"
definition Thursday :: "scheduled_task \<Rightarrow> scheduled_task" where "Thursday = Weekday 4"
definition Friday :: "scheduled_task \<Rightarrow> scheduled_task" where "Friday = Weekday 5"
definition Saturday :: "scheduled_task \<Rightarrow> scheduled_task" where "Saturday = Weekday 6"
definition Sunday :: "scheduled_task \<Rightarrow> scheduled_task" where "Sunday = Weekday 0"

definition schedulingUnitLookupTable :: "lib \<Rightarrow> string \<rightharpoonup> (scheduled_task \<Rightarrow> scheduled_task)" where
  "schedulingUnitLookupTable L = map_of
     [(''millisecond'', ST_Millisecond), (''milliseconds'', ST_Milliseconds),
      (''second'', ST_Second), (''seconds'', ST_Seconds),
      (''minute'', ST_Minute), (''minutes'', ST_Minutes),
      (''hour'', ST_Hour), (''hours'', ST_Hours),
      (''day'', ST_Day), (''days'', ST_Days),
      (''week'', ST_Week), (''weeks'', ST_Weeks),
      (''monday'', Monday), (''tuesday'', Tuesday), (''wednesday'', Wednesday),
      (''thursday'', Thursday), (''friday'', Friday), (''saturday'', Saturday),
      (''sunday'', Sunday), (''midday'', Midday L)]"

section \<open>Parsing a schedule\<close>

text \<open>The case \<open>every\<close> of \<open>ParseSchedule\<close>, on the words of the schedule.\<close>

definition parse_every :: "lib \<Rightarrow> string list \<Rightarrow> scheduled_task \<Rightarrow> scheduled_task" where
  "parse_every L words s =
     (let s1 = (case atoi (words ! 1) of
                  Inr duration \<Rightarrow> Every L (EveryInt duration) s
                | Inl _ \<Rightarrow> Every L (EveryString (words ! 1)) s)
      in if length words > 2 then
           let u = to_lower (lib_unicode_lower L) (words ! 2)
           in if u = ''monthdays'' then
                (if length words < 4 then set_error (SchedE ErrInvalidScheduleType) s1
                 else case ParseDaysOfMonth (words ! 3) s1 of (days, s2) \<Rightarrow> ST_Month days s2)
              else case schedulingUnitLookupTable L u of
                     None \<Rightarrow> set_error (SchedE ErrInvalidSchedulingUnit) s1
                   | Some schedulingUnitFn \<Rightarrow> schedulingUnitFn s1
         else s1)"

definition parse_words :: "lib \<Rightarrow> string \<Rightarrow> scheduled_task \<Rightarrow> scheduled_task outcome" where
  "parse_words L scheduleStr s =
     (let parsedSchedule = split_on (CHR '' '') scheduleStr
      in if length parsedSchedule < 2 then Ret (set_error (SchedE ErrInvalidScheduleType) s)
         else
           let frequency = to_lower (lib_unicode_lower L) (parsedSchedule ! 0)
           in if frequency = SchedulingFrequencyEvery then Ret (parse_every L parsedSchedule s)
              else if frequency = SchedulingFrequencyAt then Ret (At L (AtString (parsedSchedule ! 1)) s)
              else if frequency = SchedulingFrequencyCron then Cron L (parsedSchedule ! 1) True s
              else Ret (set_error (SchedE ErrInvalidScheduleType) s))"

definition is_now :: "lib \<Rightarrow> string \<Rightarrow> bool" where
  "is_now L scheduleStr \<longleftrightarrow>
     scheduleStr = [] \<or> to_lower (lib_unicode_lower L) scheduleStr = SchedulingFrequencyNow"

definition ParseSchedule ::
  "lib \<Rightarrow> 'w ext \<Rightarrow> string \<Rightarrow> scheduled_task \<Rightarrow> 'w \<Rightarrow> (scheduled_task \<times> 'w) outcome" where
  "ParseSchedule L X scheduleStr s w =
     (if is_now L scheduleStr then
        (case x_now X w of (t, w1) \<Rightarrow>
           Ret (Now L X (upd_task (\<lambda>i. i\<lparr>tk_Unit := Once, tk_StartAt := t, tk_StartImmediately := True\<rparr>) s) w1))
      else bind_outcome (parse_words L scheduleStr s) (\<lambda>s1. Ret (s1, w)))"

section \<open>Scheduling\<close>

text \<open>The validation at the start of \<open>Schedule\<close>.\<close>

definition check_weekdays :: "scheduled_task \<Rightarrow> scheduled_task" where
  "check_weekdays s =
     (let t = sk_TaskInfo s
      in if tk_ScheduledWeekdays t \<noteq> [] \<and> tk_Unit t \<noteq> Weeks
         then set_error (SchedE ErrWeekdayNotSupported) s else s)"

definition check_interval :: "scheduled_task \<Rightarrow> scheduled_task" where
  "check_interval s =
     (let t = sk_TaskInfo s
      in if tk_Unit t \<noteq> Crontab \<and> tk_Interval t = 0 \<and> tk_Unit t \<noteq> Duration \<and> tk_Unit t \<noteq> Once
         then set_error (SchedE ErrInvalidInterval) s else s)"

definition validated :: "scheduled_task \<Rightarrow> scheduled_task" where
  "validated s = check_interval (check_weekdays s)"

text \<open>
  What follows the insertion of the task. The scheduled run takes the identifier of the task
  and the present time; its device was set when the builder was made. A builder without a run
  has an error and does not get here; dereferencing it would panic.
\<close>

definition hand_over ::
  "lib \<Rightarrow> 'w ext \<Rightarrow> sqs_vars \<Rightarrow> scheduled_task \<Rightarrow> 'w \<Rightarrow> ((scheduled_task result) \<times> 'w) outcome" where
  "hand_over L X p s w =
     (if tk_Unit (sk_TaskInfo s) = Once then
        (case MarshalServiceMessage L (sk_TaskInfo s) of
           Inl e \<Rightarrow> Ret (Inl e, w)
         | Inr payload \<Rightarrow>
             (case SendDispatchQueueMessage X p payload w of
                (Some e, w1) \<Rightarrow> Ret (Inl e, w1)
              | (None, w1) \<Rightarrow> Ret (Inr s, w1)))
      else
        (case sk_ScheduleInfo s of
           None \<Rightarrow> Panic ''nil pointer dereference''
         | Some run \<Rightarrow>
             (case x_now X w of (t, w1) \<Rightarrow>
                (case CreateScheduledRun L X
                        (run\<lparr>sr_TaskID := tk_TaskID (sk_TaskInfo s), sr_NextRun := t\<rparr>) w1 of
                   ((run', Some e), w2) \<Rightarrow> Ret (Inl e, w2)
                 | ((run', None), w2) \<Rightarrow> Ret (Inr (s\<lparr>sk_ScheduleInfo := Some run'\<rparr>), w2)))))"

definition Schedule ::
  "lib \<Rightarrow> 'w ext \<Rightarrow> sqs_vars \<Rightarrow> scheduled_task \<Rightarrow> 'w \<Rightarrow> ((scheduled_task result) \<times> 'w) outcome" where
  "Schedule L X p s w =
     (let s1 = validated s
      in case sk_error s1 of
           Some e \<Rightarrow> Ret (Inl e, w)
         | None \<Rightarrow>
             (case CreateTask L X (sk_TaskInfo s1) w of
                ((t, Some e), w1) \<Rightarrow> Ret (Inl e, w1)
              | ((t, None), w1) \<Rightarrow> hand_over L X p (s1\<lparr>sk_TaskInfo := t\<rparr>) w1))"

end
