(* ===== verification/ScheduleFacts.thy ===== *)
theory ScheduleFacts
  imports Schedule
begin

text \<open>
  What holds of the schedule builder: the times of day are kept sorted without duplicates, the
  contract of every builder method (locale \<open>builder_op\<close>, interpreted on each), and what the
  schedule texts mean.
\<close>

section \<open>Times of day\<close>

lemma take_insert_drop_sorted:
  fixes xs :: "int list"
  assumes "sorted_wrt (<) xs" "\<forall>k < r. \<not> t \<le> xs ! k" "\<forall>k. r \<le> k \<and> k < length xs \<longrightarrow> t < xs ! k"
    and "r \<le> length xs"
  shows "sorted_wrt (<) (take r xs @ t # drop r xs) \<and> set (take r xs @ t # drop r xs) = insert t (set xs)"
proof
  have 1: "x < t" if "x \<in> set (take r xs)" for x
    using that assms(2,4) by (auto simp: in_set_conv_nth)
  have 2: "t < x" if "x \<in> set (drop r xs)" for x
    using that assms(3,4) by (auto simp: in_set_conv_nth)
  have "sorted_wrt (<) (take r xs @ drop r xs)" using assms(1) by simp
  then have 3: "sorted_wrt (<) (take r xs)" "sorted_wrt (<) (drop r xs)"
    "\<forall>x \<in> set (take r xs). \<forall>y \<in> set (drop r xs). x < y"
    unfolding sorted_wrt_append by blast+
  with 1 2 show "sorted_wrt (<) (take r xs @ t # drop r xs)"
    by (auto simp: sorted_wrt_append)
  have "set (take r xs) \<union> set (drop r xs) = set xs"
    by (metis append_take_drop_id set_append)
  then show "set (take r xs @ t # drop r xs) = insert t (set xs)" by auto
qed

lemma add_run_at_spec:
  assumes "sorted_wrt (<) xs"
  shows "sorted_wrt (<) (add_run_at t xs) \<and> set (add_run_at t xs) = insert t (set xs)"
proof (cases "xs = []")
  case True
  then show ?thesis by (simp add: add_run_at_def)
next
  case False
  obtain r e where se: "sort_search 0 (length xs) (run_at_probe xs t) False = (r, e)" by fastforce
  have mono: "t \<le> xs ! b" if "a \<le> b" "b < length xs" "t \<le> xs ! a" for a b
  proof (cases "a = b")
    case False
    with that have "xs ! a < xs ! b" using assms by (simp add: sorted_wrt_iff_nth_less)
    with that show ?thesis by simp
  qed (use that in simp)
  have first: "(\<forall>k < r. \<not> t \<le> xs ! k) \<and> r \<le> length xs \<and> (\<forall>k. r \<le> k \<and> k < length xs \<longrightarrow> t \<le> xs ! k)
      \<and> e = (if r = length xs then False else xs ! r = t)"
    by (rule sort_search_first [where f = "run_at_probe xs t" and g = "\<lambda>k. xs ! k = t"])
      (use mono se in \<open>simp_all add: run_at_probe_def Let_def\<close>)
  then have r: "\<forall>k < r. \<not> t \<le> xs ! k" "r \<le> length xs" "\<forall>k. r \<le> k \<and> k < length xs \<longrightarrow> t \<le> xs ! k"
    and e: "e \<longleftrightarrow> r < length xs \<and> xs ! r = t"
    by auto
  show ?thesis
  proof (cases e)
    case True
    then have "t \<in> set xs" using e by (metis nth_mem)
    with True False se assms show ?thesis by (simp add: add_run_at_def insert_absorb)
  next
    case no: False
    have "t < xs ! k" if "r \<le> k" "k < length xs" for k
    proof (cases "k = r")
      case True
      with no e r(3) that have "t \<le> xs ! r" "t \<noteq> xs ! r" by auto
      with True show ?thesis by simp
    next
      case False
      with that have "xs ! r < xs ! k" using assms by (simp add: sorted_wrt_iff_nth_less)
      moreover have "t \<le> xs ! r" using r(3) that by simp
      ultimately show ?thesis by simp
    qed
    with no False se take_insert_drop_sorted [OF assms r(1) _ r(2)] show ?thesis
      by (simp add: add_run_at_def)
  qed
qed

text \<open>
  C12: \<open>addRunAtTime\<close>, a binary search whose closure also records whether
  the time is present, computes insertion into a sorted list without duplicates.
\<close>

theorem run_times_sorted_insert:
  assumes "sorted_wrt (<) (tk_RunAt (sk_TaskInfo s))"
  shows "tk_RunAt (sk_TaskInfo (addRunAtTime t s)) = insort_insert t (tk_RunAt (sk_TaskInfo s))"
proof -
  let ?xs = "tk_RunAt (sk_TaskInfo s)"
  have "sorted_wrt (<) (add_run_at t ?xs)" "set (add_run_at t ?xs) = insert t (set ?xs)"
    using add_run_at_spec [OF assms] by blast+
  moreover have "sorted ?xs" "distinct ?xs" using assms by (simp_all add: strict_sorted_iff)
  then have "sorted_wrt (<) (insort_insert t ?xs)" "set (insort_insert t ?xs) = insert t (set ?xs)"
    by (simp_all add: strict_sorted_iff sorted_insort_insert distinct_insort_insert set_insort_insert)
  ultimately have "add_run_at t ?xs = insort_insert t ?xs"
    by (metis strict_sorted_equal)
  then show ?thesis by (simp add: addRunAtTime_def upd_task_def)
qed

definition sample_builder :: scheduled_task where
  "sample_builder =
     \<lparr>sk_location = ''UTC'',
      sk_TaskInfo = zero_task\<lparr>tk_TenantID := sample_uuid, tk_DeviceID := 1, tk_ConsignmentID := ''c1'',
        tk_ServiceID := ''fs'', tk_TaskDetails := Some ''p'', tk_RunAt := [10, 50]\<rparr>,
      sk_ScheduleInfo = None, sk_error = None, sk_cronSchedule = None\<rparr>"

lemma run_times_sorted_insert_witness:
  "tk_RunAt (sk_TaskInfo (addRunAtTime 20 sample_builder)) = [10, 20, 50]"
  using run_times_sorted_insert [of sample_builder 20]
  by (simp add: sample_builder_def zero_task_def insort_insert_key_def)

section \<open>The contract of a builder method\<close>

text \<open>
  A method never touches what identifies the task, never clears a recorded error, and keeps the
  collections in order: times of day strictly increasing, weekdays distinct.
\<close>

definition same_identity :: "scheduled_task \<Rightarrow> scheduled_task \<Rightarrow> bool" where
  "same_identity s s' \<longleftrightarrow>
     tk_TaskID (sk_TaskInfo s') = tk_TaskID (sk_TaskInfo s)
     \<and> tk_DeviceID (sk_TaskInfo s') = tk_DeviceID (sk_TaskInfo s)
     \<and> tk_TenantID (sk_TaskInfo s') = tk_TenantID (sk_TaskInfo s)
     \<and> tk_ServiceID (sk_TaskInfo s') = tk_ServiceID (sk_TaskInfo s)
     \<and> tk_ConsignmentID (sk_TaskInfo s') = tk_ConsignmentID (sk_TaskInfo s)
     \<and> tk_MessageId (sk_TaskInfo s') = tk_MessageId (sk_TaskInfo s)
     \<and> tk_MessageType (sk_TaskInfo s') = tk_MessageType (sk_TaskInfo s)
     \<and> tk_TaskDetails (sk_TaskInfo s') = tk_TaskDetails (sk_TaskInfo s)
     \<and> tk_Status (sk_TaskInfo s') = tk_Status (sk_TaskInfo s)
     \<and> sk_ScheduleInfo s' = sk_ScheduleInfo s \<and> sk_location s' = sk_location s"

definition builder_inv :: "scheduled_task \<Rightarrow> bool" where
  "builder_inv s \<longleftrightarrow> sorted_wrt (<) (tk_RunAt (sk_TaskInfo s))
     \<and> distinct (tk_ScheduledWeekdays (sk_TaskInfo s))"

definition builds_on :: "scheduled_task \<Rightarrow> scheduled_task \<Rightarrow> bool" where
  "builds_on s s' \<longleftrightarrow> same_identity s s' \<and> (sk_error s \<noteq> None \<longrightarrow> sk_error s' \<noteq> None)
     \<and> (builder_inv s \<longrightarrow> builder_inv s')"

lemma builds_on_refl [simp, intro]: "builds_on s s"
  by (simp add: builds_on_def same_identity_def)

lemma builds_on_trans [trans]: "builds_on s t \<Longrightarrow> builds_on t u \<Longrightarrow> builds_on s u"
  by (simp add: builds_on_def same_identity_def)

locale builder_op =
  fixes f :: "scheduled_task \<Rightarrow> scheduled_task"
  assumes step: "builds_on s (f s)"
begin

lemma error_kept: "sk_error s \<noteq> None \<Longrightarrow> sk_error (f s) \<noteq> None"
  using step by (simp add: builds_on_def)

lemma identity_kept: "same_identity s (f s)"
  using step by (simp add: builds_on_def)

lemma inv_kept: "builder_inv s \<Longrightarrow> builder_inv (f s)"
  using step by (simp add: builds_on_def)

lemma after: "builds_on r s \<Longrightarrow> builds_on r (f s)"
  using step builds_on_trans by blast

end

text \<open>A method that chooses the unit: it sets it, unless a duration or a cron text fixed it.\<close>

locale unit_op = builder_op +
  fixes u :: scheduling_unit
  assumes chooses: "tk_Unit (sk_TaskInfo s) \<noteq> Duration \<Longrightarrow> tk_Unit (sk_TaskInfo s) \<noteq> Crontab \<Longrightarrow>
      tk_Unit (sk_TaskInfo (f s)) = u"
    and refuses: "tk_Unit (sk_TaskInfo s) = Duration \<or> tk_Unit (sk_TaskInfo s) = Crontab \<Longrightarrow>
      sk_error (f s) \<noteq> None \<and> tk_Unit (sk_TaskInfo (f s)) = tk_Unit (sk_TaskInfo s)"
begin

lemma no_error_unit: "sk_error (f s) = None \<Longrightarrow> tk_Unit (sk_TaskInfo (f s)) = u"
  using chooses refuses by blast

end

lemma set_error_builds: "builds_on s (set_error e s)"
  by (simp add: set_error_def builds_on_def same_identity_def builder_inv_def)

lemma addRunAtTime_builds: "builds_on s (addRunAtTime t s)"
  by (simp add: addRunAtTime_def upd_task_def builds_on_def same_identity_def builder_inv_def
      add_run_at_spec)

interpretation error_op: builder_op "set_error e" for e
  by unfold_locales (rule set_error_builds)

interpretation run_at_op: builder_op "addRunAtTime t" for t
  by unfold_locales (rule addRunAtTime_builds)

lemma at_times_builds: "builds_on s (at_times ts s)"
proof (induction ts s rule: at_times.induct)
  case (2 tt rest s)
  show ?case
  proof (cases "parseTime tt")
    case (Inl e)
    then show ?thesis by (simp add: set_error_builds)
  next
    case (Inr r)
    obtain h m c where r: "r = (h, m, c)" by (cases r) auto
    let ?s = "addRunAtTime (int h * hour + int m * minute + int c * second) s"
    have "builds_on ?s (at_times rest ?s)" using "2.IH" [OF Inr, of h "(m, c)" m c] r by simp
    with builds_on_trans [OF addRunAtTime_builds this] Inr r show ?thesis by simp
  qed
qed simp

interpretation at_op: builder_op "At L i" for L i
  by unfold_locales (cases i; simp add: At_def at_times_builds addRunAtTime_builds set_error_builds)

interpretation start_at_op: builder_op "StartAt t" for t
  by unfold_locales (simp add: StartAt_def upd_task_def builds_on_def same_identity_def builder_inv_def)

interpretation unit_setter: unit_op "setSchedulingUnit u" u for u
  by unfold_locales
    (auto simp: setSchedulingUnit_def set_error_def upd_task_def builds_on_def same_identity_def
      builder_inv_def Let_def)

lemma upd_builds:
  assumes "\<And>t. tk_TaskID (g t) = tk_TaskID t \<and> tk_DeviceID (g t) = tk_DeviceID t
      \<and> tk_TenantID (g t) = tk_TenantID t \<and> tk_ServiceID (g t) = tk_ServiceID t
      \<and> tk_ConsignmentID (g t) = tk_ConsignmentID t \<and> tk_MessageId (g t) = tk_MessageId t
      \<and> tk_MessageType (g t) = tk_MessageType t \<and> tk_TaskDetails (g t) = tk_TaskDetails t
      \<and> tk_Status (g t) = tk_Status t \<and> tk_RunAt (g t) = tk_RunAt t
      \<and> tk_ScheduledWeekdays (g t) = tk_ScheduledWeekdays t"
  shows "builds_on s (upd_task g s)"
  using assms by (simp add: upd_task_def builds_on_def same_identity_def builder_inv_def)

lemma Every_builds: "builds_on s (Every L i s)"
proof (cases i)
  case (EveryInt n)
  have "builds_on s (upd_task (\<lambda>t. t\<lparr>tk_Interval := n\<rparr>) s)" by (rule upd_builds) simp
  with EveryInt show ?thesis by (simp add: Every_def Let_def error_op.after)
next
  case (EveryDuration d)
  have "builds_on s (upd_task (\<lambda>t. t\<lparr>tk_Interval := 0, tk_Duration := d\<rparr>) s)" by (rule upd_builds) simp
  with EveryDuration show ?thesis by (simp add: Every_def unit_setter.after)
next
  case (EveryString str)
  have "builds_on r (upd_task (\<lambda>t. t\<lparr>tk_Duration := d\<rparr>) r)" for d r by (rule upd_builds) simp
  with EveryString show ?thesis
    by (auto simp: Every_def intro: unit_setter.after builds_on_trans [OF set_error_builds]
        split: sum.splits)
qed (simp add: Every_def set_error_builds)

interpretation every_op: builder_op "Every L i" for L i
  by unfold_locales (rule Every_builds)

interpretation cron_op: builder_op "cron_recorded r" for r
  by unfold_locales
    (auto simp: cron_recorded_def Let_def upd_task_def builds_on_def same_identity_def builder_inv_def
      split: sum.splits)

lemma check_days_builds: "builds_on s (check_days present seen ds s)"
  by (induction present seen ds s rule: check_days.induct)
    (auto simp: Let_def set_error_builds intro: builds_on_trans [OF set_error_builds] error_op.after)

lemma Months_builds: "builds_on s (ST_Months ds s)"
proof -
  define s1 where "s1 = (case ds of
      [] \<Rightarrow> set_error (SchedE ErrInvalidDayOfMonthEntry) s
    | [d] \<Rightarrow> if d \<noteq> -1 \<and> (d < 1 \<or> d > 28) then set_error (SchedE ErrInvalidDayOfMonthEntry) s else s
    | _ \<Rightarrow> check_days (tk_ScheduledDaysOfTheMonth (sk_TaskInfo s)) [] ds s)"
  have "builds_on s s1"
    unfolding s1_def by (auto simp: set_error_builds check_days_builds simp del: check_days.simps split: list.splits)
  also have "builds_on s1 (upd_task (\<lambda>t. t\<lparr>tk_ScheduledDaysOfTheMonth := tk_ScheduledDaysOfTheMonth t @ ds,
      tk_StartImmediately := False\<rparr>) s1)" by (rule upd_builds) simp
  finally show ?thesis by (simp add: ST_Months_def s1_def unit_setter.after)
qed

lemma set_error_task [simp]: "sk_TaskInfo (set_error e s) = sk_TaskInfo s"
  by (simp add: set_error_def)

lemma set_error_error [simp]: "sk_error (set_error e s) \<noteq> None"
  by (simp add: set_error_def)

lemma check_days_task [simp]: "sk_TaskInfo (check_days present seen ds s) = sk_TaskInfo s"
  by (induction present seen ds s rule: check_days.induct) (simp_all add: Let_def)

lemma upd_task_task [simp]: "sk_TaskInfo (upd_task g s) = g (sk_TaskInfo s)"
  by (simp add: upd_task_def)

lemma upd_task_error [simp]: "sk_error (upd_task g s) = sk_error s"
  by (simp add: upd_task_def)

interpretation months_op: unit_op "ST_Months ds" Months for ds
proof
  fix s
  show "builds_on s (ST_Months ds s)" by (rule Months_builds)
  have task: "tk_Unit (sk_TaskInfo (case ds of
      [] \<Rightarrow> set_error (SchedE ErrInvalidDayOfMonthEntry) s
    | [d] \<Rightarrow> if d \<noteq> -1 \<and> (d < 1 \<or> d > 28) then set_error (SchedE ErrInvalidDayOfMonthEntry) s else s
    | _ \<Rightarrow> check_days (tk_ScheduledDaysOfTheMonth (sk_TaskInfo s)) [] ds s)) = tk_Unit (sk_TaskInfo s)"
    by (auto simp del: check_days.simps split: list.splits)
  show "tk_Unit (sk_TaskInfo s) \<noteq> Duration \<Longrightarrow> tk_Unit (sk_TaskInfo s) \<noteq> Crontab \<Longrightarrow>
      tk_Unit (sk_TaskInfo (ST_Months ds s)) = Months"
    unfolding ST_Months_def Let_def by (rule unit_setter.chooses) (simp_all add: task)
  show "tk_Unit (sk_TaskInfo s) = Duration \<or> tk_Unit (sk_TaskInfo s) = Crontab \<Longrightarrow>
      sk_error (ST_Months ds s) \<noteq> None \<and> tk_Unit (sk_TaskInfo (ST_Months ds s)) = tk_Unit (sk_TaskInfo s)"
    using unit_setter.refuses [of "upd_task (\<lambda>t. t\<lparr>tk_ScheduledDaysOfTheMonth := tk_ScheduledDaysOfTheMonth t @ ds,
                   tk_StartImmediately := False\<rparr>) _"]
    unfolding ST_Months_def Let_def by (simp add: task)
qed

lemma Weekday_builds: "builds_on s (Weekday d s)"
proof -
  define s1 where "s1 = (if weekday_in (tk_ScheduledWeekdays (sk_TaskInfo s)) d then s
    else upd_task (\<lambda>t. t\<lparr>tk_ScheduledWeekdays := tk_ScheduledWeekdays t @ [d]\<rparr>) s)"
  have "builds_on s s1"
    by (auto simp: s1_def weekday_in_def list_ex_iff builds_on_def same_identity_def builder_inv_def
        upd_task_def)
  also have "builds_on s1 (upd_task (\<lambda>t. t\<lparr>tk_StartImmediately := False\<rparr>) s1)"
    by (rule upd_builds) simp
  finally show ?thesis by (simp add: Weekday_def s1_def unit_setter.after)
qed

interpretation weekday_op: unit_op "Weekday d" Weeks for d
proof
  fix s
  show "builds_on s (Weekday d s)" by (rule Weekday_builds)
  show "tk_Unit (sk_TaskInfo s) \<noteq> Duration \<Longrightarrow> tk_Unit (sk_TaskInfo s) \<noteq> Crontab \<Longrightarrow>
      tk_Unit (sk_TaskInfo (Weekday d s)) = Weeks"
    unfolding Weekday_def Let_def by (rule unit_setter.chooses) simp_all
  show "tk_Unit (sk_TaskInfo s) = Duration \<or> tk_Unit (sk_TaskInfo s) = Crontab \<Longrightarrow>
      sk_error (Weekday d s) \<noteq> None \<and> tk_Unit (sk_TaskInfo (Weekday d s)) = tk_Unit (sk_TaskInfo s)"
    using unit_setter.refuses [of "upd_task (\<lambda>t. t\<lparr>tk_StartImmediately := False\<rparr>) _" Weeks]
    unfolding Weekday_def Let_def by simp
qed

lemmas unit_methods = ST_Millisecond_def ST_Milliseconds_def ST_Second_def ST_Seconds_def
  ST_Minute_def ST_Minutes_def ST_Hour_def ST_Hours_def ST_Day_def ST_Days_def ST_Week_def
  ST_Weeks_def Monday_def Tuesday_def Wednesday_def Thursday_def Friday_def Saturday_def
  Sunday_def Midday_def

lemma lookup_builds:
  assumes "schedulingUnitLookupTable L u = Some g"
  shows "builds_on s (g s)"
  using map_of_SomeD [OF assms [unfolded schedulingUnitLookupTable_def]]
  by (auto simp: unit_methods unit_setter.step weekday_op.step at_op.step)

lemma ParseDaysOfMonth_builds: "ParseDaysOfMonth str s = (ds, s') \<Longrightarrow> builds_on s s'"
  by (auto simp: ParseDaysOfMonth_def set_error_builds split: sum.splits)

lemma parse_every_builds: "builds_on s (parse_every L ws s)"
proof -
  define s1 where "s1 = (case atoi (ws ! 1) of Inr d \<Rightarrow> Every L (EveryInt d) s
    | Inl _ \<Rightarrow> Every L (EveryString (ws ! 1)) s)"
  have "builds_on s s1" by (auto simp: s1_def every_op.step split: sum.splits)
  also have "builds_on s1 (if length ws > 2 then
       let u = to_lower (lib_unicode_lower L) (ws ! 2)
       in if u = ''monthdays'' then
            (if length ws < 4 then set_error (SchedE ErrInvalidScheduleType) s1
             else case ParseDaysOfMonth (ws ! 3) s1 of (days, s2) \<Rightarrow> ST_Month days s2)
          else case schedulingUnitLookupTable L u of
                 None \<Rightarrow> set_error (SchedE ErrInvalidSchedulingUnit) s1
               | Some schedulingUnitFn \<Rightarrow> schedulingUnitFn s1
     else s1)"
    by (auto simp: Let_def ST_Month_def set_error_builds
        intro: lookup_builds months_op.after ParseDaysOfMonth_builds split: option.splits prod.splits)
  finally show ?thesis unfolding parse_every_def Let_def s1_def .
qed

lemma Cron_ret: "Cron L e b s = Ret s' \<Longrightarrow> \<exists>r. s' = cron_recorded r s"
  by (auto simp: Cron_def bind_outcome_def split: outcome.splits)

lemma parse_words_builds: "parse_words L str s = Ret s' \<Longrightarrow> builds_on s s'"
  by (auto simp: parse_words_def Let_def set_error_builds parse_every_builds at_op.step cron_op.step
      dest!: Cron_ret split: if_splits)

text \<open>
  The parsed builder without the clock: \<open>t1\<close> and \<open>t2\<close> are its two readings, used by an immediate
  schedule only.
\<close>

definition parsed_schedule :: "lib \<Rightarrow> string \<Rightarrow> scheduled_task \<Rightarrow> gotime \<Rightarrow> gotime \<Rightarrow> scheduled_task outcome" where
  "parsed_schedule L str s t1 t2 =
     (if is_now L str
      then Ret (At L (AtTime t2) (setSchedulingUnit Once
             (upd_task (\<lambda>i. i\<lparr>tk_Unit := Once, tk_StartAt := t1, tk_StartImmediately := True\<rparr>) s)))
      else parse_words L str s)"

lemma ParseSchedule_parsed:
  "ParseSchedule L X str s w =
     (case (if is_now L str then x_now X w else (0, w)) of (t1, w1) \<Rightarrow>
      case (if is_now L str then x_now X w1 else (0, w1)) of (t2, w2) \<Rightarrow>
        bind_outcome (parsed_schedule L str s t1 t2) (\<lambda>s1. Ret (s1, w2)))"
  by (simp add: ParseSchedule_def parsed_schedule_def Now_def Let_def split: prod.splits)

lemma parsed_builds:
  assumes "parsed_schedule L str s t1 t2 = Ret s'"
  shows "builds_on s s'"
proof (cases "is_now L str")
  case True
  have "builds_on s (upd_task (\<lambda>i. i\<lparr>tk_Unit := Once, tk_StartAt := t1, tk_StartImmediately := True\<rparr>) s)"
    by (rule upd_builds) simp
  then show ?thesis using True assms by (auto simp: parsed_schedule_def intro!: at_op.after unit_setter.after)
next
  case False
  with assms show ?thesis by (simp add: parsed_schedule_def parse_words_builds)
qed

lemma ParseSchedule_ret:
  assumes "ParseSchedule L X str s w = Ret (s', w')"
  obtains t1 t2 where "parsed_schedule L str s t1 t2 = Ret s'"
  using assms by (auto simp: ParseSchedule_parsed bind_outcome_def split: prod.splits outcome.splits)

lemma ParseSchedule_builds: "ParseSchedule L X scheduleStr s w = Ret (s', w') \<Longrightarrow> builds_on s s'"
  by (erule ParseSchedule_ret) (rule parsed_builds)

text \<open>Only a cron schedule can make the parser of schedules panic.\<close>

lemma parsed_returns:
  assumes "\<And>b x. returns (lib_cron_parse L b (cron_with_location (sk_location s) x))"
  shows "\<exists>s'. parsed_schedule L str s t1 t2 = Ret s'"
proof -
  obtain r where "lib_cron_parse L True (cron_with_location (sk_location s) (split_on (CHR '' '') str ! 1)) = Ret r"
    using assms by (metis returns_def outcome.exhaust outcome.simps(6))
  then show ?thesis by (auto simp: parsed_schedule_def parse_words_def Cron_def Let_def)
qed

text \<open>
  C15: whatever the schedule text, \<open>ParseSchedule\<close>, when it returns, leaves everything that
  identifies the task as the request gave it, never clears a recorded error, and keeps the
  times of day strictly increasing and the weekdays distinct.
\<close>

theorem parse_schedule_contract:
  "case ParseSchedule L X scheduleStr s w of Ret (s', w') \<Rightarrow> builds_on s s' | Panic msg \<Rightarrow> True"
  using ParseSchedule_builds by (auto split: outcome.splits)

lemma validated_error: "sk_error s \<noteq> None \<Longrightarrow> sk_error (validated s) \<noteq> None"
  by (simp add: set_error_def validated_def check_interval_def check_weekdays_def Let_def)

lemma validated_task [simp]: "sk_TaskInfo (validated s) = sk_TaskInfo s"
  by (simp add: validated_def check_interval_def check_weekdays_def Let_def)

lemma validated_info [simp]: "sk_ScheduleInfo (validated s) = sk_ScheduleInfo s"
  by (simp add: validated_def check_interval_def check_weekdays_def Let_def set_error_def)

lemma validated_ok:
  "sk_error (validated s) = None \<longleftrightarrow> sk_error s = None
     \<and> (tk_ScheduledWeekdays (sk_TaskInfo s) = [] \<or> tk_Unit (sk_TaskInfo s) = Weeks)
     \<and> (tk_Interval (sk_TaskInfo s) \<noteq> 0 \<or> tk_Unit (sk_TaskInfo s) \<in> {Crontab, Duration, Once})"
  by (auto simp: validated_def check_interval_def check_weekdays_def Let_def set_error_def)

section \<open>Numbers in schedules\<close>

lemma digit_char_digit: "d < 10 \<Longrightarrow> is_digit (digit_char d) \<and> digit_val (digit_char d) = d"
  by (simp add: digit_char_def is_digit_def digit_val_def)

lemma digits_val_snoc: "digits_val (ds @ [c]) = 10 * digits_val ds + digit_val c"
  by (simp add: digits_val_def)

lemma show_nat_digits: "show_nat n \<noteq> [] \<and> list_all is_digit (show_nat n) \<and> digits_val (show_nat n) = n"
proof (induction n rule: show_nat.induct)
  case (1 n)
  have d: "digit_char n = digit_char (n mod 10)" by (simp add: digit_char_def)
  show ?case
  proof (cases "n < 10")
    case True
    then show ?thesis
      using digit_char_digit [of n] by (subst (1 2 3) show_nat.simps) (simp add: digits_val_def)
  next
    case False
    with 1 digit_char_digit [of "n mod 10"] d show ?thesis
      by (subst (1 2 3) show_nat.simps) (simp add: digits_val_snoc)
  qed
qed

lemma digit_not: "is_digit c \<Longrightarrow> c \<noteq> CHR ''-'' \<and> c \<noteq> CHR ''+'' \<and> c \<noteq> CHR '' ''"
  by (auto simp: is_digit_def)

lemma atoi_show_nat:
  assumes "int n \<le> int64_max"
  shows "atoi (show_nat n) = Inr (int n)"
proof -
  obtain c cs where c: "show_nat n = c # cs" using show_nat_digits [of n] by (cases "show_nat n") auto
  then have "is_digit c" using show_nat_digits [of n] by auto
  then have "c \<noteq> CHR ''-'' \<and> c \<noteq> CHR ''+''" using digit_not by blast
  with c show_nat_digits [of n] assms show ?thesis
    by (simp add: atoi_def atoi_unsigned_def Let_def int64_max_def int64_min_def)
qed

text \<open>
  The parser of numbers (\<open>Atoi\<close>) reads back every number that fits 63 bits
  from its decimal text.
\<close>

theorem number_roundtrip:
  assumes "int n \<le> int64_max"
  shows "atoi (show_nat n) = Inr (int n)"
  using assms by (rule atoi_show_nat)

lemma number_roundtrip_witness: "atoi (show_nat 90) = Inr 90"
  using number_roundtrip [of 90] by (simp add: int64_max_def)

lemma show_nat_no_space: "CHR '' '' \<notin> set (show_nat n)"
  using show_nat_digits [of n] digit_not by (auto simp: list_all_iff)

section \<open>What the schedule texts mean\<close>

lemma is_ascii_append [simp]: "is_ascii (s @ t) \<longleftrightarrow> is_ascii s \<and> is_ascii t"
  by (auto simp: is_ascii_def)

lemma show_nat_ascii: "is_ascii (show_nat n)"
  using show_nat_digits [of n] by (fastforce simp: list_all_iff is_ascii_def is_digit_def)

text \<open>A text with a space is not the word \<open>now\<close>.\<close>

lemma not_now:
  assumes "is_ascii str" "CHR '' '' \<in> set str"
  shows "\<not> is_now L str"
proof -
  have "ascii_lower (CHR '' '') \<in> set (map ascii_lower str)" using assms(2) by auto
  moreover have "ascii_lower (CHR '' '') = CHR '' ''" by (simp add: ascii_lower_def)
  ultimately have "map ascii_lower str \<noteq> ''now''" by auto
  with assms show ?thesis by (auto simp: is_now_def SchedulingFrequencyNow_def)
qed

lemma lower_words [simp]:
  "to_lower uni ''every'' = ''every''" "to_lower uni ''at'' = ''at''" "to_lower uni ''cron'' = ''cron''"
  by (simp_all add: is_ascii_def ascii_lower_def)

definition plain_units :: "(string \<times> scheduling_unit) list" where
  "plain_units =
     [(''millisecond'', Milliseconds), (''milliseconds'', Milliseconds),
      (''second'', Seconds), (''seconds'', Seconds), (''minute'', Minutes), (''minutes'', Minutes),
      (''hour'', Hours), (''hours'', Hours), (''day'', Days), (''days'', Days),
      (''week'', Weeks), (''weeks'', Weeks)]"

lemma plain_unit_facts:
  assumes "map_of plain_units name = Some u"
  shows "schedulingUnitLookupTable L name = Some (setSchedulingUnit u) \<and> is_ascii name
    \<and> CHR '' '' \<notin> set name \<and> map ascii_lower name = name \<and> name \<noteq> ''monthdays''"
  using map_of_SomeD [OF assms] unfolding plain_units_def
  by (simp only: list.set insert_iff empty_iff Pair_inject)
    (elim disjE conjE; simp add: schedulingUnitLookupTable_def unit_methods is_ascii_def ascii_lower_def)

lemma words_of_every:
  assumes "CHR '' '' \<notin> set name"
  shows "split_on (CHR '' '') (''every '' @ show_nat n @ '' '' @ name) = [''every'', show_nat n, name]"
  using split_on_append [of "CHR '' ''" "''every''" "show_nat n @ '' '' @ name"]
    split_on_append [OF show_nat_no_space, of n name] split_on_no_sep [OF assms]
  by simp

text \<open>
  C26: \<open>every <n> <unit>\<close> sets exactly the interval and the unit, for every
  positive number and every unit word of the table that is not a day name.
\<close>

theorem every_interval_unit:
  assumes "0 < n" "int n \<le> int64_max" "map_of plain_units name = Some u"
    and "tk_Unit (sk_TaskInfo s) \<noteq> Duration" "tk_Unit (sk_TaskInfo s) \<noteq> Crontab"
  shows "ParseSchedule L X (''every '' @ show_nat n @ '' '' @ name) s w =
    Ret (upd_task (\<lambda>t. t\<lparr>tk_Interval := int n, tk_Unit := u\<rparr>) s, w)"
proof -
  let ?str = "''every '' @ show_nat n @ '' '' @ name"
  note name = plain_unit_facts [OF assms(3), of L]
  have "is_ascii ?str" using name show_nat_ascii [of n] by (auto simp: is_ascii_def)
  then have "\<not> is_now L ?str" by (intro not_now) auto
  moreover have "split_on (CHR '' '') ?str = [''every'', show_nat n, name]"
    using name by (intro words_of_every) blast
  moreover have "atoi (show_nat n) = Inr (int n)"
    using atoi_show_nat assms(2) by blast
  ultimately show ?thesis
    using name assms
    by (simp add: ParseSchedule_def parse_words_def SchedulingFrequencyEvery_def parse_every_def
        Every_def Let_def upd_task_def setSchedulingUnit_def del: split_on.simps append.simps)
qed

definition fresh_builder :: scheduled_task where
  "fresh_builder = NewScheduledTask sample_lib ''UTC'' sample_uuid sample_request"

lemma fresh_builder_facts [simp]:
  "sk_error fresh_builder = None" "tk_Unit (sk_TaskInfo fresh_builder) = 0"
  "tk_Interval (sk_TaskInfo fresh_builder) = 0" "tk_ScheduledWeekdays (sk_TaskInfo fresh_builder) = []"
  "tk_RunAt (sk_TaskInfo fresh_builder) = []" "sk_ScheduleInfo fresh_builder \<noteq> None"
  "tk_ScheduledDaysOfTheMonth (sk_TaskInfo fresh_builder) = []"
  by (simp_all add: fresh_builder_def NewScheduledTask_def NewTask_def setUuidFromString_def
      sample_request_def sample_uuid_def BroadcastDeviceID_def zero_task_def Let_def)

lemma every_interval_unit_witness:
  "ParseSchedule sample_lib idle_ext ''every 5 minutes'' fresh_builder () =
     Ret (upd_task (\<lambda>t. t\<lparr>tk_Interval := 5, tk_Unit := Minutes\<rparr>) fresh_builder, ())"
proof -
  have "show_nat 5 = ''5''" by (simp add: show_nat.simps digit_char_def char_of_def bit_0)
  moreover have "map_of plain_units ''minutes'' = Some Minutes" by (simp add: plain_units_def)
  ultimately show ?thesis
    using every_interval_unit [of 5 "''minutes''" Minutes fresh_builder sample_lib idle_ext "()"]
    by (simp add: int64_max_def unit_defs)
qed

text \<open>
  \<open>every <n>\<close> without a unit is accepted: no error is recorded, the task
  passes the validation, and it is stored with the unit 0, which is no scheduling unit.
\<close>

theorem every_without_unit:
  assumes "0 < n" "int n \<le> int64_max"
  shows "ParseSchedule sample_lib X (''every '' @ show_nat n) fresh_builder w =
      Ret (upd_task (\<lambda>t. t\<lparr>tk_Interval := int n\<rparr>) fresh_builder, w)
    \<and> sk_error (validated (upd_task (\<lambda>t. t\<lparr>tk_Interval := int n\<rparr>) fresh_builder)) = None
    \<and> tk_Unit (sk_TaskInfo fresh_builder) \<notin> {Once, Milliseconds, Seconds, Minutes, Hours, Days,
        Weeks, Months, Duration, Crontab}"
proof -
  let ?str = "''every '' @ show_nat n"
  have "is_ascii ?str" using show_nat_ascii [of n] by (auto simp: is_ascii_def)
  then have "\<not> is_now sample_lib ?str" by (intro not_now) auto
  moreover have "split_on (CHR '' '') ?str = [''every'', show_nat n]"
    using split_on_append [of "CHR '' ''" "''every''" "show_nat n"] split_on_no_sep [OF show_nat_no_space]
    by simp
  ultimately show ?thesis
    using assms atoi_show_nat [OF assms(2)]
    by (simp add: ParseSchedule_def parse_words_def SchedulingFrequencyEvery_def parse_every_def
        Every_def Let_def validated_ok unit_defs del: split_on.simps append.simps)
qed

lemma every_without_unit_witness:
  "ParseSchedule sample_lib idle_ext (''every '' @ show_nat 5) fresh_builder () =
     Ret (upd_task (\<lambda>t. t\<lparr>tk_Interval := 5\<rparr>) fresh_builder, ())"
  using every_without_unit [of 5 idle_ext "()"] by (simp add: int64_max_def del: append.simps)

lemma at_times_keeps:
  "tk_Unit (sk_TaskInfo (at_times ts s)) = tk_Unit (sk_TaskInfo s)
   \<and> tk_Interval (sk_TaskInfo (at_times ts s)) = tk_Interval (sk_TaskInfo s)
   \<and> (list_all (\<lambda>t. \<exists>r. parseTime t = Inr r) ts \<longrightarrow> sk_error (at_times ts s) = sk_error s
        \<and> tk_ScheduledWeekdays (sk_TaskInfo (at_times ts s)) = tk_ScheduledWeekdays (sk_TaskInfo s))"
proof (induction ts s rule: at_times.induct)
  case (2 tt rest s)
  show ?case
  proof (cases "parseTime tt")
    case (Inl e)
    then show ?thesis by simp
  next
    case (Inr r)
    obtain h m c where r: "r = (h, m, c)" by (cases r) auto
    show ?thesis using "2.IH" [OF Inr, of h "(m, c)" m c] Inr r
      by (simp add: addRunAtTime_def)
  qed
qed simp

lemma words_of_two:
  assumes "CHR '' '' \<notin> set a"
  shows "split_on (CHR '' '') (a @ '' '' @ rest) = a # split_on (CHR '' '') rest"
  using split_on_append [OF assms, of rest] by simp

text \<open>
  C40: a schedule \<open>at <times>\<close> is always rejected, whatever the times, and
  nothing is stored or sent: the method \<open>At\<close> sets no unit, so the validation of \<open>Schedule\<close> finds
  an interval of zero. If all times are valid the error is \<open>ErrInvalidInterval\<close>.
\<close>

theorem at_schedules_rejected:
  assumes "is_ascii tms" and "sk_error s = None" "tk_Unit (sk_TaskInfo s) = 0"
    "tk_Interval (sk_TaskInfo s) = 0" "tk_ScheduledWeekdays (sk_TaskInfo s) = []"
  shows "\<exists>s1 w1 e. ParseSchedule L X (''at '' @ tms) s w = Ret (s1, w1)
      \<and> Schedule L X p s1 w1 = Ret (Inl e, w)
      \<and> (list_all (\<lambda>t. \<exists>r. parseTime t = Inr r)
            (split_on (CHR '';'') (hd (split_on (CHR '' '') tms))) \<longrightarrow> e = SchedE ErrInvalidInterval)"
proof -
  let ?str = "''at '' @ tms"
  obtain t0 ts where ts: "split_on (CHR '' '') tms = t0 # ts"
    by (cases "split_on (CHR '' '') tms") auto
  then have words: "split_on (CHR '' '') ?str = ''at'' # t0 # ts"
    using words_of_two [of "''at''" tms] by simp
  have "is_ascii ?str" using assms(1) by (simp add: is_ascii_def)
  then have "\<not> is_now L ?str" by (intro not_now) auto
  with words have parse: "ParseSchedule L X ?str s w = Ret (at_times (split_on (CHR '';'') t0) s, w)"
    by (simp add: ParseSchedule_def parse_words_def SchedulingFrequencyEvery_def
        SchedulingFrequencyAt_def At_def del: split_on.simps append.simps)
  let ?s1 = "at_times (split_on (CHR '';'') t0) s"
  note keeps = at_times_keeps [of "split_on (CHR '';'') t0" s]
  have "sk_error (validated ?s1) \<noteq> None"
    using keeps assms by (simp add: validated_ok unit_defs del: split_on.simps)
  then obtain e where e: "sk_error (validated ?s1) = Some e" by blast
  then have run: "Schedule L X p ?s1 w = Ret (Inl e, w)" by (simp add: Schedule_def Let_def)
  have "e = SchedE ErrInvalidInterval"
    if "list_all (\<lambda>t. \<exists>r. parseTime t = Inr r) (split_on (CHR '';'') t0)"
    using e keeps that assms
    by (simp add: validated_def check_weekdays_def check_interval_def set_error_def unit_defs Let_def
        del: split_on.simps)
  with parse run ts show ?thesis by (auto simp del: split_on.simps append.simps)
qed

lemma at_schedules_rejected_witness:
  "\<exists>s1 w1. ParseSchedule sample_lib idle_ext (''at '' @ ''10:30'') fresh_builder () = Ret (s1, w1)
    \<and> Schedule sample_lib idle_ext NewSqsProvider s1 w1 = Ret (Inl (SchedE ErrInvalidInterval), ())"
proof -
  have "parseTime ''10:30'' = Inr (10, 30, 0)"
    by (simp add: parseTime_def timeWithSeconds_def timeWithoutSeconds_def matches_def is_digit_def
        is_colon_def time_parse_def time_parse_hm_def getnum_def digit_at_def digit_val_def skip_char_def)
  then show ?thesis
    using at_schedules_rejected [of "''10:30''" fresh_builder sample_lib idle_ext "()" NewSqsProvider]
    by (auto simp: is_ascii_def simp del: append.simps split: prod.splits)
qed

text \<open>
  Of a schedule \<open>cron <fields>\<close> only the first field reaches the cron
  parser, although it is asked to parse six.
\<close>

theorem cron_first_field:
  assumes "CHR '' '' \<notin> set field" "is_ascii field" "is_ascii rest"
  shows "ParseSchedule L X (''cron '' @ field @ '' '' @ rest) s w =
    bind_outcome (Cron L field True s) (\<lambda>s1. Ret (s1, w))"
proof -
  let ?str = "''cron '' @ field @ '' '' @ rest"
  have "split_on (CHR '' '') ?str = ''cron'' # field # split_on (CHR '' '') rest"
    using words_of_two [of "''cron''" "field @ '' '' @ rest"] words_of_two [OF assms(1), of rest] by simp
  moreover have "is_ascii ?str" using assms(2,3) by (auto simp: is_ascii_def)
  then have "\<not> is_now L ?str" by (intro not_now) auto
  moreover have "length (split_on (CHR '' '') rest) > 0" by simp
  ultimately show ?thesis
    by (simp add: ParseSchedule_def parse_words_def SchedulingFrequencyEvery_def
        SchedulingFrequencyAt_def SchedulingFrequencyCron_def del: split_on.simps append.simps)
qed

lemma cron_first_field_witness:
  "ParseSchedule sample_lib idle_ext (''cron '' @ ''0'' @ '' '' @ ''30 10 * * *'') fresh_builder () =
     bind_outcome (Cron sample_lib ''0'' True fresh_builder) (\<lambda>s1. Ret (s1, ()))"
  using cron_first_field [of "''0''" "''30 10 * * *''" sample_lib idle_ext fresh_builder "()"]
  by (simp add: is_ascii_def)

section \<open>Days of the month\<close>

definition valid_day :: "int \<Rightarrow> bool" where "valid_day d \<longleftrightarrow> 1 \<le> d \<and> d \<le> 28"

lemma check_days_error:
  "sk_error (check_days present seen ds s) = None \<longleftrightarrow>
     sk_error s = None \<and> list_all valid_day ds \<and> distinct ds \<and> set ds \<inter> set seen = {}
     \<and> set ds \<inter> set present = {}"
  by (induction present seen ds s rule: check_days.induct) (auto simp: Let_def valid_day_def)

lemma Months_error:
  "sk_error (ST_Months ds s) = None \<longleftrightarrow>
     sk_error s = None \<and> tk_Unit (sk_TaskInfo s) \<notin> {Duration, Crontab}
     \<and> (ds = [-1] \<or> (\<exists>d. ds = [d] \<and> valid_day d)
        \<or> (length ds \<ge> 2 \<and> list_all valid_day ds \<and> distinct ds
            \<and> set ds \<inter> set (tk_ScheduledDaysOfTheMonth (sk_TaskInfo s)) = {}))"
proof -
  define s1 where "s1 = (case ds of
      [] \<Rightarrow> set_error (SchedE ErrInvalidDayOfMonthEntry) s
    | [d] \<Rightarrow> if d \<noteq> -1 \<and> (d < 1 \<or> d > 28) then set_error (SchedE ErrInvalidDayOfMonthEntry) s else s
    | _ \<Rightarrow> check_days (tk_ScheduledDaysOfTheMonth (sk_TaskInfo s)) [] ds s)"
  have task: "sk_TaskInfo s1 = sk_TaskInfo s"
    unfolding s1_def by (auto simp del: check_days.simps split: list.splits)
  have err: "sk_error s1 = None \<longleftrightarrow> sk_error s = None
     \<and> (ds = [-1] \<or> (\<exists>d. ds = [d] \<and> valid_day d)
        \<or> (length ds \<ge> 2 \<and> list_all valid_day ds \<and> distinct ds
            \<and> set ds \<inter> set (tk_ScheduledDaysOfTheMonth (sk_TaskInfo s)) = {}))"
  proof (cases ds)
    case Nil
    then show ?thesis by (simp add: s1_def)
  next
    case c: (Cons d ds')
    show ?thesis
    proof (cases ds')
      case Nil
      with c show ?thesis by (auto simp: s1_def valid_day_def)
    next
      case (Cons d2 ds2)
      with c have "s1 = check_days (tk_ScheduledDaysOfTheMonth (sk_TaskInfo s)) [] ds s"
        by (simp add: s1_def del: check_days.simps)
      with c Cons show ?thesis by (simp add: check_days_error del: check_days.simps)
    qed
  qed
  have "ST_Months ds s = setSchedulingUnit Months (upd_task (\<lambda>t. t\<lparr>tk_ScheduledDaysOfTheMonth :=
      tk_ScheduledDaysOfTheMonth t @ ds, tk_StartImmediately := False\<rparr>) s1)"
    unfolding ST_Months_def s1_def Let_def ..
  with err task show ?thesis by (auto simp: setSchedulingUnit_def Let_def)
qed

lemma Months_fields:
  "tk_RunAt (sk_TaskInfo (ST_Months ds s)) = tk_RunAt (sk_TaskInfo s)
    \<and> tk_Duration (sk_TaskInfo (ST_Months ds s)) = tk_Duration (sk_TaskInfo s)
    \<and> tk_Interval (sk_TaskInfo (ST_Months ds s)) = tk_Interval (sk_TaskInfo s)
    \<and> tk_ScheduledWeekdays (sk_TaskInfo (ST_Months ds s)) = tk_ScheduledWeekdays (sk_TaskInfo s)
    \<and> tk_ScheduledDaysOfTheMonth (sk_TaskInfo (ST_Months ds s)) = tk_ScheduledDaysOfTheMonth (sk_TaskInfo s) @ ds"
proof -
  have "sk_TaskInfo (case ds of
      [] \<Rightarrow> set_error (SchedE ErrInvalidDayOfMonthEntry) s
    | [d] \<Rightarrow> if d \<noteq> -1 \<and> (d < 1 \<or> d > 28) then set_error (SchedE ErrInvalidDayOfMonthEntry) s else s
    | _ \<Rightarrow> check_days (tk_ScheduledDaysOfTheMonth (sk_TaskInfo s)) [] ds s) = sk_TaskInfo s"
    by (auto simp del: check_days.simps split: list.splits)
  then show ?thesis by (simp add: ST_Months_def setSchedulingUnit_def Let_def)
qed

text \<open>
  \<open>Months\<close> records no error exactly for the single day -1, a single day
  from 1 to 28, or several days from 1 to 28 that are distinct and not scheduled yet. A single
  day is not compared with the days scheduled before.
\<close>

theorem month_days_accepted:
  "sk_error (ST_Months ds s) = None \<longleftrightarrow>
     sk_error s = None \<and> tk_Unit (sk_TaskInfo s) \<notin> {Duration, Crontab}
     \<and> (ds = [-1] \<or> (\<exists>d. ds = [d] \<and> valid_day d)
        \<or> (length ds \<ge> 2 \<and> list_all valid_day ds \<and> distinct ds
            \<and> set ds \<inter> set (tk_ScheduledDaysOfTheMonth (sk_TaskInfo s)) = {}))"
  by (rule Months_error)

text \<open>
  So two calls with the same single day both succeed and the day is
  stored twice, although the comment on the method rules duplicates out.
\<close>

theorem single_day_duplicates:
  "sk_error (ST_Months [5] (ST_Months [5] fresh_builder)) = None
   \<and> tk_ScheduledDaysOfTheMonth (sk_TaskInfo (ST_Months [5] (ST_Months [5] fresh_builder))) = [5, 5]"
  by (simp add: ST_Months_def setSchedulingUnit_def Let_def unit_defs upd_task_def)

end
