(* ===== verification/ScheduleEffects.thy ===== *)
theory ScheduleEffects
  imports ScheduleFacts
begin

text \<open>
  What \<open>Schedule\<close> does outside: which rows it inserts and what it sends, in which order, for
  every answer of the database and of the queue.
\<close>

text \<open>The row of a new task: the identity of the builder's task, a fresh identifier, queued.\<close>

definition stamped :: "task \<Rightarrow> uuid \<Rightarrow> gotime \<Rightarrow> task" where
  "stamped t u now = t\<lparr>tk_TaskID := u, tk_CreateTime := now, tk_Status := taskStatusQueued,
     tk_RetryCount := 0\<rparr>"

definition insert_task :: "task \<Rightarrow> cql" where
  "insert_task t = Bound (InsertStmt taskMetadata) (RowTask t)"

definition insert_consignment :: "task \<Rightarrow> cql" where
  "insert_consignment t = Bound (InsertStmt consignmentsMetadata) (RowConsignment (NewConsignmentFromTask t))"

definition insert_run :: "scheduled_run \<Rightarrow> cql" where
  "insert_run r = Bound (InsertStmt scheduledRunMetadata) (RowRun r)"

text \<open>A task that the database layer is willing to insert.\<close>

definition storable :: "lib \<Rightarrow> task \<Rightarrow> bool" where
  "storable L t \<longleftrightarrow> lib_uuid_Parse L (tk_TenantID t) \<and> tk_TaskDetails t \<noteq> None"

text \<open>
  The calls of \<open>CreateTask\<close> with its result: the identifier and the time of creation are those
  that the generator and the clock answered; a task without a consignment identifier is
  inserted, and refused after that.
\<close>

inductive task_created :: "lib \<Rightarrow> task \<Rightarrow> event list \<Rightarrow> task \<Rightarrow> go_error option \<Rightarrow> bool" for L t where
  malformed: "\<not> storable L t \<Longrightarrow> task_created L t [] t (Some (DbE DbErrInvalidRequest))"
| insert_failed: "storable L t \<Longrightarrow> t1 = stamped t u now \<Longrightarrow>
    task_created L t [EvTimeUuid u, EvNow now, EvExec (insert_task t1) False] t1 (Some e)"
| no_consignment: "storable L t \<Longrightarrow> t1 = stamped t u now \<Longrightarrow> tk_ConsignmentID t = [] \<Longrightarrow>
    task_created L t [EvTimeUuid u, EvNow now, EvExec (insert_task t1) True] t1
      (Some (DbE DbErrInvalidRequest))"
| consignment_failed: "storable L t \<Longrightarrow> t1 = stamped t u now \<Longrightarrow> tk_ConsignmentID t \<noteq> [] \<Longrightarrow>
    task_created L t [EvTimeUuid u, EvNow now, EvExec (insert_task t1) True,
      EvExec (insert_consignment t1) False] t1 (Some e)"
| stored: "storable L t \<Longrightarrow> t1 = stamped t u now \<Longrightarrow> tk_ConsignmentID t \<noteq> [] \<Longrightarrow>
    task_created L t [EvTimeUuid u, EvNow now, EvExec (insert_task t1) True,
      EvExec (insert_consignment t1) True] t1 None"

inductive_cases task_created_ok: "task_created L t es t1 None"

lemma CreateTask_trace:
  "\<exists>w' es r t1. CreateTask L (traced X) t (w, tr) = ((t1, r), (w', tr @ es)) \<and> task_created L t es t1 r"
proof (cases "storable L t")
  case False
  then show ?thesis by (auto simp: CreateTask_def storable_def intro: task_created.intros)
next
  case True
  note s = True [unfolded storable_def]
  obtain u w1 where u: "x_time_uuid X w = (u, w1)" by fastforce
  obtain now w2 where now: "x_now X w1 = (now, w2)" by fastforce
  let ?t = "stamped t u now"
  obtain r1 w3 where ins: "x_exec X (insert_task ?t) w2 = (r1, w3)" by fastforce
  obtain r2 w4 where con: "x_exec X (insert_consignment ?t) w3 = (r2, w4)" by fastforce
  have i: "Bound (st_insert createTaskStatements) (RowTask ?t) = insert_task ?t"
    "Bound (st_insert createConsignmentStatements) (RowConsignment (NewConsignmentFromTask ?t)) = insert_consignment ?t"
    by (simp_all add: createTaskStatements_def createConsignmentStatements_def statements_for_def
        insert_task_def insert_consignment_def)
  have t: "t\<lparr>tk_TaskID := u, tk_CreateTime := now, tk_Status := taskStatusQueued, tk_RetryCount := 0\<rparr> = ?t"
    by (simp add: stamped_def)
  have sel: "cn_TenantID (NewConsignmentFromTask ?t) = tk_TenantID t"
    "cn_ConsignmentID (NewConsignmentFromTask ?t) = tk_ConsignmentID t"
    by (simp_all add: NewConsignmentFromTask_def stamped_def)
  have run: "CreateTask L (traced X) t (w, tr) =
      (case r1 of Some e \<Rightarrow> ((?t, Some e), (w3, tr @ [EvTimeUuid u, EvNow now, EvExec (insert_task ?t) False]))
       | None \<Rightarrow> if tk_ConsignmentID t = []
           then ((?t, Some (DbE DbErrInvalidRequest)), (w3, tr @ [EvTimeUuid u, EvNow now, EvExec (insert_task ?t) True]))
           else ((?t, r2), (w4, tr @ [EvTimeUuid u, EvNow now, EvExec (insert_task ?t) True,
             EvExec (insert_consignment ?t) (r2 = None)])))"
    using s u now ins con
    by (simp add: CreateTask_def logged_pair Let_def t i CreateConsignment_def sel split: option.splits)
  show ?thesis
    unfolding run using True by (cases r1; cases r2) (auto intro: task_created.intros)
qed

text \<open>
  The third step: a one-time task is encoded and sent to the dispatch queue, any other gets a
  run row for the device of its builder, due now.
\<close>

definition first_run :: "lib \<Rightarrow> scheduled_run \<Rightarrow> task \<Rightarrow> gotime \<Rightarrow> scheduled_run" where
  "first_run L run t nxt =
     run\<lparr>sr_TaskID := tk_TaskID t, sr_NextRun := nxt, sr_RunPartition := GetRunPartition L nxt\<rparr>"

inductive handed_over :: "lib \<Rightarrow> sqs_vars \<Rightarrow> scheduled_task \<Rightarrow> event list \<Rightarrow> scheduled_task result \<Rightarrow> bool"
  for L p s where
  not_encoded: "tk_Unit (sk_TaskInfo s) = Once \<Longrightarrow>
    lib_marshal_service_message L (service_message_of L (sk_TaskInfo s)) = Inl e \<Longrightarrow>
    handed_over L p s [] (Inl e)"
| not_sent: "tk_Unit (sk_TaskInfo s) = Once \<Longrightarrow>
    lib_marshal_service_message L (service_message_of L (sk_TaskInfo s)) = Inr payload \<Longrightarrow>
    handed_over L p s [EvSend (schedulerDispatchQueueUrl p) (b64_encode payload) False] (Inl e)"
| sent: "tk_Unit (sk_TaskInfo s) = Once \<Longrightarrow>
    lib_marshal_service_message L (service_message_of L (sk_TaskInfo s)) = Inr payload \<Longrightarrow>
    handed_over L p s [EvSend (schedulerDispatchQueueUrl p) (b64_encode payload) True] (Inr s)"
| run_failed: "tk_Unit (sk_TaskInfo s) \<noteq> Once \<Longrightarrow> sk_ScheduleInfo s = Some run \<Longrightarrow>
    handed_over L p s [EvNow nxt, EvExec (insert_run (first_run L run (sk_TaskInfo s) nxt)) False] (Inl e)"
| run_stored: "tk_Unit (sk_TaskInfo s) \<noteq> Once \<Longrightarrow> sk_ScheduleInfo s = Some run \<Longrightarrow>
    r = first_run L run (sk_TaskInfo s) nxt \<Longrightarrow>
    handed_over L p s [EvNow nxt, EvExec (insert_run r) True] (Inr (s\<lparr>sk_ScheduleInfo := Some r\<rparr>))"

inductive_cases handed_over_ok: "handed_over L p s es (Inr s')"

lemma hand_over_trace:
  assumes "tk_Unit (sk_TaskInfo s) \<noteq> Once \<longrightarrow> sk_ScheduleInfo s \<noteq> None"
  shows "\<exists>w' es r. hand_over L (traced X) p s (w, tr) = Ret (r, (w', tr @ es)) \<and> handed_over L p s es r"
proof (cases "tk_Unit (sk_TaskInfo s) = Once")
  case once: True
  show ?thesis
  proof (cases "lib_marshal_service_message L (service_message_of L (sk_TaskInfo s))")
    case (Inl e)
    with once show ?thesis by (auto simp: hand_over_def MarshalServiceMessage_def intro: handed_over.intros)
  next
    case (Inr payload)
    obtain a w1 where "x_sqs_send X (schedulerDispatchQueueUrl p) (b64_encode payload) w = (a, w1)"
      by fastforce
    with once Inr show ?thesis
      by (cases a) (auto simp: hand_over_def MarshalServiceMessage_def SendDispatchQueueMessage_def
          send_to_trace intro: handed_over.intros)
  qed
next
  case False
  then obtain run where run: "sk_ScheduleInfo s = Some run" using assms by auto
  obtain nxt w1 where now: "x_now X w = (nxt, w1)" by fastforce
  let ?run = "first_run L run (sk_TaskInfo s) nxt"
  obtain a w2 where ex: "x_exec X (insert_run ?run) w1 = (a, w2)" by fastforce
  have i: "Bound (st_insert createScheduledRunStatements) (RowRun ?run) = insert_run ?run"
    by (simp add: createScheduledRunStatements_def statements_for_def insert_run_def)
  have f: "run\<lparr>sr_TaskID := tk_TaskID (sk_TaskInfo s), sr_NextRun := nxt,
      sr_RunPartition := GetRunPartition L nxt\<rparr> = ?run"
    by (simp add: first_run_def)
  show ?thesis
    using False run now ex i f
    by (cases a) (auto simp: hand_over_def CreateScheduledRun_def logged_pair Let_def intro: handed_over.intros)
qed

text \<open>
  A run of \<open>Schedule\<close> on a builder: its calls and its result. An error recorded in the builder, or
  found by the validation, ends it before any call.
\<close>

inductive schedule_run :: "lib \<Rightarrow> sqs_vars \<Rightarrow> scheduled_task \<Rightarrow> event list \<Rightarrow> scheduled_task result \<Rightarrow> bool"
  for L p s where
  refused: "sk_error (validated s) = Some e \<Longrightarrow> schedule_run L p s [] (Inl e)"
| not_created: "sk_error (validated s) = None \<Longrightarrow> task_created L (sk_TaskInfo s) es t (Some e) \<Longrightarrow>
    schedule_run L p s es (Inl e)"
| created: "sk_error (validated s) = None \<Longrightarrow> task_created L (sk_TaskInfo s) es t None \<Longrightarrow>
    handed_over L p (s\<lparr>sk_TaskInfo := t\<rparr>) fs r \<Longrightarrow> schedule_run L p s (es @ fs) r"

inductive_cases schedule_run_ok: "schedule_run L p s es (Inr s')"

lemma validated_same: "sk_error (validated s) = None \<Longrightarrow> validated s = s"
  by (auto simp: validated_def check_interval_def check_weekdays_def set_error_def Let_def split: if_splits)

lemma schedule_trace:
  assumes "sk_error s = None \<longrightarrow> sk_ScheduleInfo s \<noteq> None"
  shows "\<exists>r w' es. Schedule L (traced X) p s (w, tr) = Ret (r, (w', tr @ es)) \<and> schedule_run L p s es r"
proof (cases "sk_error (validated s)")
  case (Some e)
  then show ?thesis by (auto simp: Schedule_def Let_def intro: schedule_run.intros)
next
  case None
  then have same: "validated s = s" by (rule validated_same)
  obtain w1 es1 r1 t1 where
    c: "CreateTask L (traced X) (sk_TaskInfo s) (w, tr) = ((t1, r1), (w1, tr @ es1))"
    and t: "task_created L (sk_TaskInfo s) es1 t1 r1"
    using CreateTask_trace [of L X "sk_TaskInfo s" w tr] by (elim exE conjE) (rule that)
  show ?thesis
  proof (cases r1)
    case (Some e)
    with None same c t show ?thesis by (auto simp: Schedule_def Let_def intro: schedule_run.intros)
  next
    case none: (None)
    let ?s = "s\<lparr>sk_TaskInfo := t1\<rparr>"
    have "tk_Unit (sk_TaskInfo ?s) \<noteq> Once \<longrightarrow> sk_ScheduleInfo ?s \<noteq> None" using assms None same by simp
    from hand_over_trace [OF this, of L X p w1 "tr @ es1"] obtain w2 es2 r2 where
      h: "hand_over L (traced X) p ?s (w1, tr @ es1) = Ret (r2, (w2, (tr @ es1) @ es2))"
      "handed_over L p ?s es2 r2"
      by (elim exE conjE) (rule that)
    have "Schedule L (traced X) p s (w, tr) = Ret (r2, (w2, tr @ (es1 @ es2)))"
      using None same c none h by (simp add: Schedule_def Let_def)
    moreover have "schedule_run L p s (es1 @ es2) r2"
      using None t none h(2) by (auto intro: schedule_run.intros)
    ultimately show ?thesis by blast
  qed
qed

text \<open>
  C5: every effect of \<open>Schedule\<close>, for any answers of the outside, and its result. It returns (no
  panic). An error that the builder recorded or the validation finds is returned before any
  call. Otherwise (\<open>task_created\<close>, then \<open>handed_over\<close>): a malformed tenant or missing payload is
  refused without a call; the task is inserted as queued, under the identifier that the
  generator answered just before and with the time the clock answered; then its consignment
  row, refused when the task names no consignment; then a one-time task is encoded and sent to
  the dispatch queue, any other gets a run row with the same identifier, due at the time the
  clock answers. The first call that fails is the last one made and gives an error; success is
  returned exactly when every step was carried out, with the task as inserted.
\<close>

theorem schedule_effects:
  assumes "sk_error s = None \<longrightarrow> sk_ScheduleInfo s \<noteq> None"
  shows "\<exists>r w' es. Schedule L (traced X) p s (w, tr) = Ret (r, (w', tr @ es)) \<and> schedule_run L p s es r"
  using assms by (rule schedule_trace)

definition queue_ext :: "unit ext" where
  "queue_ext = idle_ext\<lparr>x_sqs_send := (\<lambda>_ _ w. (Inr ''id'', w))\<rparr>"

definition now_builder :: scheduled_task where
  "now_builder =
     (case ParseSchedule sample_lib idle_ext [] fresh_builder () of Ret (s, _) \<Rightarrow> s | Panic _ \<Rightarrow> fresh_builder)"

lemma now_builder_facts:
  "sk_error now_builder = None" "tk_Unit (sk_TaskInfo now_builder) = Once"
  "tk_ScheduledWeekdays (sk_TaskInfo now_builder) = []" "sk_ScheduleInfo now_builder \<noteq> None"
  "tk_TenantID (sk_TaskInfo now_builder) = sample_uuid" "tk_TaskDetails (sk_TaskInfo now_builder) = Some ''p''"
  "tk_ConsignmentID (sk_TaskInfo now_builder) = ''c1''"
  by (simp_all add: now_builder_def ParseSchedule_def is_now_def Now_def At_def addRunAtTime_def
      setSchedulingUnit_def upd_task_def Let_def unit_defs fresh_builder_def NewScheduledTask_def
      NewTask_def setUuidFromString_def sample_request_def sample_uuid_def BroadcastDeviceID_def
      zero_task_def)

lemma schedule_effects_witness:
  "\<exists>s' w' es. Schedule sample_lib (traced queue_ext) NewSqsProvider now_builder ((), []) = Ret (Inr s', (w', es))
     \<and> length es = 5 \<and> hd es = EvTimeUuid (tk_TaskID (sk_TaskInfo s'))
     \<and> last es = EvSend [] (b64_encode ''message'') True"
proof -
  let ?p = NewSqsProvider
  have pre: "sk_error now_builder = None \<longrightarrow> sk_ScheduleInfo now_builder \<noteq> None"
    using now_builder_facts by simp
  have ok: "sk_error (validated now_builder) = None"
    using now_builder_facts by (simp add: validated_ok)
  obtain r w' es where
    run: "Schedule sample_lib (traced queue_ext) ?p now_builder ((), []) = Ret (r, (w', [] @ es))"
    and plan: "schedule_run sample_lib ?p now_builder es r"
    using schedule_effects [OF pre, of sample_lib queue_ext ?p "()" "[]"]
    by (elim exE conjE) (rule that)
  have "\<exists>s'. r = Inr s'"
    using run ok now_builder_facts
    by (auto simp: Schedule_def Let_def CreateTask_def CreateConsignment_def NewConsignmentFromTask_def
        queue_ext_def logged_pair hand_over_def MarshalServiceMessage_def
        SendDispatchQueueMessage_def send_to_trace sample_uuid_def)
  then obtain s' where s': "r = Inr s'" ..
  with plan have "length es = 5 \<and> hd es = EvTimeUuid (tk_TaskID (sk_TaskInfo s'))
     \<and> last es = EvSend [] (b64_encode ''message'') True"
    using now_builder_facts
    by (auto elim!: schedule_run_ok task_created_ok handed_over_ok simp: stamped_def NewSqsProvider_def)
  with run s' show ?thesis by auto
qed

end
