(* ===== verification/Daemon.thy ===== *)
theory Daemon
  imports ScheduleEffects
begin

text \<open>
  \<open>service/scheduler/daemon.go\<close>: the loop that reads the runs of the day, page by page, and sends
  the task of each to the dispatch queue. The two nested loops carry fuel: \<open>pf\<close> pages per pass
  and \<open>n\<close> passes. A pass that runs out of pages is told apart from one that is done.
\<close>

section \<open>The daemon\<close>

definition schedulerExecutionQuantum :: int where "schedulerExecutionQuantum = 1 * minute"

text \<open>One run: fetch its task, encode it, send it. Every failure skips the run.\<close>

definition dispatch_run :: "lib \<Rightarrow> 'w ext \<Rightarrow> sqs_vars \<Rightarrow> scheduled_run \<Rightarrow> 'w \<Rightarrow> 'w" where
  "dispatch_run L X p item w =
     (case GetTaskByID L X (lib_uuid_String L (sr_TaskID item)) (lib_uuid_String L (sr_DeviceID item)) w of
        (Inl e, w1) \<Rightarrow> w1
      | (Inr task, w1) \<Rightarrow>
          (case MarshalServiceMessage L task of
             Inl e \<Rightarrow> w1
           | Inr payload \<Rightarrow> snd (SendDispatchQueueMessage X p payload w1)))"

text \<open>The runs of a page; the result says whether the daemon has to stop.\<close>

fun dispatch_runs :: "lib \<Rightarrow> 'w ext \<Rightarrow> sqs_vars \<Rightarrow> scheduled_run list \<Rightarrow> 'w \<Rightarrow> bool \<times> 'w" where
  "dispatch_runs L X p [] w = (False, w)"
| "dispatch_runs L X p (item # rest) w =
     (case ctx_err X CtxSched w of
        (Some e, w1) \<Rightarrow> (True, w1)
      | (None, w1) \<Rightarrow> dispatch_runs L X p rest (dispatch_run L X p item w1))"

datatype pass_end = PassDone | PassStopped | PassMore

fun daemon_pages ::
  "lib \<Rightarrow> 'w ext \<Rightarrow> sqs_vars \<Rightarrow> nat \<Rightarrow> string \<Rightarrow> bytes \<Rightarrow> 'w \<Rightarrow> pass_end \<times> 'w" where
  "daemon_pages L X p 0 runPartition page w = (PassMore, w)"
| "daemon_pages L X p (Suc n) runPartition page w =
     (case GetScheduledRuns X runPartition page w of
        (Inl e, w1) \<Rightarrow> (PassDone, w1)
      | (Inr (foundRuns, nextPage), w1) \<Rightarrow>
          (case dispatch_runs L X p foundRuns w1 of
             (True, w2) \<Rightarrow> (PassStopped, w2)
           | (False, w2) \<Rightarrow>
               if nextPage = [] then (PassDone, w2)
               else daemon_pages L X p n runPartition nextPage w2))"

text \<open>
  A pass starts with an empty page state: the inner loop only ends with one. The wait between
  passes ends early when the context is cancelled; the model looks at the context after the
  wait. The result says whether the daemon returned.
\<close>

definition daemon_pass :: "lib \<Rightarrow> 'w ext \<Rightarrow> sqs_vars \<Rightarrow> nat \<Rightarrow> 'w \<Rightarrow> pass_end \<times> 'w" where
  "daemon_pass L X p pf w =
     (case x_now X w of (now, w1) \<Rightarrow> daemon_pages L X p pf (GetRunPartition L now) [] w1)"

fun runSchedulerDaemon :: "lib \<Rightarrow> 'w ext \<Rightarrow> sqs_vars \<Rightarrow> nat \<Rightarrow> nat \<Rightarrow> 'w \<Rightarrow> bool \<times> 'w" where
  "runSchedulerDaemon L X p pf 0 w = (False, w)"
| "runSchedulerDaemon L X p pf (Suc n) w =
     (case ctx_err X CtxSched w of
        (Some e, w1) \<Rightarrow> (True, w1)
      | (None, w1) \<Rightarrow>
          (case daemon_pass L X p pf w1 of
             (PassStopped, w2) \<Rightarrow> (True, w2)
           | (PassMore, w2) \<Rightarrow> (False, w2)
           | (PassDone, w2) \<Rightarrow>
               (case ctx_err X CtxSched (x_sleep X schedulerExecutionQuantum w2) of
                  (Some e, w3) \<Rightarrow> (True, w3)
                | (None, w3) \<Rightarrow> runSchedulerDaemon L X p pf n w3)))"

section \<open>The trace of a run\<close>

definition run_query :: "lib \<Rightarrow> scheduled_run \<Rightarrow> cond list" where
  "run_query L item = [EqLit ''device_id'' (lib_uuid_String L (sr_DeviceID item)),
     EqLit ''task_id'' (lib_uuid_String L (sr_TaskID item))]"

text \<open>
  What one run calls: its task is read, and if it was found and can be encoded, sent. A run
  whose identifiers the database layer refuses calls nothing.
\<close>

inductive run_handled :: "lib \<Rightarrow> sqs_vars \<Rightarrow> scheduled_run \<Rightarrow> event list \<Rightarrow> bool" for L p item where
  refused: "\<not> lib_uuid_Parse L (lib_uuid_String L (sr_DeviceID item)) \<or> lib_uuid_String L (sr_TaskID item) = []
    \<Longrightarrow> run_handled L p item []"
| not_read: "run_handled L p item [EvSelectTasks (run_query L item) (Inl e)]"
| not_found: "run_handled L p item [EvSelectTasks (run_query L item) (Inr [])]"
| not_encoded: "lib_marshal_service_message L (service_message_of L t) = Inl e \<Longrightarrow>
    run_handled L p item [EvSelectTasks (run_query L item) (Inr (t # ts))]"
| sent: "lib_marshal_service_message L (service_message_of L t) = Inr payload \<Longrightarrow>
    run_handled L p item [EvSelectTasks (run_query L item) (Inr (t # ts)),
      EvSend (schedulerDispatchQueueUrl p) (b64_encode payload) ok]"

text \<open>The calls of the daemon come in these segments: a run, the clock, a page, the wait.\<close>

definition run_segment :: "lib \<Rightarrow> sqs_vars \<Rightarrow> event list \<Rightarrow> bool" where
  "run_segment L p es \<longleftrightarrow> es = []
     \<or> (\<exists>t. es = [EvNow t]) \<or> es = [EvSleep schedulerExecutionQuantum]
     \<or> (\<exists>part page r. es = [EvPageRuns [Eq ''run_partition'' part] page r])
     \<or> (\<exists>item r. es = [EvSelectTasks (run_query L item) r])
     \<or> (\<exists>item t ts payload ok. lib_marshal_service_message L (service_message_of L t) = Inr payload
          \<and> es = [EvSelectTasks (run_query L item) (Inr (t # ts)),
                  EvSend (schedulerDispatchQueueUrl p) (b64_encode payload) ok])"

definition run_trace :: "lib \<Rightarrow> sqs_vars \<Rightarrow> event list \<Rightarrow> bool" where
  "run_trace L p es \<longleftrightarrow> (\<exists>segs. es = concat segs \<and> list_all (run_segment L p) segs)"

lemma run_trace_Nil [simp]: "run_trace L p []"
  unfolding run_trace_def by (rule exI [of _ "[]"]) simp

lemma run_trace_append: "run_trace L p es \<Longrightarrow> run_trace L p fs \<Longrightarrow> run_trace L p (es @ fs)"
  unfolding run_trace_def by (metis concat_append list_all_append)

lemma run_trace_segment: "run_segment L p es \<Longrightarrow> run_trace L p es"
  unfolding run_trace_def by (rule exI [of _ "[es]"]) simp

lemma run_trace_no_write: "run_trace L p es \<Longrightarrow> list_all (\<lambda>e. \<not> is_write e) es"
  by (fastforce simp: run_trace_def run_segment_def list_all_iff)

lemma GetTaskByID_trace:
  "GetTaskByID L (traced X) taskID deviceID (w, tr) =
     (if \<not> lib_uuid_Parse L deviceID then (Inl (DbE DbErrInvalidRequest), (w, tr))
      else if taskID = [] then (Inl (DbE DbErrInvalidRequest), (w, tr))
      else let cs = [EqLit ''device_id'' deviceID, EqLit ''task_id'' taskID] in
        case x_select_tasks X (md_Name taskMetadata) cs w of
          (r, w1) \<Rightarrow> (case r of Inl e \<Rightarrow> Inl e | Inr [] \<Rightarrow> Inl (DbE ErrNotFound) | Inr (t # _) \<Rightarrow> Inr t,
                      (w1, tr @ [EvSelectTasks cs r])))"
  by (auto simp: GetTaskByID_def logged_pair Let_def split: prod.splits sum.splits list.splits)

lemma run_handled_segment: "run_handled L p item es \<Longrightarrow> run_segment L p es"
  by (cases rule: run_handled.cases) (auto simp: run_segment_def)

lemma dispatch_run_trace:
  "\<exists>w' es. dispatch_run L (traced X) p item (w, tr) = (w', tr @ es) \<and> run_handled L p item es"
proof (cases "lib_uuid_Parse L (lib_uuid_String L (sr_DeviceID item)) \<and> lib_uuid_String L (sr_TaskID item) \<noteq> []")
  case False
  then show ?thesis by (auto simp: dispatch_run_def GetTaskByID_trace intro: run_handled.refused)
next
  case True
  obtain r w1 where s: "x_select_tasks X (md_Name taskMetadata) (run_query L item) w = (r, w1)" by fastforce
  with True have g: "GetTaskByID L (traced X) (lib_uuid_String L (sr_TaskID item))
      (lib_uuid_String L (sr_DeviceID item)) (w, tr) =
    (case r of Inl e \<Rightarrow> Inl e | Inr [] \<Rightarrow> Inl (DbE ErrNotFound) | Inr (t # _) \<Rightarrow> Inr t,
      (w1, tr @ [EvSelectTasks (run_query L item) r]))"
    by (simp add: GetTaskByID_trace run_query_def Let_def)
  show ?thesis
  proof (cases r)
    case (Inl e)
    with g show ?thesis by (auto simp: dispatch_run_def intro: run_handled.not_read)
  next
    case (Inr found)
    show ?thesis
    proof (cases found)
      case Nil
      with g Inr show ?thesis by (auto simp: dispatch_run_def intro: run_handled.not_found)
    next
      case (Cons t ts)
      show ?thesis
      proof (cases "lib_marshal_service_message L (service_message_of L t)")
        case (Inl e)
        then have "run_handled L p item [EvSelectTasks (run_query L item) r]"
          unfolding \<open>r = Inr found\<close> Cons by (rule run_handled.not_encoded)
        with g Inr Cons Inl show ?thesis by (simp add: dispatch_run_def MarshalServiceMessage_def)
      next
        case m: (Inr payload)
        then have "run_handled L p item [EvSelectTasks (run_query L item) r,
            EvSend (schedulerDispatchQueueUrl p) (b64_encode payload) ok]" for ok
          unfolding \<open>r = Inr found\<close> Cons by (rule run_handled.sent)
        with g Inr Cons m show ?thesis
          by (auto simp: dispatch_run_def MarshalServiceMessage_def SendDispatchQueueMessage_def send_to_trace
              split: sum.splits prod.splits)
      qed
    qed
  qed
qed

lemma dispatch_runs_trace:
  "\<exists>b w' es. dispatch_runs L (traced X) p items (w, tr) = (b, (w', tr @ es)) \<and> run_trace L p es"
proof (induction items arbitrary: w tr)
  case (Cons item items)
  obtain c w1 where c: "ctx_err X CtxSched w = (c, w1)" by fastforce
  show ?case
  proof (cases c)
    case (Some e)
    with c show ?thesis by (auto simp: unlogged_pair)
  next
    case None
    obtain w2 es where d: "dispatch_run L (traced X) p item (w1, tr) = (w2, tr @ es)" "run_segment L p es"
      using dispatch_run_trace [of L X p item w1 tr] run_handled_segment by (elim exE conjE) (rule that)
    obtain b w3 fs where "dispatch_runs L (traced X) p items (w2, tr @ es) = (b, (w3, (tr @ es) @ fs))"
      "run_trace L p fs"
      using Cons.IH [of w2 "tr @ es"] by (elim exE conjE) (rule that)
    with None c d show ?thesis
      by (auto simp: unlogged_pair intro: run_trace_append run_trace_segment)
  qed
qed auto

lemma segment_step: "run_segment L p [e] \<Longrightarrow> run_trace L p es \<Longrightarrow> run_trace L p (e # es)"
  using run_trace_append [OF run_trace_segment, of L p "[e]" es] by simp

lemma page_segment: "run_segment L p [EvPageRuns [Eq ''run_partition'' part] page r]"
  "run_segment L p [EvNow t]" "run_segment L p [EvSleep schedulerExecutionQuantum]"
  by (simp_all add: run_segment_def)

lemma daemon_pages_trace:
  "\<exists>r w' es. daemon_pages L (traced X) p n part page (w, tr) = (r, (w', tr @ es)) \<and> run_trace L p es"
proof (induction n arbitrary: page w tr)
  case (Suc n)
  obtain a w1 where x: "x_page_runs X (md_Name scheduledRunMetadata) [Eq ''run_partition'' part] page itemsPerPage w
      = (a, w1)" by fastforce
  let ?e = "EvPageRuns [Eq ''run_partition'' part] page a"
  show ?case
  proof (cases "part = [] \<or> (\<exists>e. a = Inl e)")
    case True
    then show ?thesis using x segment_step [OF page_segment(1)]
      by (auto simp: GetScheduledRuns_def logged_pair)
  next
    case False
    then obtain runs nxt where rn: "a = Inr (runs, nxt)" and part: "part \<noteq> []" by (cases a) auto
    obtain b w2 es where d: "dispatch_runs L (traced X) p runs (w1, tr @ [?e]) = (b, (w2, (tr @ [?e]) @ es))"
      "run_trace L p es"
      using dispatch_runs_trace [of L X p runs w1 "tr @ [?e]"] by (elim exE conjE) (rule that)
    obtain r w3 fs where "daemon_pages L (traced X) p n part nxt (w2, (tr @ [?e]) @ es)
        = (r, (w3, ((tr @ [?e]) @ es) @ fs))" "run_trace L p fs"
      using Suc.IH [of nxt w2 "(tr @ [?e]) @ es"] by (elim exE conjE) (rule that)
    moreover have "run_trace L p (?e # es)" using d(2) segment_step page_segment(1) by blast
    moreover have "run_trace L p (?e # es @ fs)" using calculation(2,3) run_trace_append by fastforce
    ultimately show ?thesis using x rn part d
      by (cases b; cases "nxt = []")
        (auto simp: GetScheduledRuns_def logged_pair intro: run_trace_append)
  qed
qed auto

lemma daemon_pass_trace:
  "\<exists>r w' es. daemon_pass L (traced X) p pf (w, tr) = (r, (w', tr @ es)) \<and> run_trace L p es"
proof -
  obtain now w1 where now: "x_now X w = (now, w1)" by fastforce
  obtain r w2 es where "daemon_pages L (traced X) p pf (GetRunPartition L now) [] (w1, tr @ [EvNow now])
      = (r, (w2, (tr @ [EvNow now]) @ es))" "run_trace L p es"
    using daemon_pages_trace [of L X p pf "GetRunPartition L now" "[]" w1 "tr @ [EvNow now]"]
    by (elim exE conjE) (rule that)
  with now segment_step [OF page_segment(2)] show ?thesis by (auto simp: daemon_pass_def logged_pair)
qed

lemma daemon_trace:
  "\<exists>b w' es. runSchedulerDaemon L (traced X) p pf n (w, tr) = (b, (w', tr @ es)) \<and> run_trace L p es"
proof (induction n arbitrary: w tr)
  case (Suc n)
  let ?z = "EvSleep schedulerExecutionQuantum"
  obtain c w1 where c: "ctx_err X CtxSched w = (c, w1)" by fastforce
  obtain r w2 es where d: "daemon_pass L (traced X) p pf (w1, tr) = (r, (w2, tr @ es))" "run_trace L p es"
    using daemon_pass_trace [of L X p pf w1 tr] by (elim exE conjE) (rule that)
  obtain c2 w3 where c2: "ctx_err X CtxSched (x_sleep X schedulerExecutionQuantum w2) = (c2, w3)" by fastforce
  obtain b w4 fs where "runSchedulerDaemon L (traced X) p pf n (w3, (tr @ es) @ [?z])
      = (b, (w4, ((tr @ es) @ [?z]) @ fs))" "run_trace L p fs"
    using Suc.IH [of w3 "(tr @ es) @ [?z]"] by (elim exE conjE) (rule that)
  moreover have "run_trace L p (es @ [?z])" using d(2) run_trace_segment page_segment(3) run_trace_append by blast
  moreover have "run_trace L p ((es @ [?z]) @ fs)"
    using calculation(2,3) by (rule run_trace_append [rotated])
  ultimately show ?case using c d c2
    by (cases c; cases r; cases c2) (auto simp: unlogged_pair)
qed auto

text \<open>
  A pass over a partition. \<open>serves\<close> is the documented paging of the database on a partition that
  does not change meanwhile: the rows come in finitely many pages, the first is asked for with
  an empty page state, each answer gives the state of the next, and only the last answer has an
  empty one.
\<close>

fun serves :: "'w ext \<Rightarrow> string \<Rightarrow> bytes \<Rightarrow> (scheduled_run list \<times> bytes) list \<Rightarrow> bool" where
  "serves X part tok [] \<longleftrightarrow> False"
| "serves X part tok ((runs, nxt) # pages) \<longleftrightarrow>
     (\<forall>w. fst (x_page_runs X (md_Name scheduledRunMetadata) [Eq ''run_partition'' part] tok itemsPerPage w)
        = Inr (runs, nxt))
     \<and> (if pages = [] then nxt = [] else nxt \<noteq> [] \<and> serves X part nxt pages)"

fun pages_handled :: "lib \<Rightarrow> sqs_vars \<Rightarrow> string \<Rightarrow> bytes \<Rightarrow> (scheduled_run list \<times> bytes) list
    \<Rightarrow> event list \<Rightarrow> bool" where
  "pages_handled L p part tok [] es \<longleftrightarrow> es = []"
| "pages_handled L p part tok ((runs, nxt) # pages) es \<longleftrightarrow>
     (\<exists>segs fs. es = EvPageRuns [Eq ''run_partition'' part] tok (Inr (runs, nxt)) # concat segs @ fs
        \<and> list_all2 (run_handled L p) runs segs \<and> pages_handled L p part nxt pages fs)"

lemma partition_nonempty: "GetRunPartition L now \<noteq> []"
  by (simp add: GetRunPartition_def format_partition_def)

lemma dispatch_runs_all:
  assumes "\<And>w. fst (ctx_err X CtxSched w) = None"
  shows "\<exists>w' segs. dispatch_runs L (traced X) p items (w, tr) = (False, (w', tr @ concat segs))
    \<and> list_all2 (run_handled L p) items segs"
proof (induction items arbitrary: w tr)
  case Nil
  show ?case by (simp add: exI [of _ "[]"])
next
  case (Cons item items)
  obtain w1 where c: "ctx_err X CtxSched w = (None, w1)" using assms [of w] by (metis fst_conv surj_pair)
  obtain w2 es where d: "dispatch_run L (traced X) p item (w1, tr) = (w2, tr @ es)" "run_handled L p item es"
    using dispatch_run_trace [of L X p item w1 tr] by (elim exE conjE) (rule that)
  obtain w3 segs where "dispatch_runs L (traced X) p items (w2, tr @ es) = (False, (w3, (tr @ es) @ concat segs))"
    "list_all2 (run_handled L p) items segs"
    using Cons.IH [of w2 "tr @ es"] by (elim exE conjE) (rule that)
  with c d show ?case
    by (intro exI [of _ w3] exI [of _ "es # segs"]) (simp add: unlogged_pair)
qed

lemma daemon_pages_all:
  assumes "\<And>w. fst (ctx_err X CtxSched w) = None" and "part \<noteq> []"
  shows "serves X part tok pages \<Longrightarrow> length pages \<le> n \<Longrightarrow>
    \<exists>w' es. daemon_pages L (traced X) p n part tok (w, tr) = (PassDone, (w', tr @ es))
      \<and> pages_handled L p part tok pages es"
proof (induction pages arbitrary: n tok w tr)
  case (Cons page pages)
  obtain runs nxt where page: "page = (runs, nxt)" by fastforce
  obtain m where n: "n = Suc m" "length pages \<le> m" using Cons.prems(2) by (cases n) auto
  let ?page = "x_page_runs X (md_Name scheduledRunMetadata) [Eq ''run_partition'' part] tok itemsPerPage w"
  obtain w1 where x: "?page = (Inr (runs, nxt), w1)"
    by (rule that [of "snd ?page"]) (use Cons.prems(1) page in \<open>simp add: prod_eq_iff\<close>)
  let ?e = "EvPageRuns [Eq ''run_partition'' part] tok (Inr (runs, nxt))"
  obtain w2 segs where d: "dispatch_runs L (traced X) p runs (w1, tr @ [?e])
      = (False, (w2, (tr @ [?e]) @ concat segs))" "list_all2 (run_handled L p) runs segs"
    using dispatch_runs_all [OF assms(1), of L p runs w1 "tr @ [?e]"] by (elim exE conjE) (rule that)
  show ?case
  proof (cases "pages = []")
    case True
    then have "nxt = []" using Cons.prems(1) page by simp
    with True n x d page assms(2) show ?thesis
      by (auto simp: GetScheduledRuns_def logged_pair)
  next
    case False
    then have "serves X part nxt pages" "nxt \<noteq> []" using Cons.prems(1) page by simp_all
    from Cons.IH [OF this(1) n(2), of w2 "(tr @ [?e]) @ concat segs"] obtain w3 fs where
      "daemon_pages L (traced X) p m part nxt (w2, (tr @ [?e]) @ concat segs)
        = (PassDone, (w3, ((tr @ [?e]) @ concat segs) @ fs))" "pages_handled L p part nxt pages fs"
      by (elim exE conjE) (rule that)
    with \<open>nxt \<noteq> []\<close> n x d page assms(2) show ?thesis
      by (auto simp: GetScheduledRuns_def logged_pair)
  qed
qed simp

section \<open>Properties of the daemon\<close>

text \<open>
  C27: whatever the database and the queue answer, the daemon never writes to
  the database, so it records neither that a run was dispatched nor when the next one is due;
  and everything it sends is the encoded form of a task it has just read for a run.
\<close>

theorem daemon_only_resends:
  "\<exists>b w' es. runSchedulerDaemon L (traced X) p pf n (w, tr) = (b, (w', tr @ es))
     \<and> run_trace L p es \<and> list_all (\<lambda>e. \<not> is_write e) es"
  using daemon_trace [of L X p pf n w tr] run_trace_no_write by blast

text \<open>
  What the daemon does for a run depends on its task and device only.
  The time of the next run is not looked at, so every run of the day is sent again on every
  pass.
\<close>

theorem daemon_ignores_schedule:
  "dispatch_runs L X p (map (\<lambda>r. r\<lparr>sr_NextRun := f r, sr_LastRun := g r\<rparr>) runs) w
     = dispatch_runs L X p runs w"
proof (induction runs arbitrary: w)
  case (Cons r runs)
  have "dispatch_run L X p (r\<lparr>sr_NextRun := a, sr_LastRun := b\<rparr>) w1 = dispatch_run L X p r w1" for a b w1
    by (simp add: dispatch_run_def)
  with Cons.IH show ?case by (simp split: prod.splits option.splits)
qed simp

text \<open>
  C28: a pass over the runs of the day ends, and handles every run. If the database serves the
  partition of the day in finitely many pages and the daemon is not cancelled, as many rounds
  as there are pages are enough; the pass reads the clock once, then each page once, in order,
  and after each page handles each of its runs once, in order: its task is read and, when found
  and encodable, sent to the dispatch queue.
\<close>

theorem daemon_pass_ends:
  assumes "x_now X w = (now, w1)" and "serves X (GetRunPartition L now) [] pages" "length pages \<le> pf"
    and "\<And>u. fst (ctx_err X CtxSched u) = None"
  shows "\<exists>w' es. daemon_pass L (traced X) p pf (w, tr) = (PassDone, (w', tr @ EvNow now # es))
    \<and> pages_handled L p (GetRunPartition L now) [] pages es"
proof -
  obtain w' es where "daemon_pages L (traced X) p pf (GetRunPartition L now) [] (w1, tr @ [EvNow now])
      = (PassDone, (w', (tr @ [EvNow now]) @ es))" "pages_handled L p (GetRunPartition L now) [] pages es"
    using daemon_pages_all [of X, OF assms(4) partition_nonempty assms(2,3), of L p w1 "tr @ [EvNow now]"]
    by (elim exE conjE) (rule that)
  with assms(1) show ?thesis by (auto simp: daemon_pass_def logged_pair)
qed

definition sample_run :: "uuid \<Rightarrow> scheduled_run" where
  "sample_run u = \<lparr>sr_RunPartition = ''p'', sr_TaskID = u, sr_DeviceID = 1, sr_NextRun = 0, sr_LastRun = 0\<rparr>"

text \<open>Two pages, of two runs and of one; no task is found.\<close>

definition paged_ext :: "unit ext" where
  "paged_ext = idle_ext\<lparr>x_page_runs := (\<lambda>_ _ tok _ w.
     (Inr (if tok = [] then ([sample_run 1, sample_run 2], ''next'') else ([sample_run 3], [])), w))\<rparr>"

lemma daemon_pass_ends_witness:
  "\<exists>w' es. daemon_pass sample_lib (traced paged_ext) NewSqsProvider 2 ((), []) = (PassDone, (w', es))
     \<and> length (filter (\<lambda>e. case e of EvPageRuns _ _ _ \<Rightarrow> True | _ \<Rightarrow> False) es) = 2"
proof -
  let ?pages = "[([sample_run 1, sample_run 2], ''next''), ([sample_run 3], [])]"
  have "serves paged_ext part [] ?pages" for part by (simp add: paged_ext_def)
  moreover have "x_now paged_ext () = (1000, ())" "fst (ctx_err paged_ext CtxSched u) = None" for u
    by (simp_all add: paged_ext_def ctx_err_def)
  ultimately obtain w' es where
    d: "daemon_pass sample_lib (traced paged_ext) NewSqsProvider 2 ((), []) = (PassDone, (w', [] @ EvNow 1000 # es))"
    and h: "pages_handled sample_lib NewSqsProvider (GetRunPartition sample_lib 1000) [] ?pages es"
    using daemon_pass_ends [of paged_ext "()" 1000 "()" sample_lib ?pages 2 NewSqsProvider "[]"] by auto
  have quiet: "filter (\<lambda>e. case e of EvPageRuns _ _ _ \<Rightarrow> True | _ \<Rightarrow> False) fs = []"
    if "run_handled sample_lib NewSqsProvider item fs" for item fs
    using that by (cases rule: run_handled.cases) simp_all
  from h d show ?thesis
    by (auto simp: list_all2_Cons1 quiet)
qed

end
