(* ===== verification/RestResponse.thy ===== *)
theory RestResponse
  imports Metrics Dsts
begin

text \<open>
  What the REST handlers write: \<open>service/rest/response.go\<close> and the constants of
  \<open>service/rest/request_util.go\<close>, on a model of \<open>http.ResponseWriter\<close>. The writer records the
  status and the content type at the first \<open>WriteHeader\<close> (or at the first write, with status
  200); a later status is ignored by the library, a later body is appended.
\<close>

section \<open>The response writer\<close>

record response_writer =
  rw_ContentType :: string
  rw_Sent :: "(nat \<times> string) option"
  rw_Body :: bytes

definition new_writer :: response_writer where
  "new_writer = \<lparr>rw_ContentType = [], rw_Sent = None, rw_Body = []\<rparr>"

definition set_content_type :: "string \<Rightarrow> response_writer \<Rightarrow> response_writer" where
  "set_content_type t rw = rw\<lparr>rw_ContentType := t\<rparr>"

definition WriteHeader :: "nat \<Rightarrow> response_writer \<Rightarrow> response_writer" where
  "WriteHeader code rw =
     (if rw_Sent rw = None then rw\<lparr>rw_Sent := Some (code, rw_ContentType rw)\<rparr> else rw)"

definition write_body :: "bytes \<Rightarrow> response_writer \<Rightarrow> response_writer" where
  "write_body b rw = (let rw1 = WriteHeader 200 rw in rw1\<lparr>rw_Body := rw_Body rw1 @ b\<rparr>)"

text \<open>The status the client sees; a handler that writes nothing answers 200.\<close>

definition rw_status :: "response_writer \<Rightarrow> nat" where
  "rw_status rw = (case rw_Sent rw of None \<Rightarrow> 200 | Some (code, _) \<Rightarrow> code)"

definition http_Error :: "string \<Rightarrow> nat \<Rightarrow> response_writer \<Rightarrow> response_writer" where
  "http_Error text code rw =
     write_body (text @ [CHR 0x0A]) (WriteHeader code (set_content_type ''text/plain; charset=utf-8'' rw))"

section \<open>Constants\<close>

definition bearerToken :: string where "bearerToken = ''Bearer ''"
definition contentTypeProtobuf :: string where "contentTypeProtobuf = ''application/x-protobuf''"
definition contentTypeJson :: string where "contentTypeJson = ''application/json''"

definition reasonInvalidAppToken :: string where
  "reasonInvalidAppToken = ''invalid app access token specified''"
definition reasonRequestParsingFailed :: string where
  "reasonRequestParsingFailed = ''error parsing request parameters''"
definition reasonProtobufUnmarshalFailed :: string where
  "reasonProtobufUnmarshalFailed = ''failed to protobuf unmarshal scheduled task request''"
definition reasonMissingTaskPayload :: string where
  "reasonMissingTaskPayload = ''task payload was not specified''"
definition reasonInvalidSchedulingUnit :: string where
  "reasonInvalidSchedulingUnit =
     ''invalid schedule task request or invalid scheduling unit specified''"
definition reasonFailedRequestDbError :: string where
  "reasonFailedRequestDbError = ''failed to get task information, invalid request''"
definition reasonMissingTaskId :: string where
  "reasonMissingTaskId = ''task_id parameter was not specified''"
definition reasonMissingDeviceId :: string where
  "reasonMissingDeviceId = ''device_id parameter was not specified''"
definition reasonMissingTenantId :: string where
  "reasonMissingTenantId = ''tenant_id parameter was not specified''"
definition reasonMissingConsignmentId :: string where
  "reasonMissingConsignmentId = ''consignment_id parameter was not specified''"

section \<open>Sending\<close>

definition sendInternalServerErrorResponse :: "response_writer \<Rightarrow> response_writer" where
  "sendInternalServerErrorResponse = http_Error ''Internal Server Error'' 500"

definition sendUnsupportedMediaTypeResponse :: "response_writer \<Rightarrow> response_writer" where
  "sendUnsupportedMediaTypeResponse = http_Error ''Unsupported Media Type'' 415"

definition sendNotFoundErrorResponse :: "response_writer \<Rightarrow> response_writer" where
  "sendNotFoundErrorResponse = http_Error ''Not Found'' 404"

definition sendJsonResponse ::
  "lib \<Rightarrow> nat \<Rightarrow> http_payload option \<Rightarrow> response_writer \<Rightarrow> go_error option \<times> response_writer" where
  "sendJsonResponse L statusCode payload rw =
     (let rw1 = WriteHeader statusCode (set_content_type contentTypeJson rw)
      in case payload of
           None \<Rightarrow> (None, rw1)
         | Some v \<Rightarrow>
             (case lib_json_encode L False v of
                Inl err \<Rightarrow> (Some err, sendInternalServerErrorResponse rw1)
              | Inr b \<Rightarrow> (None, write_body b rw1)))"

definition sendBadRequestErrorResponse :: "lib \<Rightarrow> string \<Rightarrow> response_writer \<Rightarrow> response_writer" where
  "sendBadRequestErrorResponse L reason rw =
     snd (sendJsonResponse L 400 (Some (PayloadFailed \<lparr>fre_HttpCode = 400, fre_Reason = reason\<rparr>)) rw)"

definition sendUnauthorizedErrorResponse :: "lib \<Rightarrow> string \<Rightarrow> response_writer \<Rightarrow> response_writer" where
  "sendUnauthorizedErrorResponse L reason rw =
     snd (sendJsonResponse L 401 (Some (PayloadFailed \<lparr>fre_HttpCode = 401, fre_Reason = reason\<rparr>)) rw)"

section \<open>Facts\<close>

lemma sent_header [simp]: "rw_Sent (set_content_type t rw) = rw_Sent rw"
  by (simp add: set_content_type_def)

lemma status_WriteHeader [simp]:
  "rw_status (WriteHeader code rw) = (if rw_Sent rw = None then code else rw_status rw)"
  "rw_Sent (WriteHeader code rw) \<noteq> None"
  by (auto simp: WriteHeader_def rw_status_def)

lemma status_write_body [simp]:
  "rw_status (write_body b rw) = rw_status (WriteHeader 200 rw)"
  "rw_Sent (write_body b rw) \<noteq> None"
  by (auto simp: write_body_def WriteHeader_def rw_status_def Let_def)

lemma status_content_type [simp]: "rw_status (set_content_type t rw) = rw_status rw"
  by (simp add: rw_status_def)

text \<open>Once the header is out, its status stays whatever is sent after it.\<close>

lemma http_Error_status [simp]:
  "rw_status (http_Error text code rw) = (if rw_Sent rw = None then code else rw_status rw)"
  by (simp add: http_Error_def)

lemma http_Error_Sent [simp]: "rw_Sent (http_Error text code rw) \<noteq> None"
  by (simp add: http_Error_def del: not_None_eq)

lemma sendJson_status [simp]:
  "rw_status (snd (sendJsonResponse L code p rw)) = (if rw_Sent rw = None then code else rw_status rw)"
  by (auto simp: sendJsonResponse_def sendInternalServerErrorResponse_def Let_def split: option.splits sum.splits)

lemma send_errors_status [simp]:
  "rw_Sent rw = None \<Longrightarrow> rw_status (sendInternalServerErrorResponse rw) = 500"
  "rw_Sent rw = None \<Longrightarrow> rw_status (sendUnsupportedMediaTypeResponse rw) = 415"
  "rw_Sent rw = None \<Longrightarrow> rw_status (sendNotFoundErrorResponse rw) = 404"
  "rw_Sent rw = None \<Longrightarrow> rw_status (sendBadRequestErrorResponse L reason rw) = 400"
  "rw_Sent rw = None \<Longrightarrow> rw_status (sendUnauthorizedErrorResponse L reason rw) = 401"
  by (simp_all add: sendInternalServerErrorResponse_def sendUnsupportedMediaTypeResponse_def
      sendNotFoundErrorResponse_def sendBadRequestErrorResponse_def sendUnauthorizedErrorResponse_def)

lemma send_after_header [simp]:
  "rw_Sent rw \<noteq> None \<Longrightarrow> rw_status (sendInternalServerErrorResponse rw) = rw_status rw"
  by (auto simp: sendInternalServerErrorResponse_def)

lemma new_writer_Sent [simp]: "rw_Sent new_writer = None"
  by (simp add: new_writer_def)

end
