(* ===== verification/RequestHandler.thy ===== *)
theory RequestHandler
  imports ScheduleEffects Metrics
begin

text \<open>
  \<open>service/scheduler/request_handler.go\<close>: the function that turns a request for several devices
  into tasks. It is called from the input queue and from the REST endpoint. Its state is the
  metrics; the routing tables and the queue provider are read only.
\<close>

section \<open>The handler\<close>

text \<open>
  The checks before the first task. A list of no devices is not nil, so the code reads its
  first element, which panics; a request decoded from a message has nil instead.
\<close>

definition check_devices :: "lib \<Rightarrow> create_request \<Rightarrow> string list \<Rightarrow> create_request result outcome" where
  "check_devices L request ids =
     (case ids of
        [] \<Rightarrow> Panic ''index out of range''
      | first # _ \<Rightarrow>
          if first = BroadcastDeviceID then
            (if length ids \<noteq> 1 then Ret (Inl (SchedE ErrInvalidRequest))
             else Ret (Inr (request\<lparr>req_TenantId := BroadcastDeviceUuid\<rparr>)))
          else if \<not> lib_uuid_Parse L (req_TenantId request) then Ret (Inl (SchedE ErrInvalidRequest))
          else Ret (Inr request))"

definition check_request ::
  "lib \<Rightarrow> db_vars \<Rightarrow> create_request \<Rightarrow> string \<Rightarrow> (create_request \<times> string list) result outcome" where
  "check_request L v request source =
     (if source \<noteq> SchedulerRequestSourceEvent \<and> source \<noteq> SchedulerRequestSourceRest
      then Ret (Inl (SchedE ErrInvalidRequest))
      else if \<not> IsValidServiceId v (req_ServiceId request) then Ret (Inl (SchedE ErrInvalidRequest))
      else if req_ConsignmentId request = [] then Ret (Inl (SchedE ErrInvalidRequest))
      else case req_DeviceIds request of
             None \<Rightarrow> Ret (Inl (SchedE ErrInvalidRequest))
           | Some ids \<Rightarrow>
               bind_outcome (check_devices L request ids) (\<lambda>r.
                 case r of
                   Inl e \<Rightarrow> Ret (Inl e)
                 | Inr request' \<Rightarrow>
                     if req_Payload request' = None then Ret (Inl (SchedE ErrInvalidRequest))
                     else Ret (Inr (request', ids))))"

definition new_response :: "create_request \<Rightarrow> create_response" where
  "new_response request =
     \<lparr>resp_Version = req_Version request, resp_TaskCount = 0, resp_ErrorCount = 0,
      resp_ConsignmentId = req_ConsignmentId request, resp_TenantId = req_TenantId request,
      resp_TasksScheduled = []\<rparr>"

text \<open>
  The \<open>switch err\<close> compares by identity, so an error that wraps one of the three is not matched.
\<close>

definition is_bad_request :: "go_error \<Rightarrow> bool" where
  "is_bad_request err \<longleftrightarrow> same_error err (DbE DbErrInvalidRequest)
     \<or> same_error err (SchedE ErrInvalidSchedulingUnit) \<or> same_error err (SchedE ErrInvalidScheduleType)"

definition schedule_error_metric :: "go_error \<Rightarrow> metric" where
  "schedule_error_metric err =
     (if is_bad_request err then MetricCreateTaskBadRequests else MetricCreateTaskInternalErrors)"

text \<open>One device: \<open>NewScheduledTask(...).ParseSchedule(...).Schedule()\<close>.\<close>

definition schedule_device ::
  "lib \<Rightarrow> 'w ext \<Rightarrow> sqs_vars \<Rightarrow> create_request \<Rightarrow> string \<Rightarrow> 'w \<Rightarrow> (scheduled_task result \<times> 'w) outcome"
where
  "schedule_device L X p request deviceID w =
     bind_outcome
       (ParseSchedule L X (req_Schedule request) (NewScheduledTask L ''UTC'' deviceID request) w)
       (\<lambda>(s, w1). Schedule L X p s w1)"

definition add_error :: "create_response \<Rightarrow> create_response" where
  "add_error r = r\<lparr>resp_ErrorCount := resp_ErrorCount r + 1\<rparr>"

definition add_task :: "lib \<Rightarrow> string \<Rightarrow> string \<Rightarrow> scheduled_task \<Rightarrow> create_response \<Rightarrow> create_response" where
  "add_task L source deviceID newTask r =
     (let r1 = r\<lparr>resp_TaskCount := resp_TaskCount r + 1\<rparr>
      in if source = SchedulerRequestSourceRest then
           r1\<lparr>resp_TasksScheduled := resp_TasksScheduled r1 @
                [\<lparr>ti_TaskId = lib_uuid_String L (tk_TaskID (sk_TaskInfo newTask)), ti_DeviceId = deviceID,
                  ti_Status = tk_Status (sk_TaskInfo newTask)\<rparr>]\<rparr>
         else r1)"

fun process_devices ::
  "lib \<Rightarrow> 'w ext \<Rightarrow> sqs_vars \<Rightarrow> create_request \<Rightarrow> string \<Rightarrow> nat \<Rightarrow> string list \<Rightarrow> create_response
     \<Rightarrow> metrics \<Rightarrow> 'w \<Rightarrow> ((create_response \<times> metrics) \<times> 'w) outcome" where
  "process_devices L X p request source index [] response m w = Ret ((response, m), w)"
| "process_devices L X p request source index (deviceID # rest) response m w =
     (if index \<noteq> 0 \<and> deviceID = BroadcastDeviceID then
        process_devices L X p request source (Suc index) rest (add_error response) m w
      else
        bind_outcome (schedule_device L X p request deviceID w) (\<lambda>(r, w1).
          case r of
            Inl err \<Rightarrow>
              process_devices L X p request source (Suc index) rest (add_error response)
                (Inc (schedule_error_metric err) m) w1
          | Inr newTask \<Rightarrow>
              process_devices L X p request source (Suc index) rest
                (add_task L source deviceID newTask response) m w1))"

definition handleSchedulerInputQueueRequest ::
  "lib \<Rightarrow> 'w ext \<Rightarrow> db_vars \<Rightarrow> sqs_vars \<Rightarrow> (metrics, 'w) input_handler" where
  "handleSchedulerInputQueueRequest L X v p request source m w =
     bind_outcome (check_request L v request source) (\<lambda>r.
       case r of
         Inl e \<Rightarrow> Ret ((Inl e, m), w)
       | Inr (request', ids) \<Rightarrow>
           bind_outcome (process_devices L X p request' source 0 ids (new_response request') m w)
             (\<lambda>((response, m'), w'). Ret ((Inr response, m'), w')))"

section \<open>One device\<close>

lemma NewScheduledTask_facts:
  "sk_error (NewScheduledTask L loc d req) = None \<Longrightarrow> sk_ScheduleInfo (NewScheduledTask L loc d req) \<noteq> None"
  "tk_TenantID (sk_TaskInfo (NewScheduledTask L loc d req)) = req_TenantId req"
  "tk_ConsignmentID (sk_TaskInfo (NewScheduledTask L loc d req)) = req_ConsignmentId req"
  "tk_TaskDetails (sk_TaskInfo (NewScheduledTask L loc d req)) = req_Payload req"
  "tk_DeviceID (sk_TaskInfo (NewScheduledTask L loc d req)) = fst (setUuidFromString L d)"
  by (auto simp: NewScheduledTask_def NewTask_def Let_def split: prod.splits option.splits)

text \<open>The builder that reaches \<open>Schedule\<close> for a device.\<close>

lemma parsed_builder:
  assumes "parsed_schedule L sch (NewScheduledTask L loc d req) t1 t2 = Ret s"
  shows "same_identity (NewScheduledTask L loc d req) s
    \<and> (sk_error s = None \<longrightarrow> sk_error (NewScheduledTask L loc d req) = None \<and> sk_ScheduleInfo s \<noteq> None)"
proof -
  have b: "builds_on (NewScheduledTask L loc d req) s" using assms by (rule parsed_builds)
  then show ?thesis
    using NewScheduledTask_facts(1) by (auto simp: builds_on_def same_identity_def)
qed

text \<open>The task that a device gets: its owner and content are those of the request.\<close>

definition task_of :: "lib \<Rightarrow> create_request \<Rightarrow> string \<Rightarrow> task \<Rightarrow> bool" where
  "task_of L req d t \<longleftrightarrow> tk_TenantID t = req_TenantId req \<and> tk_ServiceID t = req_ServiceId req
     \<and> tk_ConsignmentID t = req_ConsignmentId req \<and> tk_TaskDetails t = req_Payload req
     \<and> tk_MessageId t = req_MessageId req \<and> tk_MessageType t = req_MessageType req
     \<and> setUuidFromString L d = (tk_DeviceID t, None) \<and> tk_Status t = taskStatusQueued
     \<and> lib_uuid_Parse L (tk_TenantID t)"

lemma NewScheduledTask_task:
  assumes "sk_error (NewScheduledTask L loc d req) = None" and "storable L (sk_TaskInfo (NewScheduledTask L loc d req))"
  shows "task_of L req d (stamped (sk_TaskInfo (NewScheduledTask L loc d req)) u now)"
  using assms by (auto simp: NewScheduledTask_def NewTask_def zero_task_def Let_def task_of_def stamped_def
      storable_def split: prod.splits option.splits)

text \<open>
  The run for the device at position \<open>i\<close> of the list: its calls and its outcome, \<open>None\<close> for a
  broadcast identifier after the first position, which is skipped without a call. Otherwise the
  request's schedule is parsed into a builder for the device (an immediate schedule reads the
  clock twice) and scheduled.
\<close>

definition device_run :: "lib \<Rightarrow> sqs_vars \<Rightarrow> create_request \<Rightarrow> nat \<Rightarrow> string \<Rightarrow> event list
    \<Rightarrow> scheduled_task result option \<Rightarrow> bool" where
  "device_run L p req i d es out \<longleftrightarrow>
     (if i \<noteq> 0 \<and> d = BroadcastDeviceID then es = [] \<and> out = None
      else \<exists>t1 t2 s fs r.
             parsed_schedule L (req_Schedule req) (NewScheduledTask L ''UTC'' d req) t1 t2 = Ret s
           \<and> es = (if is_now L (req_Schedule req) then [EvNow t1, EvNow t2] else []) @ fs
           \<and> schedule_run L p s fs r \<and> out = Some r)"

text \<open>What is inserted, whatever becomes of it, is a task of the request and the device.\<close>

lemma task_created_inserts:
  "task_created L t es t1 r \<Longrightarrow> EvExec (insert_task t') b \<in> set es \<Longrightarrow>
     storable L t \<and> (\<exists>u now. t' = stamped t u now)"
  by (cases rule: task_created.cases) (force simp: insert_task_def insert_consignment_def)+

lemma handed_over_inserts:
  "handed_over L p s es r \<Longrightarrow> EvExec (insert_task t') b \<notin> set es"
  by (cases rule: handed_over.cases) (auto simp: insert_task_def insert_run_def)

lemma schedule_run_inserts:
  assumes "schedule_run L p s es r" "EvExec (insert_task t') b \<in> set es"
  shows "sk_error s = None \<and> storable L (sk_TaskInfo s) \<and> (\<exists>u now. t' = stamped (sk_TaskInfo s) u now)"
  using assms by (cases rule: schedule_run.cases)
    (auto dest: task_created_inserts handed_over_inserts simp: validated_ok)

lemma device_run_task:
  assumes "device_run L p req i d es out" "EvExec (insert_task t) b \<in> set es"
  shows "task_of L req d t"
proof -
  let ?n = "NewScheduledTask L ''UTC'' d req"
  obtain t1 t2 s fs r where s: "parsed_schedule L (req_Schedule req) ?n t1 t2 = Ret s"
    and fs: "schedule_run L p s fs r" "EvExec (insert_task t) b \<in> set fs"
    using assms by (auto simp: device_run_def split: if_splits)
  from schedule_run_inserts [OF fs] obtain u now where
    ok: "sk_error s = None" "storable L (sk_TaskInfo s)" "t = stamped (sk_TaskInfo s) u now" by blast
  note b = parsed_builder [OF s]
  have "task_of L req d (stamped (sk_TaskInfo ?n) u now)"
    using b ok by (intro NewScheduledTask_task) (auto simp: same_identity_def storable_def)
  moreover have "tk_TenantID t = tk_TenantID (sk_TaskInfo ?n) \<and> tk_ServiceID t = tk_ServiceID (sk_TaskInfo ?n)
      \<and> tk_ConsignmentID t = tk_ConsignmentID (sk_TaskInfo ?n) \<and> tk_TaskDetails t = tk_TaskDetails (sk_TaskInfo ?n)
      \<and> tk_MessageId t = tk_MessageId (sk_TaskInfo ?n) \<and> tk_MessageType t = tk_MessageType (sk_TaskInfo ?n)
      \<and> tk_DeviceID t = tk_DeviceID (sk_TaskInfo ?n) \<and> tk_Status t = taskStatusQueued"
    using b ok by (simp add: same_identity_def stamped_def)
  ultimately show ?thesis by (auto simp: task_of_def stamped_def)
qed

text \<open>
  The cron parser is asked about the first word after \<open>cron\<close>, in the location UTC. A text with
  another frequency does not reach it.
\<close>

definition parser_returns :: "lib \<Rightarrow> string \<Rightarrow> bool" where
  "parser_returns L schedule \<longleftrightarrow>
     (let words = split_on (CHR '' '') schedule
      in is_now L schedule \<or> length words < 2
         \<or> to_lower (lib_unicode_lower L) (words ! 0) \<noteq> SchedulingFrequencyCron
         \<or> returns (lib_cron_parse L True (cron_with_location ''UTC'' (words ! 1))))"

lemma NewScheduledTask_location [simp]: "sk_location (NewScheduledTask L loc d req) = loc"
  by (simp add: NewScheduledTask_def Let_def split: prod.splits option.splits)

lemma returns_Ret: "returns m \<longleftrightarrow> (\<exists>a. m = Ret a)"
  by (cases m) simp_all

lemma parser_returns_parsed:
  assumes "parser_returns L sch"
  shows "\<exists>s. parsed_schedule L sch (NewScheduledTask L ''UTC'' d req) t1 t2 = Ret s"
  using assms by (auto simp: parser_returns_def parsed_schedule_def parse_words_def Cron_def Let_def returns_Ret)

lemma parser_panics:
  assumes "\<not> parser_returns L sch"
  shows "\<exists>reason. ParseSchedule L X sch (NewScheduledTask L ''UTC'' d req) w = Panic reason"
proof -
  obtain reason where "lib_cron_parse L True (cron_with_location ''UTC'' (split_on (CHR '' '') sch ! 1)) = Panic reason"
    using assms by (cases "lib_cron_parse L True (cron_with_location ''UTC'' (split_on (CHR '' '') sch ! 1))")
      (auto simp: parser_returns_def Let_def)
  with assms show ?thesis
    by (auto simp: parser_returns_def ParseSchedule_def parse_words_def Cron_def Let_def
        SchedulingFrequencyEvery_def SchedulingFrequencyAt_def SchedulingFrequencyCron_def)
qed

lemma schedule_device_trace:
  assumes "parser_returns L (req_Schedule req)"
  shows "\<exists>r w' es. schedule_device L (traced X) p req d (w, tr) = Ret (r, (w', tr @ es))
     \<and> (i = 0 \<or> d \<noteq> BroadcastDeviceID \<longrightarrow> device_run L p req i d es (Some r))"
proof -
  let ?n = "NewScheduledTask L ''UTC'' d req" and ?now = "is_now L (req_Schedule req)"
  obtain t1 w1 where t1: "(if ?now then x_now X w else (0, w)) = (t1, w1)" by fastforce
  obtain t2 w2 where t2: "(if ?now then x_now X w1 else (0, w1)) = (t2, w2)" by fastforce
  obtain s where s: "parsed_schedule L (req_Schedule req) ?n t1 t2 = Ret s"
    using parser_returns_parsed [OF assms] by blast
  let ?ts = "if ?now then [EvNow t1, EvNow t2] else []"
  have ps: "ParseSchedule L (traced X) (req_Schedule req) ?n (w, tr) = Ret (s, (w2, tr @ ?ts))"
    using t1 t2 s by (auto simp: ParseSchedule_parsed logged_pair split: if_splits)
  have "sk_error s = None \<longrightarrow> sk_ScheduleInfo s \<noteq> None" using parsed_builder [OF s] by blast
  from schedule_trace [OF this, of L X p w2 "tr @ ?ts"] obtain r w' es where
    run: "Schedule L (traced X) p s (w2, tr @ ?ts) = Ret (r, (w', (tr @ ?ts) @ es))"
    and plan: "schedule_run L p s es r"
    by (elim exE conjE) (rule that)
  have "schedule_device L (traced X) p req d (w, tr) = Ret (r, (w', tr @ (?ts @ es)))"
    using ps run by (simp add: schedule_device_def)
  moreover have "device_run L p req i d (?ts @ es) (Some r)" if "i = 0 \<or> d \<noteq> BroadcastDeviceID"
    unfolding device_run_def using that s plan by auto
  ultimately show ?thesis by blast
qed

section \<open>All devices\<close>

text \<open>What the loop does for one position, and for a list of devices.\<close>

definition device_result :: "lib \<Rightarrow> 'w ext \<Rightarrow> sqs_vars \<Rightarrow> create_request \<Rightarrow> nat \<Rightarrow> string \<Rightarrow> 'w
    \<Rightarrow> scheduled_task result option \<Rightarrow> 'w \<Rightarrow> bool" where
  "device_result L X p req i d w out w' \<longleftrightarrow>
     (if i \<noteq> 0 \<and> d = BroadcastDeviceID then out = None \<and> w' = w
      else \<exists>r. schedule_device L X p req d w = Ret (r, w') \<and> out = Some r)"

fun device_results :: "lib \<Rightarrow> 'w ext \<Rightarrow> sqs_vars \<Rightarrow> create_request \<Rightarrow> nat \<Rightarrow> string list \<Rightarrow> 'w
    \<Rightarrow> scheduled_task result option list \<Rightarrow> 'w \<Rightarrow> bool" where
  "device_results L X p req i [] w [] w' \<longleftrightarrow> w' = w"
| "device_results L X p req i (d # ds) w (out # outs) w' \<longleftrightarrow>
     (\<exists>w1. device_result L X p req i d w out w1 \<and> device_results L X p req (Suc i) ds w1 outs w')"
| "device_results L X p req i _ w _ w' \<longleftrightarrow> False"

fun device_runs :: "lib \<Rightarrow> sqs_vars \<Rightarrow> create_request \<Rightarrow> nat \<Rightarrow> string list \<Rightarrow> event list list
    \<Rightarrow> scheduled_task result option list \<Rightarrow> bool" where
  "device_runs L p req i [] [] [] \<longleftrightarrow> True"
| "device_runs L p req i (d # ds) (es # ess) (out # outs) \<longleftrightarrow>
     device_run L p req i d es out \<and> device_runs L p req (Suc i) ds ess outs"
| "device_runs L p req i _ _ _ \<longleftrightarrow> False"

text \<open>The entries of the created tasks and the errors, in the order of the devices.\<close>

definition task_entry :: "lib \<Rightarrow> string \<Rightarrow> scheduled_task \<Rightarrow> task_info" where
  "task_entry L d t =
     \<lparr>ti_TaskId = lib_uuid_String L (tk_TaskID (sk_TaskInfo t)), ti_DeviceId = d,
      ti_Status = tk_Status (sk_TaskInfo t)\<rparr>"

fun created_entries :: "lib \<Rightarrow> string list \<Rightarrow> scheduled_task result option list \<Rightarrow> task_info list" where
  "created_entries L (d # ds) (Some (Inr t) # outs) = task_entry L d t # created_entries L ds outs"
| "created_entries L (d # ds) (_ # outs) = created_entries L ds outs"
| "created_entries L _ _ = []"

fun failures :: "scheduled_task result option list \<Rightarrow> go_error list" where
  "failures (Some (Inl e) # outs) = e # failures outs"
| "failures (_ # outs) = failures outs"
| "failures [] = []"

text \<open>The answer and the metrics that such outcomes give.\<close>

definition adds_up :: "lib \<Rightarrow> string \<Rightarrow> string list \<Rightarrow> scheduled_task result option list
    \<Rightarrow> create_response \<Rightarrow> create_response" where
  "adds_up L source ids outs r =
     r\<lparr>resp_TaskCount := resp_TaskCount r + of_nat (length (created_entries L ids outs)),
       resp_ErrorCount := resp_ErrorCount r + of_nat (length outs - length (created_entries L ids outs)),
       resp_TasksScheduled := resp_TasksScheduled r @
         (if source = SchedulerRequestSourceRest then created_entries L ids outs else [])\<rparr>"

definition counts_failures :: "go_error list \<Rightarrow> metrics \<Rightarrow> metrics" where
  "counts_failures es m = fold (\<lambda>e. Inc (schedule_error_metric e)) es m"

lemma created_entries_length: "length (created_entries L ids outs) \<le> length outs"
  by (induction L ids outs rule: created_entries.induct) auto

lemma adds_up_error:
  "\<nexists>t. out = Some (Inr t) \<Longrightarrow>
     adds_up L source (d # ids) (out # outs) r = adds_up L source ids outs (add_error r)"
  using created_entries_length [of L ids outs]
  by (cases out; cases "the out") (auto simp: adds_up_def add_error_def Suc_diff_le)

lemma adds_up_task:
  "adds_up L source (d # ids) (Some (Inr t) # outs) r = adds_up L source ids outs (add_task L source d t r)"
  by (simp add: adds_up_def add_task_def task_entry_def Let_def)

lemma process_devices_results:
  "process_devices L X p req src i ids r m w = Ret ((r', m'), w') \<Longrightarrow>
     \<exists>outs. device_results L X p req i ids w outs w' \<and> r' = adds_up L src ids outs r
       \<and> m' = counts_failures (failures outs) m"
proof (induction ids arbitrary: i r m w)
  case Nil
  then show ?case by (intro exI [of _ "[]"]) (simp add: adds_up_def counts_failures_def)
next
  case (Cons d ds)
  show ?case
  proof (cases "i \<noteq> 0 \<and> d = BroadcastDeviceID")
    case True
    with Cons.prems have "process_devices L X p req src (Suc i) ds (add_error r) m w = Ret ((r', m'), w')"
      by simp
    from Cons.IH [OF this] obtain outs where "device_results L X p req (Suc i) ds w outs w'"
      "r' = adds_up L src ds outs (add_error r)" "m' = counts_failures (failures outs) m" by blast
    with True show ?thesis
      by (intro exI [of _ "None # outs"]) (simp add: device_result_def adds_up_error)
  next
    case False
    then have cond: "(i \<noteq> 0 \<and> d = BroadcastDeviceID) = False" by blast
    note run = Cons.prems [unfolded process_devices.simps cond if_False]
    obtain y where y: "schedule_device L X p req d w = Ret y"
      using run by (cases "schedule_device L X p req d w") (simp_all only: bind_outcome_simps outcome.distinct)
    obtain a w1 where "y = (a, w1)" by fastforce
    with y have s: "schedule_device L X p req d w = Ret (a, w1)" by simp
    have one: "device_result L X p req i d w (Some a) w1" using s cond by (simp add: device_result_def)
    show ?thesis
    proof (cases a)
      case (Inl err)
      with s run have
        "process_devices L X p req src (Suc i) ds (add_error r) (Inc (schedule_error_metric err) m) w1 = Ret ((r', m'), w')"
        by (simp only: bind_outcome_simps prod.case sum.case)
      from Cons.IH [OF this] obtain outs where "device_results L X p req (Suc i) ds w1 outs w'"
        "r' = adds_up L src ds outs (add_error r)"
        "m' = counts_failures (failures outs) (Inc (schedule_error_metric err) m)" by blast
      with one Inl show ?thesis
        by (intro exI [of _ "Some a # outs"]) (auto simp: adds_up_error counts_failures_def)
    next
      case (Inr t)
      with s run have
        "process_devices L X p req src (Suc i) ds (add_task L src d t r) m w1 = Ret ((r', m'), w')"
        by (simp only: bind_outcome_simps prod.case sum.case)
      from Cons.IH [OF this] obtain outs where "device_results L X p req (Suc i) ds w1 outs w'"
        "r' = adds_up L src ds outs (add_task L src d t r)" "m' = counts_failures (failures outs) m" by blast
      with one Inr show ?thesis
        by (intro exI [of _ "Some a # outs"]) (auto simp: adds_up_task)
    qed
  qed
qed

lemma process_devices_returns:
  assumes "parser_returns L (req_Schedule req)"
  shows "\<exists>r' m' w' tr'. process_devices L (traced X) p req src i ids r m (w, tr) = Ret ((r', m'), (w', tr'))"
proof (induction ids arbitrary: i r m w tr)
  case Nil
  show ?case by simp
next
  case (Cons d ids)
  obtain a w1 es where "schedule_device L (traced X) p req d (w, tr) = Ret (a, (w1, tr @ es))"
    using schedule_device_trace [OF assms, of X p d w tr] by blast
  with Cons.IH show ?case by (cases a) simp_all
qed

lemma device_results_runs:
  assumes "parser_returns L (req_Schedule req)"
  shows "device_results L (traced X) p req i ids (w, tr) outs (w', tr') \<Longrightarrow>
    \<exists>segs. tr' = tr @ concat segs \<and> device_runs L p req i ids segs outs"
proof (induction ids arbitrary: i w tr outs)
  case Nil
  then show ?case by (cases outs) (simp_all add: exI [of _ "[]"])
next
  case (Cons d ids)
  then obtain out outs' w1 tr1 where o: "outs = out # outs'"
    and one: "device_result L (traced X) p req i d (w, tr) out (w1, tr1)"
    and rest: "device_results L (traced X) p req (Suc i) ids (w1, tr1) outs' (w', tr')"
    by (cases outs) auto
  obtain es where es: "tr1 = tr @ es" "device_run L p req i d es out"
  proof (cases "i \<noteq> 0 \<and> d = BroadcastDeviceID")
    case True
    with one that [of "[]"] show ?thesis by (simp add: device_result_def device_run_def)
  next
    case False
    then have "i = 0 \<or> d \<noteq> BroadcastDeviceID" by blast
    with schedule_device_trace [OF assms, of X p d w tr i] obtain r w2 es where
      s: "schedule_device L (traced X) p req d (w, tr) = Ret (r, (w2, tr @ es))"
        "device_run L p req i d es (Some r)" by blast
    with one False have "tr1 = tr @ es" "out = Some r" by (auto simp: device_result_def split: if_splits)
    with s that show ?thesis by blast
  qed
  from Cons.IH [OF rest] obtain segs where "tr' = tr1 @ concat segs" "device_runs L p req (Suc i) ids segs outs'"
    by blast
  with o es show ?case by (intro exI [of _ "es # segs"]) simp
qed

lemma device_runs_nth:
  "device_runs L p req i ids segs outs \<Longrightarrow> length segs = length ids \<and> length outs = length ids
     \<and> (\<forall>k < length ids. device_run L p req (i + k) (ids ! k) (segs ! k) (outs ! k))"
proof (induction ids arbitrary: i segs outs)
  case Nil
  then show ?case by (cases segs; cases outs) simp_all
next
  case (Cons d ids)
  then obtain es segs' out outs' where e: "segs = es # segs'" "outs = out # outs'"
    "device_run L p req i d es out" "device_runs L p req (Suc i) ids segs' outs'"
    by (cases segs; cases outs) auto
  from Cons.IH [OF e(4)] e(1-3) show ?case by (auto simp: nth_Cons split: nat.splits)
qed

lemma device_results_length: "device_results L X p req i ids w outs w' \<Longrightarrow> length outs = length ids"
proof (induction ids arbitrary: i w outs)
  case Nil
  then show ?case by (cases outs) simp_all
next
  case (Cons d ids)
  then show ?case by (cases outs) auto
qed

lemma counts_failures_metric:
  "mt_count (counts_failures es m) k = mt_count m k
     + (if k = MetricCreateTaskBadRequests then length (filter is_bad_request es)
        else if k = MetricCreateTaskInternalErrors then length (filter (\<lambda>e. \<not> is_bad_request e) es) else 0)"
proof (induction es arbitrary: m)
  case Nil
  then show ?case by (simp add: counts_failures_def)
next
  case (Cons e es)
  have "counts_failures (e # es) m = counts_failures es (Inc (schedule_error_metric e) m)"
    by (simp add: counts_failures_def)
  with Cons.IH show ?case by (auto simp: schedule_error_metric_def Inc_def)
qed

section \<open>Which requests are admitted\<close>

definition devices_ok :: "lib \<Rightarrow> create_request \<Rightarrow> string list \<Rightarrow> bool" where
  "devices_ok L req ids \<longleftrightarrow> ids \<noteq> [] \<and>
     (if hd ids = BroadcastDeviceID then length ids = 1 else lib_uuid_Parse L (req_TenantId req))"

definition request_ok :: "lib \<Rightarrow> db_vars \<Rightarrow> create_request \<Rightarrow> string \<Rightarrow> bool" where
  "request_ok L v req source \<longleftrightarrow>
     source \<in> {SchedulerRequestSourceEvent, SchedulerRequestSourceRest}
     \<and> IsValidServiceId v (req_ServiceId req) \<and> req_ConsignmentId req \<noteq> [] \<and> req_Payload req \<noteq> None
     \<and> (case req_DeviceIds req of None \<Rightarrow> False | Some ids \<Rightarrow> devices_ok L req ids)"

text \<open>A broadcast is stored under the reserved identifier in place of a tenant.\<close>

definition effective :: "create_request \<Rightarrow> create_request" where
  "effective req =
     (if \<exists>ids. req_DeviceIds req = Some (BroadcastDeviceID # ids)
      then req\<lparr>req_TenantId := BroadcastDeviceUuid\<rparr> else req)"

lemma check_request_spec:
  assumes "req_DeviceIds req \<noteq> Some []"
  shows "check_request L v req source =
    (if request_ok L v req source then Ret (Inr (effective req, the (req_DeviceIds req)))
     else Ret (Inl (SchedE ErrInvalidRequest)))"
proof (cases "req_DeviceIds req")
  case None
  then show ?thesis by (auto simp: check_request_def request_ok_def)
next
  case (Some ids)
  with assms obtain d ds where ids: "ids = d # ds" by (cases ids) auto
  show ?thesis
    using Some ids
    by (cases "d = BroadcastDeviceID"; cases ds)
      (auto simp: check_request_def request_ok_def check_devices_def effective_def devices_ok_def)
qed

lemma handler_steps:
  assumes "req_DeviceIds req \<noteq> Some []"
  shows "handleSchedulerInputQueueRequest L X v p req source m w =
    (if request_ok L v req source then
       bind_outcome (process_devices L X p (effective req) source 0 (the (req_DeviceIds req))
           (new_response (effective req)) m w)
         (\<lambda>((response, m'), w'). Ret ((Inr response, m'), w'))
     else Ret ((Inl (SchedE ErrInvalidRequest), m), w))"
  using check_request_spec [OF assms, of L v source]
  by (simp add: handleSchedulerInputQueueRequest_def)

section \<open>Properties of the handler\<close>

lemma handler_trace:
  assumes "req_DeviceIds req \<noteq> Some []" and "parser_returns L (req_Schedule req)"
  shows "if request_ok L v req source then
     \<exists>segs outs w'. handleSchedulerInputQueueRequest L (traced X) v p req source m (w, tr)
         = Ret ((Inr (adds_up L source (the (req_DeviceIds req)) outs (new_response (effective req))),
                 counts_failures (failures outs) m), (w', tr @ concat segs))
       \<and> device_runs L p (effective req) 0 (the (req_DeviceIds req)) segs outs
     else handleSchedulerInputQueueRequest L (traced X) v p req source m (w, tr)
         = Ret ((Inl (SchedE ErrInvalidRequest), m), (w, tr))"
proof -
  have e: "parser_returns L (req_Schedule (effective req))" using assms(2) by (simp add: effective_def)
  obtain r' m' w' tr' where run:
    "process_devices L (traced X) p (effective req) source 0 (the (req_DeviceIds req))
       (new_response (effective req)) m (w, tr) = Ret ((r', m'), (w', tr'))"
    using process_devices_returns [OF e, of X p source 0 "the (req_DeviceIds req)"
      "new_response (effective req)" m w tr] by (elim exE) (rule that)
  from process_devices_results [OF run] obtain outs where
    outs: "device_results L (traced X) p (effective req) 0 (the (req_DeviceIds req)) (w, tr) outs (w', tr')"
    "r' = adds_up L source (the (req_DeviceIds req)) outs (new_response (effective req))"
    "m' = counts_failures (failures outs) m" by blast
  from device_results_runs [OF e outs(1)] obtain segs where "tr' = tr @ concat segs"
    "device_runs L p (effective req) 0 (the (req_DeviceIds req)) segs outs" by blast
  with run outs show ?thesis
    using handler_steps [OF assms(1), of L "traced X" v p source m "(w, tr)"] by auto
qed

text \<open>
  C1: what a request does, and its answer. It is assumed that the device list is not the empty
  list and that the cron parser returns on the text of a cron schedule (see the panics below).
  A request that is not well formed (unknown source or service, no consignment, no devices, a
  broadcast mixed with devices, a bad tenant, no payload) is refused with \<open>ErrInvalidRequest\<close> and
  without any call or metric. A well-formed one does exactly one run per device, in order
  (\<open>device_run\<close>: its schedule parsed, then all the calls of \<open>Schedule\<close> with its result), and
  every task that is inserted is one of this request and this device. The answer and the metrics
  are the sum of the outcomes: the created tasks are counted, and over REST listed with
  identifier, device and status; every other device is an error, whose metric is raised unless
  the device was skipped.
\<close>

theorem request_effects:
  assumes "req_DeviceIds req \<noteq> Some []" and "parser_returns L (req_Schedule req)"
  shows "if request_ok L v req source then
     \<exists>ids segs outs w'. req_DeviceIds req = Some ids
       \<and> length segs = length ids \<and> length outs = length ids
       \<and> (\<forall>i < length ids. device_run L p (effective req) i (ids ! i) (segs ! i) (outs ! i)
            \<and> (\<forall>t b. EvExec (insert_task t) b \<in> set (segs ! i) \<longrightarrow> task_of L (effective req) (ids ! i) t))
       \<and> handleSchedulerInputQueueRequest L (traced X) v p req source m (w, tr)
         = Ret ((Inr (adds_up L source ids outs (new_response (effective req))),
                 counts_failures (failures outs) m), (w', tr @ concat segs))
     else handleSchedulerInputQueueRequest L (traced X) v p req source m (w, tr)
         = Ret ((Inl (SchedE ErrInvalidRequest), m), (w, tr))"
proof (cases "request_ok L v req source")
  case True
  then obtain ids where ids: "req_DeviceIds req = Some ids"
    by (auto simp: request_ok_def split: option.splits)
  obtain segs outs w' where h: "handleSchedulerInputQueueRequest L (traced X) v p req source m (w, tr)
         = Ret ((Inr (adds_up L source ids outs (new_response (effective req))),
                 counts_failures (failures outs) m), (w', tr @ concat segs))"
    and d: "device_runs L p (effective req) 0 ids segs outs"
    using handler_trace [OF assms, of v source X p m w tr] True ids by auto
  from device_runs_nth [OF d] have d2: "length segs = length ids" "length outs = length ids"
    "\<forall>i < length ids. device_run L p (effective req) i (ids ! i) (segs ! i) (outs ! i)" by auto
  then have "\<forall>i < length ids. \<forall>t b. EvExec (insert_task t) b \<in> set (segs ! i) \<longrightarrow>
      task_of L (effective req) (ids ! i) t"
    using device_run_task by blast
  with ids h d2 show ?thesis unfolding if_P [OF True] by blast
next
  case False
  then show ?thesis using handler_trace [OF assms, of v source X p m w tr] by simp
qed

lemma sample_request_ok: "request_ok sample_lib (build_tables sample_services) sample_request SchedulerRequestSourceRest"
proof -
  have "IsValidServiceId (build_tables sample_services) ''fs''"
    using sd.known_build [OF sample_services_wf] by (simp add: sample_services_def)
  then show ?thesis
    by (simp add: request_ok_def sample_request_def devices_ok_def sample_uuid_def BroadcastDeviceID_def)
qed

lemma sample_parser_returns: "parser_returns sample_lib sch"
  by (simp add: parser_returns_def Let_def)

lemma request_effects_witness:
  "\<exists>seg out w' resp. handleSchedulerInputQueueRequest sample_lib (traced queue_ext)
      (build_tables sample_services) NewSqsProvider sample_request SchedulerRequestSourceRest
      zero_metrics ((), []) = Ret ((Inr resp, counts_failures (failures [out]) zero_metrics), (w', seg))
    \<and> device_run sample_lib NewSqsProvider sample_request 0 sample_uuid seg out"
proof -
  have d: "req_DeviceIds sample_request \<noteq> Some []" by (simp add: sample_request_def)
  have e: "effective sample_request = sample_request"
    by (simp add: effective_def sample_request_def sample_uuid_def BroadcastDeviceID_def)
  obtain ids segs outs w' where r: "req_DeviceIds sample_request = Some ids" "length segs = length ids"
    "length outs = length ids"
    "\<forall>i < length ids. device_run sample_lib NewSqsProvider sample_request i (ids ! i) (segs ! i) (outs ! i)"
    "handleSchedulerInputQueueRequest sample_lib (traced queue_ext)
      (build_tables sample_services) NewSqsProvider sample_request SchedulerRequestSourceRest
      zero_metrics ((), []) = Ret ((Inr (adds_up sample_lib SchedulerRequestSourceRest ids outs
        (new_response sample_request)), counts_failures (failures outs) zero_metrics), (w', [] @ concat segs))"
    using request_effects [OF d sample_parser_returns, of "build_tables sample_services"
      SchedulerRequestSourceRest NewSqsProvider queue_ext zero_metrics "()" "[]"] sample_request_ok e
    by auto
  have ids: "ids = [sample_uuid]" using r(1) by (simp add: sample_request_def)
  then obtain seg out where "segs = [seg]" "outs = [out]"
    using r(2,3) by (auto simp: length_Suc_conv)
  with r ids show ?thesis by auto
qed

text \<open>
  C11: the answer of the handler, and the metrics, for a request of fewer than 2^32 devices.
  There is one outcome per device: the result of scheduling it, one after the other, or none for
  a broadcast identifier after the first position. The task count is the number of devices whose
  task was created and the error count that of all others; over REST the list has exactly the
  created tasks in the order of the devices, each with its identifier, its device as requested
  and its status, and from the queue it is empty. The two error metrics grow by the bad requests
  and by the other errors among the outcomes, and no other metric changes.
\<close>

theorem request_counts:
  assumes "handleSchedulerInputQueueRequest L X v p req source m w = Ret ((Inr resp, m'), w')"
    and "req_DeviceIds req = Some ids" "length ids < 2 ^ 32"
  shows "\<exists>outs. device_results L X p (effective req) 0 ids w outs w'
    \<and> unat (resp_TaskCount resp) = length (created_entries L ids outs)
    \<and> unat (resp_TaskCount resp) + unat (resp_ErrorCount resp) = length ids
    \<and> resp_TasksScheduled resp = (if source = SchedulerRequestSourceRest then created_entries L ids outs else [])
    \<and> (\<forall>k. mt_count m' k = mt_count m k
          + (if k = MetricCreateTaskBadRequests then length (filter is_bad_request (failures outs))
             else if k = MetricCreateTaskInternalErrors
             then length (filter (\<lambda>e. \<not> is_bad_request e) (failures outs)) else 0))
    \<and> resp_Version resp = req_Version req \<and> resp_ConsignmentId resp = req_ConsignmentId req
    \<and> resp_TenantId resp = req_TenantId (effective req)"
proof -
  have "ids \<noteq> []"
    using assms(1,2) by (auto simp: handleSchedulerInputQueueRequest_def check_request_def check_devices_def
        split: if_splits)
  then have nempty: "req_DeviceIds req \<noteq> Some []" using assms(2) by simp
  obtain r' m1 w1 where run: "process_devices L X p (effective req) source 0 ids
      (new_response (effective req)) m w = Ret ((r', m1), w1)" and out: "resp = r'" "m' = m1" "w' = w1"
    using assms(1,2) unfolding handler_steps [OF nempty]
    by (cases "process_devices L X p (effective req) source 0 ids (new_response (effective req)) m w")
      (auto split: if_splits)
  from process_devices_results [OF run] obtain outs where o: "device_results L X p (effective req) 0 ids w outs w'"
    "resp = adds_up L source ids outs (new_response (effective req))"
    "m' = counts_failures (failures outs) m" using out by blast
  have len: "length outs = length ids" using device_results_length [OF o(1)] .
  have le: "length (created_entries L ids outs) \<le> length ids"
    using created_entries_length [of L ids outs] len by simp
  have u: "unat (of_nat n :: 32 word) = n" if "n \<le> length ids" for n
    using that assms(3) by (simp add: unat_of_nat)
  have "resp_ErrorCount resp = of_nat (length ids - length (created_entries L ids outs))"
    using o(2) len by (simp add: adds_up_def new_response_def del: of_nat_diff)
  then have "unat (resp_ErrorCount resp) = length ids - length (created_entries L ids outs)"
    using u by simp
  with o(2) len le u show ?thesis
    by (intro exI [of _ outs] conjI o(1))
      (simp_all add: adds_up_def new_response_def effective_def o(3) counts_failures_metric del: of_nat_diff)
qed

lemma request_counts_witness:
  "\<exists>resp m' w' out. handleSchedulerInputQueueRequest sample_lib queue_ext
      (build_tables sample_services) NewSqsProvider sample_request SchedulerRequestSourceRest
      zero_metrics () = Ret ((Inr resp, m'), w')
    \<and> device_result sample_lib queue_ext NewSqsProvider (effective sample_request) 0 sample_uuid () out w'
    \<and> resp_TasksScheduled resp = created_entries sample_lib [sample_uuid] [out]"
proof -
  have d: "req_DeviceIds sample_request \<noteq> Some []" by (simp add: sample_request_def)
  have "\<exists>r w'. schedule_device sample_lib queue_ext NewSqsProvider (effective sample_request) sample_uuid () = Ret (r, w')"
    by (cases "schedule_device sample_lib queue_ext NewSqsProvider (effective sample_request) sample_uuid ()")
      (auto simp: schedule_device_def ParseSchedule_def is_now_def sample_request_def effective_def
        BroadcastDeviceID_def sample_uuid_def Now_def Schedule_def hand_over_def Let_def
        At_def addRunAtTime_def upd_task_def setSchedulingUnit_def NewScheduledTask_def NewTask_def
        setUuidFromString_def zero_task_def unit_defs queue_ext_def CreateTask_def CreateConsignment_def
        validated_def check_weekdays_def check_interval_def
        split: option.splits prod.splits sum.splits if_splits)
  then obtain r w' where "schedule_device sample_lib queue_ext NewSqsProvider (effective sample_request) sample_uuid () = Ret (r, w')"
    by blast
  then obtain resp m' w2 where run: "handleSchedulerInputQueueRequest sample_lib queue_ext
      (build_tables sample_services) NewSqsProvider sample_request SchedulerRequestSourceRest
      zero_metrics () = Ret ((Inr resp, m'), w2)"
    using handler_steps [OF d, of sample_lib queue_ext "build_tables sample_services" NewSqsProvider
        SchedulerRequestSourceRest zero_metrics "()"] sample_request_ok
    by (cases r) (auto simp: sample_request_def)
  have "req_DeviceIds sample_request = Some [sample_uuid]" by (simp add: sample_request_def)
  from request_counts [OF run this] obtain outs where
    "device_results sample_lib queue_ext NewSqsProvider (effective sample_request) 0 [sample_uuid] () outs w2"
    "resp_TasksScheduled resp = created_entries sample_lib [sample_uuid] outs" by auto
  with run show ?thesis
    by (cases outs; cases "tl outs") auto
qed

section \<open>Requests that panic\<close>

lemma handler_panics:
  assumes "\<not> parser_returns L (req_Schedule req)" "req_DeviceIds req \<noteq> Some []" "request_ok L v req source"
  shows "\<exists>reason. handleSchedulerInputQueueRequest L X v p req source m w = Panic reason"
proof -
  obtain d ds where ids: "req_DeviceIds req = Some (d # ds)"
    using assms(2,3) by (auto simp: request_ok_def neq_Nil_conv split: option.splits)
  have "\<not> parser_returns L (req_Schedule (effective req))" using assms(1) by (simp add: effective_def)
  from parser_panics [OF this, of X d "effective req" w]
  have "\<exists>reason. schedule_device L X p (effective req) d w = Panic reason"
    by (auto simp: schedule_device_def)
  with ids handler_steps [OF assms(2), of L X v p source m w] assms(3) show ?thesis by auto
qed

lemma zone_not_parsed:
  assumes "\<And>b text. has_prefix text ''TZ='' \<Longrightarrow> CHR '' '' \<notin> set text \<Longrightarrow>
      \<exists>reason. lib_cron_parse L b text = Panic reason"
    and zone: "has_prefix zone ''TZ=''" "CHR '' '' \<notin> set zone" "is_ascii zone" "is_ascii rest"
  shows "\<not> parser_returns L (''cron '' @ zone @ '' '' @ rest)"
proof -
  let ?str = "''cron '' @ zone @ '' '' @ rest"
  have "split_on (CHR '' '') ?str = ''cron'' # zone # split_on (CHR '' '') rest"
    using words_of_two [of "''cron''" "zone @ '' '' @ rest"] words_of_two [OF zone(2), of rest] by simp
  moreover have "is_ascii ?str" using zone(3,4) by (auto simp: is_ascii_def)
  then have "\<not> is_now L ?str" by (intro not_now) auto
  moreover obtain reason where "lib_cron_parse L True zone = Panic reason" using assms(1) zone(1,2) by blast
  ultimately show ?thesis
    using zone(1) by (simp add: parser_returns_def cron_with_location_def SchedulingFrequencyCron_def
        del: split_on.simps append.simps)
qed


definition zone_lib :: lib where
  "zone_lib = sample_lib\<lparr>
     lib_cron_parse := (\<lambda>_ text. if has_prefix text ''TZ='' \<and> CHR '' '' \<notin> set text
       then Panic ''slice bounds out of range'' else Ret (Inl remote_failed)),
     lib_unmarshal_create_request := (\<lambda>_. Inr (sample_request\<lparr>req_Schedule := ''cron TZ=UTC 0 0 * * * *''\<rparr>))\<rparr>"

definition zone_ext :: "unit ext" where
  "zone_ext = idle_ext\<lparr>x_sqs_receive :=
     (\<lambda>_ w. (Inr [\<lparr>sqs_Body = b64_encode ''p'', sqs_ReceiptHandle = ''h1''\<rparr>], w))\<rparr>"


text \<open>
  An error that is recorded after another one is wrapped, and a
  wrapped error is never recognised as a bad request: it is counted as an internal error, even
  if both are bad-request errors.
\<close>

theorem wrapped_errors_are_internal:
  assumes "is_sentinel old" "is_sentinel new" "old \<noteq> new"
  shows "schedule_error_metric (wrapOrError (Some old) new) = MetricCreateTaskInternalErrors
    \<and> errors_is (wrapOrError (Some old) new) old \<and> \<not> errors_is (wrapOrError (Some old) new) new"
  using assms wrapOrError_keeps_old [of old new] wrapOrError_hides_new [of old new]
  by (simp add: schedule_error_metric_def is_bad_request_def wrapOrError_def errors_is_sentinel
      same_error_def)

lemma wrapped_errors_are_internal_witness:
  "schedule_error_metric (wrapOrError (Some (SchedE ErrInvalidScheduleType)) (SchedE ErrInvalidSchedulingUnit))
     = MetricCreateTaskInternalErrors"
  using wrapped_errors_are_internal [of "SchedE ErrInvalidScheduleType" "SchedE ErrInvalidSchedulingUnit"]
  by simp

end
