(* ===== verification/Rest.thy ===== *)
theory Rest
  imports RestResponse RequestHandler
begin

text \<open>
  The REST interface, \<open>service/rest\<close>: the token check (\<open>validate_token.go\<close>), the five request
  handlers, the wrapper around every handler and the routes (\<open>router.go\<close>, \<open>routes.go\<close>), and
  the settings the server starts with (\<open>server.go\<close>). A handler takes the request and a state of
  three parts: the token client, the metrics and the response.
\<close>

section \<open>Requests and state\<close>

text \<open>
  Header values, path variables and query parameters are the empty string when absent, as the
  accessors of \<open>net/http\<close> and \<open>mux\<close> return them. \<open>rq_Body\<close> is what reading the whole body
  gives.
\<close>

record http_request =
  rq_Path :: string
  rq_ContentType :: string
  rq_RequestID :: string
  rq_Authorization :: string
  rq_Body :: "bytes result"
  rq_task_id :: string
  rq_Query :: "string \<Rightarrow> string"

record rest_state =
  re_dsts :: dsts_vars
  re_metrics :: metrics
  re_out :: response_writer

definition tally :: "metric \<Rightarrow> rest_state \<Rightarrow> rest_state" where
  "tally m s = s\<lparr>re_metrics := Inc m (re_metrics s)\<rparr>"

definition reply :: "(response_writer \<Rightarrow> response_writer) \<Rightarrow> rest_state \<Rightarrow> rest_state" where
  "reply f s = s\<lparr>re_out := f (re_out s)\<rparr>"

text \<open>The package variables set by \<open>Init\<close>.\<close>

record rest_vars =
  debugLogRestRequests :: bool
  appTokenAuthnEnabled :: bool
  rest_port :: int

definition rest_Init :: "config_mgr \<Rightarrow> rest_vars" where
  "rest_Init cfgMgr =
     \<lparr>debugLogRestRequests = IsDebugLoggingRestRequestsEnabled cfgMgr,
      appTokenAuthnEnabled = sc_AuthenticateRestApiRequests (GetServerConfig cfgMgr),
      rest_port = sc_RestPort (GetServerConfig cfgMgr)\<rparr>"

section \<open>The token check\<close>

definition isValidAppAccessToken ::
  "lib \<Rightarrow> 'w ext \<Rightarrow> bool \<Rightarrow> http_request \<Rightarrow> dsts_vars \<Rightarrow> 'w \<Rightarrow> (go_error option \<times> dsts_vars) \<times> 'w"
where
  "isValidAppAccessToken L X authn r d w =
     (if \<not> authn then ((None, d), w)
      else if rq_Authorization r = [] then ((Some (RestE ErrNoAuthorizationHeader), d), w)
      else if \<not> has_prefix (rq_Authorization r) bearerToken then
        ((Some (RestE ErrNoBearerTokenSpecified), d), w)
      else
        (case ValidateAppAccessToken L X (trim_prefix (rq_Authorization r) bearerToken) d w of
           ((Inl e, d1), w1) \<Rightarrow> ((Some e, d1), w1)
         | ((Inr _, d1), w1) \<Rightarrow> ((None, d1), w1)))"

text \<open>The check as every handler of the API uses it: an error is answered with status 401.\<close>

definition authorized ::
  "lib \<Rightarrow> 'w ext \<Rightarrow> bool \<Rightarrow> http_request \<Rightarrow> (rest_state \<Rightarrow> 'w \<Rightarrow> (rest_state \<times> 'w) outcome)
     \<Rightarrow> rest_state \<Rightarrow> 'w \<Rightarrow> (rest_state \<times> 'w) outcome" where
  "authorized L X authn r k s w =
     (case isValidAppAccessToken L X authn r (re_dsts s) w of
        ((Some e, d), w1) \<Rightarrow>
          Ret (reply (sendUnauthorizedErrorResponse L reasonInvalidAppToken) (s\<lparr>re_dsts := d\<rparr>), w1)
      | ((None, d), w1) \<Rightarrow> k (s\<lparr>re_dsts := d\<rparr>) w1)"

section \<open>Handlers\<close>

definition GetHealthHandler :: "lib \<Rightarrow> rest_state \<Rightarrow> rest_state" where
  "GetHealthHandler L = reply (\<lambda>rw. snd (sendJsonResponse L 200 None rw))"

text \<open>
  Sending the final answer of a handler: an encoding error is answered again with status 500,
  after \<open>sendJsonResponse\<close> did so itself, and counted.
\<close>

definition answer ::
  "lib \<Rightarrow> nat \<Rightarrow> http_payload \<Rightarrow> metric \<Rightarrow> metric \<Rightarrow> rest_state \<Rightarrow> rest_state" where
  "answer L code payload on_ok on_error s =
     (case sendJsonResponse L code (Some payload) (re_out s) of
        (Some err, rw) \<Rightarrow> tally on_error (reply sendInternalServerErrorResponse (s\<lparr>re_out := rw\<rparr>))
      | (None, rw) \<Rightarrow> tally on_ok (s\<lparr>re_out := rw\<rparr>))"

definition bad_create :: "lib \<Rightarrow> string \<Rightarrow> rest_state \<Rightarrow> rest_state" where
  "bad_create L reason s =
     tally MetricCreateTaskBadRequests (reply (sendBadRequestErrorResponse L reason) s)"

definition is_bad_create :: "go_error \<Rightarrow> bool" where
  "is_bad_create err \<longleftrightarrow> same_error err (DbE DbErrInvalidRequest)
     \<or> same_error err (SchedE ErrInvalidSchedulingUnit) \<or> same_error err (SchedE ErrInvalidRequest)"

text \<open>\<open>CreateTaskHandler\<close> after the request was read and decoded.\<close>

definition create_from_request ::
  "lib \<Rightarrow> 'w ext \<Rightarrow> db_vars \<Rightarrow> sqs_vars \<Rightarrow> create_request \<Rightarrow> rest_state \<Rightarrow> 'w \<Rightarrow> (rest_state \<times> 'w) outcome"
where
  "create_from_request L X v p request s w =
     (if req_Payload request = None then Ret (bad_create L reasonMissingTaskPayload s, w)
      else
        bind_outcome (handleSchedulerInputQueueRequest L X v p request SchedulerRequestSourceRest
            (re_metrics s) w) (\<lambda>((r, m), w1).
          let s1 = s\<lparr>re_metrics := m\<rparr>
          in case r of
               Inl err \<Rightarrow>
                 Ret (if is_bad_create err then bad_create L reasonInvalidSchedulingUnit s1
                      else tally MetricCreateTaskInternalErrors (reply sendInternalServerErrorResponse s1), w1)
             | Inr response \<Rightarrow>
                 Ret (answer L 201 (PayloadCreated response) MetricCreateTaskResponses
                        MetricCreateTaskInternalErrors s1, w1)))"

definition CreateTaskHandler ::
  "lib \<Rightarrow> 'w ext \<Rightarrow> db_vars \<Rightarrow> sqs_vars \<Rightarrow> bool \<Rightarrow> http_request \<Rightarrow> rest_state \<Rightarrow> 'w
     \<Rightarrow> (rest_state \<times> 'w) outcome" where
  "CreateTaskHandler L X v p authn r s w =
     (if rq_ContentType r \<noteq> contentTypeProtobuf then
        Ret (tally MetricCreateTaskBadRequests (reply sendUnsupportedMediaTypeResponse s), w)
      else authorized L X authn r (\<lambda>s w.
        case rq_Body r of
          Inl err \<Rightarrow> Ret (bad_create L reasonRequestParsingFailed s, w)
        | Inr reqBytes \<Rightarrow>
            (case lib_unmarshal_create_request L reqBytes of
               Inl err \<Rightarrow> Ret (bad_create L reasonProtobufUnmarshalFailed s, w)
             | Inr request \<Rightarrow> create_from_request L X v p request s w)) s w)"

definition bad_get :: "lib \<Rightarrow> string \<Rightarrow> rest_state \<Rightarrow> rest_state" where
  "bad_get L reason s = tally MetricGetTaskBadRequests (reply (sendBadRequestErrorResponse L reason) s)"

definition GetTaskHandler ::
  "lib \<Rightarrow> 'w ext \<Rightarrow> bool \<Rightarrow> http_request \<Rightarrow> rest_state \<Rightarrow> 'w \<Rightarrow> (rest_state \<times> 'w) outcome" where
  "GetTaskHandler L X authn r =
     authorized L X authn r (\<lambda>s w.
       let taskID = rq_task_id r; deviceID = rq_Query r ''device_id''
       in if taskID = [] then Ret (bad_get L reasonMissingTaskId s, w)
          else if \<not> lib_uuid_Parse L deviceID then Ret (bad_get L reasonMissingDeviceId s, w)
          else case GetTaskByID L X taskID deviceID w of
                 (Inl err, w1) \<Rightarrow>
                   Ret (if same_error err (DbE DbErrInvalidRequest) then bad_get L reasonFailedRequestDbError s
                        else if same_error err (DbE ErrNotFound)
                        then tally MetricGetTaskNotFoundErrors (reply sendNotFoundErrorResponse s)
                        else tally MetricGetTaskInternalErrors (reply sendInternalServerErrorResponse s), w1)
               | (Inr foundTask, w1) \<Rightarrow>
                   Ret (answer L 200 (PayloadTask foundTask) MetricGetTaskResponses
                          MetricGetTaskInternalErrors s, w1))"

definition bad_list :: "lib \<Rightarrow> string \<Rightarrow> rest_state \<Rightarrow> rest_state" where
  "bad_list L reason s = tally MetricListTasksBadRequests (reply (sendBadRequestErrorResponse L reason) s)"

text \<open>The body is encoded (with HTML characters escaped) before the status is written.\<close>

definition list_response ::
  "lib \<Rightarrow> consignment list \<Rightarrow> bytes \<Rightarrow> gotime \<Rightarrow> rest_state \<Rightarrow> rest_state" where
  "list_response L foundConsignments nextPage now s =
     (let s1 = reply (set_content_type contentTypeJson) s;
          resp = \<lparr>ltr_Count = length foundConsignments, ltr_Tasks = foundConsignments,
                  ltr_NextPage = nextPage, ltr_ResponseTime = now\<rparr>
      in case lib_json_encode L True (PayloadList resp) of
           Inl err \<Rightarrow> tally MetricListTasksInternalErrors (reply sendInternalServerErrorResponse s1)
         | Inr b \<Rightarrow> tally MetricListTasksReponses (reply (\<lambda>rw. WriteHeader 200 (write_body b rw)) s1))"

definition ListTasksHandler ::
  "lib \<Rightarrow> 'w ext \<Rightarrow> bool \<Rightarrow> http_request \<Rightarrow> rest_state \<Rightarrow> 'w \<Rightarrow> (rest_state \<times> 'w) outcome" where
  "ListTasksHandler L X authn r =
     authorized L X authn r (\<lambda>s w.
       let consignmentID = rq_Query r ''consignment_id''; tenantID = rq_Query r ''tenant_id''
       in if consignmentID = [] then Ret (bad_list L reasonMissingConsignmentId s, w)
          else if tenantID = [] then Ret (bad_list L reasonMissingTenantId s, w)
          else case GetTasksForConsignment X tenantID consignmentID [] 0 w of
                 (Inl err, w1) \<Rightarrow>
                   Ret (tally MetricListTasksInternalErrors (reply sendInternalServerErrorResponse s), w1)
               | (Inr (foundConsignments, nextPage), w1) \<Rightarrow>
                   (case x_now X w1 of (now, w2) \<Rightarrow>
                      Ret (list_response L foundConsignments nextPage now s, w2)))"

definition bad_remove :: "lib \<Rightarrow> string \<Rightarrow> rest_state \<Rightarrow> rest_state" where
  "bad_remove L reason s = tally MetricRemoveTaskBadRequests (reply (sendBadRequestErrorResponse L reason) s)"

definition RemoveTaskHandler ::
  "lib \<Rightarrow> 'w ext \<Rightarrow> bool \<Rightarrow> http_request \<Rightarrow> rest_state \<Rightarrow> 'w \<Rightarrow> (rest_state \<times> 'w) outcome" where
  "RemoveTaskHandler L X authn r =
     authorized L X authn r (\<lambda>s w.
       let taskID = rq_task_id r; deviceID = rq_Query r ''device_id''
       in if taskID = [] then Ret (bad_remove L reasonMissingTaskId s, w)
          else if \<not> lib_uuid_Parse L deviceID then Ret (bad_remove L reasonMissingDeviceId s, w)
          else case RemoveTask L X taskID deviceID w of
                 (Some err, w1) \<Rightarrow>
                   Ret (if same_error err (DbE DbErrInvalidRequest)
                        then bad_remove L reasonFailedRequestDbError s
                        else tally MetricRemoveTaskInternalErrors (reply sendInternalServerErrorResponse s), w1)
               | (None, w1) \<Rightarrow> Ret (tally MetricRemoveTaskResponses (reply (WriteHeader 200) s), w1))"

section \<open>Routes and the common wrapper\<close>

text \<open>The handler of \<open>/metrics\<close> is the Prometheus library's.\<close>

datatype rest_handler = HealthRoute | MetricsRoute | CreateTaskRoute | GetTaskRoute | ListTasksRoute | RemoveTaskRoute

record route =
  ro_Name :: string
  ro_Method :: string
  ro_Path :: string
  ro_Handler :: rest_handler

definition rest_routes :: "route list" where
  "rest_routes =
     [\<lparr>ro_Name = ''GetHealth'', ro_Method = ''GET'', ro_Path = ''/health'', ro_Handler = HealthRoute\<rparr>,
      \<lparr>ro_Name = ''GetMetrics'', ro_Method = ''GET'', ro_Path = ''/metrics'', ro_Handler = MetricsRoute\<rparr>,
      \<lparr>ro_Name = ''CreateTask'', ro_Method = ''POST'', ro_Path = ''/api/v1/tasks'', ro_Handler = CreateTaskRoute\<rparr>,
      \<lparr>ro_Name = ''GetTask'', ro_Method = ''GET'', ro_Path = ''/api/v1/tasks/{task_id}'', ro_Handler = GetTaskRoute\<rparr>,
      \<lparr>ro_Name = ''ListTasks'', ro_Method = ''GET'', ro_Path = ''/api/v1/tasks'', ro_Handler = ListTasksRoute\<rparr>,
      \<lparr>ro_Name = ''RemoveTask'', ro_Method = ''DELETE'', ro_Path = ''/api/v1/tasks/{task_id}'', ro_Handler = RemoveTaskRoute\<rparr>]"

text \<open>
  The dump of the request for the debug log fails exactly when its body cannot be read. A panic
  of the inner handler goes through; what the metrics were then is not kept.
\<close>

definition commonRequestHandler ::
  "'w ext \<Rightarrow> bool \<Rightarrow> (http_request \<Rightarrow> rest_state \<Rightarrow> 'w \<Rightarrow> (rest_state \<times> 'w) outcome)
     \<Rightarrow> http_request \<Rightarrow> rest_state \<Rightarrow> 'w \<Rightarrow> (rest_state \<times> 'w) outcome" where
  "commonRequestHandler X debug inner r s w =
     (case x_now X w of (start, w1) \<Rightarrow>
      case (if rq_RequestID r = [] then x_new_uuid X w1 else (rq_RequestID r, w1)) of (requestID, w2) \<Rightarrow>
        (let r1 = r\<lparr>rq_RequestID := requestID\<rparr>;
             logging = (debug \<and> rq_Path r \<noteq> ''/health'');
             finish = (\<lambda>s w. case ReportLatencyMetric X start (rq_Path r) (re_metrics s) w of
                               (m, w') \<Rightarrow> (s\<lparr>re_metrics := m\<rparr>, w'))
         in if logging \<and> \<not> is_ok (rq_Body r) then Ret (finish s w2)
            else bind_outcome (inner r1 s w2) (\<lambda>(s1, w3).
              case (if logging then x_now X w3 else (0, w3)) of (_, w4) \<Rightarrow>
                Ret (finish (tally MetricRequestCount s1) w4))))"

text \<open>A route served: the registered handler inside the wrapper.\<close>

definition route_action ::
  "lib \<Rightarrow> 'w ext \<Rightarrow> db_vars \<Rightarrow> sqs_vars \<Rightarrow> bool
     \<Rightarrow> (http_request \<Rightarrow> rest_state \<Rightarrow> 'w \<Rightarrow> (rest_state \<times> 'w) outcome) \<Rightarrow> rest_handler
     \<Rightarrow> http_request \<Rightarrow> rest_state \<Rightarrow> 'w \<Rightarrow> (rest_state \<times> 'w) outcome" where
  "route_action L X v p authn prometheus h r s w =
     (case h of
        HealthRoute \<Rightarrow> Ret (GetHealthHandler L s, w)
      | MetricsRoute \<Rightarrow> prometheus r s w
      | CreateTaskRoute \<Rightarrow> CreateTaskHandler L X v p authn r s w
      | GetTaskRoute \<Rightarrow> GetTaskHandler L X authn r s w
      | ListTasksRoute \<Rightarrow> ListTasksHandler L X authn r s w
      | RemoveTaskRoute \<Rightarrow> RemoveTaskHandler L X authn r s w)"

definition initRequestRouter ::
  "lib \<Rightarrow> 'w ext \<Rightarrow> db_vars \<Rightarrow> sqs_vars \<Rightarrow> rest_vars
     \<Rightarrow> (http_request \<Rightarrow> rest_state \<Rightarrow> 'w \<Rightarrow> (rest_state \<times> 'w) outcome)
     \<Rightarrow> (string \<times> string \<times> (http_request \<Rightarrow> rest_state \<Rightarrow> 'w \<Rightarrow> (rest_state \<times> 'w) outcome)) list" where
  "initRequestRouter L X v p rv prometheus =
     map (\<lambda>route. (ro_Method route, ro_Path route,
            commonRequestHandler X (debugLogRestRequests rv)
              (route_action L X v p (appTokenAuthnEnabled rv) prometheus (ro_Handler route))))
       rest_routes"

end
