(* ===== verification/Service.thy ===== *)
theory Service
  imports ConfigLoad DbInit MqttClient Daemon Rest
begin

text \<open>
  Start-up and shutdown of the process: \<open>service/main.go\<close>, \<open>service/log.go\<close>,
  \<open>service/scheduler/init.go\<close> and \<open>service/queuemgr/init.go\<close>. The package variables of all
  packages are the fields of \<open>service_state\<close>; starting a goroutine sets a flag. What the
  goroutines do is modelled with their packages; here they matter only as started or not.
\<close>

record service_state =
  sv_config :: config_mgr
  sv_db :: db_state
  sv_mqtt :: mqtt_state
  sv_queue :: sqs_vars
  sv_daemon :: bool
  sv_watchers :: bool
  sv_rest :: "rest_vars option"

section \<open>Logging level\<close>

datatype zap_level = DebugLevel | InfoLevel | WarnLevel | ErrorLevel | DPanicLevel | PanicLevel | FatalLevel

text \<open>The parser of levels belongs to the logging library.\<close>

definition setLogLevel :: "(string \<Rightarrow> zap_level result) \<Rightarrow> string \<Rightarrow> zap_level" where
  "setLogLevel ParseLevel level = (case ParseLevel level of Inl err \<Rightarrow> InfoLevel | Inr l \<Rightarrow> l)"

section \<open>The scheduler engine and the queue manager\<close>

text \<open>\<open>None\<close>: the client identifier was not found within the fuel.\<close>

definition scheduler_Init ::
  "lib \<Rightarrow> 'w ext \<Rightarrow> nat \<Rightarrow> service_state \<Rightarrow> 'w
     \<Rightarrow> ((go_error option \<times> service_state) \<times> 'w) outcome option" where
  "scheduler_Init L X fuel s w =
     (case mqtt_Init L X fuel (sv_config s) (sv_mqtt s) w of
        None \<Rightarrow> None
      | Some (Panic msg) \<Rightarrow> Some (Panic msg)
      | Some (Ret ((Some e, m), w1)) \<Rightarrow> Some (Ret ((Some e, s\<lparr>sv_mqtt := m\<rparr>), x_cancel X CtxSched w1))
      | Some (Ret ((None, m), w1)) \<Rightarrow> Some (Ret ((None, s\<lparr>sv_mqtt := m, sv_daemon := True\<rparr>), w1)))"

definition scheduler_Shutdown :: "'w ext \<Rightarrow> service_state \<Rightarrow> 'w \<Rightarrow> 'w" where
  "scheduler_Shutdown X s w = mqtt_Shutdown X (fst (sv_mqtt s)) (x_cancel X CtxSched w)"

definition queuemgr_Init ::
  "'w ext \<Rightarrow> service_state \<Rightarrow> 'w \<Rightarrow> (go_error option \<times> service_state) \<times> 'w" where
  "queuemgr_Init X s w =
     (case SqsInit X (sv_config s) NewSqsProvider w of
        ((Some e, p), w1) \<Rightarrow> ((Some e, s\<lparr>sv_queue := p\<rparr>), w1)
      | ((None, p), w1) \<Rightarrow> ((None, s\<lparr>sv_queue := p, sv_watchers := True\<rparr>), w1))"

definition queuemgr_Shutdown :: "service_state \<Rightarrow> service_state" where
  "queuemgr_Shutdown s = s\<lparr>sv_queue := SqsShutdown (sv_queue s)\<rparr>"

section \<open>The main program\<close>

text \<open>
  How a run ends: with an exit code (0 when \<open>main\<close> returns), waiting for ever in
  \<open>db.Shutdown\<close>, serving for ever, or with a panic.
\<close>

datatype 'w main_run =
    Exit nat service_state 'w
  | Stuck service_state 'w
  | Serving service_state 'w
  | Crashed string

definition close_database :: "'w ext \<Rightarrow> nat \<Rightarrow> service_state \<Rightarrow> 'w \<Rightarrow> 'w main_run" where
  "close_database X code s w =
     (case db_Shutdown X (sv_db s) w of
        (Panic msg, w1) \<Rightarrow> Crashed msg
      | (Ret None, w1) \<Rightarrow> Stuck s w1
      | (Ret (Some d), w1) \<Rightarrow> Exit code (s\<lparr>sv_db := d\<rparr>) w1)"

text \<open>
  \<open>rest.Init\<close> returns when the server fails or a signal arrives. What happens until then is a
  parameter: it comes to an end in a later world, after a number of ticks of the session
  refresher; it goes on for ever; or some goroutine panics.
\<close>

datatype 'w served = Stopped nat 'w | Running | Panicked string

text \<open>From the queue manager on.\<close>

definition serve ::
  "'w ext \<Rightarrow> ('w \<Rightarrow> 'w served) \<Rightarrow> service_state \<Rightarrow> 'w \<Rightarrow> 'w main_run" where
  "serve X await s w =
     (case queuemgr_Init X s w of
        ((Some e, s1), w1) \<Rightarrow> close_database X 2 s1 (scheduler_Shutdown X s1 w1)
      | ((None, s1), w1) \<Rightarrow>
          (let s2 = s1\<lparr>sv_rest := Some (rest_Init (sv_config s1))\<rparr>
           in case await w1 of
                Running \<Rightarrow> Serving s2 w1
              | Panicked msg \<Rightarrow> Crashed msg
              | Stopped n w2 \<Rightarrow>
                  (case refresher_ticks X n (sv_db s2) w2 of (d, w3) \<Rightarrow>
                     let s3 = s2\<lparr>sv_db := d\<rparr>
                     in close_database X 0 s3 (scheduler_Shutdown X s3 w3))))"

definition start_engine ::
  "lib \<Rightarrow> 'w ext \<Rightarrow> nat \<Rightarrow> ('w \<Rightarrow> 'w served) \<Rightarrow> service_state \<Rightarrow> 'w \<Rightarrow> 'w main_run option" where
  "start_engine L X fuel await s w =
     (case scheduler_Init L X fuel s w of
        None \<Rightarrow> None
      | Some (Panic msg) \<Rightarrow> Some (Crashed msg)
      | Some (Ret ((Some e, s1), w1)) \<Rightarrow> Some (close_database X 2 s1 w1)
      | Some (Ret ((None, s1), w1)) \<Rightarrow> Some (serve X await s1 w1))"

text \<open>
  \<open>order\<close> is the order in which the map of the overrides is walked. The log level is chosen
  before anything else and only filters log lines.
\<close>

definition main ::
  "lib \<Rightarrow> 'w ext \<Rightarrow> (string \<times> env_setting) list \<Rightarrow> nat \<Rightarrow> ('w \<Rightarrow> 'w served) \<Rightarrow> bool \<Rightarrow> service_state \<Rightarrow> 'w
     \<Rightarrow> 'w main_run option" where
  "main L X order fuel await versionFlag s w =
     (if versionFlag then Some (Exit 0 s w)
      else
        (case Load L X order False (NewConfigMgr ServiceName) w of
           ((False, c), w1) \<Rightarrow> Some (Exit 2 (s\<lparr>sv_config := c\<rparr>) w1)
         | ((True, c), w1) \<Rightarrow>
             (case db_Init X c (sv_db s) w1 of
                (Panic msg, w2) \<Rightarrow> Some (Crashed msg)
              | (Ret (Some e, d), w2) \<Rightarrow> Some (Exit 2 (s\<lparr>sv_config := c, sv_db := d\<rparr>) w2)
              | (Ret (None, d), w2) \<Rightarrow>
                  start_engine L X fuel await (s\<lparr>sv_config := c, sv_db := d\<rparr>) w2)))"

section \<open>How a run ends\<close>

definition ends_with :: "event list \<Rightarrow> event list \<Rightarrow> bool" where
  "ends_with tr es \<longleftrightarrow> (\<exists>tr0. tr = tr0 @ es)"

lemma ends_withI [intro]: "ends_with (tr @ es) es"
  by (auto simp: ends_with_def)

text \<open>The database was released: session closed, no refresher left.\<close>

definition released :: "db_state \<Rightarrow> bool" where
  "released d \<longleftrightarrow> gSession d = ClosedSession \<and> \<not> refresher_running d"

text \<open>The database can be shut down; a session is missing only after a failed tick of the refresher.\<close>

definition db_ready :: "db_state \<Rightarrow> bool" where
  "db_ready d \<longleftrightarrow> can_close d
     \<and> (gSession d = NoSession \<longrightarrow> dc_DatabaseType (dbConfig d) = providerAwsKeyspaces)"

lemma db_ready_ticks: "refresher_ticks X n d w = (d', w') \<Longrightarrow> db_ready d \<Longrightarrow> db_ready d'"
  using refresher_ticks_keeps [of X n d w d' w'] by (auto simp: db_ready_def can_close_def)

lemma close_database_cases:
  assumes "db_ready (sv_db s)"
  shows "(\<exists>d. close_database (traced X) code s (w, tr)
      = Exit code (s\<lparr>sv_db := d\<rparr>) (x_close_session X w, tr @ [EvCloseSession]) \<and> released d)
    \<or> close_database (traced X) code s wt = Crashed nil_session
      \<and> dc_DatabaseType (dbConfig (sv_db s)) = providerAwsKeyspaces"
  using assms by (cases "sv_db s")
    (auto simp: close_database_def released_def db_ready_def can_close_def db_Shutdown_def Let_def)

lemma scheduler_Shutdown_trace:
  "mqttCtx (fst (sv_mqtt s)) = CtxMqtt \<Longrightarrow>
    \<exists>w'. scheduler_Shutdown (traced X) s (w, tr) = (w', tr @ [EvCancel CtxSched, EvCancel CtxMqtt])"
  by (simp add: scheduler_Shutdown_def mqtt_Shutdown_def)

lemma updateMqttUsername_ctx:
  "updateMqttUsername L X s w = ((err, s'), w') \<Longrightarrow> mqttCtx (fst s') = mqttCtx (fst s)"
  by (auto simp: updateMqttUsername_def set_username_def split: prod.splits if_splits sum.splits)

lemma connect_and_register_ctx:
  "connect_and_register L X regs s w = ((err, s'), w') \<Longrightarrow> mqttCtx (fst s') = mqttCtx (fst s)"
  by (auto simp: connect_and_register_def dest!: updateMqttUsername_ctx split: prod.splits option.splits)

lemma configure_client_ctx:
  "configure_client L X regs s w = ((err, s'), w') \<Longrightarrow> mqttCtx (fst s') = mqttCtx (fst s)"
  by (auto simp: configure_client_def Let_def dest!: connect_and_register_ctx
      split: prod.splits sum.splits if_splits)

lemma mqtt_Init_ctx:
  "mqtt_Init L X fuel cfgMgr s w = Some (Ret ((err, m), w')) \<Longrightarrow> mqttCtx (fst m) = CtxMqtt"
  by (auto simp: mqtt_Init_def Let_def dest!: configure_client_ctx
      split: prod.splits option.splits outcome.splits)

lemma scheduler_Init_cases:
  assumes "scheduler_Init L X fuel s w = Some (Ret ((err, s1), w1))"
  shows "\<exists>m w0. s1 = s\<lparr>sv_mqtt := m, sv_daemon := (err = None \<or> sv_daemon s)\<rparr> \<and> mqttCtx (fst m) = CtxMqtt
    \<and> w1 = (if err = None then w0 else x_cancel X CtxSched w0)"
proof -
  obtain e m w0 where i: "mqtt_Init L X fuel (sv_config s) (sv_mqtt s) w = Some (Ret ((e, m), w0))"
    using assms by (auto simp: scheduler_Init_def split: option.splits outcome.splits)
  with assms mqtt_Init_ctx [OF i] show ?thesis
    by (cases e; intro exI [of _ m] exI [of _ w0]) (auto simp: scheduler_Init_def)
qed

lemma queuemgr_Init_cases:
  assumes "queuemgr_Init X s w = ((err, s1), w1)"
  shows "\<exists>p. s1 = s\<lparr>sv_queue := p, sv_watchers := (err = None \<or> sv_watchers s)\<rparr>"
  using assms by (auto simp: queuemgr_Init_def split: prod.splits option.splits)

text \<open>
  Why a run can be stopped by a panic of its own: no database host or no session with AWS
  Keyspaces, or a private key that is not an RSA key.
\<close>

definition crash_cause :: "lib \<Rightarrow> database_config \<Rightarrow> string \<Rightarrow> bool" where
  "crash_cause L c msg \<longleftrightarrow>
     dc_DatabaseType c = providerAwsKeyspaces \<and> msg = nil_session
     \<or> dc_DatabaseType c = providerAwsKeyspaces \<and> dc_DatabaseHosts c = [] \<and> msg = ''index out of range''
     \<or> (\<exists>der. lib_ParsePKCS8PrivateKey L der = Inr OtherKey) \<and> msg = ''interface conversion''"

text \<open>The ways out once the database is ready, for a configuration \<open>c\<close> of the database.\<close>

definition ends_cleanly ::
  "lib \<Rightarrow> ('w \<times> event list \<Rightarrow> ('w \<times> event list) served) \<Rightarrow> database_config
     \<Rightarrow> ('w \<times> event list) main_run \<Rightarrow> bool" where
  "ends_cleanly L await c r =
     (case r of
        Stuck s' wt' \<Rightarrow> False
      | Serving s' wt' \<Rightarrow> sv_daemon s' \<and> sv_watchers s' \<and> await wt' = Running
      | Crashed msg \<Rightarrow> crash_cause L c msg \<or> (\<exists>wt'. await wt' = Panicked msg)
      | Exit code s' wt' \<Rightarrow> released (sv_db s')
          \<and> (if sv_daemon s' then ends_with (snd wt') [EvCancel CtxSched, EvCancel CtxMqtt, EvCloseSession]
               \<and> code = (if sv_watchers s' then 0 else 2)
             else code = 2 \<and> \<not> sv_watchers s' \<and> ends_with (snd wt') [EvCancel CtxSched, EvCloseSession]))"

lemma shut_down_all:
  assumes "db_ready (sv_db s)" "mqttCtx (fst (sv_mqtt s)) = CtxMqtt" "sv_daemon s"
    and "code = (if sv_watchers s then 0 else 2)"
  shows "ends_cleanly L await (dbConfig (sv_db s))
    (close_database (traced X) code s (scheduler_Shutdown (traced X) s wt))"
proof -
  obtain w tr where wt: "wt = (w, tr)" by fastforce
  from scheduler_Shutdown_trace [OF assms(2), of X w tr] obtain w' where
    down: "scheduler_Shutdown (traced X) s wt = (w', tr @ [EvCancel CtxSched, EvCancel CtxMqtt])"
    using wt by blast
  from close_database_cases [OF assms(1), of X code w' "tr @ [EvCancel CtxSched, EvCancel CtxMqtt]"
      "(w', tr @ [EvCancel CtxSched, EvCancel CtxMqtt])"] assms(3,4)
  show ?thesis unfolding down
    by (elim disjE exE conjE) (auto simp: ends_cleanly_def crash_cause_def ends_with_def)
qed

lemma serve_ends:
  assumes "db_ready (sv_db s)" "mqttCtx (fst (sv_mqtt s)) = CtxMqtt" "\<not> sv_watchers s" "sv_daemon s"
  shows "ends_cleanly L await (dbConfig (sv_db s)) (serve (traced X) await s wt)"
proof -
  obtain err s1 wt1 where q: "queuemgr_Init (traced X) s wt = ((err, s1), wt1)"
    by (metis surj_pair)
  from queuemgr_Init_cases [OF q] obtain p where
    s1: "s1 = s\<lparr>sv_queue := p, sv_watchers := (err = None \<or> sv_watchers s)\<rparr>" by blast
  let ?s2 = "s1\<lparr>sv_rest := Some (rest_Init (sv_config s1))\<rparr>"
  show ?thesis
  proof (cases err)
    case (Some e)
    with q have "serve (traced X) await s wt = close_database (traced X) 2 s1 (scheduler_Shutdown (traced X) s1 wt1)"
      by (simp add: serve_def)
    moreover have "ends_cleanly L await (dbConfig (sv_db s1))
        (close_database (traced X) 2 s1 (scheduler_Shutdown (traced X) s1 wt1))"
      by (rule shut_down_all) (use assms s1 Some in simp_all)
    ultimately show ?thesis using s1 by simp
  next
    case None
    show ?thesis
    proof (cases "await wt1")
      case (Stopped n wt2)
      obtain d wt3 where t: "refresher_ticks (traced X) n (sv_db ?s2) wt2 = (d, wt3)"
        by (metis surj_pair)
      let ?s3 = "?s2\<lparr>sv_db := d\<rparr>"
      have "serve (traced X) await s wt = close_database (traced X) 0 ?s3 (scheduler_Shutdown (traced X) ?s3 wt3)"
        using q None Stopped t by (simp add: serve_def Let_def)
      moreover have "db_ready d" "dbConfig d = dbConfig (sv_db s)"
        using db_ready_ticks [OF t] refresher_ticks_keeps [OF t] assms(1) s1 by simp_all
      moreover have "ends_cleanly L await (dbConfig (sv_db ?s3))
          (close_database (traced X) 0 ?s3 (scheduler_Shutdown (traced X) ?s3 wt3))"
        by (rule shut_down_all) (use assms s1 None calculation(2) in simp_all)
      ultimately show ?thesis by simp
    next
      case Running
      with q None assms s1 show ?thesis by (simp add: serve_def ends_cleanly_def)
    next
      case (Panicked msg)
      with q None have "serve (traced X) await s wt = Crashed msg" by (simp add: serve_def)
      moreover have "\<exists>wt'. await wt' = Panicked msg" using Panicked by blast
      ultimately show ?thesis by (simp only: ends_cleanly_def main_run.case simp_thms)
    qed
  qed
qed

text \<open>With enough fuel every step of the start-up has a result.\<close>

lemma mqtt_Init_result:
  assumes "letters_come X"
  shows "\<exists>fuel0 r. \<forall>n. mqtt_Init L X (fuel0 + n) cfgMgr s w = Some r"
proof -
  obtain m d where s: "s = (m, d)" by fastforce
  show ?thesis
  proof (cases "Start L X CtxMqtt cfgMgr d w")
    case (Panic msg)
    with s show ?thesis by (auto simp: mqtt_Init_def Let_def)
  next
    case (Ret x)
    obtain err d1 w1 where x: "x = ((err, d1), w1)" by (metis surj_pair)
    from client_id_ends [OF assms, of "GetSchedulerAppID cfgMgr" w1] obtain fuel0 cid w' where
      "\<forall>n. generateClientId X (fuel0 + n) (GetSchedulerAppID cfgMgr) w1 = Some (cid, w')" by blast
    with s Ret x show ?thesis
      by (cases err; intro exI [of _ fuel0]) (auto simp: mqtt_Init_def Let_def)
  qed
qed

lemma scheduler_Init_result:
  assumes "letters_come X"
  shows "\<exists>fuel0 r. \<forall>n. scheduler_Init L X (fuel0 + n) s w = Some r"
proof -
  obtain fuel0 r where m: "\<And>n. mqtt_Init L X (fuel0 + n) (sv_config s) (sv_mqtt s) w = Some r"
    using mqtt_Init_result [OF assms] by metis
  have "scheduler_Init L X (fuel0 + n) s w = scheduler_Init L X fuel0 s w" for n
    using m [of n] m [of 0] by (simp add: scheduler_Init_def)
  moreover have "scheduler_Init L X fuel0 s w \<noteq> None"
    using m [of 0] by (auto simp: scheduler_Init_def split: outcome.splits option.splits)
  ultimately show ?thesis by fastforce
qed

lemma Start_panic:
  "Start L X c cfgMgr d w = Panic msg
    \<Longrightarrow> (\<exists>der. lib_ParsePKCS8PrivateKey L der = Inr OtherKey) \<and> msg = ''interface conversion''"
  by (auto simp: Start_def Let_def split: prod.splits option.splits if_splits sum.splits private_key.splits)

lemma scheduler_Init_panic:
  "scheduler_Init L X fuel s w = Some (Panic msg) \<Longrightarrow> crash_cause L c msg"
  by (auto simp: scheduler_Init_def mqtt_Init_def Let_def crash_cause_def dest!: Start_panic
      split: prod.splits option.splits outcome.splits)

lemma start_engine_ends:
  assumes "scheduler_Init L (traced X) fuel s wt = Some o1"
    and "db_ready (sv_db s)" "\<not> sv_watchers s" "\<not> sv_daemon s"
  shows "\<exists>r. start_engine L (traced X) fuel await s wt = Some r \<and> ends_cleanly L await (dbConfig (sv_db s)) r"
proof (cases o1)
  case (Panic msg)
  with assms(1) scheduler_Init_panic [of L "traced X" fuel s wt msg] show ?thesis
    by (simp add: start_engine_def ends_cleanly_def)
next
  case (Ret x)
  obtain err s1 w1 tr1 where x: "x = ((err, s1), (w1, tr1))" by (metis surj_pair)
  from scheduler_Init_cases [OF assms(1) [unfolded Ret x]] obtain m w0 tr0 where
    s1: "s1 = s\<lparr>sv_mqtt := m, sv_daemon := (err = None)\<rparr>" "mqttCtx (fst m) = CtxMqtt"
    "err \<noteq> None \<Longrightarrow> tr1 = tr0 @ [EvCancel CtxSched]" using assms(4) by force
  have ready: "db_ready (sv_db s1)" using s1 assms(2) by simp
  show ?thesis
  proof (cases err)
    case (Some e)
    with assms(1) Ret x have "start_engine L (traced X) fuel await s wt
        = Some (close_database (traced X) 2 s1 (w1, tr1))" by (simp add: start_engine_def)
    moreover have "ends_cleanly L await (dbConfig (sv_db s)) (close_database (traced X) 2 s1 (w1, tr1))"
      using close_database_cases [OF ready, of X 2 w1 tr1 "(w1, tr1)"] Some s1 assms(3)
      by (elim disjE exE conjE) (auto simp: ends_cleanly_def crash_cause_def ends_with_def)
    ultimately show ?thesis by blast
  next
    case None
    with assms(1) Ret x have "start_engine L (traced X) fuel await s wt
        = Some (serve (traced X) await s1 (w1, tr1))" by (simp add: start_engine_def)
    moreover have "ends_cleanly L await (dbConfig (sv_db s1)) (serve (traced X) await s1 (w1, tr1))"
      by (rule serve_ends [OF ready]) (use None s1 assms(3) in simp_all)
    ultimately show ?thesis using s1 by simp
  qed
qed

lemma db_Init_panic:
  "db_Init X cfgMgr st w = (Panic msg, w') \<Longrightarrow> crash_cause L (GetDatabaseConfig cfgMgr) msg"
  by (auto simp: db_Init_def connect_defs init_schema_def migrateDatabaseSchema_def with_session_def
      crash_cause_def Let_def created_def map_prod_def
      split: if_splits prod.splits option.splits outcome.splits list.splits sum.splits)

text \<open>What the configuration file gives, and whether it and the database could be had.\<close>

definition configured :: "lib \<Rightarrow> 'w ext \<Rightarrow> (string \<times> env_setting) list \<Rightarrow> 'w \<Rightarrow> config_mgr" where
  "configured L X order w = snd (fst (Load L X order False (NewConfigMgr ServiceName) w))"

definition startup_failed ::
  "lib \<Rightarrow> 'w ext \<Rightarrow> (string \<times> env_setting) list \<Rightarrow> service_state \<Rightarrow> 'w \<Rightarrow> bool" where
  "startup_failed L X order s w =
     (case Load L X order False (NewConfigMgr ServiceName) w of
        ((loaded, c), w1) \<Rightarrow> \<not> loaded \<or> (case db_Init X c (sv_db s) w1 of
          (Ret (Some e, d), w2) \<Rightarrow> True | _ \<Rightarrow> False))"


section \<open>A run that fails at the token service\<close>

definition start_ext :: "unit ext" where
  "start_ext = files_ext
     \<lparr>x_yaml_config := (\<lambda>c w. ((c\<lparr>DatabaseConfig := (DatabaseConfig c)\<lparr>dc_DatabaseType := ''cassandra''\<rparr>\<rparr>, None), w)),
      x_create_session := (\<lambda>_ w. (None, w)), x_select_services := (\<lambda>_ _ w. (Inr [], w))\<rparr>"

definition fresh_service :: service_state where
  "fresh_service = \<lparr>sv_config = NewConfigMgr ServiceName, sv_db = new_db, sv_mqtt = (new_mqtt, zero_dsts),
     sv_queue = NewSqsProvider, sv_daemon = False, sv_watchers = False, sv_rest = None\<rparr>"

lemma no_overrides:
  "(\<And>k. lib_getenv L k = []) \<Longrightarrow> loadEnvironmentVariableOverrides L order c = (c, [])"
  by (induction order) (simp_all add: loadEnvironmentVariableOverrides_def override_one_def)

definition loaded_mgr :: config_mgr where
  "loaded_mgr = snd (fst (Load sample_lib (traced start_ext) env_settings False (NewConfigMgr ServiceName) ((), [])))"

lemmas traced_fields = traced_def start_ext_def files_ext_def

lemma start_load:
  "\<exists>tr. Load sample_lib (traced start_ext) env_settings False (NewConfigMgr ServiceName) ((), [])
     = ((True, loaded_mgr), ((), tr))"
  "dc_DatabaseType (GetDatabaseConfig loaded_mgr) = providerCassandra"
  "dc_SchemaMigrationEnabled (GetDatabaseConfig loaded_mgr) = False"
  "GetServiceRegistrations loaded_mgr = []"
  by (simp_all add: loaded_mgr_def Load_def LoadRegisteredServiceConfig_def apply_environment_def
      no_overrides test_mode_on_def logged_def traced_fields GetDatabaseConfig_def
      GetServiceRegistrations_def providerCassandra_def NewConfigMgr_def zero_config_def Let_def)

lemma start_db:
  "\<exists>d w2. db_Init (traced start_ext) loaded_mgr new_db ((), tr) = (Ret (None, d), w2)"
  by (simp add: db_Init_def start_load connectCassandraInstance_def init_schema_def
      migrateDatabaseSchema_def with_session_def initServiceDispatchLookupTable_def
      ListRegisteredServices_def logged_def traced_fields providerCassandra_def created_def Let_def)


end
