(* ===== verification/RestFacts.thy ===== *)
theory RestFacts
  imports Rest
begin

text \<open>
  The theorems about the REST interface: nothing happens for an unauthorized request, which
  status each handler answers and which counter it raises, and what the wrapper adds.
\<close>

section \<open>The trace of an authorized request\<close>

definition appends_out ::
  "(rest_state \<Rightarrow> 'w \<times> event list \<Rightarrow> (rest_state \<times> ('w \<times> event list)) outcome) \<Rightarrow> bool" where
  "appends_out k \<longleftrightarrow>
     (\<forall>s w tr s' w' tr'. k s (w, tr) = Ret (s', (w', tr')) \<longrightarrow> (\<exists>es. tr' = tr @ es))"

definition bearer :: "http_request \<Rightarrow> string" where
  "bearer r = trim_prefix (rq_Authorization r) bearerToken"

lemma appends_outI:
  "(\<And>s w tr s' w' tr'. k s (w, tr) = Ret (s', (w', tr')) \<Longrightarrow> \<exists>es. tr' = tr @ es) \<Longrightarrow> appends_out k"
  by (simp add: appends_out_def)

text \<open>
  The check makes signature checks and key fetches only; success means that a signature check
  accepted the bearer token.
\<close>

lemma token_check_trace:
  assumes "isValidAppAccessToken L (traced X) True r d (w, tr) = ((err, d'), (w', tr'))"
  shows "\<exists>es. tr' = tr @ es \<and> list_all is_check es \<and> (err = None \<longrightarrow> EvVerify (bearer r) True \<in> set es)"
proof (cases "rq_Authorization r = [] \<or> \<not> has_prefix (rq_Authorization r) bearerToken")
  case True
  with assms show ?thesis by (auto simp: isValidAppAccessToken_def split: if_splits)
next
  case False
  obtain c d1 w1 tr1 where v: "ValidateAppAccessToken L (traced X) (bearer r) d (w, tr) = ((c, d1), (w1, tr1))"
    by (metis surj_pair)
  from app_auth.checks v obtain es where es: "tr1 = tr @ es" "auth_log (bearer r) es (c, d1)"
    by (rule emitsE)
  have "d' = d1 \<and> w' = w1 \<and> tr' = tr1 \<and> (err = None \<longrightarrow> (\<exists>cl. c = Inr cl))"
    using assms False v by (cases c) (auto simp: isValidAppAccessToken_def bearer_def)
  with es show ?thesis by (auto simp: auth_log_def)
qed

lemma authorized_trace:
  assumes "authorized L (traced X) True r k s (w, tr) = Ret (s', (w', tr'))" and "appends_out k"
  shows "\<exists>es. tr' = tr @ es \<and> verified_before (bearer r) es
    \<and> (EvVerify (bearer r) True \<notin> set es \<longrightarrow> list_all is_check es
         \<and> (\<exists>d. s' = reply (sendUnauthorizedErrorResponse L reasonInvalidAppToken) (s\<lparr>re_dsts := d\<rparr>)))"
proof -
  obtain err d w1 tr1 where c: "isValidAppAccessToken L (traced X) True r (re_dsts s) (w, tr) = ((err, d), (w1, tr1))"
    by (metis surj_pair)
  from token_check_trace [OF c] obtain es where
    es: "tr1 = tr @ es" "list_all is_check es" "err = None \<longrightarrow> EvVerify (bearer r) True \<in> set es" by blast
  show ?thesis
  proof (cases err)
    case (Some e)
    with assms(1) c have "s' = reply (sendUnauthorizedErrorResponse L reasonInvalidAppToken) (s\<lparr>re_dsts := d\<rparr>)"
      "tr' = tr1" by (auto simp: authorized_def)
    with es show ?thesis using verified_before_checks by blast
  next
    case None
    with assms(1) c have "k (s\<lparr>re_dsts := d\<rparr>) (w1, tr1) = Ret (s', (w', tr'))" by (simp add: authorized_def)
    with assms(2) obtain fs where "tr' = tr1 @ fs" unfolding appends_out_def by blast
    with None es show ?thesis
      by (intro exI [of _ "es @ fs"]) (auto intro: verified_before_append)
  qed
qed

section \<open>The handlers append to the log\<close>

lemma RemoveTask_trace: "\<exists>es. snd (snd (RemoveTask L (traced X) t d (w, tr))) = tr @ es"
  by (auto simp: RemoveTask_def logged_pair split: option.splits)

lemma GetTask_appends: "\<exists>es. snd (snd (GetTaskByID L (traced X) t d (w, tr))) = tr @ es"
  by (auto simp: GetTaskByID_def logged_pair split: sum.splits list.splits prod.splits)

lemma GetTasks_appends: "\<exists>es. snd (snd (GetTasksForConsignment (traced X) t c p n (w, tr))) = tr @ es"
  by (auto simp: GetTasksForConsignment_def logged_pair Let_def)

lemma input_request_trace:
  assumes "handleSchedulerInputQueueRequest L (traced X) v p req source m (w, tr) = Ret (x, (w', tr'))"
  shows "\<exists>es. tr' = tr @ es"
proof (cases "req_DeviceIds req = Some []")
  case True
  with assms show ?thesis
    by (auto simp: handleSchedulerInputQueueRequest_def check_request_def check_devices_def
        split: if_splits)
next
  case ids: False
  show ?thesis
  proof (cases "parser_returns L (req_Schedule req)")
    case True
    from handler_trace [OF ids this, of v source X p m w tr] assms show ?thesis
      by (auto split: if_splits)
  next
    case False
    from handler_panics [OF False ids, of v source "traced X" p m "(w, tr)"] assms
    have "\<not> request_ok L v req source" by auto
    with assms handler_steps [OF ids, of L "traced X" v p source m "(w, tr)"] show ?thesis by simp
  qed
qed

lemma create_appends: "appends_out (create_from_request L (traced X) v p req)"
proof (rule appends_outI)
  fix s w tr s' w' tr'
  assume run: "create_from_request L (traced X) v p req s (w, tr) = Ret (s', (w', tr'))"
  show "\<exists>es. tr' = tr @ es"
  proof (cases "req_Payload req = None")
    case True
    with run show ?thesis by (simp add: create_from_request_def)
  next
    case False
    with run obtain x where
      "handleSchedulerInputQueueRequest L (traced X) v p req SchedulerRequestSourceRest (re_metrics s) (w, tr)
        = Ret (x, (w', tr'))"
      by (cases "handleSchedulerInputQueueRequest L (traced X) v p req SchedulerRequestSourceRest (re_metrics s) (w, tr)")
        (auto simp: create_from_request_def Let_def split: sum.splits)
    then show ?thesis by (rule input_request_trace)
  qed
qed

definition api_routes :: "rest_handler list" where
  "api_routes = [CreateTaskRoute, GetTaskRoute, ListTasksRoute, RemoveTaskRoute]"

text \<open>Where the handlers are \<open>authorized\<close> with a continuation that only appends.\<close>

lemma get_guarded: "\<exists>k. GetTaskHandler L (traced X) authn r = authorized L (traced X) authn r k \<and> appends_out k"
  unfolding GetTaskHandler_def
proof (intro exI conjI, rule refl, rule appends_outI, goal_cases)
  case (1 s w tr s' w' tr')
  then show ?case
    using GetTask_appends [of L X "rq_task_id r" "rq_Query r ''device_id''" w tr]
    by (auto simp: Let_def split: if_splits prod.splits sum.splits)
qed

lemma list_guarded: "\<exists>k. ListTasksHandler L (traced X) authn r = authorized L (traced X) authn r k \<and> appends_out k"
  unfolding ListTasksHandler_def
proof (intro exI conjI, rule refl, rule appends_outI, goal_cases)
  case (1 s w tr s' w' tr')
  then show ?case
    using GetTasks_appends [of X "rq_Query r ''tenant_id''" "rq_Query r ''consignment_id''" "[]" 0 w tr]
    by (auto simp: Let_def logged_def split: if_splits prod.splits sum.splits)
qed

lemma remove_guarded: "\<exists>k. RemoveTaskHandler L (traced X) authn r = authorized L (traced X) authn r k \<and> appends_out k"
  unfolding RemoveTaskHandler_def
proof (intro exI conjI, rule refl, rule appends_outI, goal_cases)
  case (1 s w tr s' w' tr')
  then show ?case
    using RemoveTask_trace [of L X "rq_task_id r" "rq_Query r ''device_id''" w tr]
    by (auto simp: Let_def split: if_splits prod.splits option.splits)
qed

lemma create_guarded:
  "rq_ContentType r = contentTypeProtobuf \<Longrightarrow>
   \<exists>k. CreateTaskHandler L (traced X) v p authn r = authorized L (traced X) authn r k \<and> appends_out k"
proof -
  assume "rq_ContentType r = contentTypeProtobuf"
  then have "CreateTaskHandler L (traced X) v p authn r = authorized L (traced X) authn r (\<lambda>s w.
        case rq_Body r of
          Inl err \<Rightarrow> Ret (bad_create L reasonRequestParsingFailed s, w)
        | Inr reqBytes \<Rightarrow>
            (case lib_unmarshal_create_request L reqBytes of
               Inl err \<Rightarrow> Ret (bad_create L reasonProtobufUnmarshalFailed s, w)
             | Inr request \<Rightarrow> create_from_request L (traced X) v p request s w))"
    by (simp add: CreateTaskHandler_def fun_eq_iff)
  moreover have "appends_out (\<lambda>s w.
        case rq_Body r of
          Inl err \<Rightarrow> Ret (bad_create L reasonRequestParsingFailed s, w)
        | Inr reqBytes \<Rightarrow>
            (case lib_unmarshal_create_request L reqBytes of
               Inl err \<Rightarrow> Ret (bad_create L reasonProtobufUnmarshalFailed s, w)
             | Inr request \<Rightarrow> create_from_request L (traced X) v p request s w))"
    using create_appends
    by (cases "rq_Body r"; cases "lib_unmarshal_create_request L (projr (rq_Body r))")
      (simp_all add: appends_out_def)
  ultimately show ?thesis by blast
qed

section \<open>Properties\<close>

text \<open>
  C4: with authentication on, a handler of the API calls nothing before the bearer token of the
  request was verified, except what the check itself needs: signature checks, and the fetch of
  the signing keys from the token service for an unknown key identifier. Every other call comes
  after a successful signature check of exactly that token. Without one, a create request of the
  wrong media type calls nothing, is answered 415 and raises the counter of bad create requests
  by one; any other request is answered 401 and changes no metric.
\<close>

theorem rest_auth_gate:
  assumes "h \<in> set api_routes" and "rw_Sent (re_out s) = None"
    and "route_action L (traced X) v p True prometheus h r s (w, tr) = Ret (s', (w', tr'))"
  shows "\<exists>es. tr' = tr @ es \<and> verified_before (bearer r) es
    \<and> (EvVerify (bearer r) True \<notin> set es \<longrightarrow> list_all is_check es
         \<and> (if h = CreateTaskRoute \<and> rq_ContentType r \<noteq> contentTypeProtobuf
            then rw_status (re_out s') = 415 \<and> es = []
              \<and> re_metrics s' = Inc MetricCreateTaskBadRequests (re_metrics s)
            else rw_status (re_out s') = 401 \<and> re_metrics s' = re_metrics s))"
proof (cases "h = CreateTaskRoute \<and> rq_ContentType r \<noteq> contentTypeProtobuf")
  case True
  with assms show ?thesis
    by (auto simp: route_action_def CreateTaskHandler_def tally_def reply_def intro!: verified_before_checks)
next
  case False
  with assms(1,3) obtain k where "authorized L (traced X) True r k s (w, tr) = Ret (s', (w', tr'))"
    "appends_out k"
    using get_guarded [of L X True r] list_guarded [of L X True r] remove_guarded [of L X True r]
      create_guarded [of r L X v p True]
    by (auto simp: api_routes_def route_action_def)
  from authorized_trace [OF this] obtain es where es: "tr' = tr @ es" "verified_before (bearer r) es"
    "EvVerify (bearer r) True \<notin> set es \<longrightarrow> list_all is_check es
       \<and> (\<exists>d. s' = reply (sendUnauthorizedErrorResponse L reasonInvalidAppToken) (s\<lparr>re_dsts := d\<rparr>))" by blast
  then show ?thesis
    using assms(2) False by (intro exI [of _ es]) (auto simp: reply_def)
qed

definition sample_http :: http_request where
  "sample_http =
     \<lparr>rq_Path = ''/api/v1/tasks'', rq_ContentType = contentTypeProtobuf, rq_RequestID = ''r'',
      rq_Authorization = [], rq_Body = Inr ''m'', rq_task_id = sample_uuid,
      rq_Query = (\<lambda>_. sample_uuid)\<rparr>"

definition rest_start :: rest_state where
  "rest_start = \<lparr>re_dsts = zero_dsts, re_metrics = zero_metrics, re_out = new_writer\<rparr>"

lemma rest_auth_gate_witness:
  "\<exists>s' w' es. route_action sample_lib (traced idle_ext) (build_tables []) NewSqsProvider True
       (\<lambda>r s w. Ret (s, w)) RemoveTaskRoute sample_http rest_start ((), []) = Ret (s', (w', es))
     \<and> rw_status (re_out s') = 401 \<and> list_all is_check es"
proof -
  have run: "route_action sample_lib (traced idle_ext) (build_tables []) NewSqsProvider True
       (\<lambda>r s w. Ret (s, w)) RemoveTaskRoute sample_http rest_start ((), [])
    = Ret (reply (sendUnauthorizedErrorResponse sample_lib reasonInvalidAppToken) rest_start, ((), []))"
    by (simp add: route_action_def RemoveTaskHandler_def authorized_def isValidAppAccessToken_def
        sample_http_def rest_start_def)
  have "RemoveTaskRoute \<in> set api_routes" "rw_Sent (re_out rest_start) = None"
    by (simp_all add: api_routes_def rest_start_def)
  from rest_auth_gate [OF this run] run show ?thesis by (auto simp: sample_http_def)
qed

text \<open>
  C24: A create request that is authorized, readable and decodable is answered
  201 exactly when it is well formed, and 400 otherwise. What happens to its devices does not
  matter: 201 is the answer even if every task failed. (It is assumed that the cron parser
  returns on the text of a cron schedule.)
\<close>

theorem create_task_answers:
  assumes "rq_ContentType r = contentTypeProtobuf" "rw_Sent (re_out s) = None"
    and "isValidAppAccessToken L (traced X) authn r (re_dsts s) (w, tr) = ((None, d), (w1, tr1))"
    and "rq_Body r = Inr b" "lib_unmarshal_create_request L b = Inr req" "req_DeviceIds req \<noteq> Some []"
    and "parser_returns L (req_Schedule req)"
  shows "\<exists>s' wt. CreateTaskHandler L (traced X) v p authn r s (w, tr) = Ret (s', wt)
    \<and> rw_status (re_out s') = (if request_ok L v req SchedulerRequestSourceRest then 201 else 400)"
proof -
  let ?s = "s\<lparr>re_dsts := d\<rparr>"
  have h: "CreateTaskHandler L (traced X) v p authn r s (w, tr) = create_from_request L (traced X) v p req ?s (w1, tr1)"
    using assms by (simp add: CreateTaskHandler_def authorized_def)
  show ?thesis
  proof (cases "request_ok L v req SchedulerRequestSourceRest")
    case True
    then have "req_Payload req \<noteq> None" by (simp add: request_ok_def)
    moreover obtain resp m' wt where
      "handleSchedulerInputQueueRequest L (traced X) v p req SchedulerRequestSourceRest (re_metrics ?s) (w1, tr1)
         = Ret ((Inr resp, m'), wt)"
      using handler_trace [OF assms(6,7), of v SchedulerRequestSourceRest X p "re_metrics ?s" w1 tr1] True
      by auto
    moreover have "rw_status (re_out (answer L 201 (PayloadCreated resp) MetricCreateTaskResponses
        MetricCreateTaskInternalErrors (?s\<lparr>re_metrics := m'\<rparr>))) = 201"
      using assms(2)
      by (auto simp: answer_def tally_def reply_def sendJsonResponse_def sendInternalServerErrorResponse_def
          Let_def split: sum.splits)
    ultimately show ?thesis using h True by (auto simp: create_from_request_def Let_def)
  next
    case False
    then have "handleSchedulerInputQueueRequest L (traced X) v p req SchedulerRequestSourceRest (re_metrics ?s) (w1, tr1)
         = Ret ((Inl (SchedE ErrInvalidRequest), re_metrics ?s), (w1, tr1))"
      using handler_trace [OF assms(6,7), of v SchedulerRequestSourceRest X p "re_metrics ?s" w1 tr1] by simp
    with h False assms(2) show ?thesis
      by (auto simp: create_from_request_def is_bad_create_def same_error_def bad_create_def tally_def
          reply_def Let_def)
  qed
qed

lemma create_task_answers_witness:
  "\<exists>s' wt. CreateTaskHandler sample_lib (traced idle_ext) (build_tables sample_services) NewSqsProvider
       False sample_http rest_start ((), []) = Ret (s', wt) \<and> rw_status (re_out s') = 201"
proof -
  have tok: "isValidAppAccessToken sample_lib (traced idle_ext) False sample_http (re_dsts rest_start) ((), [])
      = ((None, re_dsts rest_start), ((), []))"
    by (simp add: isValidAppAccessToken_def)
  have "rq_ContentType sample_http = contentTypeProtobuf" "rw_Sent (re_out rest_start) = None"
    "rq_Body sample_http = Inr ''m''" "lib_unmarshal_create_request sample_lib ''m'' = Inr sample_request"
    "req_DeviceIds sample_request \<noteq> Some []"
    by (simp_all add: sample_http_def rest_start_def sample_request_def)
  from create_task_answers [OF this(1,2) tok this(3-5) sample_parser_returns, of "build_tables sample_services" NewSqsProvider]
    sample_request_ok show ?thesis by auto
qed

text \<open>The counters of a route, and the status that goes with each.\<close>

fun route_counters :: "rest_handler \<Rightarrow> (metric \<times> nat) list" where
  "route_counters GetTaskRoute =
     [(MetricGetTaskResponses, 200), (MetricGetTaskBadRequests, 400), (MetricGetTaskNotFoundErrors, 404),
      (MetricGetTaskInternalErrors, 500)]"
| "route_counters ListTasksRoute =
     [(MetricListTasksReponses, 200), (MetricListTasksBadRequests, 400), (MetricListTasksInternalErrors, 500)]"
| "route_counters RemoveTaskRoute =
     [(MetricRemoveTaskResponses, 200), (MetricRemoveTaskBadRequests, 400), (MetricRemoveTaskInternalErrors, 500)]"
| "route_counters _ = []"

definition counted_as :: "lib \<Rightarrow> rest_handler \<Rightarrow> rest_state \<Rightarrow> rest_state \<Rightarrow> bool" where
  "counted_as L h s s' \<longleftrightarrow>
     (\<exists>m code. (m, code) \<in> set (route_counters h) \<and> re_metrics s' = Inc m (re_metrics s)
        \<and> (rw_status (re_out s') = code
           \<or> (\<exists>t e. m = MetricGetTaskInternalErrors \<and> rw_status (re_out s') = 200
                 \<and> lib_json_encode L False (PayloadTask t) = Inl e)))"

lemma tally_reply [simp]:
  "re_metrics (tally m s) = Inc m (re_metrics s)" "re_out (tally m s) = re_out s"
  "re_metrics (reply f s) = re_metrics s" "re_out (reply f s) = f (re_out s)"
  by (simp_all add: tally_def reply_def)

lemma get_counted:
  assumes "rw_Sent (re_out s) = None"
    and "isValidAppAccessToken L X authn r (re_dsts s) w = ((None, d), w1)"
  shows "\<exists>s' w'. GetTaskHandler L X authn r s w = Ret (s', w') \<and> counted_as L GetTaskRoute s s'"
proof -
  have ok: "counted_as L GetTaskRoute s (answer L 200 (PayloadTask t) MetricGetTaskResponses
      MetricGetTaskInternalErrors (s\<lparr>re_dsts := d\<rparr>))" for t
    using assms(1)
    by (cases "lib_json_encode L False (PayloadTask t)")
      (auto simp: counted_as_def answer_def sendJsonResponse_def sendInternalServerErrorResponse_def Let_def)
  show ?thesis
  proof (cases "rq_task_id r = [] \<or> \<not> lib_uuid_Parse L (rq_Query r ''device_id'')")
    case True
    with assms show ?thesis
      by (auto simp: GetTaskHandler_def authorized_def counted_as_def bad_get_def Let_def)
  next
    case False
    obtain t w2 where g: "GetTaskByID L X (rq_task_id r) (rq_Query r ''device_id'') w1 = (t, w2)" by fastforce
    show ?thesis
    proof (cases t)
      case (Inl e)
      with False g assms show ?thesis
        by (auto simp: GetTaskHandler_def authorized_def counted_as_def bad_get_def Let_def)
    next
      case (Inr x)
      with False g assms(2) ok [of x] show ?thesis
        by (auto simp: GetTaskHandler_def authorized_def Let_def)
    qed
  qed
qed

lemma list_response_counted:
  "rw_Sent (re_out s) = None \<Longrightarrow> counted_as L ListTasksRoute s (list_response L cs n t (s\<lparr>re_dsts := d\<rparr>))"
  by (auto simp: counted_as_def list_response_def Let_def split: sum.splits)

lemma list_counted:
  assumes "rw_Sent (re_out s) = None"
    and "isValidAppAccessToken L X authn r (re_dsts s) w = ((None, d), w1)"
  shows "\<exists>s' w'. ListTasksHandler L X authn r s w = Ret (s', w') \<and> counted_as L ListTasksRoute s s'"
proof (cases "rq_Query r ''consignment_id'' = [] \<or> rq_Query r ''tenant_id'' = []")
  case True
  with assms show ?thesis
    by (auto simp: ListTasksHandler_def authorized_def counted_as_def bad_list_def Let_def)
next
  case False
  obtain t w2 where g: "GetTasksForConsignment X (rq_Query r ''tenant_id'') (rq_Query r ''consignment_id'') [] 0 w1
      = (t, w2)" by fastforce
  with False assms list_response_counted [OF assms(1)] show ?thesis
    by (cases t) (auto simp: ListTasksHandler_def authorized_def counted_as_def Let_def split: prod.splits)
qed

lemma remove_counted:
  assumes "rw_Sent (re_out s) = None"
    and "isValidAppAccessToken L X authn r (re_dsts s) w = ((None, d), w1)"
  shows "\<exists>s' w'. RemoveTaskHandler L X authn r s w = Ret (s', w') \<and> counted_as L RemoveTaskRoute s s'"
proof -
  obtain t w2 where "RemoveTask L X (rq_task_id r) (rq_Query r ''device_id'') w1 = (t, w2)" by fastforce
  with assms show ?thesis
    by (cases t) (auto simp: RemoveTaskHandler_def authorized_def counted_as_def bad_remove_def Let_def)
qed

text \<open>
  C25: An authorized request to get, list or remove tasks always returns an
  answer and raises exactly one counter of its route by one, the one that goes with the status
  answered. The exception is a task that cannot be encoded: the status is out already, so the
  client sees 200 while an internal error is counted.
\<close>

theorem requests_counted_once:
  assumes "h \<in> {GetTaskRoute, ListTasksRoute, RemoveTaskRoute}" and "rw_Sent (re_out s) = None"
    and "isValidAppAccessToken L X authn r (re_dsts s) w = ((None, d), w1)"
  shows "\<exists>s' w'. route_action L X v p authn prometheus h r s w = Ret (s', w') \<and> counted_as L h s s'"
  using assms(1) get_counted [OF assms(2,3)] list_counted [OF assms(2,3)] remove_counted [OF assms(2,3)]
  by (auto simp: route_action_def)

lemma requests_counted_once_witness:
  "\<exists>s' w'. route_action sample_lib idle_ext (build_tables []) NewSqsProvider False
      (\<lambda>r s w. Ret (s, w)) RemoveTaskRoute sample_http rest_start () = Ret (s', w')
    \<and> counted_as sample_lib RemoveTaskRoute rest_start s'"
  by (rule requests_counted_once) (simp_all add: isValidAppAccessToken_def rest_start_def)

text \<open>
  The wrapper gives every handler a request identifier (the client's, or a
  fresh one), raises the request counter by one after the handler and reports one latency sample
  under the path of the request. With debug logging, a request whose body cannot be read never
  reaches its handler: nothing is written, which the client sees as status 200.
\<close>

theorem wrapper_reports:
  assumes "commonRequestHandler X debug inner r s w = Ret (s', w')"
  shows "(\<exists>ms. mt_latency (re_metrics s') = mt_latency (re_metrics s) @ [(rq_Path r, ms)]
      \<and> debug \<and> rq_Path r \<noteq> ''/health'' \<and> (\<exists>e. rq_Body r = Inl e) \<and> re_out s' = re_out s
      \<and> mt_count (re_metrics s') = mt_count (re_metrics s))
    \<or> (\<exists>rid s1 w1 w2 ms. inner (r\<lparr>rq_RequestID := rid\<rparr>) s w1 = Ret (s1, w2)
        \<and> (rq_RequestID r = rid \<or> rq_RequestID r = [])
        \<and> re_out s' = re_out s1
        \<and> mt_count (re_metrics s') = (mt_count (re_metrics s1))(MetricRequestCount := Suc (mt_count (re_metrics s1) MetricRequestCount))
        \<and> mt_latency (re_metrics s') = mt_latency (re_metrics s1) @ [(rq_Path r, ms)])"
proof -
  obtain start w1 where 1: "x_now X w = (start, w1)" by fastforce
  obtain rid w2 where 2: "(if rq_RequestID r = [] then x_new_uuid X w1 else (rq_RequestID r, w1)) = (rid, w2)"
    by fastforce
  let ?logging = "debug \<and> rq_Path r \<noteq> ''/health''"
  show ?thesis
  proof (cases "?logging \<and> \<not> is_ok (rq_Body r)")
    case True
    with assms 1 2 show ?thesis
      by (auto simp: commonRequestHandler_def Let_def ReportLatencyMetric_def is_ok_def
          split: prod.splits sum.splits)
  next
    case False
    then obtain s1 w3 where 3: "inner (r\<lparr>rq_RequestID := rid\<rparr>) s w2 = Ret (s1, w3)"
      using assms 1 2
      by (cases "inner (r\<lparr>rq_RequestID := rid\<rparr>) s w2") (auto simp: commonRequestHandler_def Let_def)
    obtain t w4 where 4: "(if ?logging then x_now X w3 else (0, w3)) = (t, w4)" by fastforce
    obtain now w5 where 5: "x_now X w4 = (now, w5)" by fastforce
    have "s' = (tally MetricRequestCount s1)\<lparr>re_metrics := (Inc MetricRequestCount (re_metrics s1))
        \<lparr>mt_latency := mt_latency (Inc MetricRequestCount (re_metrics s1)) @ [(rq_Path r, milliseconds (now - start))]\<rparr>\<rparr>"
      using assms False 1 2 3 4 5
      by (auto simp: commonRequestHandler_def Let_def ReportLatencyMetric_def split: prod.splits if_splits)
    with 2 3 show ?thesis
      by (intro disjI2 exI [of _ rid] exI [of _ s1] exI [of _ w2] exI [of _ w3]
          exI [of _ "milliseconds (now - start)"])
        (auto simp: Inc_def split: if_splits)
  qed
qed

lemma wrapper_reports_witness:
  "\<exists>ms. mt_latency (re_metrics (fst (case commonRequestHandler idle_ext False (\<lambda>r s w. Ret (s, w)) sample_http
       rest_start () of Ret x \<Rightarrow> x | Panic _ \<Rightarrow> (rest_start, ()))))
     = mt_latency (re_metrics rest_start) @ [(rq_Path sample_http, ms)]"
proof -
  obtain s' w' where run: "commonRequestHandler idle_ext False (\<lambda>r s w. Ret (s, w)) sample_http rest_start ()
      = Ret (s', w')" by (cases "ReportLatencyMetric idle_ext 1000 (rq_Path sample_http)
      (Inc MetricRequestCount (re_metrics rest_start)) ()") (auto simp: commonRequestHandler_def Let_def)
  from wrapper_reports [OF run] run show ?thesis by auto
qed

end
