(* ===== verification/RestServer.thy ===== *)
theory RestServer
  imports GoErrors
begin

text \<open>
  The life of the REST server, \<open>service/rest/server.go\<close>: the goroutine of \<open>startServing\<close> and the
  main goroutine in \<open>awaitTermination\<close> meet at two channels. \<open>errChannel\<close> has no buffer, so the
  send and the receive are one step; \<open>stopChannel\<close> has room for one signal, and
  \<open>signal.Notify\<close> drops a signal that finds it full. \<open>newSchedRestService\<close> registers for signals
  before anything else is started.
\<close>

datatype serving_pc = Listening | Sending go_error | Sent go_error

datatype termination_cause = FatalError go_error | StopSignal

datatype await_pc = Starting | Awaiting | Returned termination_cause

record rest_server =
  ws_serving :: serving_pc
  ws_stopChannel :: nat
  ws_signals :: nat
  ws_await :: await_pc

definition stop_capacity :: nat where "stop_capacity = 1"

definition newSchedRestService :: rest_server where
  "newSchedRestService =
     \<lparr>ws_serving = Listening, ws_stopChannel = 0, ws_signals = 0, ws_await = Starting\<rparr>"

text \<open>\<open>http.ListenAndServe\<close> always returns an error, if it returns.\<close>

inductive startServing :: "rest_server \<Rightarrow> rest_server \<Rightarrow> bool" where
  serving_failed: "ws_serving s = Listening \<Longrightarrow> startServing s (s\<lparr>ws_serving := Sending err\<rparr>)"

inductive notify :: "rest_server \<Rightarrow> rest_server \<Rightarrow> bool" where
  signal_kept: "ws_stopChannel s < stop_capacity \<Longrightarrow>
     notify s (s\<lparr>ws_stopChannel := Suc (ws_stopChannel s), ws_signals := Suc (ws_signals s)\<rparr>)"
| signal_dropped: "\<not> ws_stopChannel s < stop_capacity \<Longrightarrow>
     notify s (s\<lparr>ws_signals := Suc (ws_signals s)\<rparr>)"

text \<open>The \<open>select\<close>: whichever channel is ready.\<close>

inductive awaitTermination :: "rest_server \<Rightarrow> rest_server \<Rightarrow> bool" where
  await_start: "ws_await s = Starting \<Longrightarrow> awaitTermination s (s\<lparr>ws_await := Awaiting\<rparr>)"
| await_error: "ws_await s = Awaiting \<Longrightarrow> ws_serving s = Sending err \<Longrightarrow>
     awaitTermination s (s\<lparr>ws_await := Returned (FatalError err), ws_serving := Sent err\<rparr>)"
| await_signal: "ws_await s = Awaiting \<Longrightarrow> 0 < ws_stopChannel s \<Longrightarrow>
     awaitTermination s (s\<lparr>ws_await := Returned StopSignal, ws_stopChannel := ws_stopChannel s - 1\<rparr>)"

definition server_step :: "rest_server \<Rightarrow> rest_server \<Rightarrow> bool" where
  "server_step s t \<longleftrightarrow> startServing s t \<or> notify s t \<or> awaitTermination s t"

inductive server_reachable :: "rest_server \<Rightarrow> bool" where
  server_start: "server_reachable newSchedRestService"
| server_moves: "server_reachable s \<Longrightarrow> server_step s t \<Longrightarrow> server_reachable t"

inductive_cases startServingE: "startServing s t"
inductive_cases notifyE: "notify s t"
inductive_cases awaitTerminationE: "awaitTermination s t"

section \<open>The invariant\<close>

text \<open>
  While nobody has taken a signal, the channel holds one exactly if one was delivered; an error
  is sent only to a waiting \<open>select\<close>.
\<close>

definition server_inv :: "rest_server \<Rightarrow> bool" where
  "server_inv s \<longleftrightarrow>
     (case ws_await s of
        Returned StopSignal \<Rightarrow> 0 < ws_signals s \<and> (\<nexists>e. ws_serving s = Sent e)
      | Returned (FatalError e) \<Rightarrow> ws_serving s = Sent e
      | _ \<Rightarrow> (0 < ws_stopChannel s \<longleftrightarrow> 0 < ws_signals s) \<and> (\<nexists>e. ws_serving s = Sent e))"

lemma server_step_inv:
  assumes "server_step s t" "server_inv s"
  shows "server_inv t"
  using assms unfolding server_step_def
  by (auto elim!: startServingE notifyE awaitTerminationE simp: server_inv_def stop_capacity_def
      split: await_pc.splits termination_cause.splits)

lemma server_reachable_inv: "server_reachable s \<Longrightarrow> server_inv s"
proof (induction rule: server_reachable.induct)
  case server_start
  show ?case by (simp add: server_inv_def newSchedRestService_def)
next
  case (server_moves s t)
  then show ?case by (blast intro: server_step_inv)
qed

text \<open>How many steps of the main goroutine are left until its \<open>select\<close>.\<close>

lemma await_returns:
  assumes "0 < ws_stopChannel s \<or> ws_serving s = Sending e" "ws_await s \<in> {Starting, Awaiting}"
  shows "\<exists>t cause. awaitTermination\<^sup>*\<^sup>* s t \<and> ws_await t = Returned cause"
proof -
  have awaiting: "\<exists>t cause. awaitTermination s t \<and> ws_await t = Returned cause"
    if "0 < ws_stopChannel s \<or> ws_serving s = Sending e" "ws_await s = Awaiting" for s
    using that await_error [of s e] await_signal [of s] by fastforce
  show ?thesis
  proof (cases "ws_await s = Awaiting")
    case True
    with awaiting assms(1) show ?thesis by blast
  next
    case False
    with assms(2) have "awaitTermination s (s\<lparr>ws_await := Awaiting\<rparr>)" by (intro await_start) simp
    moreover have "\<exists>t cause. awaitTermination (s\<lparr>ws_await := Awaiting\<rparr>) t \<and> ws_await t = Returned cause"
      by (rule awaiting) (use assms(1) in simp_all)
    ultimately show ?thesis by (meson converse_rtranclp_into_rtranclp r_into_rtranclp)
  qed
qed

text \<open>
  C18: no stop signal and no failure of the server is missed, however the
  goroutines interleave: in every reachable state in which a signal was delivered (even before
  the service waits for it, and however many more are dropped) or the server has failed, the
  main goroutine either has returned from \<open>rest.Init\<close> or can return by steps of its own. And it
  returns for no other reason.
\<close>

theorem termination_not_missed:
  assumes "server_reachable s"
  shows "(if 0 < ws_signals s \<or> ws_serving s \<noteq> Listening
          then \<exists>t cause. awaitTermination\<^sup>*\<^sup>* s t \<and> ws_await t = Returned cause
          else \<forall>cause. ws_await s \<noteq> Returned cause)"
proof -
  have inv: "server_inv s" using assms by (rule server_reachable_inv)
  show ?thesis
  proof (cases "ws_await s")
    case (Returned cause)
    then have "awaitTermination\<^sup>*\<^sup>* s s \<and> ws_await s = Returned cause" by simp
    moreover have "0 < ws_signals s \<or> ws_serving s \<noteq> Listening"
      using inv Returned by (cases cause) (simp_all add: server_inv_def)
    ultimately show ?thesis by auto
  next
    case Starting
    with inv await_returns [of s] show ?thesis
      by (cases "ws_serving s") (auto simp: server_inv_def)
  next
    case Awaiting
    with inv await_returns [of s] show ?thesis
      by (cases "ws_serving s") (auto simp: server_inv_def)
  qed
qed

lemma termination_not_missed_witness:
  "\<exists>t cause. awaitTermination\<^sup>*\<^sup>* (newSchedRestService\<lparr>ws_stopChannel := 1, ws_signals := 1\<rparr>) t
     \<and> ws_await t = Returned cause"
proof -
  have "notify newSchedRestService (newSchedRestService\<lparr>ws_stopChannel := 1, ws_signals := 1\<rparr>)"
    using signal_kept [of newSchedRestService] by (simp add: newSchedRestService_def stop_capacity_def)
  then have "server_reachable (newSchedRestService\<lparr>ws_stopChannel := 1, ws_signals := 1\<rparr>)"
    by (meson server_start server_moves server_step_def)
  from termination_not_missed [OF this] show ?thesis by simp
qed

end
