(* ===== verification/DeviceMessages.thy ===== *)
theory DeviceMessages
  imports Daemon Dsts
begin

text \<open>
  \<open>service/scheduler/device_message.go\<close> and \<open>task_response.go\<close>: the two functions that process a
  message of a device. Their state is the token client (its key table) and the queue provider
  (its URL cache). Each first validates the access token of the message.
\<close>

type_synonym device_state = "dsts_vars \<times> sqs_vars"

type_synonym 'w device_handler =
  "string \<Rightarrow> device_message \<Rightarrow> device_state \<Rightarrow> 'w \<Rightarrow> (go_error option \<times> device_state) \<times> 'w"

definition configMessageType :: string where "configMessageType = ''CFG.E''"

section \<open>Messages to a service\<close>

definition sendConfigEventMessageToDcm ::
  "lib \<Rightarrow> 'w ext \<Rightarrow> sqs_vars \<Rightarrow> string \<Rightarrow> string \<Rightarrow> string \<Rightarrow> bytes option \<Rightarrow> 'w
     \<Rightarrow> go_error option \<times> 'w" where
  "sendConfigEventMessageToDcm L X p tenantID deviceID ms payload w =
     (case lib_json_dcm_event L
             \<lparr>dcm_TenantID = tenantID, dcm_DeviceID = deviceID, dcm_MgmtService = ms,
              dcm_Payload = (case payload of None \<Rightarrow> [] | Some b \<Rightarrow> b)\<rparr> of
        Inl e \<Rightarrow> (Some e, w)
      | Inr jsonPayload \<Rightarrow> SendDcmInputQueueMessage X p (b64_encode jsonPayload) w)"

definition device_event_of :: "token_claims \<Rightarrow> device_message \<Rightarrow> device_event" where
  "device_event_of claims message =
     \<lparr>de_Version = 1, de_ServiceId = tc_ManagementService claims, de_DeviceId = tc_Subject claims,
      de_TenantId = tc_TenantID claims, de_TaskId = dm_TaskId message, de_ConsignmentId = [],
      de_TaskStatus = [], de_MessageId = dm_MessageId message,
      de_MessageType = dm_MessageType message, de_Payload = dm_Payload message\<rparr>"

text \<open>The part of \<open>handleDeviceToServiceMessage\<close> after the token was accepted.\<close>

definition deliver_device_message ::
  "lib \<Rightarrow> 'w ext \<Rightarrow> db_vars \<Rightarrow> string \<Rightarrow> device_message \<Rightarrow> sqs_vars \<Rightarrow> token_claims \<Rightarrow> 'w
     \<Rightarrow> (go_error option \<times> sqs_vars) \<times> 'w" where
  "deliver_device_message L X v mqttTopic message p claims w =
     (let queueTopic = GetServiceQueueTopic v (tc_ManagementService claims) mqttTopic
      in if queueTopic = [] then ((Some (SchedE ErrInvalidMessageType), p), w)
         else case lib_marshal_device_event L (device_event_of claims message) of
                Inl e \<Rightarrow> ((Some e, p), w)
              | Inr payload \<Rightarrow>
                  (case SendMessage X v (tc_ManagementService claims) queueTopic (b64_encode payload) p w of
                     ((Some e, p1), w1) \<Rightarrow> ((Some e, p1), w1)
                   | ((None, p1), w1) \<Rightarrow>
                       if dm_MessageType message = configMessageType then
                         (case sendConfigEventMessageToDcm L X p1 (tc_TenantID claims) (tc_Subject claims)
                                 (tc_ManagementService claims) (dm_Payload message) w1 of
                            (err, w2) \<Rightarrow> ((err, p1), w2))
                       else ((None, p1), w1)))"

definition handleDeviceToServiceMessage :: "lib \<Rightarrow> 'w ext \<Rightarrow> db_vars \<Rightarrow> 'w device_handler" where
  "handleDeviceToServiceMessage L X v mqttTopic message s w =
     (case s of (d, p) \<Rightarrow>
        (case ValidateDeviceAccessToken L X (dm_AccessToken message) d w of
           ((Inl e, d1), w1) \<Rightarrow> ((Some e, (d1, p)), w1)
         | ((Inr claims, d1), w1) \<Rightarrow>
             (case deliver_device_message L X v mqttTopic message p claims w1 of
                ((err, p1), w2) \<Rightarrow> ((err, (d1, p1)), w2))))"

section \<open>Responses to tasks\<close>

text \<open>The status that a response asks for; \<open>None\<close> for a text that is not a status.\<close>

definition response_status :: "lib \<Rightarrow> device_message \<Rightarrow> task_status option" where
  "response_status L message =
     (let s = to_lower (lib_unicode_lower L) (dm_TaskStatus message)
      in if s = ''complete'' \<or> s = ''success'' then Some TaskStatusCompleted
         else if s = ''failed'' \<or> s = ''error'' then Some TaskStatusFailed
         else None)"

definition update_response_status ::
  "lib \<Rightarrow> 'w ext \<Rightarrow> task_status \<Rightarrow> task \<Rightarrow> 'w \<Rightarrow> go_error option \<times> 'w" where
  "update_response_status L X status foundTask =
     (if status = TaskStatusCompleted then MarkTaskComplete L X foundTask
      else MarkTaskFailed L X foundTask)"

definition task_event_of :: "token_claims \<Rightarrow> task \<Rightarrow> device_message \<Rightarrow> device_event" where
  "task_event_of claims foundTask message =
     (device_event_of claims message)\<lparr>de_ConsignmentId := tk_ConsignmentID foundTask,
        de_TaskStatus := dm_TaskStatus message\<rparr>"

text \<open>
  The part after the status was written. An error of the status update is only logged.
\<close>

definition deliver_task_response ::
  "lib \<Rightarrow> 'w ext \<Rightarrow> db_vars \<Rightarrow> string \<Rightarrow> device_message \<Rightarrow> sqs_vars \<Rightarrow> token_claims \<Rightarrow> task \<Rightarrow> 'w
     \<Rightarrow> (go_error option \<times> sqs_vars) \<times> 'w" where
  "deliver_task_response L X v mqttTopic message p claims foundTask w =
     (let queueTopic = GetServiceQueueTopic v (tk_ServiceID foundTask) mqttTopic
      in if queueTopic = [] then ((Some (SchedE ErrInvalidMessageType), p), w)
         else case lib_marshal_device_event L (task_event_of claims foundTask message) of
                Inl e \<Rightarrow> ((Some e, p), w)
              | Inr payload \<Rightarrow>
                  SendMessage X v (tc_ManagementService claims) queueTopic (b64_encode payload) p w)"

definition respond_to_task ::
  "lib \<Rightarrow> 'w ext \<Rightarrow> db_vars \<Rightarrow> string \<Rightarrow> device_message \<Rightarrow> sqs_vars \<Rightarrow> token_claims \<Rightarrow> 'w
     \<Rightarrow> (go_error option \<times> sqs_vars) \<times> 'w" where
  "respond_to_task L X v mqttTopic message p claims w =
     (case GetTaskByID L X (dm_TaskId message) (tc_Subject claims) w of
        (Inl e, w1) \<Rightarrow> ((Some e, p), w1)
      | (Inr foundTask, w1) \<Rightarrow>
          if tk_ServiceID foundTask \<noteq> tc_ManagementService claims
          then ((Some (SchedE ErrInvalidServiceID), p), w1)
          else if tk_TenantID foundTask \<noteq> tc_TenantID claims
          then ((Some (SchedE ErrInvalidTenantID), p), w1)
          else (case response_status L message of
                  None \<Rightarrow> ((Some (SchedE ErrInvalidRequest), p), w1)
                | Some status \<Rightarrow>
                    (case update_response_status L X status foundTask w1 of
                       (_, w2) \<Rightarrow> deliver_task_response L X v mqttTopic message p claims foundTask w2)))"

definition handleTaskResponseMessage :: "lib \<Rightarrow> 'w ext \<Rightarrow> db_vars \<Rightarrow> 'w device_handler" where
  "handleTaskResponseMessage L X v mqttTopic message s w =
     (case s of (d, p) \<Rightarrow>
        (case ValidateDeviceAccessToken L X (dm_AccessToken message) d w of
           ((Inl e, d1), w1) \<Rightarrow> ((Some e, (d1, p)), w1)
         | ((Inr claims, d1), w1) \<Rightarrow>
             (case respond_to_task L X v mqttTopic message p claims w1 of
                ((err, p1), w2) \<Rightarrow> ((err, (d1, p1)), w2))))"

section \<open>Facts\<close>

lemma handlers_guarded:
  "handleDeviceToServiceMessage L X v topic msg (d, p) =
     with_claims (ValidateDeviceAccessToken L X) (\<lambda>e d1. (Some e, (d1, p)))
       (\<lambda>claims d1 w1. case deliver_device_message L X v topic msg p claims w1 of
          ((err, p1), w2) \<Rightarrow> ((err, (d1, p1)), w2)) (dm_AccessToken msg) d"
  "handleTaskResponseMessage L X v topic msg (d, p) =
     with_claims (ValidateDeviceAccessToken L X) (\<lambda>e d1. (Some e, (d1, p)))
       (\<lambda>claims d1 w1. case respond_to_task L X v topic msg p claims w1 of
          ((err, p1), w2) \<Rightarrow> ((err, (d1, p1)), w2)) (dm_AccessToken msg) d"
  by (simp_all add: fun_eq_iff with_claims_def handleDeviceToServiceMessage_def
      handleTaskResponseMessage_def)

section \<open>What an accepted message does\<close>

text \<open>
  The delivery of an event to the service \<open>sid\<close>: it needs a queue that the service registered for
  the topic; the encoded event is then sent as \<open>service_sent\<close> says, to the URL of that queue.
\<close>

inductive event_sent :: "lib \<Rightarrow> db_vars \<Rightarrow> sqs_vars \<Rightarrow> string \<Rightarrow> string \<Rightarrow> device_event \<Rightarrow> event list
    \<Rightarrow> go_error option \<Rightarrow> sqs_vars \<Rightarrow> bool" for L v p sid topic ev where
  unrouted: "GetServiceQueueTopic v sid topic = [] \<Longrightarrow>
    event_sent L v p sid topic ev [] (Some (SchedE ErrInvalidMessageType)) p"
| not_encoded: "GetServiceQueueTopic v sid topic \<noteq> [] \<Longrightarrow> lib_marshal_device_event L ev = Inl e \<Longrightarrow>
    event_sent L v p sid topic ev [] (Some e) p"
| attempted: "GetServiceQueueTopic v sid topic = q \<Longrightarrow> q \<noteq> [] \<Longrightarrow> lib_marshal_device_event L ev = Inr payload \<Longrightarrow>
    service_sent v sid q (b64_encode payload) p es r p' \<Longrightarrow> event_sent L v p sid topic ev es r p'"

text \<open>
  A device message: its event goes to the claimed service; if that was sent and the message is a
  configuration event, a second message, for the DCM queue, follows.
\<close>

definition dcm_event_of :: "token_claims \<Rightarrow> device_message \<Rightarrow> dcm_event" where
  "dcm_event_of claims message =
     \<lparr>dcm_TenantID = tc_TenantID claims, dcm_DeviceID = tc_Subject claims,
      dcm_MgmtService = tc_ManagementService claims,
      dcm_Payload = (case dm_Payload message of None \<Rightarrow> [] | Some b \<Rightarrow> b)\<rparr>"

inductive message_run :: "lib \<Rightarrow> db_vars \<Rightarrow> sqs_vars \<Rightarrow> string \<Rightarrow> device_message \<Rightarrow> token_claims
    \<Rightarrow> event list \<Rightarrow> go_error option \<Rightarrow> sqs_vars \<Rightarrow> bool" for L v p topic msg c where
  not_sent: "event_sent L v p (tc_ManagementService c) topic (device_event_of c msg) es (Some e) p' \<Longrightarrow>
    message_run L v p topic msg c es (Some e) p'"
| service_only: "event_sent L v p (tc_ManagementService c) topic (device_event_of c msg) es None p' \<Longrightarrow>
    dm_MessageType msg \<noteq> configMessageType \<Longrightarrow> message_run L v p topic msg c es None p'"
| dcm_not_encoded: "event_sent L v p (tc_ManagementService c) topic (device_event_of c msg) es None p' \<Longrightarrow>
    dm_MessageType msg = configMessageType \<Longrightarrow> lib_json_dcm_event L (dcm_event_of c msg) = Inl e \<Longrightarrow>
    message_run L v p topic msg c es (Some e) p'"
| dcm_attempted: "event_sent L v p (tc_ManagementService c) topic (device_event_of c msg) es None p' \<Longrightarrow>
    dm_MessageType msg = configMessageType \<Longrightarrow> lib_json_dcm_event L (dcm_event_of c msg) = Inr json \<Longrightarrow>
    message_run L v p topic msg c (es @ [EvSend (dcmInputQueueUrl p) (b64_encode json) (r = None)]) r p'"

lemma event_attempt:
  assumes "GetServiceQueueTopic v sid topic = q" "q \<noteq> []" "lib_marshal_device_event L ev = Inr payload"
  shows "\<exists>r p' w' es. SendMessage (traced X) v sid q (b64_encode payload) p (w, tr) = ((r, p'), (w', tr @ es))
    \<and> event_sent L v p sid topic ev es r p'"
proof -
  obtain r p' w' es where "SendMessage (traced X) v sid q (b64_encode payload) p (w, tr) = ((r, p'), (w', tr @ es))"
    "service_sent v sid q (b64_encode payload) p es r p'"
    using SendMessage_trace [of X v sid q "b64_encode payload" p w tr] by (elim exE conjE) (rule that)
  with assms show ?thesis by (auto intro: event_sent.attempted)
qed

lemma service_sent_dcm: "service_sent v sid q m p es r p' \<Longrightarrow> dcmInputQueueUrl p' = dcmInputQueueUrl p"
  by (auto simp: service_sent_def split: option.splits)

lemma event_sent_dcm: "event_sent L v p sid topic ev es r p' \<Longrightarrow> dcmInputQueueUrl p' = dcmInputQueueUrl p"
  by (cases rule: event_sent.cases) (auto dest: service_sent_dcm)

lemma dcm_trace:
  "sendConfigEventMessageToDcm L (traced X) p (tc_TenantID c) (tc_Subject c) (tc_ManagementService c)
      (dm_Payload msg) (w, tr) =
    (case lib_json_dcm_event L (dcm_event_of c msg) of
       Inl e \<Rightarrow> (Some e, (w, tr))
     | Inr json \<Rightarrow> (case x_sqs_send X (dcmInputQueueUrl p) (b64_encode json) w of
         (Inl e, w1) \<Rightarrow> (Some e, (w1, tr @ [EvSend (dcmInputQueueUrl p) (b64_encode json) False]))
       | (Inr _, w1) \<Rightarrow> (None, (w1, tr @ [EvSend (dcmInputQueueUrl p) (b64_encode json) True]))))"
  by (simp add: sendConfigEventMessageToDcm_def SendDcmInputQueueMessage_def send_to_trace dcm_event_of_def
      split: sum.splits)

lemma deliver_trace:
  "\<exists>r p' w' es. deliver_device_message L (traced X) v topic msg p c (w, tr) = ((r, p'), (w', tr @ es))
     \<and> message_run L v p topic msg c es r p'"
proof -
  let ?sid = "tc_ManagementService c" and ?ev = "device_event_of c msg"
  let ?q = "GetServiceQueueTopic v ?sid topic"
  show ?thesis
  proof (cases "?q = [] \<or> (\<exists>e. lib_marshal_device_event L ?ev = Inl e)")
    case True
    then show ?thesis
      by (auto simp: deliver_device_message_def Let_def split: sum.splits
          intro: message_run.not_sent event_sent.unrouted event_sent.not_encoded)
  next
    case False
    then obtain payload where q: "?q \<noteq> []" and pl: "lib_marshal_device_event L ?ev = Inr payload"
      by (cases "lib_marshal_device_event L ?ev") auto
    obtain r1 p1 w1 es1 where
      s: "SendMessage (traced X) v ?sid ?q (b64_encode payload) p (w, tr) = ((r1, p1), (w1, tr @ es1))"
      and e1: "event_sent L v p ?sid topic ?ev es1 r1 p1"
      using event_attempt [OF refl q pl, of X p w tr] by (elim exE conjE) (rule that)
    have dcm: "dcmInputQueueUrl p1 = dcmInputQueueUrl p" using e1 by (rule event_sent_dcm)
    show ?thesis
    proof (cases "r1 = None \<and> dm_MessageType msg = configMessageType")
      case False
      with q pl s e1 show ?thesis
        by (cases r1) (auto simp: deliver_device_message_def Let_def intro: message_run.intros)
    next
      case True
      show ?thesis
      proof (cases "lib_json_dcm_event L (dcm_event_of c msg)")
        case (Inl e)
        with True q pl s e1 show ?thesis
          by (auto simp: deliver_device_message_def Let_def dcm_trace intro: message_run.dcm_not_encoded)
      next
        case (Inr json)
        obtain a w2 where a: "x_sqs_send X (dcmInputQueueUrl p) (b64_encode json) w1 = (a, w2)" by fastforce
        have m: "message_run L v p topic msg c
            (es1 @ [EvSend (dcmInputQueueUrl p) (b64_encode json) (r = None)]) r p1" for r
          using e1 True Inr by (auto intro: message_run.dcm_attempted)
        show ?thesis using True Inr q pl s a dcm m [of None] m [of "Some (projl a)"]
          by (cases a) (auto simp: deliver_device_message_def Let_def dcm_trace)
      qed
    qed
  qed
qed

section \<open>What a task response does\<close>

definition task_update :: "lib \<Rightarrow> task \<Rightarrow> task_status \<Rightarrow> cql" where
  "task_update L t st = CqlText update_task_text
     [status_String st, lib_uuid_String L (tk_DeviceID t), lib_uuid_String L (tk_TaskID t)]"

definition consignment_update :: "lib \<Rightarrow> task \<Rightarrow> task_status \<Rightarrow> cql" where
  "consignment_update L t st = CqlText update_consignment_text
     [status_String st, tk_TenantID t, tk_ConsignmentID t, lib_uuid_String L (tk_TaskID t)]"

definition response_query :: "token_claims \<Rightarrow> device_message \<Rightarrow> cond list" where
  "response_query claims msg = [EqLit ''device_id'' (tc_Subject claims), EqLit ''task_id'' (dm_TaskId msg)]"

definition status_written :: "lib \<Rightarrow> task \<Rightarrow> task_status \<Rightarrow> event list \<Rightarrow> bool" where
  "status_written L t st es \<longleftrightarrow> es = [EvExec (task_update L t st) False]
     \<or> (\<exists>ok. es = [EvExec (task_update L t st) True, EvExec (consignment_update L t st) ok])"

text \<open>
  A response looks its task up among those of the verified device. Only for a task of the
  verified service and tenant, and with a known status, it writes that status to the task and
  then to its consignment, and then sends the event to the service; a failure of the writes is
  not an error.
\<close>

inductive response_run :: "lib \<Rightarrow> db_vars \<Rightarrow> sqs_vars \<Rightarrow> string \<Rightarrow> device_message \<Rightarrow> token_claims
    \<Rightarrow> event list \<Rightarrow> go_error option \<Rightarrow> sqs_vars \<Rightarrow> bool" for L v p topic msg c where
  refused: "\<not> lib_uuid_Parse L (tc_Subject c) \<or> dm_TaskId msg = [] \<Longrightarrow>
    response_run L v p topic msg c [] (Some (DbE DbErrInvalidRequest)) p"
| not_read: "response_run L v p topic msg c [EvSelectTasks (response_query c msg) (Inl e)] (Some e) p"
| not_found: "response_run L v p topic msg c [EvSelectTasks (response_query c msg) (Inr [])]
    (Some (DbE ErrNotFound)) p"
| other_service: "tk_ServiceID t \<noteq> tc_ManagementService c \<Longrightarrow>
    response_run L v p topic msg c [EvSelectTasks (response_query c msg) (Inr (t # ts))]
      (Some (SchedE ErrInvalidServiceID)) p"
| other_tenant: "tk_ServiceID t = tc_ManagementService c \<Longrightarrow> tk_TenantID t \<noteq> tc_TenantID c \<Longrightarrow>
    response_run L v p topic msg c [EvSelectTasks (response_query c msg) (Inr (t # ts))]
      (Some (SchedE ErrInvalidTenantID)) p"
| unknown_status: "tk_ServiceID t = tc_ManagementService c \<Longrightarrow> tk_TenantID t = tc_TenantID c \<Longrightarrow>
    response_status L msg = None \<Longrightarrow>
    response_run L v p topic msg c [EvSelectTasks (response_query c msg) (Inr (t # ts))]
      (Some (SchedE ErrInvalidRequest)) p"
| answered: "tk_ServiceID t = tc_ManagementService c \<Longrightarrow> tk_TenantID t = tc_TenantID c \<Longrightarrow>
    response_status L msg = Some st \<Longrightarrow> status_written L t st us \<Longrightarrow>
    event_sent L v p (tc_ManagementService c) topic (task_event_of c t msg) ss r p' \<Longrightarrow>
    response_run L v p topic msg c (EvSelectTasks (response_query c msg) (Inr (t # ts)) # us @ ss) r p'"

lemma response_status_cases:
  "response_status L msg = Some st \<Longrightarrow> st = TaskStatusCompleted \<or> st = TaskStatusFailed"
  by (auto simp: response_status_def Let_def split: if_splits)

lemma update_trace:
  assumes "response_status L msg = Some st"
  shows "\<exists>r w' es. update_response_status L (traced X) st t (w, tr) = (r, (w', tr @ es))
     \<and> status_written L t st es"
proof -
  obtain r1 w1 where 1: "x_exec X (task_update L t st) w = (r1, w1)" by fastforce
  obtain r2 w2 where 2: "x_exec X (consignment_update L t st) w1 = (r2, w2)" by fastforce
  have eq: "update_response_status L (traced X) st t =
      UpdateTaskStatus (traced X) (lib_uuid_String L (tk_TaskID t)) (lib_uuid_String L (tk_DeviceID t))
        (tk_TenantID t) (tk_ConsignmentID t) st"
    using response_status_cases [OF assms]
    by (auto simp: update_response_status_def MarkTaskComplete_def MarkTaskFailed_def status_defs)
  show ?thesis
    using 1 2 by (cases r1; cases r2)
      (auto simp: eq UpdateTaskStatus_def setTaskStatus_def logged_pair task_update_def status_written_def
          UpdateConsignmentTaskStatus_def consignment_update_def)
qed

lemma deliver_response_trace:
  assumes "tk_ServiceID t = tc_ManagementService c"
  shows "\<exists>r p' w' es. deliver_task_response L (traced X) v topic msg p c t (w, tr) = ((r, p'), (w', tr @ es))
     \<and> event_sent L v p (tc_ManagementService c) topic (task_event_of c t msg) es r p'"
proof -
  let ?sid = "tc_ManagementService c" and ?ev = "task_event_of c t msg"
  let ?q = "GetServiceQueueTopic v ?sid topic"
  show ?thesis
  proof (cases "?q = [] \<or> (\<exists>e. lib_marshal_device_event L ?ev = Inl e)")
    case True
    then show ?thesis using assms
      by (auto simp: deliver_task_response_def Let_def split: sum.splits
          intro: event_sent.unrouted event_sent.not_encoded)
  next
    case False
    then obtain payload where q: "?q \<noteq> []" and pl: "lib_marshal_device_event L ?ev = Inr payload"
      by (cases "lib_marshal_device_event L ?ev") auto
    obtain r1 p1 w1 es1 where
      "SendMessage (traced X) v ?sid ?q (b64_encode payload) p (w, tr) = ((r1, p1), (w1, tr @ es1))"
      "event_sent L v p ?sid topic ?ev es1 r1 p1"
      using event_attempt [OF refl q pl, of X p w tr] by (elim exE conjE) (rule that)
    with q pl assms show ?thesis by (auto simp: deliver_task_response_def Let_def)
  qed
qed

text \<open>The branch in which the task was found and is the device's to answer.\<close>

lemma respond_found_trace:
  assumes g: "GetTaskByID L (traced X) (dm_TaskId msg) (tc_Subject c) (w, tr)
      = (Inr t, (w1, tr @ [EvSelectTasks (response_query c msg) (Inr (t # ts))]))"
    and t: "tk_ServiceID t = tc_ManagementService c" "tk_TenantID t = tc_TenantID c"
      "response_status L msg = Some st"
  shows "\<exists>r p' w' es. respond_to_task L (traced X) v topic msg p c (w, tr) = ((r, p'), (w', tr @ es))
     \<and> response_run L v p topic msg c es r p'"
proof -
  let ?q = "EvSelectTasks (response_query c msg) (Inr (t # ts))"
  obtain r2 w2 us where u: "update_response_status L (traced X) st t (w1, tr @ [?q]) = (r2, (w2, (tr @ [?q]) @ us))"
    "status_written L t st us"
    using update_trace [OF t(3), of X t w1 "tr @ [?q]"] by (elim exE conjE) (rule that)
  obtain r3 p3 w3 ss where d: "deliver_task_response L (traced X) v topic msg p c t (w2, (tr @ [?q]) @ us)
      = ((r3, p3), (w3, ((tr @ [?q]) @ us) @ ss))"
    "event_sent L v p (tc_ManagementService c) topic (task_event_of c t msg) ss r3 p3"
    using deliver_response_trace [OF t(1), of L X v topic msg p w2 "(tr @ [?q]) @ us"]
    by (elim exE conjE) (rule that)
  have "respond_to_task L (traced X) v topic msg p c (w, tr) = ((r3, p3), (w3, tr @ (?q # us @ ss)))"
    using g t u(1) d(1) by (simp add: respond_to_task_def)
  with response_run.answered [OF t u(2) d(2)] show ?thesis by blast
qed

lemma respond_trace:
  "\<exists>r p' w' es. respond_to_task L (traced X) v topic msg p c (w, tr) = ((r, p'), (w', tr @ es))
     \<and> response_run L v p topic msg c es r p'"
proof (cases "lib_uuid_Parse L (tc_Subject c) \<and> dm_TaskId msg \<noteq> []")
  case False
  then show ?thesis by (auto simp: respond_to_task_def GetTaskByID_trace intro: response_run.refused)
next
  case True
  let ?cs = "response_query c msg"
  obtain a w1 where s: "x_select_tasks X (md_Name taskMetadata) ?cs w = (a, w1)" by fastforce
  have g: "GetTaskByID L (traced X) (dm_TaskId msg) (tc_Subject c) (w, tr) =
      (case a of Inl e \<Rightarrow> Inl e | Inr [] \<Rightarrow> Inl (DbE ErrNotFound) | Inr (t # _) \<Rightarrow> Inr t,
       (w1, tr @ [EvSelectTasks ?cs a]))"
    using True s by (simp add: GetTaskByID_trace response_query_def Let_def)
  show ?thesis
  proof (cases "\<exists>t ts. a = Inr (t # ts)")
    case False
    then show ?thesis using g
      by (cases a; cases "projr a")
        (auto simp: respond_to_task_def intro: response_run.not_read response_run.not_found)
  next
    case True
    then obtain t ts where t: "a = Inr (t # ts)" by blast
    show ?thesis
    proof (cases "tk_ServiceID t = tc_ManagementService c \<and> tk_TenantID t = tc_TenantID c
        \<and> response_status L msg \<noteq> None")
      case False
      have "response_run L v p topic msg c [EvSelectTasks ?cs (Inr (t # ts))]
         (Some (if tk_ServiceID t \<noteq> tc_ManagementService c then SchedE ErrInvalidServiceID
          else if tk_TenantID t \<noteq> tc_TenantID c then SchedE ErrInvalidTenantID
          else SchedE ErrInvalidRequest)) p"
        using False by (auto intro: response_run.other_service response_run.other_tenant response_run.unknown_status)
      with False g t show ?thesis by (auto simp: respond_to_task_def split: if_splits)
    next
      case True
      then obtain st where "tk_ServiceID t = tc_ManagementService c" "tk_TenantID t = tc_TenantID c"
        "response_status L msg = Some st" by blast
      moreover have "GetTaskByID L (traced X) (dm_TaskId msg) (tc_Subject c) (w, tr)
        = (Inr t, (w1, tr @ [EvSelectTasks ?cs (Inr (t # ts))]))" using g t by simp
      ultimately show ?thesis by (intro respond_found_trace)
    qed
  qed
qed

lemma deliver_appends: "appends (deliver_device_message L (traced X) v topic msg p claims)"
proof (rule emitsI)
  fix w tr
  from deliver_trace [of L X v topic msg p claims w tr] show
    "\<exists>es. snd (snd (deliver_device_message L (traced X) v topic msg p claims (w, tr))) = tr @ es \<and> True"
    by auto
qed

lemma respond_appends: "appends (respond_to_task L (traced X) v topic msg p claims)"
proof (rule emitsI)
  fix w tr
  from respond_trace [of L X v topic msg p claims w tr] show
    "\<exists>es. snd (snd (respond_to_task L (traced X) v topic msg p claims (w, tr))) = tr @ es \<and> True"
    by auto
qed

lemma appends_map: "appends f \<Longrightarrow> appends (\<lambda>s. case f s of ((a, b), s') \<Rightarrow> (g a b, s'))"
  unfolding emits_def by (auto split: prod.splits) (metis snd_conv)

section \<open>Properties\<close>

text \<open>
  C3: neither handler touches the database or a queue before the access token of the message was
  found valid: every call other than a signature check, and the fetch of the signing keys from
  the token service that an unknown key identifier causes, comes after a successful signature
  check of exactly that token.
\<close>

theorem device_handlers_authenticated:
  "emits (\<lambda>es r. verified_before (dm_AccessToken msg) es)
     (handleDeviceToServiceMessage L (traced X) v topic msg (d, p))
   \<and> emits (\<lambda>es r. verified_before (dm_AccessToken msg) es)
     (handleTaskResponseMessage L (traced X) v topic msg (d, p))"
  unfolding handlers_guarded
  by (intro conjI device_auth.guarded appends_map deliver_appends respond_appends)

definition accepted_claims :: "lib \<Rightarrow> string \<Rightarrow> event list \<Rightarrow> token_claims \<Rightarrow> bool" where
  "accepted_claims L tok checks c \<longleftrightarrow> EvVerify tok True \<in> set checks
     \<and> (\<exists>t. lib_jwt_decode L tok = Inr t \<and> c = jt_claims t) \<and> tc_TokenType c = tokenTypeDevice"

lemma validate_trace:
  "\<exists>r d' w' checks. ValidateDeviceAccessToken L (traced X) tok d (w, tr) = ((r, d'), (w', tr @ checks))
     \<and> list_all is_check checks \<and> (\<forall>c. r = Inr c \<longrightarrow> accepted_claims L tok checks c)"
proof -
  obtain r d' w' tr' where v: "ValidateDeviceAccessToken L (traced X) tok d (w, tr) = ((r, d'), (w', tr'))"
    by (metis surj_pair)
  from device_claims_log v obtain es where "tr' = tr @ es" "auth_log tok es (r, d')" by (rule emitsE)
  moreover have "\<exists>t. lib_jwt_decode L tok = Inr t \<and> c = jt_claims t \<and> tc_TokenType c = tokenTypeDevice"
    if "r = Inr c" for c
    using ValidateDevice_ok [of L "traced X" tok d "(w, tr)" c d' "(w', tr')"] v that by blast
  ultimately show ?thesis using v by (fastforce simp: auth_log_def accepted_claims_def)
qed

text \<open>
  C9: every effect of a task response. Only signature checks and key fetches come before the
  token is accepted, and if it is not, the handler ends with its error. With the claims of the
  verified device token (\<open>response_run\<close>): the task is looked up for the device of the token; an
  answer of the database without a task, a task of another service or tenant and an unknown
  status end in their errors without any write; otherwise the status is written to that task and
  then to its consignment, and the event is sent to the queue that the service registered for the
  topic: to the URL known for it, or else the one answered by a look-up with the service's owner
  account. The result is that of the send, so a success means that the event was sent.
\<close>

theorem task_response_effects:
  "case ValidateDeviceAccessToken L (traced X) (dm_AccessToken msg) d (w, tr) of
     ((Inl e, d'), (w1, tr1)) \<Rightarrow> \<exists>checks. tr1 = tr @ checks \<and> list_all is_check checks
       \<and> handleTaskResponseMessage L (traced X) v topic msg (d, p) (w, tr) = ((Some e, (d', p)), (w1, tr1))
   | ((Inr c, d'), (w1, tr1)) \<Rightarrow> \<exists>checks r p' w' body. tr1 = tr @ checks \<and> list_all is_check checks
       \<and> accepted_claims L (dm_AccessToken msg) checks c
       \<and> handleTaskResponseMessage L (traced X) v topic msg (d, p) (w, tr)
           = ((r, (d', p')), (w', tr1 @ body))
       \<and> response_run L v p topic msg c body r p'"
proof -
  obtain a d' w1 checks where
    v: "ValidateDeviceAccessToken L (traced X) (dm_AccessToken msg) d (w, tr) = ((a, d'), (w1, tr @ checks))"
    and q: "list_all is_check checks"
    and c: "\<forall>c. a = Inr c \<longrightarrow> accepted_claims L (dm_AccessToken msg) checks c"
    using validate_trace [of L X "dm_AccessToken msg" d w tr] by (elim exE conjE) (rule that)
  show ?thesis
  proof (cases a)
    case (Inl e)
    with v q show ?thesis by (simp add: handleTaskResponseMessage_def)
  next
    case (Inr cl)
    obtain r p' w' es where "respond_to_task L (traced X) v topic msg p cl (w1, tr @ checks)
        = ((r, p'), (w', (tr @ checks) @ es))" "response_run L v p topic msg cl es r p'"
      using respond_trace [of L X v topic msg p cl w1 "tr @ checks"] by (elim exE conjE) (rule that)
    with v q c Inr show ?thesis by (auto simp: handleTaskResponseMessage_def)
  qed
qed

text \<open>
  C10: every effect of a device message. Only signature checks and key fetches come before the
  token is accepted, and if it is not, the handler ends with its error. Otherwise (\<open>message_run\<close>)
  one event with the verified identity is sent to the queue that the verified service registered
  for the topic, under the URL known for it or answered by a look-up with the service's owner
  account; if that was sent and the message is a configuration event, its JSON form is sent to
  the DCM queue. An unregistered topic and each failure are returned as errors; success means
  that everything was sent.
\<close>

theorem device_message_effects:
  "case ValidateDeviceAccessToken L (traced X) (dm_AccessToken msg) d (w, tr) of
     ((Inl e, d'), (w1, tr1)) \<Rightarrow> \<exists>checks. tr1 = tr @ checks \<and> list_all is_check checks
       \<and> handleDeviceToServiceMessage L (traced X) v topic msg (d, p) (w, tr) = ((Some e, (d', p)), (w1, tr1))
   | ((Inr c, d'), (w1, tr1)) \<Rightarrow> \<exists>checks r p' w' body. tr1 = tr @ checks \<and> list_all is_check checks
       \<and> accepted_claims L (dm_AccessToken msg) checks c
       \<and> handleDeviceToServiceMessage L (traced X) v topic msg (d, p) (w, tr)
           = ((r, (d', p')), (w', tr1 @ body))
       \<and> message_run L v p topic msg c body r p'"
proof -
  obtain a d' w1 checks where
    v: "ValidateDeviceAccessToken L (traced X) (dm_AccessToken msg) d (w, tr) = ((a, d'), (w1, tr @ checks))"
    and q: "list_all is_check checks"
    and c: "\<forall>c. a = Inr c \<longrightarrow> accepted_claims L (dm_AccessToken msg) checks c"
    using validate_trace [of L X "dm_AccessToken msg" d w tr] by (elim exE conjE) (rule that)
  show ?thesis
  proof (cases a)
    case (Inl e)
    with v q show ?thesis by (simp add: handleDeviceToServiceMessage_def)
  next
    case (Inr cl)
    obtain r p' w' es where "deliver_device_message L (traced X) v topic msg p cl (w1, tr @ checks)
        = ((r, p'), (w', (tr @ checks) @ es))" "message_run L v p topic msg cl es r p'"
      using deliver_trace [of L X v topic msg p cl w1 "tr @ checks"] by (elim exE conjE) (rule that)
    with v q c Inr show ?thesis by (auto simp: handleDeviceToServiceMessage_def)
  qed
qed

end
