(* ===== verification/TaskStore.thy ===== *)
theory TaskStore
  imports DbOps Samples
begin

text \<open>
  What the operations on the \<open>tasks\<close> table amount to, given a database that does what Cassandra
  documents: \<open>service/db/create_task.go\<close>, \<open>update_task.go\<close>, \<open>remove_task.go\<close> and
  \<open>get_task_by_device.go\<close> refine operations on a map from device and task to rows.

  The database is a parameter. \<open>task_table L X rows\<close> states what the code relies on, for a
  reading \<open>rows\<close> of the world as the contents of the table: one client at a time, reads that see
  the writes before them, and the schema of \<open>service/db/schema/1_tasks.up.cql\<close>. The laws speak of
  the text of a statement, the table and the columns, not of the program's constants. A call that
  reports an error may have done anything. What is read back is not in every column what was
  written: times are kept in milliseconds, the times of day, the weekdays and the days of the
  month are \<open>SET\<close> columns and come back sorted and without duplicates, and an empty blob may come
  back as none. An \<open>UPDATE\<close> of a row that does not exist makes one whose other columns are null,
  which are read as zero values.
\<close>

type_synonym task_rows = "uuid \<times> uuid \<rightharpoonup> task"

definition task_key :: "task \<Rightarrow> uuid \<times> uuid" where
  "task_key t = (tk_DeviceID t, tk_TaskID t)"

text \<open>How a \<open>SET\<close> column is read back.\<close>

definition as_set :: "int list \<Rightarrow> int list" where
  "as_set xs = sort (remdups xs)"

text \<open>\<open>stored_as t t'\<close>: the row \<open>t'\<close> can be read where \<open>t\<close> was written.\<close>

definition stored_as :: "task \<Rightarrow> task \<Rightarrow> bool" where
  "stored_as t t' \<longleftrightarrow>
     t' = t\<lparr>tk_RunAt := as_set (tk_RunAt t), tk_ScheduledWeekdays := as_set (tk_ScheduledWeekdays t),
       tk_ScheduledDaysOfTheMonth := as_set (tk_ScheduledDaysOfTheMonth t),
       tk_CreateTime := tk_CreateTime t', tk_StartTime := tk_StartTime t',
       tk_EndTime := tk_EndTime t', tk_StartAt := tk_StartAt t', tk_TaskDetails := tk_TaskDetails t'\<rparr>
     \<and> (tk_TaskDetails t' = tk_TaskDetails t \<or> tk_TaskDetails t = Some [] \<and> tk_TaskDetails t' = None)"

text \<open>The row that an update finds, or makes.\<close>

definition row_or_new :: "task_rows \<Rightarrow> uuid \<times> uuid \<Rightarrow> task" where
  "row_or_new m k = (case m k of Some t \<Rightarrow> t
     | None \<Rightarrow> zero_task\<lparr>tk_DeviceID := fst k, tk_TaskID := snd k\<rparr>)"

definition set_status :: "string \<Rightarrow> uuid \<times> uuid \<Rightarrow> task_rows \<Rightarrow> task_rows" where
  "set_status status k m = m(k \<mapsto> (row_or_new m k)\<lparr>tk_Status := status\<rparr>)"

section \<open>The database\<close>

text \<open>Printed identifiers parse back; the two UUID packages agree on what is an identifier.\<close>

definition uuid_laws :: "lib \<Rightarrow> bool" where
  "uuid_laws L \<longleftrightarrow> (\<forall>u. lib_ParseUUID L (lib_uuid_String L u) = Some u
     \<and> lib_uuid_Parse L (lib_uuid_String L u) \<and> lib_uuid_String L u \<noteq> [])"

text \<open>The columns of the table, as the schema declares them.\<close>

definition schema_columns :: "string list" where
  "schema_columns = [''task_id'', ''device_id'', ''tenant_id'', ''service_id'', ''consignment_id'',
     ''status'', ''retry_count'', ''create_time'', ''start_time'', ''end_time'', ''unit'',
     ''interval'', ''duration'', ''run_at'', ''week_days'', ''month_days'', ''start_at'',
     ''immediate'', ''message_id'', ''message_type'', ''task_details'']"

text \<open>An insertion that names every column of the schema writes the whole row.\<close>

definition inserts_tasks :: "'w ext \<Rightarrow> ('w \<Rightarrow> task_rows) \<Rightarrow> bool" where
  "inserts_tasks X rows \<longleftrightarrow>
     (\<forall>md t w w'. md_Name md = ''tasks'' \<and> set (md_Columns md) = set schema_columns
        \<and> x_exec X (Bound (InsertStmt md) (RowTask t)) w = (None, w')
        \<longrightarrow> (\<exists>t'. stored_as t t' \<and> rows w' = (rows w)(task_key t \<mapsto> t')))"

text \<open>A deletion by the whole primary key removes that row.\<close>

definition deletes_tasks :: "'w ext \<Rightarrow> ('w \<Rightarrow> task_rows) \<Rightarrow> bool" where
  "deletes_tasks X rows \<longleftrightarrow>
     (\<forall>md t w w'. md_Name md = ''tasks'' \<and> md_PartKey md = [''device_id''] \<and> md_SortKey md = [''task_id'']
        \<and> x_exec X (Bound (DeleteStmt md) (RowTask t)) w = (None, w')
        \<longrightarrow> rows w' = (rows w)(task_key t := None))"

definition updates_tasks :: "lib \<Rightarrow> 'w ext \<Rightarrow> ('w \<Rightarrow> task_rows) \<Rightarrow> bool" where
  "updates_tasks L X rows \<longleftrightarrow>
     (\<forall>status d t w w'.
        x_exec X (CqlText ''UPDATE tasks SET status=? WHERE device_id=? AND task_id=?'' [status, d, t]) w
          = (None, w')
        \<longrightarrow> (\<exists>ud ut. lib_ParseUUID L d = Some ud \<and> lib_ParseUUID L t = Some ut
              \<and> rows w' = set_status status (ud, ut) (rows w)))"

definition selects_tasks :: "lib \<Rightarrow> 'w ext \<Rightarrow> ('w \<Rightarrow> task_rows) \<Rightarrow> bool" where
  "selects_tasks L X rows \<longleftrightarrow>
     (\<forall>d t ud ut w ts w'. lib_ParseUUID L d = Some ud \<longrightarrow> lib_ParseUUID L t = Some ut
        \<longrightarrow> x_select_tasks X ''tasks'' [EqLit ''device_id'' d, EqLit ''task_id'' t] w = (Inr ts, w')
        \<longrightarrow> rows w' = rows w \<and> ts = (case rows w (ud, ut) of None \<Rightarrow> [] | Some r \<Rightarrow> [r]))"

text \<open>What is not about the table leaves it alone.\<close>

definition leaves_tasks :: "'w ext \<Rightarrow> ('w \<Rightarrow> task_rows) \<Rightarrow> bool" where
  "leaves_tasks X rows \<longleftrightarrow>
     (\<forall>w. rows (snd (x_time_uuid X w)) = rows w \<and> rows (snd (x_now X w)) = rows w)
     \<and> (\<forall>md c w w'. md_Name md = ''consignments''
          \<and> x_exec X (Bound (InsertStmt md) (RowConsignment c)) w = (None, w') \<longrightarrow> rows w' = rows w)
     \<and> (\<forall>vs w w'. x_exec X (CqlText
          ''UPDATE consignments SET status=? WHERE tenant_id=? AND consignment_id=? AND task_id=?'' vs) w
            = (None, w') \<longrightarrow> rows w' = rows w)"

definition task_table :: "lib \<Rightarrow> 'w ext \<Rightarrow> ('w \<Rightarrow> task_rows) \<Rightarrow> bool" where
  "task_table L X rows \<longleftrightarrow> uuid_laws L \<and> inserts_tasks X rows \<and> deletes_tasks X rows
     \<and> updates_tasks L X rows \<and> selects_tasks L X rows \<and> leaves_tasks X rows"

section \<open>The operations on the map\<close>

datatype task_op =
    OpCreate task
  | OpDispatched service_message
  | OpComplete task
  | OpFailed task
  | OpRemove string string

definition run_task_op :: "lib \<Rightarrow> 'w ext \<Rightarrow> task_op \<Rightarrow> 'w \<Rightarrow> go_error option \<times> 'w" where
  "run_task_op L X op w =
     (case op of
        OpCreate t \<Rightarrow> (case CreateTask L X t w of ((_, err), w') \<Rightarrow> (err, w'))
      | OpDispatched m \<Rightarrow> MarkTaskDispatched X m w
      | OpComplete t \<Rightarrow> MarkTaskComplete L X t w
      | OpFailed t \<Rightarrow> MarkTaskFailed L X t w
      | OpRemove t d \<Rightarrow> RemoveTask L X t d w)"

definition parsed_key :: "lib \<Rightarrow> string \<Rightarrow> string \<Rightarrow> (uuid \<times> uuid) option" where
  "parsed_key L d t = (case (lib_ParseUUID L d, lib_ParseUUID L t) of
     (Some ud, Some ut) \<Rightarrow> Some (ud, ut) | _ \<Rightarrow> None)"

fun task_spec :: "lib \<Rightarrow> task_op \<Rightarrow> task_rows \<Rightarrow> task_rows \<Rightarrow> bool" where
  "task_spec L (OpCreate t) m m' \<longleftrightarrow>
     (\<exists>u t'. stored_as (t\<lparr>tk_TaskID := u, tk_Status := taskStatusQueued, tk_RetryCount := 0\<rparr>) t'
        \<and> m' = m((tk_DeviceID t, u) \<mapsto> t'))"
| "task_spec L (OpDispatched s) m m' \<longleftrightarrow>
     (\<exists>k. parsed_key L (sm_DeviceId s) (sm_TaskId s) = Some k \<and> m' = set_status taskStatusDispatched k m)"
| "task_spec L (OpComplete t) m m' \<longleftrightarrow> m' = set_status taskStatusCompleted (task_key t) m"
| "task_spec L (OpFailed t) m m' \<longleftrightarrow> m' = set_status taskStatusFailed (task_key t) m"
| "task_spec L (OpRemove t d) m m' \<longleftrightarrow> (\<exists>k. parsed_key L d t = Some k \<and> m' = m(k := None))"

fun run_task_ops :: "lib \<Rightarrow> 'w ext \<Rightarrow> task_op list \<Rightarrow> 'w \<Rightarrow> 'w option" where
  "run_task_ops L X [] w = Some w"
| "run_task_ops L X (op # ops) w =
     (case run_task_op L X op w of (None, w') \<Rightarrow> run_task_ops L X ops w' | (Some e, w') \<Rightarrow> None)"

fun spec_run :: "lib \<Rightarrow> task_op list \<Rightarrow> task_rows \<Rightarrow> task_rows \<Rightarrow> bool" where
  "spec_run L [] m m' \<longleftrightarrow> m' = m"
| "spec_run L (op # ops) m m' \<longleftrightarrow> (\<exists>m1. task_spec L op m m1 \<and> spec_run L ops m1 m')"

section \<open>Each operation\<close>

lemma stored_create: "stored_as (t\<lparr>tk_CreateTime := n\<rparr>) t' \<Longrightarrow> stored_as t t'"
  by (cases t; cases t') (simp add: stored_as_def)

lemma stored_status:
  "stored_as t t' \<Longrightarrow> stored_as (t\<lparr>tk_Status := s\<rparr>) (t'\<lparr>tk_Status := s\<rparr>)"
  by (cases t; cases t') (simp add: stored_as_def)

text \<open>The statements of the program are those the laws speak of.\<close>

lemma program_statements:
  "st_insert createTaskStatements = InsertStmt taskMetadata"
  "st_delete createTaskStatements = DeleteStmt taskMetadata"
  "st_insert createConsignmentStatements = InsertStmt consignmentsMetadata"
  "md_Name taskMetadata = ''tasks''" "set (md_Columns taskMetadata) = set schema_columns"
  "md_PartKey taskMetadata = [''device_id'']" "md_SortKey taskMetadata = [''task_id'']"
  "md_Name consignmentsMetadata = ''consignments''"
  "update_task_text = ''UPDATE tasks SET status=? WHERE device_id=? AND task_id=?''"
  "update_consignment_text
     = ''UPDATE consignments SET status=? WHERE tenant_id=? AND consignment_id=? AND task_id=?''"
  by (simp_all add: createTaskStatements_def createConsignmentStatements_def statements_for_def
      taskMetadata_def consignmentsMetadata_def schema_columns_def update_task_text_def
      update_consignment_text_def)

lemma insert_law:
  assumes "task_table L X rows" "x_exec X (Bound (st_insert createTaskStatements) (RowTask t)) w = (None, w')"
  shows "\<exists>t'. stored_as t t' \<and> rows w' = (rows w)(task_key t \<mapsto> t')"
  using assms program_statements(1,4,5) unfolding task_table_def inserts_tasks_def by metis

lemma delete_law:
  assumes "task_table L X rows" "x_exec X (Bound (st_delete createTaskStatements) (RowTask t)) w = (None, w')"
  shows "rows w' = (rows w)(task_key t := None)"
  using assms program_statements(2,4,6,7) unfolding task_table_def deletes_tasks_def by metis

lemma consignment_laws:
  assumes "task_table L X rows"
  shows "x_exec X (Bound (st_insert createConsignmentStatements) (RowConsignment c)) w = (None, w')
      \<Longrightarrow> rows w' = rows w"
    and "x_exec X (CqlText update_consignment_text vs) w = (None, w') \<Longrightarrow> rows w' = rows w"
  using assms program_statements(3,8,10) unfolding task_table_def leaves_tasks_def by metis+

lemma parsed_strings:
  "uuid_laws L \<Longrightarrow> parsed_key L (lib_uuid_String L d) (lib_uuid_String L t) = Some (d, t)"
  by (simp add: uuid_laws_def parsed_key_def)

lemma setTaskStatus_refines:
  assumes "task_table L X rows" "setTaskStatus X t d s w = (None, w')"
  shows "\<exists>k. parsed_key L d t = Some k \<and> rows w' = set_status (status_String s) k (rows w)"
  using assms unfolding task_table_def updates_tasks_def setTaskStatus_def parsed_key_def
    program_statements(9) by force

lemma UpdateTaskStatus_refines:
  assumes "task_table L X rows" "UpdateTaskStatus X t d ten c s w = (None, w')"
  shows "\<exists>k. parsed_key L d t = Some k \<and> rows w' = set_status (status_String s) k (rows w)"
proof -
  obtain w1 where 1: "setTaskStatus X t d s w = (None, w1)"
    and 2: "UpdateConsignmentTaskStatus X ten c t s w1 = (None, w')"
    using assms(2) by (auto simp: UpdateTaskStatus_def split: prod.splits option.splits)
  from consignment_laws(2) [OF assms(1) 2 [unfolded UpdateConsignmentTaskStatus_def]]
  have "rows w' = rows w1" .
  with setTaskStatus_refines [OF assms(1) 1] show ?thesis by simp
qed

lemma mark_refines:
  assumes "task_table L X rows"
    and "UpdateTaskStatus X (lib_uuid_String L (tk_TaskID t)) (lib_uuid_String L (tk_DeviceID t)) ten c s w = (None, w')"
  shows "rows w' = set_status (status_String s) (task_key t) (rows w)"
proof -
  have "uuid_laws L" using assms(1) by (simp add: task_table_def)
  with UpdateTaskStatus_refines [OF assms] parsed_strings show ?thesis by (simp add: task_key_def)
qed

lemma CreateTask_refines:
  assumes "task_table L X rows" "CreateTask L X t w = ((t1, None), w')"
  shows "t1 = t\<lparr>tk_TaskID := tk_TaskID t1, tk_CreateTime := tk_CreateTime t1,
      tk_Status := taskStatusQueued, tk_RetryCount := 0\<rparr>
    \<and> (\<exists>t'. stored_as t1 t' \<and> rows w' = (rows w)(task_key t1 \<mapsto> t'))"
proof -
  obtain u w1 where 1: "x_time_uuid X w = (u, w1)" by fastforce
  obtain now w2 where 2: "x_now X w1 = (now, w2)" by fastforce
  let ?t = "t\<lparr>tk_TaskID := u, tk_CreateTime := now, tk_Status := taskStatusQueued, tk_RetryCount := 0\<rparr>"
  obtain w3 where 3: "x_exec X (Bound (st_insert createTaskStatements) (RowTask ?t)) w2 = (None, w3)"
    and 4: "CreateConsignment L X (NewConsignmentFromTask ?t) w3 = (None, w')" and t1: "t1 = ?t"
    using assms(2) 1 2 by (auto simp: CreateTask_def Let_def split: if_splits prod.splits option.splits)
  have r2: "rows w2 = rows w"
    using assms(1) 1 2 unfolding task_table_def leaves_tasks_def by (metis snd_conv)
  have "rows w' = rows w3"
    using consignment_laws(1) [OF assms(1)] 4 by (auto simp: CreateConsignment_def split: if_splits)
  with insert_law [OF assms(1) 3] r2 t1 show ?thesis by simp
qed

lemma created_stored:
  assumes "t1 = t\<lparr>tk_TaskID := tk_TaskID t1, tk_CreateTime := tk_CreateTime t1,
      tk_Status := taskStatusQueued, tk_RetryCount := 0\<rparr>" and "stored_as t1 t'"
  shows "stored_as (t\<lparr>tk_TaskID := tk_TaskID t1, tk_Status := taskStatusQueued, tk_RetryCount := 0\<rparr>) t'"
    and "task_key t1 = (tk_DeviceID t, tk_TaskID t1)"
  using assms by (cases t; cases t1; cases t'; simp add: stored_as_def task_key_def)+

lemma RemoveTask_refines:
  assumes "task_table L X rows" "RemoveTask L X t d w = (None, w')"
  shows "\<exists>k. parsed_key L d t = Some k \<and> rows w' = (rows w)(k := None)"
proof -
  obtain ut ud where p: "lib_ParseUUID L t = Some ut" "lib_ParseUUID L d = Some ud"
    using assms(2) by (auto simp: RemoveTask_def split: option.splits)
  with assms(2) have "x_exec X (Bound (st_delete createTaskStatements)
      (RowTask (zero_task\<lparr>tk_TaskID := ut, tk_DeviceID := ud\<rparr>))) w = (None, w')"
    by (simp add: RemoveTask_def)
  from delete_law [OF assms(1) this]
  have "rows w' = (rows w)(task_key (zero_task\<lparr>tk_TaskID := ut, tk_DeviceID := ud\<rparr>) := None)" .
  with p show ?thesis by (simp add: parsed_key_def task_key_def)
qed

text \<open>Reading a task, with identifiers that parse, gives the row or \<open>ErrNotFound\<close>.\<close>

lemma GetTaskByID_reads:
  assumes "task_table L X rows"
    and "x_select_tasks X (md_Name taskMetadata)
      [EqLit ''device_id'' (lib_uuid_String L d), EqLit ''task_id'' (lib_uuid_String L t)] w = (Inr ts, w')"
  shows "GetTaskByID L X (lib_uuid_String L t) (lib_uuid_String L d) w
      = ((case rows w (d, t) of None \<Rightarrow> Inl (DbE ErrNotFound) | Some r \<Rightarrow> Inr r), w') \<and> rows w' = rows w"
proof -
  have u: "uuid_laws L" using assms(1) by (simp add: task_table_def)
  then have p: "lib_ParseUUID L (lib_uuid_String L d) = Some d" "lib_ParseUUID L (lib_uuid_String L t) = Some t"
    by (simp_all add: uuid_laws_def)
  from assms(1) have "selects_tasks L X rows" by (simp add: task_table_def)
  with p assms(2) [unfolded program_statements(4)] have "rows w' = rows w \<and> ts = (case rows w (d, t) of None \<Rightarrow> [] | Some r \<Rightarrow> [r])"
    unfolding selects_tasks_def by blast
  with u assms(2) show ?thesis by (auto simp: GetTaskByID_def uuid_laws_def split: option.splits)
qed

lemma task_op_refines:
  assumes "task_table L X rows" "run_task_op L X op w = (None, w')"
  shows "task_spec L op (rows w) (rows w')"
proof (cases op)
  case (OpCreate t)
  obtain t1 where c: "CreateTask L X t w = ((t1, None), w')"
    using assms(2) OpCreate by (auto simp: run_task_op_def split: prod.splits)
  from CreateTask_refines [OF assms(1) c] obtain t' where
    t1: "t1 = t\<lparr>tk_TaskID := tk_TaskID t1, tk_CreateTime := tk_CreateTime t1,
      tk_Status := taskStatusQueued, tk_RetryCount := 0\<rparr>"
    and t': "stored_as t1 t'" "rows w' = (rows w)(task_key t1 \<mapsto> t')" by blast
  from created_stored [OF t1 t'(1)] t'(2) OpCreate show ?thesis by auto
next
  case (OpDispatched m)
  with assms(2) have "setTaskStatus X (sm_TaskId m) (sm_DeviceId m) TaskStatusDispatched w = (None, w')"
    by (auto simp: run_task_op_def MarkTaskDispatched_def split: if_splits)
  from setTaskStatus_refines [OF assms(1) this] OpDispatched show ?thesis by simp
next
  case (OpComplete t)
  with assms(2) mark_refines [OF assms(1), of t _ _ TaskStatusCompleted w w'] show ?thesis
    by (simp add: run_task_op_def MarkTaskComplete_def)
next
  case (OpFailed t)
  with assms(2) mark_refines [OF assms(1), of t _ _ TaskStatusFailed w w'] show ?thesis
    by (simp add: run_task_op_def MarkTaskFailed_def)
next
  case (OpRemove t d)
  with assms(2) RemoveTask_refines [OF assms(1), of t d w w'] show ?thesis
    by (simp add: run_task_op_def)
qed

section \<open>Properties\<close>

text \<open>
  C7: over a database that keeps the laws of \<open>task_table\<close> (documented behaviour of the schema's
  columns, one client), every sequence of successful operations (create, mark dispatched, complete or failed, remove) changes the table
  exactly as the specification says, one operation after the other: a creation adds one queued
  row under a key of the given device, equal to the task as \<open>stored_as\<close> says, a status change writes the status of one row and nothing
  else (whatever the status was before), a removal deletes one row.
\<close>

theorem task_store_refines:
  "task_table L X rows \<Longrightarrow> run_task_ops L X ops w = Some w' \<Longrightarrow> spec_run L ops (rows w) (rows w')"
proof (induction ops arbitrary: w)
  case (Cons op ops)
  then obtain w1 where run: "run_task_op L X op w = (None, w1)" "run_task_ops L X ops w1 = Some w'"
    by (auto split: prod.splits option.splits)
  from Cons.IH [OF Cons.prems(1) run(2)] task_op_refines [OF Cons.prems(1) run(1)] show ?case by auto
qed simp

text \<open>
  C22: a task that was created can be read back under the
  identifier it was given and its device, if the query succeeds, with status queued and every
  column as the table keeps it: equal to what was created but for times, the order and the
  duplicates of the times of day, the weekdays and the days of the month, and an empty payload.
  The schedule \<open>monthdays 15,3\<close> is read back as \<open>3, 15\<close>. Marked complete and read again it has
  the status complete and is otherwise the same.
\<close>

theorem created_task_found:
  assumes "task_table L X rows" and "CreateTask L X t w = ((t1, None), w1)"
    and "w2 = (if completed then snd (MarkTaskComplete L X t1 w1) else w1)"
    and "completed \<Longrightarrow> fst (MarkTaskComplete L X t1 w1) = None"
    and "x_select_tasks X (md_Name taskMetadata)
      [EqLit ''device_id'' (lib_uuid_String L (tk_DeviceID t)),
       EqLit ''task_id'' (lib_uuid_String L (tk_TaskID t1))] w2 = (Inr ts, w3)"
  shows "\<exists>t2. GetTaskByID L X (lib_uuid_String L (tk_TaskID t1)) (lib_uuid_String L (tk_DeviceID t)) w2
      = (Inr t2, w3)
    \<and> stored_as (t\<lparr>tk_TaskID := tk_TaskID t1, tk_RetryCount := 0,
         tk_Status := (if completed then taskStatusCompleted else taskStatusQueued)\<rparr>) t2"
proof -
  from CreateTask_refines [OF assms(1,2)] obtain t' where
    t1: "t1 = t\<lparr>tk_TaskID := tk_TaskID t1, tk_CreateTime := tk_CreateTime t1,
      tk_Status := taskStatusQueued, tk_RetryCount := 0\<rparr>"
    and t': "stored_as t1 t'" "rows w1 = (rows w)(task_key t1 \<mapsto> t')" by blast
  note same = created_stored [OF t1 t'(1)]
  let ?t2 = "if completed then t'\<lparr>tk_Status := taskStatusCompleted\<rparr> else t'"
  have "rows w2 (task_key t1) = Some ?t2"
  proof (cases completed)
    case True
    with assms(3,4) have "MarkTaskComplete L X t1 w1 = (None, w2)" by (metis prod.collapse)
    then have "rows w2 = set_status taskStatusCompleted (task_key t1) (rows w1)"
      using mark_refines [OF assms(1), of t1 _ _ TaskStatusCompleted w1 w2]
      by (simp add: MarkTaskComplete_def)
    with True t' show ?thesis by (simp add: set_status_def row_or_new_def)
  next
    case False
    with assms(3) t' show ?thesis by simp
  qed
  with same(2) GetTaskByID_reads [OF assms(1,5)]
  have "GetTaskByID L X (lib_uuid_String L (tk_TaskID t1)) (lib_uuid_String L (tk_DeviceID t)) w2 = (Inr ?t2, w3)"
    by simp
  moreover have "stored_as (t\<lparr>tk_TaskID := tk_TaskID t1, tk_RetryCount := 0,
      tk_Status := (if completed then taskStatusCompleted else taskStatusQueued)\<rparr>) ?t2"
    using same(1) stored_status [OF same(1), of taskStatusCompleted] by (cases t) simp
  ultimately show ?thesis by blast
qed

text \<open>
  C23: a task that was removed is not found. But its
  message may still be in the dispatch queue, and when the dispatcher then marks it dispatched,
  the update makes a row again: the removed task is found once more, dispatched, with no tenant,
  no consignment and no payload.
\<close>

theorem removed_task_returns:
  assumes "task_table L X rows"
    and "RemoveTask L X (lib_uuid_String L t) (lib_uuid_String L d) w = (None, w1)"
    and "sm_DeviceId m = lib_uuid_String L d" and "sm_TaskId m = lib_uuid_String L t"
    and "w2 = (if dispatched then snd (MarkTaskDispatched X m w1) else w1)"
    and "dispatched \<Longrightarrow> fst (MarkTaskDispatched X m w1) = None"
    and "x_select_tasks X (md_Name taskMetadata)
      [EqLit ''device_id'' (lib_uuid_String L d), EqLit ''task_id'' (lib_uuid_String L t)] w2 = (Inr ts, w3)"
  shows "GetTaskByID L X (lib_uuid_String L t) (lib_uuid_String L d) w2
    = ((if dispatched
        then Inr (zero_task\<lparr>tk_DeviceID := d, tk_TaskID := t, tk_Status := taskStatusDispatched\<rparr>)
        else Inl (DbE ErrNotFound)), w3)"
proof -
  have u: "parsed_key L (lib_uuid_String L d) (lib_uuid_String L t) = Some (d, t)"
    using assms(1) parsed_strings by (simp add: task_table_def)
  with RemoveTask_refines [OF assms(1,2)] have gone: "rows w1 = (rows w)((d, t) := None)" by simp
  show ?thesis
  proof (cases dispatched)
    case True
    with assms(5,6) have "MarkTaskDispatched X m w1 = (None, w2)" by (metis prod.collapse)
    then have "setTaskStatus X (sm_TaskId m) (sm_DeviceId m) TaskStatusDispatched w1 = (None, w2)"
      by (auto simp: MarkTaskDispatched_def split: if_splits)
    from setTaskStatus_refines [OF assms(1) this] u assms(3,4)
    have "rows w2 = set_status taskStatusDispatched (d, t) (rows w1)" by simp
    with True gone GetTaskByID_reads [OF assms(1,7)] show ?thesis
      by (simp add: set_status_def row_or_new_def)
  next
    case False
    with assms(5) gone GetTaskByID_reads [OF assms(1,7)] show ?thesis by simp
  qed
qed

section \<open>A database in memory\<close>

text \<open>
  The laws can hold: a world that is the list of statements executed so far, whose table is what
  replaying them gives, \<open>SET\<close> columns sorted. Identifiers are printed in unary.
\<close>

definition unary_lib :: lib where
  "unary_lib = sample_lib\<lparr>lib_uuid_Parse := (\<lambda>_. True),
     lib_uuid_String := (\<lambda>u. CHR ''-'' # replicate (unat u) (CHR ''1'')),
     lib_ParseUUID := (\<lambda>s. Some (word_of_nat (length s - 1)))\<rparr>"

definition kept :: "task \<Rightarrow> task" where
  "kept t = t\<lparr>tk_RunAt := as_set (tk_RunAt t), tk_ScheduledWeekdays := as_set (tk_ScheduledWeekdays t),
     tk_ScheduledDaysOfTheMonth := as_set (tk_ScheduledDaysOfTheMonth t)\<rparr>"

fun replay :: "cql \<Rightarrow> task_rows \<Rightarrow> task_rows" where
  "replay (Bound (InsertStmt md) (RowTask t)) m = m(task_key t \<mapsto> kept t)"
| "replay (Bound (DeleteStmt md) (RowTask t)) m = m(task_key t := None)"
| "replay (CqlText text [status, d, t]) m =
     (if text = ''UPDATE tasks SET status=? WHERE device_id=? AND task_id=?''
      then set_status status (word_of_nat (length d - 1), word_of_nat (length t - 1)) m else m)"
| "replay q m = m"

fun replay_event :: "event \<Rightarrow> task_rows \<Rightarrow> task_rows" where
  "replay_event (EvExec q True) m = replay q m"
| "replay_event e m = m"

definition log_rows :: "unit \<times> event list \<Rightarrow> task_rows" where
  "log_rows w = fold replay_event (snd w) Map.empty"

definition log_ext :: "(unit \<times> event list) ext" where
  "log_ext = (traced idle_ext)\<lparr>x_select_tasks := (\<lambda>_ cs w. (Inr (case cs of
     [EqLit _ d, EqLit _ t] \<Rightarrow>
       (case log_rows w (word_of_nat (length d - 1), word_of_nat (length t - 1)) of
          None \<Rightarrow> [] | Some r \<Rightarrow> [r])
   | _ \<Rightarrow> []), w))\<rparr>"

lemma log_exec: "x_exec log_ext q w = (None, (fst w, snd w @ [EvExec q True]))"
  by (simp add: log_ext_def logged_def)

lemma log_rows_exec: "x_exec log_ext q w = (r, w') \<Longrightarrow> log_rows w' = replay q (log_rows w)"
  by (auto simp: log_exec log_rows_def)

lemma log_time: "log_rows (snd (x_time_uuid log_ext w)) = log_rows w"
  "log_rows (snd (x_now log_ext w)) = log_rows w"
  by (simp_all add: log_ext_def logged_def log_rows_def split_def)

lemma unary_uuid_laws: "uuid_laws unary_lib"
  by (simp add: uuid_laws_def unary_lib_def)

lemma log_task_table: "task_table unary_lib log_ext log_rows"
proof -
  have "stored_as t (kept t)" for t by (cases t) (simp add: stored_as_def kept_def)
  then have "\<exists>t'. stored_as t t' \<and> log_rows w' = (log_rows w)(task_key t \<mapsto> t')"
    if "x_exec log_ext (Bound (InsertStmt md) (RowTask t)) w = (None, w')" for md t w w'
    using log_rows_exec [OF that] by (intro exI [of _ "kept t"]) simp
  then have "inserts_tasks log_ext log_rows" unfolding inserts_tasks_def by blast
  moreover have "deletes_tasks log_ext log_rows"
    unfolding deletes_tasks_def by (auto dest!: log_rows_exec)
  moreover have "updates_tasks unary_lib log_ext log_rows"
    unfolding updates_tasks_def by (auto dest!: log_rows_exec simp: unary_lib_def)
  moreover have "selects_tasks unary_lib log_ext log_rows"
    unfolding selects_tasks_def by (auto simp: log_ext_def unary_lib_def)
  moreover have "replay (CqlText
    ''UPDATE consignments SET status=? WHERE tenant_id=? AND consignment_id=? AND task_id=?'' vs) m = m" for vs m
    by (cases "(CqlText
      ''UPDATE consignments SET status=? WHERE tenant_id=? AND consignment_id=? AND task_id=?'' vs, m)"
      rule: replay.cases) auto
  then have "leaves_tasks log_ext log_rows"
    unfolding leaves_tasks_def using log_time by (auto dest!: log_rows_exec)
  ultimately show ?thesis using unary_uuid_laws by (simp add: task_table_def)
qed

definition store_task :: task where
  "store_task = zero_task\<lparr>tk_ConsignmentID := ''c'', tk_TaskDetails := Some ''p'',
     tk_ScheduledDaysOfTheMonth := [15, 3, 15]\<rparr>"

lemma store_create:
  "\<exists>t1 w1. CreateTask unary_lib log_ext store_task ((), []) = ((t1, None), w1)"
proof -
  have "x_time_uuid log_ext w = (7, (fst w, snd w @ [EvTimeUuid 7]))"
    "x_now log_ext w = (1000, (fst w, snd w @ [EvNow 1000]))" for w
    by (simp_all add: log_ext_def logged_def)
  then show ?thesis
    by (simp add: CreateTask_def CreateConsignment_def log_exec unary_lib_def store_task_def
        NewConsignmentFromTask_def Let_def)
qed

lemma store_ops:
  "run_task_op unary_lib log_ext (OpComplete t) w = (None, (fst w,
     snd w @ [EvExec (CqlText update_task_text [taskStatusCompleted, lib_uuid_String unary_lib (tk_DeviceID t),
                        lib_uuid_String unary_lib (tk_TaskID t)]) True,
              EvExec (CqlText update_consignment_text [taskStatusCompleted, tk_TenantID t, tk_ConsignmentID t,
                        lib_uuid_String unary_lib (tk_TaskID t)]) True]))"
  by (simp add: run_task_op_def MarkTaskComplete_def UpdateTaskStatus_def setTaskStatus_def
      UpdateConsignmentTaskStatus_def log_exec)

lemma task_store_refines_witness:
  "\<exists>w' u t. run_task_ops unary_lib log_ext [OpCreate store_task, OpComplete store_task] ((), []) = Some w'
     \<and> log_rows w' (0, u) = Some t \<and> tk_ScheduledDaysOfTheMonth t = [3, 15]"
proof -
  obtain t1 w1 where "CreateTask unary_lib log_ext store_task ((), []) = ((t1, None), w1)"
    using store_create by blast
  then obtain w' where run:
    "run_task_ops unary_lib log_ext [OpCreate store_task, OpComplete store_task] ((), []) = Some w'"
    by (simp add: store_ops run_task_op_def [of _ _ "OpCreate t" for t])
  have empty: "log_rows ((), []) = Map.empty" by (simp add: log_rows_def)
  from task_store_refines [OF log_task_table run] obtain u t' where
    t': "stored_as (store_task\<lparr>tk_TaskID := u, tk_Status := taskStatusQueued, tk_RetryCount := 0\<rparr>) t'"
    and w': "log_rows w' = set_status taskStatusCompleted (task_key store_task) [(tk_DeviceID store_task, u) \<mapsto> t']"
    unfolding empty by auto
  have dev: "tk_DeviceID store_task = 0" by (simp add: store_task_def zero_task_def)
  have "tk_ScheduledDaysOfTheMonth t' = [3, 15]"
    using t' by (cases t') (simp add: stored_as_def store_task_def zero_task_def as_set_def)
  with w' dev have "\<exists>t. log_rows w' (0, u) = Some t \<and> tk_ScheduledDaysOfTheMonth t = [3, 15]"
    by (auto simp: set_status_def row_or_new_def)
  with run show ?thesis by blast
qed

lemma log_select: "\<exists>ts. x_select_tasks log_ext tbl cs w = (Inr ts, w)"
  by (simp add: log_ext_def)

lemma created_task_found_witness:
  "\<exists>t1 w1 t2. CreateTask unary_lib log_ext store_task ((), []) = ((t1, None), w1)
     \<and> fst (GetTaskByID unary_lib log_ext (lib_uuid_String unary_lib (tk_TaskID t1))
          (lib_uuid_String unary_lib (tk_DeviceID store_task)) w1) = Inr t2
     \<and> tk_Status t2 = taskStatusQueued \<and> tk_ScheduledDaysOfTheMonth t2 = [3, 15]"
proof -
  obtain t1 w1 where c: "CreateTask unary_lib log_ext store_task ((), []) = ((t1, None), w1)"
    using store_create by blast
  obtain ts where sel: "x_select_tasks log_ext (md_Name taskMetadata)
      [EqLit ''device_id'' (lib_uuid_String unary_lib (tk_DeviceID store_task)),
       EqLit ''task_id'' (lib_uuid_String unary_lib (tk_TaskID t1))] w1 = (Inr ts, w1)"
    using log_select by blast
  have "w1 = (if False then snd (MarkTaskComplete unary_lib log_ext t1 w1) else w1)" by simp
  from created_task_found [OF log_task_table c this _ sel] obtain t2 where
    "GetTaskByID unary_lib log_ext (lib_uuid_String unary_lib (tk_TaskID t1))
        (lib_uuid_String unary_lib (tk_DeviceID store_task)) w1 = (Inr t2, w1)"
    "stored_as (store_task\<lparr>tk_TaskID := tk_TaskID t1, tk_RetryCount := 0, tk_Status := taskStatusQueued\<rparr>) t2"
    by auto
  moreover from this(2) have "tk_Status t2 = taskStatusQueued \<and> tk_ScheduledDaysOfTheMonth t2 = [3, 15]"
    by (cases t2) (simp add: stored_as_def store_task_def zero_task_def as_set_def)
  ultimately show ?thesis using c by (metis fst_conv)
qed

definition late_message :: service_message where
  "late_message = sample_message\<lparr>sm_DeviceId := lib_uuid_String unary_lib 0, sm_TaskId := lib_uuid_String unary_lib 0\<rparr>"

lemma removed_task_returns_witness:
  "\<exists>w1 w2 r. RemoveTask unary_lib log_ext (lib_uuid_String unary_lib 0) (lib_uuid_String unary_lib 0) ((), []) = (None, w1)
     \<and> MarkTaskDispatched log_ext late_message w1 = (None, w2)
     \<and> fst (GetTaskByID unary_lib log_ext (lib_uuid_String unary_lib 0) (lib_uuid_String unary_lib 0) w2) = Inr r
     \<and> tk_TenantID r = []"
proof -
  obtain w1 where r: "RemoveTask unary_lib log_ext (lib_uuid_String unary_lib 0) (lib_uuid_String unary_lib 0) ((), [])
      = (None, w1)" by (simp add: RemoveTask_def unary_lib_def log_exec)
  obtain w2 where d: "MarkTaskDispatched log_ext late_message w1 = (None, w2)"
    by (simp add: MarkTaskDispatched_def setTaskStatus_def log_exec late_message_def unary_lib_def)
  obtain ts where sel: "x_select_tasks log_ext (md_Name taskMetadata)
      [EqLit ''device_id'' (lib_uuid_String unary_lib 0), EqLit ''task_id'' (lib_uuid_String unary_lib 0)] w2 = (Inr ts, w2)"
    using log_select by blast
  have m: "sm_DeviceId late_message = lib_uuid_String unary_lib 0" "sm_TaskId late_message = lib_uuid_String unary_lib 0"
    by (simp_all add: late_message_def)
  have "w2 = (if True then snd (MarkTaskDispatched log_ext late_message w1) else w1)"
    "True \<Longrightarrow> fst (MarkTaskDispatched log_ext late_message w1) = None" using d by simp_all
  from removed_task_returns [OF log_task_table r m this sel]
  have "fst (GetTaskByID unary_lib log_ext (lib_uuid_String unary_lib 0) (lib_uuid_String unary_lib 0) w2)
    = Inr (zero_task\<lparr>tk_DeviceID := 0, tk_TaskID := 0, tk_Status := taskStatusDispatched\<rparr>)" by simp
  moreover have "tk_TenantID (zero_task\<lparr>tk_DeviceID := 0, tk_TaskID := 0, tk_Status := taskStatusDispatched\<rparr>) = []"
    by (simp add: zero_task_def)
  ultimately show ?thesis using r d by blast
qed

end
