(* ===== verification/Delivery.thy ===== *)
theory Delivery
  imports ScheduleEffects
begin

text \<open>
  From the builder to the broker: what \<open>Schedule\<close> puts into the dispatch queue for a task that
  runs once is what the dispatcher of \<open>service/queuemgr\<close> unpacks and publishes for the device.
\<close>

lemma schedule_once_sends:
  assumes "Schedule L (traced X) p s (w, tr) = Ret (Inr s', (w', tr @ es))"
    and "sk_error s = None \<longrightarrow> sk_ScheduleInfo s \<noteq> None" and "tk_Unit (sk_TaskInfo s') = Once"
  shows "\<exists>b u now. MarshalServiceMessage L (sk_TaskInfo s') = Inr (b64_encode b)
    \<and> lib_marshal_service_message L (service_message_of L (sk_TaskInfo s')) = Inr b
    \<and> es = [EvTimeUuid u, EvNow now, EvExec (insert_task (sk_TaskInfo s')) True,
         EvExec (insert_consignment (sk_TaskInfo s')) True,
         EvSend (schedulerDispatchQueueUrl p) (b64_encode b) True]"
proof -
  obtain r w1 es1 where
    run: "Schedule L (traced X) p s (w, tr) = Ret (r, (w1, tr @ es1))" and plan: "schedule_run L p s es1 r"
    using schedule_trace [OF assms(2), of L X p w tr] by (elim exE conjE) (rule that)
  from run assms(1) have "r = Inr s'" "es1 = es" by simp_all
  with plan have "schedule_run L p s es (Inr s')" by simp
  then show ?thesis using assms(3)
    by (auto elim!: schedule_run_ok task_created_ok handed_over_ok simp: MarshalServiceMessage_def)
qed

lemma dispatcher_publishes:
  assumes "x_sqs_receive Y (schedulerDispatchQueueUrl p) v = (Inr (msg # ms), v1)"
    and "UnmarshallServiceMessage L (sqs_Body msg) = Inr (info, b)"
    and "ctx_err Y (mqttCtx m) v1 = (None, v2)" and "x_mqtt_await Y v2 = (None, v3)"
  shows "\<exists>ok fs. snd (processSchedulerDispatchRequest L (traced Y) m p (v, tr))
    = tr @ EvReceive (schedulerDispatchQueueUrl p) (Inr (msg # ms))
        # EvPublish (GetMqttTopicForDeviceTask (sm_DeviceId info) (sm_ServiceId info)) b ok # fs"
proof -
  obtain r v4 where "x_mqtt_publish Y (mc_QoS (mqttConfig m) mod 256)
      (GetMqttTopicForDeviceTask (sm_DeviceId info) (sm_ServiceId info)) b v3 = (r, v4)" by fastforce
  with assms have sent: "SendTaskToBroker (traced Y) m
      (GetMqttTopicForDeviceTask (sm_DeviceId info) (sm_ServiceId info)) b
      (v1, tr @ [EvReceive (schedulerDispatchQueueUrl p) (Inr (msg # ms))])
    = (r, (v4, tr @ [EvReceive (schedulerDispatchQueueUrl p) (Inr (msg # ms)),
         EvPublish (GetMqttTopicForDeviceTask (sm_DeviceId info) (sm_ServiceId info)) b (r = None)]))"
    by (simp add: SendTaskToBroker_def unlogged_pair logged_pair)
  show ?thesis
  proof (cases r)
    case (Some e)
    with sent assms show ?thesis
      by (auto simp: processSchedulerDispatchRequest_def receiveDispatchQueueMessage_def receive_trace)
  next
    case None
    obtain v5 fs d where "MarkTaskDispatched (traced Y) info
        (v4, tr @ [EvReceive (schedulerDispatchQueueUrl p) (Inr (msg # ms)),
           EvPublish (GetMqttTopicForDeviceTask (sm_DeviceId info) (sm_ServiceId info)) b True])
      = (d, (v5, (tr @ [EvReceive (schedulerDispatchQueueUrl p) (Inr (msg # ms)),
           EvPublish (GetMqttTopicForDeviceTask (sm_DeviceId info) (sm_ServiceId info)) b True]) @ fs))"
      using MarkTaskDispatched_trace by metis
    with None sent assms show ?thesis
      by (cases d) (auto simp: processSchedulerDispatchRequest_def receiveDispatchQueueMessage_def
          receive_trace deleteMessage_def logged_pair)
  qed
qed

text \<open>
  C6: when \<open>Schedule\<close> succeeds for a task that runs once, the packet it
  sends to the dispatch queue, received by the dispatcher while the broker is connected, is
  published on the topic of that task's device (or of its service, for a broadcast); the payload
  is the encoding of exactly this task. This needs of the message encoding only that decoding
  the bytes gives the message back.
\<close>

theorem scheduled_task_delivered:
  assumes "Schedule L (traced X) p s (w, tr) = Ret (Inr s', (w', tr @ es))"
    and "sk_error s = None \<longrightarrow> sk_ScheduleInfo s \<noteq> None" and "tk_Unit (sk_TaskInfo s') = Once"
    and "\<And>b. lib_marshal_service_message L (service_message_of L (sk_TaskInfo s')) = Inr b
      \<Longrightarrow> lib_unmarshal_service_message L b = Inr (service_message_of L (sk_TaskInfo s'))"
    and "EvSend (schedulerDispatchQueueUrl p) (sqs_Body msg) True \<in> set es"
    and "x_sqs_receive Y (schedulerDispatchQueueUrl p) v = (Inr (msg # ms), v1)"
    and "ctx_err Y (mqttCtx m) v1 = (None, v2)" and "x_mqtt_await Y v2 = (None, v3)"
  shows "\<exists>b ok fs. lib_marshal_service_message L (service_message_of L (sk_TaskInfo s')) = Inr b
    \<and> snd (processSchedulerDispatchRequest L (traced Y) m p (v, tr_d))
      = tr_d @ EvReceive (schedulerDispatchQueueUrl p) (Inr (msg # ms))
          # EvPublish (GetMqttTopicForDeviceTask (lib_uuid_String L (tk_DeviceID (sk_TaskInfo s')))
              (tk_ServiceID (sk_TaskInfo s'))) b ok # fs"
proof -
  from schedule_once_sends [OF assms(1-3)] obtain b u now where
    b: "lib_marshal_service_message L (service_message_of L (sk_TaskInfo s')) = Inr b"
    "es = [EvTimeUuid u, EvNow now, EvExec (insert_task (sk_TaskInfo s')) True, EvExec (insert_consignment (sk_TaskInfo s')) True,
         EvSend (schedulerDispatchQueueUrl p) (b64_encode b) True]" by blast
  with assms(5) have "sqs_Body msg = b64_encode b" by auto
  with assms(4) [OF b(1)] have "UnmarshallServiceMessage L (sqs_Body msg)
      = Inr (service_message_of L (sk_TaskInfo s'), b)"
    by (simp add: UnmarshallServiceMessage_def)
  from dispatcher_publishes [OF assms(6) this assms(7,8), of tr_d] b(1) show ?thesis
    by (simp add: service_message_of_def)
qed

definition delivered_task :: task where
  "delivered_task = stamped (sk_TaskInfo now_builder) 7 1000"

definition codec_lib :: lib where
  "codec_lib = sample_lib\<lparr>lib_unmarshal_service_message := (\<lambda>_. Inr (service_message_of sample_lib delivered_task))\<rparr>"

definition broker_ext :: "unit ext" where
  "broker_ext = idle_ext\<lparr>x_sqs_receive := (\<lambda>_ w. (Inr [\<lparr>sqs_Body = b64_encode ''message'', sqs_ReceiptHandle = ''h''\<rparr>], w)),
     x_mqtt_await := (\<lambda>w. (None, w))\<rparr>"

lemma codec_simps [simp]:
  "service_message_of codec_lib t = service_message_of sample_lib t"
  "lib_marshal_service_message codec_lib = (\<lambda>_. Inr ''message'')"
  "lib_unmarshal_service_message codec_lib b = Inr (service_message_of sample_lib delivered_task)"
  "lib_uuid_Parse codec_lib = lib_uuid_Parse sample_lib"
  by (simp_all add: codec_lib_def service_message_of_def)

lemma once_scheduled:
  "\<exists>s' es. Schedule codec_lib (traced queue_ext) NewSqsProvider now_builder ((), []) = Ret (Inr s', ((), [] @ es))
     \<and> sk_TaskInfo s' = delivered_task"
proof -
  have "sk_error (validated now_builder) = None"
    using now_builder_facts by (simp add: validated_ok)
  moreover have "sk_TaskInfo (validated now_builder) = sk_TaskInfo now_builder"
    using now_builder_facts by (simp add: validated_ok)
  ultimately show ?thesis
    using now_builder_facts
    by (simp add: Schedule_def Let_def CreateTask_def CreateConsignment_def NewConsignmentFromTask_def
        queue_ext_def unlogged_pair logged_pair hand_over_def MarshalServiceMessage_def
        SendDispatchQueueMessage_def send_to_trace sample_uuid_def delivered_task_def stamped_def)
qed

lemma scheduled_task_delivered_witness:
  "\<exists>es. snd (processSchedulerDispatchRequest codec_lib (traced broker_ext) new_mqtt NewSqsProvider ((), [])) = es
     \<and> (\<exists>t ok. es ! 1 = EvPublish t ''message'' ok)"
proof -
  obtain s' es where run: "Schedule codec_lib (traced queue_ext) NewSqsProvider now_builder ((), [])
      = Ret (Inr s', ((), [] @ es))" and t: "sk_TaskInfo s' = delivered_task"
    using once_scheduled by blast
  have pre: "sk_error now_builder = None \<longrightarrow> sk_ScheduleInfo now_builder \<noteq> None"
    and once: "tk_Unit (sk_TaskInfo s') = Once"
    using now_builder_facts t by (simp_all add: delivered_task_def stamped_def)
  from schedule_once_sends [OF run pre once] have sent:
    "EvSend (schedulerDispatchQueueUrl NewSqsProvider) (sqs_Body \<lparr>sqs_Body = b64_encode ''message'', sqs_ReceiptHandle = ''h''\<rparr>) True \<in> set es"
    by auto
  have ext: "x_sqs_receive broker_ext u w = (Inr [\<lparr>sqs_Body = b64_encode ''message'', sqs_ReceiptHandle = ''h''\<rparr>], w)"
    "ctx_err broker_ext c w = (None, w)" "x_mqtt_await broker_ext w = (None, w)" for u w c
    by (simp_all add: broker_ext_def ctx_err_def)
  have codec: "lib_unmarshal_service_message codec_lib b = Inr (service_message_of codec_lib (sk_TaskInfo s'))" for b
    using t by simp
  from scheduled_task_delivered [OF run pre once codec sent ext(1) ext(2) ext(3), where m = new_mqtt and tr_d = "[]" and v = "()"]
  show ?thesis by auto
qed

end
