(* ===== verification/ScheduleBounds.thy ===== *)
theory ScheduleBounds
  imports ScheduleFacts
begin

text \<open>
  The range of what a schedule text can put into a task: times within a day, weekdays, days of
  the month, 64-bit durations and intervals.
\<close>

definition in_int64 :: "int \<Rightarrow> bool" where "in_int64 i \<longleftrightarrow> int64_min \<le> i \<and> i \<le> int64_max"

definition in_day :: "int \<Rightarrow> bool" where "in_day t \<longleftrightarrow> 0 \<le> t \<and> t < 24 * hour"

definition month_day :: "int \<Rightarrow> bool" where "month_day d \<longleftrightarrow> d = -1 \<or> valid_day d"

text \<open>
  A builder in range. An interval that is not positive and a day of the month out of range are
  stored all the same, with an error recorded.
\<close>

definition in_range :: "scheduled_task \<Rightarrow> bool" where
  "in_range s \<longleftrightarrow> list_all in_day (tk_RunAt (sk_TaskInfo s))
     \<and> in_int64 (tk_Duration (sk_TaskInfo s)) \<and> in_int64 (tk_Interval (sk_TaskInfo s))
     \<and> set (tk_ScheduledWeekdays (sk_TaskInfo s)) \<subseteq> {0..6}
     \<and> (sk_error s = None \<longrightarrow> 0 \<le> tk_Interval (sk_TaskInfo s)
          \<and> list_all month_day (tk_ScheduledDaysOfTheMonth (sk_TaskInfo s)))"

lemma hour_val [simp]: "hour = 3600000000000" "minute = 60000000000" "second = 1000000000" "nanosecond = 1"
  by (simp_all add: hour_def minute_def second_def millisecond_def microsecond_def nanosecond_def)

lemma set_error_range: "in_range s \<Longrightarrow> in_range (set_error e s)"
  by (simp add: in_range_def)

text \<open>An update that leaves the bounded fields alone.\<close>

lemma upd_range:
  assumes "in_range s"
    and "\<And>t. tk_RunAt (g t) = tk_RunAt t \<and> tk_Duration (g t) = tk_Duration t
      \<and> tk_Interval (g t) = tk_Interval t \<and> tk_ScheduledWeekdays (g t) = tk_ScheduledWeekdays t
      \<and> tk_ScheduledDaysOfTheMonth (g t) = tk_ScheduledDaysOfTheMonth t"
  shows "in_range (upd_task g s)"
  using assms by (simp add: in_range_def)

lemma add_run_at_set: "set (add_run_at t xs) \<subseteq> insert t (set xs)"
  by (auto simp: add_run_at_def dest: in_set_takeD in_set_dropD split: prod.splits if_splits)

lemma addRunAtTime_range: "in_range s \<Longrightarrow> in_day t \<Longrightarrow> in_range (addRunAtTime t s)"
  using add_run_at_set [of t "tk_RunAt (sk_TaskInfo s)"]
  by (auto simp: in_range_def addRunAtTime_def list_all_iff)

lemma parseTime_range:
  assumes "parseTime tt = Inr (h, m, c)"
  shows "in_day (int h * hour + int m * minute + int c * second)"
proof -
  have "h < 24 \<and> m < 60 \<and> c < 60"
    using assms time_parse_range by (auto simp: parseTime_def split: if_splits option.splits)
  then show ?thesis by (simp add: in_day_def)
qed

lemma at_times_range: "in_range s \<Longrightarrow> in_range (at_times ts s)"
proof (induction ts s rule: at_times.induct)
  case (2 tt rest s)
  show ?case
  proof (cases "parseTime tt")
    case (Inl e)
    with "2.prems" show ?thesis by (simp add: set_error_range)
  next
    case (Inr r)
    obtain h m c where r: "r = (h, m, c)" by (cases r) auto
    with Inr have "in_range (addRunAtTime (int h * hour + int m * minute + int c * second) s)"
      using parseTime_range "2.prems" by (intro addRunAtTime_range) auto
    from "2.IH" [OF Inr _ _ this, of "(m, c)"] Inr r show ?thesis by simp
  qed
qed simp

lemma time_of_day_range:
  assumes "civil_ok (lib_civil L t)"
  shows "in_day (time_of_day L t)"
  using assms by (simp add: in_day_def time_of_day_def civil_ok_def Let_def)

lemma At_range:
  assumes "in_range s" "\<And>t. civil_ok (lib_civil L t)"
  shows "in_range (At L i s)"
  using assms time_of_day_range
  by (cases i) (simp_all add: At_def at_times_range addRunAtTime_range set_error_range)

lemma unit_range: "in_range s \<Longrightarrow> in_range (setSchedulingUnit u s)"
  by (simp add: setSchedulingUnit_def Let_def set_error_range upd_range)

lemma Weekday_range: "in_range s \<Longrightarrow> 0 \<le> d \<Longrightarrow> d \<le> 6 \<Longrightarrow> in_range (Weekday d s)"
  unfolding Weekday_def Let_def by (intro unit_range) (simp add: in_range_def)

lemma Months_range:
  assumes "in_range s"
  shows "in_range (ST_Months ds s)"
proof -
  have "list_all month_day ds \<and> sk_error s = None" if "sk_error (ST_Months ds s) = None"
    using that by (auto simp: Months_error month_day_def list_all_iff)
  with assms show ?thesis by (auto simp: in_range_def Months_fields)
qed

lemma Every_range:
  assumes "in_range s"
    and "case i of EveryInt n \<Rightarrow> in_int64 n | EveryDuration d \<Rightarrow> in_int64 d | _ \<Rightarrow> True"
  shows "in_range (Every L i s)"
proof (cases i)
  case (EveryInt n)
  with assms show ?thesis by (auto simp: Every_def in_range_def Let_def)
next
  case (EveryDuration d)
  have "in_range (upd_task (\<lambda>t. t\<lparr>tk_Interval := 0, tk_Duration := d\<rparr>) s)"
    using assms EveryDuration by (auto simp: in_range_def in_int64_def int64_min_def int64_max_def)
  with EveryDuration show ?thesis by (simp add: Every_def unit_range)
next
  case (EveryString str)
  have upd: "in_range (upd_task (\<lambda>t. t\<lparr>tk_Duration := d\<rparr>) r)" if "in_range r" "in_int64 d" for d r
    using that by (simp add: in_range_def)
  have "in_int64 d" if "parse_duration (lib_duration_frac L) str = Inr d" for d
    using parse_duration_range [OF that] by (simp add: in_int64_def)
  moreover have "in_int64 0" by (simp add: in_int64_def int64_min_def int64_max_def)
  ultimately show ?thesis
    using EveryString assms(1) by (auto simp: Every_def intro!: unit_range upd set_error_range split: sum.splits)
qed (simp add: Every_def assms set_error_range)

lemma atoi_in_int64: "atoi s = Inr i \<Longrightarrow> in_int64 i"
  using atoi_range [of s i] by (simp add: in_int64_def)

lemma Cron_range: "in_range s \<Longrightarrow> in_range (cron_recorded r s)"
  by (auto simp: cron_recorded_def Let_def in_range_def split: sum.splits)

lemma lookup_range:
  assumes "schedulingUnitLookupTable L u = Some g" "in_range s" "\<And>t. civil_ok (lib_civil L t)"
  shows "in_range (g s)"
  using map_of_SomeD [OF assms(1) [unfolded schedulingUnitLookupTable_def]] assms(2,3)
  by (auto simp: unit_methods unit_range Weekday_range At_range)

lemma ParseDaysOfMonth_range: "ParseDaysOfMonth str s = (ds, s') \<Longrightarrow> in_range s \<Longrightarrow> in_range s'"
  by (auto simp: ParseDaysOfMonth_def set_error_range split: sum.splits)

lemma parse_every_range:
  assumes "in_range s" "\<And>t. civil_ok (lib_civil L t)"
  shows "in_range (parse_every L ws s)"
proof -
  define s1 where "s1 = (case atoi (ws ! 1) of Inr d \<Rightarrow> Every L (EveryInt d) s
    | Inl _ \<Rightarrow> Every L (EveryString (ws ! 1)) s)"
  have s1: "in_range s1"
    using assms(1) by (auto simp: s1_def intro!: Every_range dest: atoi_in_int64 split: sum.splits)
  have "in_range (if length ws > 2 then
       let u = to_lower (lib_unicode_lower L) (ws ! 2)
       in if u = ''monthdays'' then
            (if length ws < 4 then set_error (SchedE ErrInvalidScheduleType) s1
             else case ParseDaysOfMonth (ws ! 3) s1 of (days, s2) \<Rightarrow> ST_Month days s2)
          else case schedulingUnitLookupTable L u of
                 None \<Rightarrow> set_error (SchedE ErrInvalidSchedulingUnit) s1
               | Some schedulingUnitFn \<Rightarrow> schedulingUnitFn s1
     else s1)"
    using s1 assms(2)
    by (auto simp: Let_def ST_Month_def set_error_range
        intro: lookup_range Months_range ParseDaysOfMonth_range split: option.splits prod.splits)
  then show ?thesis unfolding parse_every_def Let_def s1_def .
qed

text \<open>
  C13: whatever the schedule text, what \<open>ParseSchedule\<close> stores, when it returns, stays in range:
  every time of day is at least 0 and less than 24 hours, durations and intervals are 64-bit
  integers, weekdays are 0 to 6; and when no error is recorded, the interval is not negative and
  every day of the month is 1 to 28, or -1 for the last one. It needs that the clock fields of
  an instant are in their documented ranges.
\<close>

theorem schedule_in_range:
  assumes "in_range s" and "\<And>t. civil_ok (lib_civil L t)"
  shows "case ParseSchedule L X scheduleStr s w of Ret (s', w') \<Rightarrow> in_range s' | Panic msg \<Rightarrow> True"
proof (cases "ParseSchedule L X scheduleStr s w")
  case (Ret y)
  obtain s' w' where y: "y = (s', w')" by fastforce
  with Ret obtain t1 t2 where p: "parsed_schedule L scheduleStr s t1 t2 = Ret s'"
    by (auto elim: ParseSchedule_ret)
  have "in_range (upd_task (\<lambda>i. i\<lparr>tk_Unit := Once, tk_StartAt := t1, tk_StartImmediately := True\<rparr>) s)"
    using assms(1) by (intro upd_range) simp_all
  moreover have "in_range s'" if "parse_words L scheduleStr s = Ret s'"
    using that assms
    by (auto simp: parse_words_def Let_def set_error_range parse_every_range At_range Cron_range
        dest!: Cron_ret split: if_splits)
  ultimately have "in_range s'"
    using p assms(2) by (auto simp: parsed_schedule_def intro!: At_range unit_range split: if_splits)
  with Ret y show ?thesis by simp
qed simp

lemma schedule_in_range_witness:
  "case ParseSchedule sample_lib idle_ext ''every 2 monthdays 1,31'' fresh_builder () of
     Ret (s', w') \<Rightarrow> in_range s' | Panic msg \<Rightarrow> True"
proof (rule schedule_in_range)
  have "tk_Duration (sk_TaskInfo fresh_builder) = 0"
    by (simp add: fresh_builder_def NewScheduledTask_def NewTask_def setUuidFromString_def
      sample_request_def sample_uuid_def BroadcastDeviceID_def zero_task_def Let_def)
  then show "in_range fresh_builder"
    by (simp add: in_range_def in_int64_def int64_min_def int64_max_def)
  show "civil_ok (lib_civil sample_lib t)" for t
    by (simp add: civil_ok_def sample_civil_def)
qed

end
